(* ===== verification/Sygma_Prelude.thy ===== *)
theory Sygma_Prelude
  imports Main "HOL-Library.Word"
begin

unbundle bit_operations_syntax

text \<open>
  Shared vocabulary of the development: the machine integers of the Rust sources as words, the
  arithmetic of the Rust standard library on them (checked, saturating), big-endian byte strings,
  slices, the search \<^verbatim>\<open>iter().position(..)\<close>, storage maps with a default value, and a result type
  for code that can panic. The collection \<open>storage_simps\<close> gathers the equations that evaluate reads
  and writes of storage maps.
\<close>

named_theorems storage_simps \<open>reads and writes of storage maps\<close>

section \<open>Machine integers\<close>

type_synonym u8 = "8 word"
type_synonym u32 = "32 word"
type_synonym u64 = "64 word"
type_synonym u128 = "128 word"
type_synonym u256 = "256 word"
type_synonym byte = "8 word"
type_synonym bytes = "8 word list"

text \<open>\<^verbatim>\<open>checked_add\<close> is \<^verbatim>\<open>None\<close> where the sum does not fit.\<close>

definition checked_add :: "'a::len word \<Rightarrow> 'a word \<Rightarrow> 'a word option" where
  "checked_add a b = (if unat a + unat b < 2 ^ LENGTH('a) then Some (a + b) else None)"

text \<open>The saturating operations return the greatest value of the type instead of wrapping.\<close>

definition saturating_add :: "'a::len word \<Rightarrow> 'a word \<Rightarrow> 'a word" where
  "saturating_add a b = (if unat a + unat b < 2 ^ LENGTH('a) then a + b else - 1)"

definition saturating_mul :: "'a::len word \<Rightarrow> 'a word \<Rightarrow> 'a word" where
  "saturating_mul a b = (if unat a * unat b < 2 ^ LENGTH('a) then a * b else - 1)"

definition saturating_pow :: "'a::len word \<Rightarrow> nat \<Rightarrow> 'a word" where
  "saturating_pow a n = (if unat a ^ n < 2 ^ LENGTH('a) then a ^ n else - 1)"

lemma checked_add_Some_iff:
  "checked_add a b = Some c \<longleftrightarrow> unat a + unat b < 2 ^ LENGTH('a) \<and> c = a + b"
  for a b c :: "'a::len word"
  by (auto simp: checked_add_def)

lemma unat_checked_add:
  "checked_add a b = Some c \<Longrightarrow> unat c = unat a + unat b"
  for a b c :: "'a::len word"
  by (auto simp: checked_add_def unat_word_ariths split: if_splits)

lemma unat_max_word: "unat (- 1 :: 'a::len word) = 2 ^ LENGTH('a) - 1"
  by (simp add: unsigned_minus_1_eq_mask mask_eq_exp_minus_1)

lemma min_pow_le: "(m::nat) < 2 ^ n \<Longrightarrow> min m (2 ^ n - 1) = m"
  by (simp add: min_def)

lemma min_pow_gt: "\<not> (m::nat) < 2 ^ n \<Longrightarrow> min m (2 ^ n - 1) = 2 ^ n - 1"
  by (rule min_absorb2) simp

lemma unat_saturating_add:
  "unat (saturating_add a b) = min (unat a + unat b) (2 ^ LENGTH('a) - 1)"
  for a b :: "'a::len word"
  by (simp add: saturating_add_def unat_word_ariths unat_max_word min_pow_le min_pow_gt)

lemma unat_saturating_mul:
  "unat (saturating_mul a b) = min (unat a * unat b) (2 ^ LENGTH('a) - 1)"
  for a b :: "'a::len word"
  by (simp add: saturating_mul_def unat_word_ariths unat_max_word min_pow_le min_pow_gt)

lemma unat_power_fits:
  "unat a ^ n < 2 ^ LENGTH('a) \<Longrightarrow> unat (a ^ n) = unat a ^ n"
  for a :: "'a::len word"
proof -
  assume small: "unat a ^ n < 2 ^ LENGTH('a)"
  have "a ^ n = word_of_nat (unat a ^ n)" by simp
  then have "unat (a ^ n) = unat (word_of_nat (unat a ^ n) :: 'a word)" by (rule arg_cong)
  also have "\<dots> = unat a ^ n" using small by (simp add: unat_of_nat del: of_nat_power)
  finally show ?thesis .
qed

lemma unat_saturating_pow:
  "unat (saturating_pow a n) = min (unat a ^ n) (2 ^ LENGTH('a) - 1)"
  for a :: "'a::len word"
  by (simp add: saturating_pow_def unat_power_fits unat_max_word min_pow_le min_pow_gt)

section \<open>Code that can panic\<close>

text \<open>
  A Rust expression either returns a value or panics: an index out of range or an \<open>unwrap\<close> of
  \<^verbatim>\<open>None\<close> aborts the call. The second outcome is a value of the model.
\<close>

datatype 'a rust = Returns 'a | Panics

text \<open>The slice \<^verbatim>\<open>xs[..n]\<close> panics when \<open>n\<close> is past the end.\<close>

definition slice_to :: "'a list \<Rightarrow> nat \<Rightarrow> 'a list rust" where
  "slice_to xs n = (if n \<le> length xs then Returns (take n xs) else Panics)"

lemma slice_to_Returns_iff:
  "slice_to xs n = Returns ys \<longleftrightarrow> n \<le> length xs \<and> ys = take n xs"
  by (auto simp: slice_to_def)

lemma slice_to_Panics_iff: "slice_to xs n = Panics \<longleftrightarrow> length xs < n"
  by (auto simp: slice_to_def)

section \<open>Searching a vector\<close>

text \<open>\<^verbatim>\<open>iter().position(p)\<close>: the index of the first element that satisfies the predicate.\<close>

primrec position :: "('a \<Rightarrow> bool) \<Rightarrow> 'a list \<Rightarrow> nat option" where
  "position p [] = None"
| "position p (x # xs) = (if p x then Some 0 else map_option Suc (position p xs))"

lemma position_nth: "map_option (\<lambda>i. xs ! i) (position p xs) = find p xs"
  by (induction xs) (auto simp: option.map_comp comp_def)

lemma position_map_nth: "map_option (\<lambda>i. f (xs ! i)) (position p xs) = map_option f (find p xs)"
  by (induction xs) (auto simp: option.map_comp comp_def)

lemma position_None_iff: "position p xs = None \<longleftrightarrow> (\<forall>x \<in> set xs. \<not> p x)"
  by (induction xs) auto

lemma find_SomeD: "find p xs = Some x \<Longrightarrow> x \<in> set xs \<and> p x"
  by (induction xs) (auto split: if_splits)

lemma find_distinct_fst:
  "distinct (map fst xs) \<Longrightarrow> (k, v) \<in> set xs \<Longrightarrow> find (\<lambda>a. fst a = k) xs = Some (k, v)"
  by (induction xs) force+

lemma find_distinct_snd:
  "distinct (map snd xs) \<Longrightarrow> (k, v) \<in> set xs \<Longrightarrow> find (\<lambda>a. snd a = v) xs = Some (k, v)"
  by (induction xs) force+

section \<open>Big-endian bytes\<close>

text \<open>
  \<open>be_nat\<close> reads a byte string as a big-endian number (\<^verbatim>\<open>U256::from_big_endian\<close>) and \<open>be_bytes n\<close>
  writes the low \<open>n\<close> bytes of a number (\<^verbatim>\<open>to_big_endian\<close> into an array of \<open>n\<close> bytes).
\<close>

definition be_nat :: "bytes \<Rightarrow> nat" where
  "be_nat bs = foldl (\<lambda>acc b. acc * 256 + unat b) 0 bs"

primrec be_bytes :: "nat \<Rightarrow> nat \<Rightarrow> bytes" where
  "be_bytes 0 x = []"
| "be_bytes (Suc n) x = be_bytes n (x div 256) @ [word_of_nat (x mod 256)]"

lemma be_nat_Nil [simp]: "be_nat [] = 0"
  by (simp add: be_nat_def)

lemma be_nat_snoc [simp]: "be_nat (bs @ [b]) = be_nat bs * 256 + unat b"
  by (simp add: be_nat_def)

lemma length_be_bytes [simp]: "length (be_bytes n x) = n"
  by (induction n arbitrary: x) auto

lemma unat_byte_of_nat: "unat (word_of_nat (x mod 256) :: byte) = x mod 256"
  by (simp add: unat_of_nat)

lemma unat_byte_less: "unat (b :: byte) < 256"
  using unsigned_less [of b] by simp

lemma be_nat_be_bytes: "be_nat (be_bytes n x) = x mod 256 ^ n"
proof (induction n arbitrary: x)
  case 0
  then show ?case by simp
next
  case (Suc n)
  have "x mod 256 ^ Suc n = 256 * (x div 256 mod 256 ^ n) + x mod 256"
    using mod_mult2_eq [of x 256 "256 ^ n"] by simp
  then show ?case by (simp add: Suc.IH unat_byte_of_nat)
qed

lemma be_bytes_be_nat: "be_bytes (length bs) (be_nat bs) = bs"
  by (induction bs rule: rev_induct) (auto simp: unat_byte_less)

lemma be_nat_less: "be_nat bs < 256 ^ length bs"
proof (induction bs rule: rev_induct)
  case Nil
  then show ?case by simp
next
  case (snoc b bs)
  have "be_nat bs * 256 + unat b < be_nat bs * 256 + 256" using unat_byte_less [of b] by simp
  also have "\<dots> = (be_nat bs + 1) * 256" by simp
  also have "\<dots> \<le> 256 ^ length bs * 256" using snoc.IH by (intro mult_right_mono) auto
  finally show ?case by simp
qed

lemma be_nat_inj: "length as = length bs \<Longrightarrow> be_nat as = be_nat bs \<Longrightarrow> as = bs"
  by (metis be_bytes_be_nat)

section \<open>Storage maps\<close>

text \<open>
  A \<^verbatim>\<open>StorageMap\<close> is a map; with \<^verbatim>\<open>ValueQuery\<close> an absent key reads as the default of its type.
  \<^verbatim>\<open>iter_keys\<close> over a map keyed by \<^verbatim>\<open>u8\<close> visits each present key once; the order is that of the
  hashed keys and nothing here depends on it (\<open>fold_insert_const\<close>).
\<close>

definition value_query :: "'v \<Rightarrow> ('k \<rightharpoonup> 'v) \<Rightarrow> 'k \<Rightarrow> 'v" where
  "value_query d m k = (case m k of None \<Rightarrow> d | Some v \<Rightarrow> v)"

definition all_u8 :: "u8 list" where
  "all_u8 = map word_of_nat [0..<256]"

definition iter_keys :: "(u8 \<rightharpoonup> 'v) \<Rightarrow> u8 list" where
  "iter_keys m = filter (\<lambda>k. m k \<noteq> None) all_u8"

lemma value_query_update [simp, storage_simps]:
  "value_query d (m(k \<mapsto> v)) k' = (if k' = k then v else value_query d m k')"
  by (simp add: value_query_def)

lemma value_query_remove [simp, storage_simps]:
  "value_query d (m(k := None)) k' = (if k' = k then d else value_query d m k')"
  by (simp add: value_query_def)

lemma value_query_empty [simp, storage_simps]: "value_query d Map.empty k = d"
  by (simp add: value_query_def)

lemma set_all_u8: "set all_u8 = UNIV"
proof -
  have "x \<in> set all_u8" for x :: u8
  proof -
    have "x = word_of_nat (unat x)" by simp
    moreover have "unat x \<in> set [0..<256]" using unat_byte_less [of x] by simp
    ultimately show ?thesis unfolding all_u8_def by (metis image_eqI set_map)
  qed
  then show ?thesis by auto
qed

lemma set_iter_keys: "set (iter_keys m) = dom m"
  by (auto simp: iter_keys_def set_all_u8)

text \<open>Writing one value at every key of a list: the result depends only on the set of keys.\<close>

lemma fold_insert_const:
  "fold (\<lambda>k m. m(k \<mapsto> v)) ks m = (\<lambda>k. if k \<in> set ks then Some v else m k)"
  by (induction ks arbitrary: m) (auto simp: fun_eq_iff)

lemma set_bit_div_mod_64:
  "n div 64 = m div 64 \<Longrightarrow> n mod 64 = m mod 64 \<Longrightarrow> n = m" for n m :: u64
  by (metis word_mod_div_equality)

end
