(* ===== verification/Xcm_Types.thy ===== *)
theory Xcm_Types
  imports Sygma_Prelude
begin

text \<open>
  The data of the XCM format (version 3) that the pallets pass around: junctions, relative
  locations, asset identifiers and assets. The type comes with the \<^verbatim>\<open>xcm\<close> package; the sources match
  on its constructors and compare its values, so it is a datatype here. A \<^verbatim>\<open>Junctions\<close> value
  (\<^verbatim>\<open>Here\<close>, \<^verbatim>\<open>X1(..)\<close> to \<^verbatim>\<open>X8(..)\<close>) is the list of its junctions, outermost first. Network and body
  identifiers are never inspected and stand as numbers.
\<close>

datatype Junction =
    Parachain u32
  | AccountId32 "nat option" bytes
  | AccountIndex64 "nat option" u64
  | AccountKey20 "nat option" bytes
  | PalletInstance u8
  | GeneralIndex u128
  | GeneralKey u8 bytes
  | OnlyChild
  | Plurality nat nat
  | GlobalConsensus nat

text \<open>A weight: execution time and proof size.\<close>

type_synonym Weight = "u64 \<times> u64"

record MultiLocation =
  parents :: u8
  interior :: "Junction list"

datatype AssetId = Concrete MultiLocation | Abstract bytes

datatype Fungibility = Fungible u128 | NonFungible nat

record MultiAsset =
  asset_id :: AssetId
  asset_fun :: Fungibility

text \<open>\<^verbatim>\<open>MultiLocation::new\<close>, \<^verbatim>\<open>here()\<close>, \<^verbatim>\<open>parent()\<close>, and a single junction read as a location.\<close>

definition new_location :: "u8 \<Rightarrow> Junction list \<Rightarrow> MultiLocation" where
  "new_location p js = \<lparr>parents = p, interior = js\<rparr>"

definition here :: MultiLocation where
  "here = new_location 0 []"

definition parent :: MultiLocation where
  "parent = new_location 1 []"

definition junction_location :: "Junction \<Rightarrow> MultiLocation" where
  "junction_location j = new_location 0 [j]"

definition account_location :: "bytes \<Rightarrow> MultiLocation" where
  "account_location who = junction_location (AccountId32 None who)"

text \<open>\<^verbatim>\<open>first_interior\<close>: the outermost junction, if there is one.\<close>

definition first_interior :: "MultiLocation \<Rightarrow> Junction option" where
  "first_interior l = (case interior l of [] \<Rightarrow> None | j # _ \<Rightarrow> Some j)"

text \<open>\<^verbatim>\<open>(id, amount).into()\<close>: a fungible amount of an asset.\<close>

definition fungible_asset :: "AssetId \<Rightarrow> u128 \<Rightarrow> MultiAsset" where
  "fungible_asset a n = \<lparr>asset_id = a, asset_fun = Fungible n\<rparr>"

lemma fungible_asset_simps [simp]:
  "asset_id (fungible_asset a n) = a"
  "asset_fun (fungible_asset a n) = Fungible n"
  by (simp_all add: fungible_asset_def)

lemma new_location_simps [simp]:
  "parents (new_location p js) = p"
  "interior (new_location p js) = js"
  by (simp_all add: new_location_def)

lemma new_location_eq_iff [simp]:
  "new_location p js = new_location q ks \<longleftrightarrow> p = q \<and> js = ks"
  by (simp add: new_location_def)

lemma account_location_inj [simp]: "account_location a = account_location b \<longleftrightarrow> a = b"
  by (simp add: account_location_def junction_location_def)

lemma account_location_neq_here [simp]: "account_location a \<noteq> here"
  by (simp add: account_location_def junction_location_def here_def)

end
