(* ===== verification/Frame.thy ===== *)
theory Frame
  imports Xcm_Types
begin

text \<open>
  What the pallets use of the FRAME framework: origins, dispatch results, storage layers and the
  storage of the rest of the chain.

  A call is a function of the storage that returns a result and the storage it leaves behind, also
  when it fails: an error does not undo writes by itself. \<open>transactional\<close> is the attribute
  \<^verbatim>\<open>#[transactional]\<close>, which rolls the storage back when the call returns an error.

  The storage of a chain is an extensible record: \<open>frame_storage\<close> holds the state of all code outside
  the repository (balances, foreign assets, message queues) as one opaque field, and each pallet
  extends the record by its own storage items, so a pallet's functions apply to every chain that
  contains it. A pallet's events are kept in a log of its own, oldest first.
\<close>

type_synonym AccountId = bytes

datatype RuntimeOrigin = Root | Signed AccountId | NoneOrigin | PalletOrigin nat

datatype Pallet =
    AccessSegregatorPallet
  | BasicFeeHandlerPallet
  | PercentageFeeHandlerPallet
  | FeeHandlerRouterPallet
  | BridgePallet
  | XcmBridgePallet

text \<open>
  A module error carries the pallet and the name of the error variant, which is the text that the
  conversion of a \<^verbatim>\<open>DispatchError\<close> into a string gives. \<open>Panicked\<close> stands for a call that aborts.
\<close>

datatype DispatchError = BadOrigin | Module Pallet string | OtherError string | Panicked

type_synonym 'a DispatchResultWith = "DispatchError + 'a"
type_synonym DispatchResult = "DispatchError + unit"
type_synonym 's call = "'s \<Rightarrow> DispatchResult \<times> 's"

record 'l frame_storage =
  ledger :: 'l

definition ensure_signed :: "RuntimeOrigin \<Rightarrow> DispatchError + AccountId" where
  "ensure_signed origin = (case origin of Signed who \<Rightarrow> Inr who | _ \<Rightarrow> Inl BadOrigin)"

definition transactional :: "'s call \<Rightarrow> 's call" where
  "transactional f s = (case f s of (Inl e, _) \<Rightarrow> (Inl e, s) | (Inr a, s') \<Rightarrow> (Inr a, s'))"

text \<open>The text of a dispatch error (\<^verbatim>\<open>let err_msg: &'static str = e.into()\<close>).\<close>

definition error_text :: "DispatchError \<Rightarrow> string" where
  "error_text e = (case e of
     BadOrigin \<Rightarrow> ''Bad origin'' | Module _ msg \<Rightarrow> msg | OtherError msg \<Rightarrow> msg | Panicked \<Rightarrow> [])"

text \<open>Byte strings written as ASCII literals, \<^verbatim>\<open>b"..".to_vec()\<close> and \<^verbatim>\<open>as_bytes()\<close>.\<close>

definition ascii :: "string \<Rightarrow> bytes" where
  "ascii s = map (\<lambda>c. word_of_nat (of_char c)) s"

lemma ascii_inj: "ascii s = ascii t \<longleftrightarrow> s = t"
proof -
  have "inj (\<lambda>c. word_of_nat (of_char c) :: byte)"
  proof (rule injI)
    fix c d :: char
    assume "(word_of_nat (of_char c) :: byte) = word_of_nat (of_char d)"
    then have "unat (word_of_nat (of_char c) :: byte) = unat (word_of_nat (of_char d) :: byte)"
      by simp
    then have "of_char c mod (256::nat) = of_char d mod 256" by (simp add: unat_of_nat)
    then show "c = d" by simp
  qed
  then show ?thesis by (simp add: ascii_def inj_map_eq_map)
qed

lemma ensure_signed_Inr_iff [simp]: "ensure_signed origin = Inr who \<longleftrightarrow> origin = Signed who"
  by (cases origin) (auto simp: ensure_signed_def)

lemma ensure_signed_Inl_iff: "ensure_signed origin = Inl e \<longleftrightarrow> e = BadOrigin \<and> (\<forall>who. origin \<noteq> Signed who)"
  by (cases origin) (auto simp: ensure_signed_def)

lemma transactional_Inl: "transactional f s = (Inl e, s') \<Longrightarrow> s' = s"
  by (auto simp: transactional_def split: prod.splits sum.splits)

lemma transactional_Inl_iff: "transactional f s = (Inl e, s') \<longleftrightarrow> fst (f s) = Inl e \<and> s' = s"
  by (auto simp: transactional_def split: prod.splits sum.splits)

lemma transactional_Inr_iff [simp]: "transactional f s = (Inr a, s') \<longleftrightarrow> f s = (Inr a, s')"
  by (auto simp: transactional_def split: prod.splits sum.splits)

lemma fst_transactional [simp]: "fst (transactional f s) = fst (f s)"
  by (auto simp: transactional_def split: prod.splits sum.splits)

section \<open>Sequencing of fallible steps\<close>

text \<open>
  The statements a call body is made of, each with the rest of the body as its last argument. An early
  return keeps the storage written so far.

  \<^item> \<open>ensure b e\<close> is \<^verbatim>\<open>ensure!(b, e)\<close>;
  \<^item> \<open>try_result r\<close> is \<^verbatim>\<open>r?\<close>, \<open>ok_or x e\<close> is \<^verbatim>\<open>x.ok_or(e)?\<close>;
  \<^item> \<open>reads f\<close> reads the storage, \<open>writes f\<close> writes it;
  \<^item> \<open>invoke m\<close> calls \<^verbatim>\<open>m()?\<close>, \<open>invoke_or e m\<close> is \<^verbatim>\<open>m().map_err(|_| e)?\<close>;
  \<^item> \<open>unwind x\<close> evaluates an expression that may panic.
\<close>

type_synonym ('a, 's) exec = "'s \<Rightarrow> (DispatchError + 'a) \<times> 's"

definition ensure :: "bool \<Rightarrow> DispatchError \<Rightarrow> ('a, 's) exec \<Rightarrow> ('a, 's) exec" where
  "ensure b e k s = (if b then k s else (Inl e, s))"

definition try_result :: "DispatchError + 'b \<Rightarrow> ('b \<Rightarrow> ('a, 's) exec) \<Rightarrow> ('a, 's) exec" where
  "try_result r k s = (case r of Inl e \<Rightarrow> (Inl e, s) | Inr x \<Rightarrow> k x s)"

definition ok_or :: "'b option \<Rightarrow> DispatchError \<Rightarrow> ('b \<Rightarrow> ('a, 's) exec) \<Rightarrow> ('a, 's) exec" where
  "ok_or r e k s = (case r of None \<Rightarrow> (Inl e, s) | Some x \<Rightarrow> k x s)"

definition reads :: "('s \<Rightarrow> 'b) \<Rightarrow> ('b \<Rightarrow> ('a, 's) exec) \<Rightarrow> ('a, 's) exec" where
  "reads f k s = k (f s) s"

definition writes :: "('s \<Rightarrow> 's) \<Rightarrow> ('a, 's) exec \<Rightarrow> ('a, 's) exec" where
  "writes f k s = k (f s)"

definition invoke :: "('b, 's) exec \<Rightarrow> ('b \<Rightarrow> ('a, 's) exec) \<Rightarrow> ('a, 's) exec" where
  "invoke m k s = (case m s of (r, s') \<Rightarrow> (case r of Inl e \<Rightarrow> (Inl e, s') | Inr x \<Rightarrow> k x s'))"

definition invoke_or ::
    "DispatchError \<Rightarrow> ('s \<Rightarrow> ('e + 'b) \<times> 's) \<Rightarrow> ('b \<Rightarrow> ('a, 's) exec) \<Rightarrow> ('a, 's) exec" where
  "invoke_or e m k s = (case m s of (r, s') \<Rightarrow> (case r of Inl _ \<Rightarrow> (Inl e, s') | Inr x \<Rightarrow> k x s'))"

definition unwind :: "'b rust \<Rightarrow> ('b \<Rightarrow> ('a, 's) exec) \<Rightarrow> ('a, 's) exec" where
  "unwind r k s = (case r of Panics \<Rightarrow> (Inl Panicked, s) | Returns x \<Rightarrow> k x s)"

definition done_with :: "'a \<Rightarrow> ('a, 's) exec" where
  "done_with a s = (Inr a, s)"

named_theorems exec_ok \<open>when a body returns a value\<close>
named_theorems exec_err \<open>when a body returns an error\<close>

lemma ensure_ok [exec_ok]: "ensure b e k s = (Inr a, s') \<longleftrightarrow> b \<and> k s = (Inr a, s')"
  by (simp add: ensure_def)

lemma try_result_ok [exec_ok]: "try_result r k s = (Inr a, s') \<longleftrightarrow> (\<exists>x. r = Inr x \<and> k x s = (Inr a, s'))"
  by (auto simp: try_result_def split: sum.splits)

lemma ok_or_ok [exec_ok]: "ok_or r e k s = (Inr a, s') \<longleftrightarrow> (\<exists>x. r = Some x \<and> k x s = (Inr a, s'))"
  by (auto simp: ok_or_def split: option.splits)

lemma reads_ok [exec_ok, exec_err]: "reads f k s = r \<longleftrightarrow> k (f s) s = r"
  by (simp add: reads_def)

lemma writes_ok [exec_ok, exec_err]: "writes f k s = r \<longleftrightarrow> k (f s) = r"
  by (simp add: writes_def)

lemma invoke_ok [exec_ok]:
  "invoke m k s = (Inr a, s') \<longleftrightarrow> (\<exists>x t. m s = (Inr x, t) \<and> k x t = (Inr a, s'))"
  by (auto simp: invoke_def split: prod.splits sum.splits)

lemma invoke_or_ok [exec_ok]:
  "invoke_or e m k s = (Inr a, s') \<longleftrightarrow> (\<exists>x t. m s = (Inr x, t) \<and> k x t = (Inr a, s'))"
  by (auto simp: invoke_or_def split: prod.splits sum.splits)

lemma unwind_ok [exec_ok]: "unwind r k s = (Inr a, s') \<longleftrightarrow> (\<exists>x. r = Returns x \<and> k x s = (Inr a, s'))"
  by (auto simp: unwind_def split: rust.splits)

lemma done_with_ok [exec_ok]: "done_with b s = (Inr a, s') \<longleftrightarrow> a = b \<and> s' = s"
  by (auto simp: done_with_def)

lemma ensure_err [exec_err]:
  "ensure b e k s = (Inl x, s') \<longleftrightarrow> (if b then k s = (Inl x, s') else x = e \<and> s' = s)"
  by (auto simp: ensure_def)

lemma try_result_err [exec_err]:
  "try_result r k s = (Inl x, s') \<longleftrightarrow> (r = Inl x \<and> s' = s) \<or> (\<exists>y. r = Inr y \<and> k y s = (Inl x, s'))"
  by (auto simp: try_result_def split: sum.splits)

lemma ok_or_err [exec_err]:
  "ok_or r e k s = (Inl x, s') \<longleftrightarrow> (r = None \<and> x = e \<and> s' = s) \<or> (\<exists>y. r = Some y \<and> k y s = (Inl x, s'))"
  by (auto simp: ok_or_def split: option.splits)

lemma invoke_err [exec_err]:
  "invoke m k s = (Inl x, s') \<longleftrightarrow>
     m s = (Inl x, s') \<or> (\<exists>y t. m s = (Inr y, t) \<and> k y t = (Inl x, s'))"
  by (auto simp: invoke_def split: prod.splits sum.splits)

lemma invoke_or_err [exec_err]:
  "invoke_or e m k s = (Inl x, s') \<longleftrightarrow>
     (\<exists>y. m s = (Inl y, s') \<and> x = e) \<or> (\<exists>y t. m s = (Inr y, t) \<and> k y t = (Inl x, s'))"
  by (auto simp: invoke_or_def split: prod.splits sum.splits)

lemma unwind_err [exec_err]:
  "unwind r k s = (Inl x, s') \<longleftrightarrow>
     (r = Panics \<and> x = Panicked \<and> s' = s) \<or> (\<exists>y. r = Returns y \<and> k y s = (Inl x, s'))"
  by (auto simp: unwind_def split: rust.splits)

lemma done_with_err [exec_err]: "done_with b s = (Inl x, s') \<longleftrightarrow> False"
  by (simp add: done_with_def)

lemmas exec_eval = ensure_def try_result_def ok_or_def reads_def writes_def invoke_def invoke_or_def
  unwind_def done_with_def

section \<open>Calls behind a guard\<close>

text \<open>
  The contract most extrinsics share: without access the call is refused with a fixed error, and a
  call that returns an error leaves the storage as it was.
\<close>

locale guarded_call =
  fixes access :: "RuntimeOrigin \<Rightarrow> 's \<Rightarrow> bool"
    and call :: "RuntimeOrigin \<Rightarrow> 's call"
    and denied :: DispatchError
  assumes refuses: "\<not> access origin s \<Longrightarrow> call origin s = (Inl denied, s)"
    and atomic: "call origin s = (Inl e, s') \<Longrightarrow> s' = s"
begin

lemma changed_with_access: "snd (call origin s) \<noteq> s \<Longrightarrow> access origin s"
  using refuses by fastforce

lemma ok_with_access: "fst (call origin s) = Inr u \<Longrightarrow> access origin s"
  using refuses by fastforce

lemma changed_ok: "snd (call origin s) \<noteq> s \<Longrightarrow> fst (call origin s) = Inr ()"
proof -
  assume ch: "snd (call origin s) \<noteq> s"
  show ?thesis
  proof (cases "fst (call origin s)")
    case (Inl e)
    then have "call origin s = (Inl e, snd (call origin s))" by (metis prod.collapse)
    with atomic ch show ?thesis by blast
  qed simp
qed

text \<open>A caller without access cannot change the storage by any number of attempts.\<close>

lemma attempts_without_access:
  "list_all (\<lambda>origin. \<not> access origin s) origins \<Longrightarrow>
   fold (\<lambda>origin s. snd (call origin s)) origins s = s"
  by (induction origins) (auto simp: refuses)

end

end
