(* ===== verification/Access_Segregator.thy ===== *)
theory Access_Segregator
  imports Frame
begin

text \<open>
  The pallet \<^verbatim>\<open>sygma_access_segregator\<close> (\<^verbatim>\<open>access-segregator/src/lib.rs\<close>): which account may call
  which restricted extrinsic. The committee origin may call all of them; another account needs an
  entry for the extrinsic, and the extrinsic must be among the registered ones.
\<close>

section \<open>Configuration, storage, events and errors\<close>

record access_config =
  BridgeCommitteeOrigin :: "RuntimeOrigin \<Rightarrow> bool"
  AccessPalletIndex :: u8
  Extrinsics :: "(u8 \<times> bytes) list"

datatype access_event = AccessGranted u8 bytes AccountId

datatype access_error = AccessUnimplemented | GrantAccessFailed

record 'l access_storage = "'l frame_storage" +
  ExtrinsicAccess :: "(u8 \<times> bytes) \<rightharpoonup> AccountId"
  access_events :: "access_event list"

definition access_error :: "access_error \<Rightarrow> DispatchError" where
  "access_error e = Module AccessSegregatorPallet
     (case e of AccessUnimplemented \<Rightarrow> ''Unimplemented'' | GrantAccessFailed \<Rightarrow> ''GrantAccessFailed'')"

section \<open>Operations\<close>

definition has_registered :: "'c access_config_scheme \<Rightarrow> u8 \<Rightarrow> bytes \<Rightarrow> bool" where
  "has_registered cfg pallet_index extrinsic_name =
     list_ex (\<lambda>e. e = (pallet_index, extrinsic_name)) (Extrinsics cfg)"

definition has_access ::
    "'c access_config_scheme \<Rightarrow> u8 \<Rightarrow> bytes \<Rightarrow> RuntimeOrigin \<Rightarrow> ('l, 'z) access_storage_scheme \<Rightarrow> bool"
where
  "has_access cfg pallet_index extrinsic_name origin s =
     (if BridgeCommitteeOrigin cfg origin then True
      else case ensure_signed origin of
        Inl _ \<Rightarrow> False
      | Inr caller \<Rightarrow>
          has_registered cfg pallet_index extrinsic_name \<and>
          (case ExtrinsicAccess s (pallet_index, extrinsic_name) of
             None \<Rightarrow> False | Some who \<Rightarrow> who = caller))"

definition grant_access ::
    "'c access_config_scheme \<Rightarrow> RuntimeOrigin \<Rightarrow> u8 \<Rightarrow> bytes \<Rightarrow> AccountId
     \<Rightarrow> ('l, 'z) access_storage_scheme call"
where
  "grant_access cfg origin pallet_index extrinsic_name who s =
     (if \<not> has_access cfg (AccessPalletIndex cfg) (ascii ''grant_access'') origin s
      then (Inl (access_error GrantAccessFailed), s)
      else (Inr (), s\<lparr>ExtrinsicAccess := (ExtrinsicAccess s)((pallet_index, extrinsic_name) \<mapsto> who),
                       access_events := access_events s @ [AccessGranted pallet_index extrinsic_name who]\<rparr>))"

section \<open>Who has access\<close>

lemma has_registered_iff [simp]: "has_registered cfg i n \<longleftrightarrow> (i, n) \<in> set (Extrinsics cfg)"
  by (auto simp: has_registered_def list_ex_iff)

lemma has_access_iff:
  "has_access cfg i n origin s \<longleftrightarrow>
     BridgeCommitteeOrigin cfg origin \<or>
     (\<exists>who. origin = Signed who \<and> (i, n) \<in> set (Extrinsics cfg) \<and> ExtrinsicAccess s (i, n) = Some who)"
  by (cases origin) (auto simp: has_access_def ensure_signed_def split: option.splits)

lemma has_access_Signed:
  "\<not> BridgeCommitteeOrigin cfg (Signed who) \<Longrightarrow>
   has_access cfg i n (Signed who) s \<longleftrightarrow> (i, n) \<in> set (Extrinsics cfg) \<and> ExtrinsicAccess s (i, n) = Some who"
  by (simp add: has_access_iff)

lemma has_access_cong:
  "ExtrinsicAccess s = ExtrinsicAccess t \<Longrightarrow> has_access cfg i n origin s = has_access cfg i n origin t"
  for s :: "('l, 'z) access_storage_scheme" and t :: "('k, 'y) access_storage_scheme"
  by (simp add: has_access_iff)

section \<open>Granting\<close>

lemma grant_access_guarded:
  "guarded_call (has_access cfg (AccessPalletIndex cfg) (ascii ''grant_access''))
     (\<lambda>origin. grant_access cfg origin i n who) (access_error GrantAccessFailed)"
  by unfold_locales (auto simp: grant_access_def split: if_splits)

interpretation grant: guarded_call
  "has_access cfg (AccessPalletIndex cfg) (ascii ''grant_access'')"
  "\<lambda>origin. grant_access cfg origin i n who" "access_error GrantAccessFailed"
  for cfg i n who
  by (rule grant_access_guarded)

end
