(* ===== verification/Sygma_Traits.thy ===== *)
theory Sygma_Traits
  imports Frame
begin

text \<open>
  The shared types and interfaces of the pallets (\<^verbatim>\<open>traits/src/lib.rs\<close>). A trait of the sources is
  the type of a function here; the laws its users need are the assumptions of a locale.
\<close>

type_synonym DomainID = u8
type_synonym DepositNonce = u64
type_synonym ResourceId = bytes
type_synonym ChainID = u256
type_synonym VerifyingContractAddress = bytes

datatype TransferType = FungibleTransfer | NonFungibleTransfer | GenericTransfer

text \<open>\<^verbatim>\<open>MpcAddress([u8; 20])\<close>; its default is the zero address, and \<^verbatim>\<open>is_clear\<close> compares with it.\<close>

type_synonym MpcAddress = bytes

definition default_mpc_address :: MpcAddress where
  "default_mpc_address = replicate 20 0"

definition is_clear :: "MpcAddress \<Rightarrow> bool" where
  "is_clear addr = (addr = default_mpc_address)"

section \<open>Fee handlers\<close>

type_synonym 's FeeHandler = "'s \<Rightarrow> DomainID \<Rightarrow> MultiAsset \<Rightarrow> u128 option"

text \<open>The fee handler of the unit type never has a fee.\<close>

definition unit_get_fee :: "'s FeeHandler" where
  "unit_get_fee s domain asset = None"

text \<open>
  The contract of a fee handler: the fee is a function of the handler's own configuration, the part
  of the storage that \<open>fee_config\<close> selects, so calls that leave the configuration alone leave every
  fee alone.
\<close>

locale fee_handler =
  fixes get_fee :: "'s FeeHandler"
    and fee_config :: "'s \<Rightarrow> 'v"
  assumes config_only: "fee_config s = fee_config t \<Longrightarrow> get_fee s d a = get_fee t d a"
begin

lemma fee_stable:
  assumes "\<And>s. fee_config (f s) = fee_config s"
  shows "get_fee (f s) d a = get_fee s d a"
  using assms by (rule config_only)

lemma fee_stable_fold:
  assumes "\<And>c s. fee_config (step c s) = fee_config s"
  shows "get_fee (fold step cs s) d a = get_fee s d a"
proof -
  have "fee_config (fold step cs s) = fee_config s"
    by (induction cs arbitrary: s) (auto simp: assms)
  then show ?thesis by (rule config_only)
qed

end

interpretation unit_fee: fee_handler unit_get_fee "\<lambda>_. ()"
  by unfold_locales (simp add: unit_get_fee_def)

end
