(* ===== verification/Basic_Fee_Handler.thy ===== *)
theory Basic_Fee_Handler
  imports Access_Segregator Sygma_Traits
begin

text \<open>
  The pallet \<^verbatim>\<open>sygma_basic_feehandler\<close> (\<^verbatim>\<open>basic-fee-handler/src/lib.rs\<close>): a fixed fee for each pair of
  destination domain and asset.
\<close>

record basic_config = access_config +
  BasicPalletIndex :: u8

datatype basic_event = FeeSet DomainID AssetId u128

datatype basic_error = BasicUnimplemented | BasicAccessDenied

record 'l basic_storage = "'l access_storage" +
  AssetFees :: "(DomainID \<times> AssetId) \<rightharpoonup> u128"
  basic_events :: "basic_event list"

definition basic_error :: "basic_error \<Rightarrow> DispatchError" where
  "basic_error e = Module BasicFeeHandlerPallet
     (case e of BasicUnimplemented \<Rightarrow> ''Unimplemented'' | BasicAccessDenied \<Rightarrow> ''AccessDenied'')"

definition set_fee ::
    "'c basic_config_scheme \<Rightarrow> RuntimeOrigin \<Rightarrow> DomainID \<Rightarrow> AssetId \<Rightarrow> u128
     \<Rightarrow> ('l, 'z) basic_storage_scheme call"
where
  "set_fee cfg origin domain asset amount s =
     (if \<not> has_access cfg (BasicPalletIndex cfg) (ascii ''set_fee'') origin s
      then (Inl (basic_error BasicAccessDenied), s)
      else (Inr (), s\<lparr>AssetFees := (AssetFees s)((domain, asset) \<mapsto> amount),
                       basic_events := basic_events s @ [FeeSet domain asset amount]\<rparr>))"

definition basic_get_fee :: "('l, 'z) basic_storage_scheme FeeHandler" where
  "basic_get_fee s domain asset = AssetFees s (domain, asset_id asset)"

lemma set_fee_guarded:
  "guarded_call (has_access cfg (BasicPalletIndex cfg) (ascii ''set_fee''))
     (\<lambda>origin. set_fee cfg origin d a n) (basic_error BasicAccessDenied)"
  by unfold_locales (auto simp: set_fee_def split: if_splits)

interpretation set_fee: guarded_call
  "has_access cfg (BasicPalletIndex cfg) (ascii ''set_fee'')"
  "\<lambda>origin. set_fee cfg origin d a n" "basic_error BasicAccessDenied"
  for cfg d a n
  by (rule set_fee_guarded)

interpretation basic_fee: fee_handler basic_get_fee AssetFees
  by unfold_locales (simp add: basic_get_fee_def)

lemma set_fee_ok:
  "has_access cfg (BasicPalletIndex cfg) (ascii ''set_fee'') origin s \<Longrightarrow>
   set_fee cfg origin d a n s =
     (Inr (), s\<lparr>AssetFees := (AssetFees s)((d, a) \<mapsto> n), basic_events := basic_events s @ [FeeSet d a n]\<rparr>)"
  by (simp add: set_fee_def)

end
