(* ===== verification/Percentage_Fee_Handler.thy ===== *)
theory Percentage_Fee_Handler
  imports Basic_Fee_Handler
begin

text \<open>
  The pallet \<^verbatim>\<open>sygma_percentage_feehandler\<close> (\<^verbatim>\<open>percentage-fee-handler/src/lib.rs\<close>): a fee in basis
  points of the amount, clamped between a lower and an upper bound. Its storage and configuration
  extend the records of the basic fee handler only to lay the pallets of a chain out in one record;
  no operation here reads or writes that pallet's items.
\<close>

section \<open>Configuration, storage, events and errors\<close>

record percentage_config = basic_config +
  PercentagePalletIndex :: u8

datatype percentage_event = FeeRateSet DomainID AssetId u32 u128 u128

datatype percentage_error =
    PercentageUnimplemented | PercentageAccessDenied | FeeRateOutOfRange | InvalidFeeBound

record 'l percentage_storage = "'l basic_storage" +
  AssetFeeRate :: "(DomainID \<times> AssetId) \<rightharpoonup> (u32 \<times> u128 \<times> u128)"
  percentage_events :: "percentage_event list"

definition percentage_error :: "percentage_error \<Rightarrow> DispatchError" where
  "percentage_error e = Module PercentageFeeHandlerPallet
     (case e of PercentageUnimplemented \<Rightarrow> ''Unimplemented''
      | PercentageAccessDenied \<Rightarrow> ''AccessDenied''
      | FeeRateOutOfRange \<Rightarrow> ''FeeRateOutOfRange''
      | InvalidFeeBound \<Rightarrow> ''InvalidFeeBound'')"

section \<open>Operations\<close>

definition set_fee_rate ::
    "'c percentage_config_scheme \<Rightarrow> RuntimeOrigin \<Rightarrow> DomainID \<Rightarrow> AssetId \<Rightarrow> u32 \<Rightarrow> u128 \<Rightarrow> u128
     \<Rightarrow> ('l, 'z) percentage_storage_scheme call"
where
  "set_fee_rate cfg origin domain asset fee_rate_basis_point fee_lower_bound fee_upper_bound s =
     (if \<not> has_access cfg (PercentagePalletIndex cfg) (ascii ''set_fee_rate'') origin s
      then (Inl (percentage_error PercentageAccessDenied), s)
      else if \<not> fee_rate_basis_point < 10000 then (Inl (percentage_error FeeRateOutOfRange), s)
      else if \<not> fee_lower_bound < fee_upper_bound then (Inl (percentage_error InvalidFeeBound), s)
      else (Inr (), s\<lparr>AssetFeeRate := (AssetFeeRate s)
                        ((domain, asset) \<mapsto> (fee_rate_basis_point, fee_lower_bound, fee_upper_bound)),
                       percentage_events := percentage_events s @
                        [FeeRateSet domain asset fee_rate_basis_point fee_lower_bound fee_upper_bound]\<rparr>))"

definition percentage_get_fee :: "('l, 'z) percentage_storage_scheme FeeHandler" where
  "percentage_get_fee s domain asset =
     (case asset_fun asset of
        Fungible amount \<Rightarrow>
          (case AssetFeeRate s (domain, asset_id asset) of
             None \<Rightarrow> None
           | Some (fee_rate_basis_point, fee_lower_bound, fee_upper_bound) \<Rightarrow>
               let fee_amount = saturating_mul amount (ucast fee_rate_basis_point) div 10000
               in if fee_amount > fee_upper_bound then Some fee_upper_bound
                  else if fee_amount < fee_lower_bound then Some fee_lower_bound
                  else Some fee_amount)
      | NonFungible _ \<Rightarrow> None)"

section \<open>The stored rates are valid\<close>

definition rates_valid :: "('l, 'z) percentage_storage_scheme \<Rightarrow> bool" where
  "rates_valid s \<longleftrightarrow>
     (\<forall>k rate lo hi. AssetFeeRate s k = Some (rate, lo, hi) \<longrightarrow> rate < 10000 \<and> lo < hi)"

lemma set_fee_rate_guarded:
  "guarded_call (has_access cfg (PercentagePalletIndex cfg) (ascii ''set_fee_rate''))
     (\<lambda>origin. set_fee_rate cfg origin d a r lo hi) (percentage_error PercentageAccessDenied)"
  by unfold_locales (auto simp: set_fee_rate_def split: if_splits)

interpretation set_fee_rate: guarded_call
  "has_access cfg (PercentagePalletIndex cfg) (ascii ''set_fee_rate'')"
  "\<lambda>origin. set_fee_rate cfg origin d a r lo hi" "percentage_error PercentageAccessDenied"
  for cfg d a r lo hi
  by (rule set_fee_rate_guarded)

interpretation percentage_fee: fee_handler percentage_get_fee AssetFeeRate
  by unfold_locales (simp add: percentage_get_fee_def split: Fungibility.split)

lemma set_fee_rate_valid: "rates_valid s \<Longrightarrow> rates_valid (snd (set_fee_rate cfg origin d a r lo hi s))"
  by (auto simp: rates_valid_def set_fee_rate_def split: if_splits)

lemma rates_validD:
  "rates_valid s \<Longrightarrow> AssetFeeRate s k = Some (rate, lo, hi) \<Longrightarrow> rate < 10000 \<and> lo < hi"
  unfolding rates_valid_def by blast

section \<open>The fee on the natural numbers\<close>

text \<open>The fee as the mathematics has it: the proportional part, then the clamp.\<close>

definition proportional_fee :: "nat \<Rightarrow> nat \<Rightarrow> nat" where
  "proportional_fee amount rate = min (amount * rate) (2 ^ 128 - 1) div 10000"

definition clamped_fee :: "nat \<Rightarrow> nat \<Rightarrow> nat \<Rightarrow> nat \<Rightarrow> nat" where
  "clamped_fee amount rate lo hi = max lo (min hi (proportional_fee amount rate))"

lemma unat_ucast_u32: "unat (ucast r :: u128) = unat r" for r :: u32
proof -
  have "unat r < 2 ^ 128" using unsigned_less [where 'a = nat, of r] by simp
  then show ?thesis by (simp add: unsigned_ucast_eq take_bit_nat_eq_self)
qed

lemma unat_proportional:
  "unat (saturating_mul (amount::u128) (ucast (rate::u32)) div 10000) = proportional_fee (unat amount) (unat rate)"
  by (simp add: proportional_fee_def unat_div unat_saturating_mul unat_ucast_u32)

lemma percentage_get_fee_unat:
  assumes entry: "AssetFeeRate s (d, asset_id a) = Some (rate, lo, hi)"
    and amount: "asset_fun a = Fungible amount" and ordered: "lo < hi"
  shows "map_option unat (percentage_get_fee s d a) =
           Some (clamped_fee (unat amount) (unat rate) (unat lo) (unat hi))"
proof -
  define f where "f = saturating_mul amount (ucast rate) div 10000"
  have f: "unat f = proportional_fee (unat amount) (unat rate)"
    by (simp add: f_def unat_proportional)
  have "percentage_get_fee s d a = Some (if f > hi then hi else if f < lo then lo else f)"
    by (simp add: percentage_get_fee_def entry amount f_def Let_def)
  moreover have "unat lo < unat hi" using ordered by (simp add: word_less_nat_alt)
  ultimately show ?thesis
    by (auto simp: clamped_fee_def f [symmetric] word_less_nat_alt)
qed

lemma clamped_fee_bounds: "lo \<le> hi \<Longrightarrow> lo \<le> clamped_fee n r lo hi \<and> clamped_fee n r lo hi \<le> hi"
  by (simp add: clamped_fee_def)

lemma clamped_fee_mono: "n \<le> m \<Longrightarrow> clamped_fee n r lo hi \<le> clamped_fee m r lo hi"
proof -
  assume "n \<le> m"
  then have "min (n * r) (2 ^ 128 - 1) \<le> min (m * r) (2 ^ 128 - 1)"
    by (meson min.mono mult_le_mono1 order_refl)
  then have "proportional_fee n r \<le> proportional_fee m r"
    unfolding proportional_fee_def by (rule div_le_mono)
  then show ?thesis by (simp add: clamped_fee_def max_def min_def)
qed

text \<open>The part above the lower bound is less than the amount: a rate is below one hundred percent.\<close>

lemma proportional_fee_less: "r < 10000 \<Longrightarrow> 0 < n \<Longrightarrow> proportional_fee n r < n"
proof -
  assume r: "r < 10000" and n: "0 < n"
  have "proportional_fee n r \<le> n * r div 10000"
    unfolding proportional_fee_def by (intro div_le_mono) simp
  also have "\<dots> < n"
    using r n by (simp add: less_mult_imp_div_less)
  finally show ?thesis .
qed

end
