(* ===== verification/Fee_Handler_Router.thy ===== *)
theory Fee_Handler_Router
  imports Percentage_Fee_Handler
begin

text \<open>
  The pallet \<^verbatim>\<open>sygma_fee_handler_router\<close> (\<^verbatim>\<open>fee-handler-router/src/lib.rs\<close>): which fee handler applies
  to a pair of destination domain and asset. The dynamic handler is not implemented in the sources:
  a pair routed to it has no fee.
\<close>

datatype FeeHandlerType = BasicFeeHandler | PercentageFeeHandler | DynamicFeeHandler

record router_config = percentage_config +
  RouterPalletIndex :: u8

datatype router_event = FeeHandlerSet DomainID AssetId FeeHandlerType

datatype router_error = RouterAccessDenied | RouterUnimplemented

record 'l router_storage = "'l percentage_storage" +
  HandlerType :: "(DomainID \<times> AssetId) \<rightharpoonup> FeeHandlerType"
  router_events :: "router_event list"

definition router_error :: "router_error \<Rightarrow> DispatchError" where
  "router_error e = Module FeeHandlerRouterPallet
     (case e of RouterAccessDenied \<Rightarrow> ''AccessDenied'' | RouterUnimplemented \<Rightarrow> ''Unimplemented'')"

definition set_fee_handler ::
    "'c router_config_scheme \<Rightarrow> RuntimeOrigin \<Rightarrow> DomainID \<Rightarrow> AssetId \<Rightarrow> FeeHandlerType
     \<Rightarrow> ('l, 'z) router_storage_scheme call"
where
  "set_fee_handler cfg origin domain asset handler_type s =
     (if \<not> has_access cfg (RouterPalletIndex cfg) (ascii ''set_fee_handler'') origin s
      then (Inl (router_error RouterAccessDenied), s)
      else (Inr (), s\<lparr>HandlerType := (HandlerType s)((domain, asset) \<mapsto> handler_type),
                       router_events := router_events s @ [FeeHandlerSet domain asset handler_type]\<rparr>))"

definition router_get_fee :: "('l, 'z) router_storage_scheme FeeHandler" where
  "router_get_fee s domain asset =
     (case HandlerType s (domain, asset_id asset) of
        Some handler_type \<Rightarrow>
          (case handler_type of
             BasicFeeHandler \<Rightarrow> basic_get_fee s domain asset
           | PercentageFeeHandler \<Rightarrow> percentage_get_fee s domain asset
           | DynamicFeeHandler \<Rightarrow> None)
      | None \<Rightarrow> None)"

lemma set_fee_handler_guarded:
  "guarded_call (has_access cfg (RouterPalletIndex cfg) (ascii ''set_fee_handler''))
     (\<lambda>origin. set_fee_handler cfg origin d a h) (router_error RouterAccessDenied)"
  by unfold_locales (auto simp: set_fee_handler_def split: if_splits)

interpretation set_fee_handler: guarded_call
  "has_access cfg (RouterPalletIndex cfg) (ascii ''set_fee_handler'')"
  "\<lambda>origin. set_fee_handler cfg origin d a h" "router_error RouterAccessDenied"
  for cfg d a h
  by (rule set_fee_handler_guarded)

text \<open>The configuration the router's fee depends on: the routes and both handlers' tables.\<close>

definition fee_tables ::
    "('l, 'z) router_storage_scheme \<Rightarrow>
       ((DomainID \<times> AssetId) \<rightharpoonup> FeeHandlerType) \<times> ((DomainID \<times> AssetId) \<rightharpoonup> u128)
       \<times> ((DomainID \<times> AssetId) \<rightharpoonup> (u32 \<times> u128 \<times> u128))" where
  "fee_tables s = (HandlerType s, AssetFees s, AssetFeeRate s)"

interpretation router_fee: fee_handler router_get_fee fee_tables
  by unfold_locales
     (auto simp: router_get_fee_def fee_tables_def
       intro: basic_fee.config_only percentage_fee.config_only
       split: option.splits FeeHandlerType.splits)

text \<open>A route decides which table a fee comes from.\<close>

lemma router_get_fee_cases:
  "router_get_fee s d a = Some f \<longleftrightarrow>
     (HandlerType s (d, asset_id a) = Some BasicFeeHandler \<and> basic_get_fee s d a = Some f) \<or>
     (HandlerType s (d, asset_id a) = Some PercentageFeeHandler \<and> percentage_get_fee s d a = Some f)"
  by (auto simp: router_get_fee_def split: option.splits FeeHandlerType.splits)

end
