(* ===== verification/Sygma_Host.thy ===== *)
theory Sygma_Host
  imports Frame
begin

text \<open>
  The functions the pallets call that are not part of the repository: the hash functions and the
  signature recovery of the host interface (\<^verbatim>\<open>sp_io\<close>), the ABI encoder (\<^verbatim>\<open>ethabi\<close>) and the SCALE codec
  of locations. They are the fields of one record that every definition using them takes as an
  argument. What a theorem needs of them is one of the named predicates below, each a documented
  property of that code.
\<close>

datatype Token = TAddress bytes | TFixedBytes bytes | TUint u256

record host =
  keccak_256 :: "bytes \<Rightarrow> bytes"
  blake2_256 :: "bytes \<Rightarrow> bytes"
  secp256k1_ecdsa_recover :: "bytes \<Rightarrow> bytes \<Rightarrow> bytes option"
  abi_encode :: "Token list \<Rightarrow> bytes"
  encode_location :: "MultiLocation \<Rightarrow> bytes"
  decode_location :: "bytes \<Rightarrow> MultiLocation option"

text \<open>A Keccak digest has 32 bytes.\<close>

definition keccak_digests :: "host \<Rightarrow> bool" where
  "keccak_digests h \<longleftrightarrow> (\<forall>x. length (keccak_256 h x) = 32)"

text \<open>The ABI encoding of values of static type is the sequence of their 32-byte words.\<close>

fun static_word :: "Token \<Rightarrow> bytes" where
  "static_word (TAddress a) = replicate 12 0 @ a"
| "static_word (TFixedBytes b) = b"
| "static_word (TUint n) = be_bytes 32 (unat n)"

fun static_token :: "Token \<Rightarrow> bool" where
  "static_token (TAddress a) = (length a = 20)"
| "static_token (TFixedBytes b) = (length b = 32)"
| "static_token (TUint n) = True"

definition abi_static :: "host \<Rightarrow> bool" where
  "abi_static h \<longleftrightarrow> (\<forall>ts. list_all static_token ts \<longrightarrow> abi_encode h ts = concat (map static_word ts))"

text \<open>Decoding an encoded location gives it back.\<close>

definition location_codec :: "host \<Rightarrow> bool" where
  "location_codec h \<longleftrightarrow> (\<forall>l. decode_location h (encode_location h l) = Some l)"

lemma length_static_word: "static_token t \<Longrightarrow> length (static_word t) = 32"
  by (cases t) auto

lemma static_words_inj:
  assumes "list_all static_token ts" and "list_all static_token us" and "length ts = length us"
    and "concat (map static_word ts) = concat (map static_word us)"
  shows "map static_word ts = map static_word us"
  using assms(3,1,2,4)
proof (induction ts us rule: list_induct2)
  case Nil
  then show ?case by simp
next
  case (Cons t ts u us)
  then have "length (static_word t) = length (static_word u)" by (simp add: length_static_word)
  with Cons show ?case by simp
qed

lemma abi_static_inj:
  assumes "abi_static h" and "list_all static_token ts" and "list_all static_token us"
    and "length ts = length us" and "abi_encode h ts = abi_encode h us"
  shows "map static_word ts = map static_word us"
  using assms by (intro static_words_inj) (auto simp: abi_static_def)

lemma be_bytes_32_inj: "be_bytes 32 (unat n) = be_bytes 32 (unat m) \<Longrightarrow> n = m" for n m :: u256
proof -
  assume "be_bytes 32 (unat n) = be_bytes 32 (unat m)"
  then have "unat n mod 256 ^ 32 = unat m mod 256 ^ 32" by (metis be_nat_be_bytes)
  moreover have "unat n < 256 ^ 32" and "unat m < 256 ^ 32"
    using unsigned_less [where 'a = nat, of n] unsigned_less [where 'a = nat, of m] by simp_all
  ultimately have "unat n = unat m" by simp
  then show ?thesis by (rule unsigned_word_eqI)
qed

lemma static_word_TUint_inj: "static_word (TUint n) = static_word (TUint m) \<Longrightarrow> n = m"
  by (auto dest: be_bytes_32_inj)

end
