(* ===== verification/Bridge_Types.thy ===== *)
theory Bridge_Types
  imports Fee_Handler_Router Sygma_Host
begin

text \<open>
  Configuration, storage, events and errors of the pallet \<^verbatim>\<open>sygma_bridge\<close> (\<^verbatim>\<open>bridge/src/lib.rs\<close>,
  lines 62 to 280).

  The configuration is a record with one field for each associated type of the trait \<^verbatim>\<open>Config\<close>. The
  implementations a runtime plugs in are functions: the fee handler and the asset transactor take the
  whole storage of the chain, since a transactor may call back into the pallets. \<open>PalletAccount\<close> is the
  byte vector derived from \<^verbatim>\<open>PalletId\<close>. The message context that the sources hand to the transactor is a
  constant and is left out. The record extends those of the other pallets: one configuration describes
  a whole runtime.
\<close>

record Proposal =
  origin_domain_id :: DomainID
  deposit_nonce :: DepositNonce
  resource_id :: ResourceId
  proposal_data :: bytes

datatype XcmError = FailedToTransactAsset string | OtherXcmError nat

type_synonym 's withdraw_fn = "MultiAsset \<Rightarrow> MultiLocation \<Rightarrow> 's \<Rightarrow> (XcmError + MultiAsset list) \<times> 's"
type_synonym 's deposit_fn = "MultiAsset \<Rightarrow> MultiLocation \<Rightarrow> 's \<Rightarrow> (XcmError + unit) \<times> 's"

record 'st bridge_config = router_config +
  TransferReserveAccounts :: "AssetId \<rightharpoonup> AccountId"
  DestVerifyingContractAddress :: VerifyingContractAddress
  EIP712ChainID :: ChainID
  FeeReserveAccount :: AccountId
  FeeHandler :: "'st FeeHandler"
  withdraw_asset :: "'st withdraw_fn"
  deposit_asset :: "'st deposit_fn"
  ResourcePairs :: "(AssetId \<times> ResourceId) list"
  IsReserve :: "MultiAsset \<Rightarrow> MultiLocation \<Rightarrow> bool"
  ExtractDestData :: "MultiLocation \<Rightarrow> (bytes \<times> DomainID) option rust"
  PalletAccount :: bytes
  BridgePalletIndex :: u8
  convert_to :: "MultiAsset \<Rightarrow> u128 option"
  convert_from :: "MultiAsset \<Rightarrow> MultiAsset option"

datatype bridge_event =
    Deposit DomainID ResourceId DepositNonce AccountId TransferType bytes bytes
  | ProposalExecution DomainID DepositNonce bytes
  | FailedHandlerExecution bytes DomainID DepositNonce
  | Retry u128 DomainID AccountId
  | BridgePausedEvent DomainID
  | BridgeUnpausedEvent DomainID
  | RegisterDestDomain AccountId DomainID ChainID
  | UnregisterDestDomain AccountId DomainID ChainID
  | FeeCollected AccountId DomainID ResourceId u128 AssetId
  | AllBridgePaused AccountId
  | AllBridgeUnpaused AccountId

datatype bridge_error =
    AccessDenied | BadMpcSignature | InsufficientBalance | TransactFailed | FeeTooExpensive
  | MissingMpcAddress | MpcAddrNotUpdatable | BridgePaused | BridgeUnpaused | MissingFeeConfig
  | AssetNotBound | ProposalAlreadyComplete | EmptyProposalList | TransactorFailed
  | InvalidDepositData | DestDomainNotSupported | DestChainIDNotMatch | ExtractDestDataFailed
  | DecimalConversionFail | DepositNonceOverflow | NoLiquidityHolderAccountBound | Unimplemented

definition bridge_error_name :: "bridge_error \<Rightarrow> string" where
  "bridge_error_name e = (case e of
     AccessDenied \<Rightarrow> ''AccessDenied'' | BadMpcSignature \<Rightarrow> ''BadMpcSignature''
   | InsufficientBalance \<Rightarrow> ''InsufficientBalance'' | TransactFailed \<Rightarrow> ''TransactFailed''
   | FeeTooExpensive \<Rightarrow> ''FeeTooExpensive'' | MissingMpcAddress \<Rightarrow> ''MissingMpcAddress''
   | MpcAddrNotUpdatable \<Rightarrow> ''MpcAddrNotUpdatable'' | BridgePaused \<Rightarrow> ''BridgePaused''
   | BridgeUnpaused \<Rightarrow> ''BridgeUnpaused'' | MissingFeeConfig \<Rightarrow> ''MissingFeeConfig''
   | AssetNotBound \<Rightarrow> ''AssetNotBound'' | ProposalAlreadyComplete \<Rightarrow> ''ProposalAlreadyComplete''
   | EmptyProposalList \<Rightarrow> ''EmptyProposalList'' | TransactorFailed \<Rightarrow> ''TransactorFailed''
   | InvalidDepositData \<Rightarrow> ''InvalidDepositData''
   | DestDomainNotSupported \<Rightarrow> ''DestDomainNotSupported''
   | DestChainIDNotMatch \<Rightarrow> ''DestChainIDNotMatch''
   | ExtractDestDataFailed \<Rightarrow> ''ExtractDestDataFailed''
   | DecimalConversionFail \<Rightarrow> ''DecimalConversionFail''
   | DepositNonceOverflow \<Rightarrow> ''DepositNonceOverflow''
   | NoLiquidityHolderAccountBound \<Rightarrow> ''NoLiquidityHolderAccountBound''
   | Unimplemented \<Rightarrow> ''Unimplemented'')"

definition bridge_error :: "bridge_error \<Rightarrow> DispatchError" where
  "bridge_error e = Module BridgePallet (bridge_error_name e)"

record 'l bridge_storage = "'l router_storage" +
  DepositCounts :: "DomainID \<rightharpoonup> DepositNonce"
  IsPaused :: "DomainID \<rightharpoonup> bool"
  MpcAddr :: "MpcAddress option"
  UsedNonces :: "(DomainID \<times> DepositNonce) \<rightharpoonup> DepositNonce"
  DestDomainIds :: "DomainID \<rightharpoonup> bool"
  DestChainIds :: "DomainID \<rightharpoonup> ChainID"
  bridge_storage_version :: nat
  bridge_events :: "bridge_event list"

text \<open>The getters of the storage items: an absent entry reads as the default value.\<close>

definition deposit_counts :: "('l, 'z) bridge_storage_scheme \<Rightarrow> DomainID \<Rightarrow> DepositNonce" where
  "deposit_counts s = value_query 0 (DepositCounts s)"

definition is_paused :: "('l, 'z) bridge_storage_scheme \<Rightarrow> DomainID \<Rightarrow> bool" where
  "is_paused s = value_query False (IsPaused s)"

definition mpc_addr :: "('l, 'z) bridge_storage_scheme \<Rightarrow> MpcAddress" where
  "mpc_addr s = (case MpcAddr s of None \<Rightarrow> default_mpc_address | Some a \<Rightarrow> a)"

definition used_nonces :: "('l, 'z) bridge_storage_scheme \<Rightarrow> DomainID \<times> DepositNonce \<Rightarrow> DepositNonce" where
  "used_nonces s = value_query 0 (UsedNonces s)"

definition dest_domain_ids :: "('l, 'z) bridge_storage_scheme \<Rightarrow> DomainID \<Rightarrow> bool" where
  "dest_domain_ids s = value_query False (DestDomainIds s)"

definition dest_chain_ids :: "('l, 'z) bridge_storage_scheme \<Rightarrow> DomainID \<Rightarrow> ChainID option" where
  "dest_chain_ids s = DestChainIds s"

text \<open>The pallet's \<^verbatim>\<open>deposit_event\<close>.\<close>

definition deposit_event ::
    "bridge_event \<Rightarrow> ('l, 'z) bridge_storage_scheme \<Rightarrow> ('l, 'z) bridge_storage_scheme" where
  "deposit_event e s = s\<lparr>bridge_events := bridge_events s @ [e]\<rparr>"

text \<open>The sender an event names: the signer, or the zero account for the committee.\<close>

definition event_sender :: "RuntimeOrigin \<Rightarrow> AccountId" where
  "event_sender origin = (case ensure_signed origin of Inr sender \<Rightarrow> sender | Inl _ \<Rightarrow> replicate 32 0)"

lemmas getter_defs = deposit_counts_def is_paused_def mpc_addr_def used_nonces_def
  dest_domain_ids_def dest_chain_ids_def

lemma bridge_error_name_inj: "bridge_error_name e = bridge_error_name f \<longleftrightarrow> e = f"
  by (cases e; cases f) (simp_all add: bridge_error_name_def)

lemma bridge_error_inj [simp]: "bridge_error e = bridge_error f \<longleftrightarrow> e = f"
  by (simp add: bridge_error_def bridge_error_name_inj)

lemma bridge_error_distinct [simp]:
  "bridge_error e \<noteq> BadOrigin" "bridge_error e \<noteq> Panicked"
  "BadOrigin \<noteq> bridge_error e" "Panicked \<noteq> bridge_error e"
  by (simp_all add: bridge_error_def)

lemma error_text_bridge_error [simp]: "error_text (bridge_error e) = bridge_error_name e"
  by (simp add: error_text_def bridge_error_def)

end
