(* ===== verification/Bridge_Data.thy ===== *)
theory Bridge_Data
  imports Bridge_Types
begin

text \<open>
  The data operations of the bridge pallet (\<^verbatim>\<open>bridge/src/lib.rs\<close>, lines 728 to 733 and 810 to 886):
  looking assets and resources up in the configured pairs, encoding and decoding deposit data, and the
  bit mask that records which proposals were executed.
\<close>

section \<open>Operations\<close>

definition get_token_reserved_account ::
    "('st, 'c) bridge_config_scheme \<Rightarrow> AssetId \<Rightarrow> AccountId option" where
  "get_token_reserved_account cfg token_id = TransferReserveAccounts cfg token_id"

definition extract_asset ::
    "('st, 'c) bridge_config_scheme \<Rightarrow> MultiAsset \<Rightarrow> (ResourceId \<times> u128 \<times> TransferType) option" where
  "extract_asset cfg asset = (case asset_fun asset of
     Fungible amount \<Rightarrow>
       map_option (\<lambda>idx. (snd (ResourcePairs cfg ! idx), amount, FungibleTransfer))
         (position (\<lambda>a. fst a = asset_id asset) (ResourcePairs cfg))
   | NonFungible _ \<Rightarrow> None)"

definition rid_to_assetid :: "('st, 'c) bridge_config_scheme \<Rightarrow> ResourceId \<Rightarrow> AssetId option" where
  "rid_to_assetid cfg rid =
     map_option (\<lambda>idx. fst (ResourcePairs cfg ! idx))
       (position (\<lambda>a. snd a = rid) (ResourcePairs cfg))"

definition hex_zero_padding_32 :: "u128 \<Rightarrow> bytes" where
  "hex_zero_padding_32 i = be_bytes 32 (unat (ucast i :: u256))"

definition create_deposit_data :: "u128 \<Rightarrow> bytes \<Rightarrow> bytes" where
  "create_deposit_data amount recipient =
     concat [hex_zero_padding_32 amount,
             hex_zero_padding_32 (word_of_nat (length recipient)),
             recipient]"

text \<open>
  \<^verbatim>\<open>try_into\<close> narrows a 256-bit number; \<^verbatim>\<open>usize\<close> has 32 bits in the WebAssembly runtime. The slices of
  the source are in range because of the first check.
\<close>

definition u256_from_big_endian :: "bytes \<Rightarrow> u256" where
  "u256_from_big_endian bs = word_of_nat (be_nat bs)"

definition try_into_u128 :: "u256 \<Rightarrow> u128 option" where
  "try_into_u128 n = (if unat n < 2 ^ 128 then Some (ucast n) else None)"

definition try_into_usize :: "u256 \<Rightarrow> nat option" where
  "try_into_usize n = (if unat n < 2 ^ 32 then Some (unat n) else None)"

definition extract_deposit_data :: "host \<Rightarrow> bytes \<Rightarrow> DispatchError + u128 \<times> MultiLocation" where
  "extract_deposit_data h data =
     (if length data < 64 then Inl (bridge_error InvalidDepositData)
      else case try_into_u128 (u256_from_big_endian (take 32 data)) of
        None \<Rightarrow> Inl (bridge_error InvalidDepositData)
      | Some amount \<Rightarrow>
          (case try_into_usize (u256_from_big_endian (take 32 (drop 32 data))) of
             None \<Rightarrow> Inl (bridge_error InvalidDepositData)
           | Some recipient_len \<Rightarrow>
               if length data - 64 \<noteq> recipient_len then Inl (bridge_error InvalidDepositData)
               else let recipient = drop 64 data in
                 (case decode_location h recipient of
                    Some location \<Rightarrow> Inr (amount, location)
                  | None \<Rightarrow> Inl (bridge_error InvalidDepositData))))"

definition is_proposal_executed ::
    "DepositNonce \<Rightarrow> DomainID \<Rightarrow> ('l, 'z) bridge_storage_scheme \<Rightarrow> bool" where
  "is_proposal_executed nonce domain_id s =
     (used_nonces s (domain_id, nonce div 64) AND push_bit (unat (nonce mod 64)) 1 \<noteq> 0)"

definition set_proposal_executed ::
    "DepositNonce \<Rightarrow> DomainID \<Rightarrow> ('l, 'z) bridge_storage_scheme \<Rightarrow> ('l, 'z) bridge_storage_scheme" where
  "set_proposal_executed nonce domain_id s =
     (let current_nonces = used_nonces s (domain_id, nonce div 64) OR push_bit (unat (nonce mod 64)) 1
      in s\<lparr>UsedNonces := (UsedNonces s)((domain_id, nonce div 64) \<mapsto> current_nonces)\<rparr>)"

section \<open>Resource pairs\<close>

lemma extract_asset_eq:
  "extract_asset cfg a = (case asset_fun a of
     Fungible n \<Rightarrow> map_option (\<lambda>p. (snd p, n, FungibleTransfer))
                     (find (\<lambda>p. fst p = asset_id a) (ResourcePairs cfg))
   | NonFungible _ \<Rightarrow> None)"
  by (simp add: extract_asset_def position_map_nth [where f = "\<lambda>p. (snd p, n, t)" for n t]
      split: Fungibility.split)

lemma rid_to_assetid_eq:
  "rid_to_assetid cfg rid = map_option fst (find (\<lambda>p. snd p = rid) (ResourcePairs cfg))"
  by (simp add: rid_to_assetid_def position_map_nth)

text \<open>
  With pairwise different assets and resources, the resource a deposit announces is the one that a
  proposal for it is resolved to the same asset by.
\<close>

lemma resource_roundtrip:
  assumes "distinct (map snd (ResourcePairs cfg))" and "extract_asset cfg a = Some (rid, n, t)"
  shows "rid_to_assetid cfg rid = Some (asset_id a)"
proof -
  obtain p where hit: "find (\<lambda>p. fst p = asset_id a) (ResourcePairs cfg) = Some p" and "snd p = rid"
    using assms(2) by (auto simp: extract_asset_eq split: Fungibility.splits)
  then have "(asset_id a, rid) \<in> set (ResourcePairs cfg)" using find_SomeD [OF hit] by (cases p) auto
  then show ?thesis
    using find_distinct_snd [OF assms(1)] by (simp add: rid_to_assetid_eq)
qed

section \<open>Deposit data\<close>

lemma unat_ucast_u128: "unat (ucast n :: u256) = unat n" for n :: u128
proof -
  have "unat n < 2 ^ 256" using unsigned_less [where 'a = nat, of n] by simp
  then show ?thesis by (simp add: unsigned_ucast_eq take_bit_nat_eq_self)
qed

lemma length_hex_zero_padding_32 [simp]: "length (hex_zero_padding_32 n) = 32"
  by (simp add: hex_zero_padding_32_def)

lemma length_create_deposit_data: "length (create_deposit_data n r) = 64 + length r"
  by (simp add: create_deposit_data_def)

lemma u256_of_padding: "u256_from_big_endian (hex_zero_padding_32 n) = ucast n"
proof -
  have "unat n < 256 ^ 32" using unsigned_less [where 'a = nat, of n] by simp
  then have "be_nat (hex_zero_padding_32 n) = unat n"
    by (simp add: hex_zero_padding_32_def be_nat_be_bytes unat_ucast_u128)
  then show ?thesis by (simp add: u256_from_big_endian_def)
qed

lemma try_into_u128_ucast: "try_into_u128 (ucast n) = Some n"
proof -
  have "unat n < 2 ^ 128" using unsigned_less [where 'a = nat, of n] by simp
  moreover have "ucast (ucast n :: u256) = n"
    by (simp add: word_unat_eq_iff unsigned_ucast_eq take_bit_word_eq_self)
  ultimately show ?thesis by (simp add: try_into_u128_def unat_ucast_u128)
qed

lemma unat_word_of_length: "n < 2 ^ 32 \<Longrightarrow> unat (word_of_nat n :: u128) = n"
  by (simp add: unat_of_nat)

lemma extract_create_deposit_data:
  assumes "length r < 2 ^ 32"
  shows "extract_deposit_data h (create_deposit_data n r) =
    (case decode_location h r of
       Some l \<Rightarrow> Inr (n, l) | None \<Rightarrow> Inl (bridge_error InvalidDepositData))"
proof -
  let ?d = "create_deposit_data n r"
  have parts: "take 32 ?d = hex_zero_padding_32 n"
    "take 32 (drop 32 ?d) = hex_zero_padding_32 (word_of_nat (length r))" "drop 64 ?d = r"
    by (simp_all add: create_deposit_data_def)
  have "try_into_usize (u256_from_big_endian (take 32 (drop 32 ?d))) = Some (length r)"
    using assms
    by (simp add: parts u256_of_padding try_into_usize_def unat_ucast_u128 unat_word_of_length)
  then show ?thesis
    by (simp add: extract_deposit_data_def parts u256_of_padding try_into_u128_ucast
        length_create_deposit_data split: option.split)
qed

text \<open>
  Exactly the data of the documented layout is accepted: an amount below \<open>2 ^ 128\<close> in the first
  32 bytes, the length of the rest in the next 32, and a decodable location in the rest.
\<close>

lemma extract_deposit_data_Inr_iff:
  "extract_deposit_data h data = Inr (amount, location) \<longleftrightarrow>
     64 \<le> length data \<and> be_nat (take 32 data) = unat amount \<and>
     be_nat (take 32 (drop 32 data)) = length data - 64 \<and> length data - 64 < 2 ^ 32 \<and>
     decode_location h (drop 64 data) = Some location"
  (is "?L \<longleftrightarrow> ?R")
proof (cases "64 \<le> length data")
  case False
  then show ?thesis by (simp add: extract_deposit_data_def)
next
  case len: True
  have fits: "be_nat bs < 2 ^ 256" if "length bs = 32" for bs
    using be_nat_less [of bs] that by simp
  have u: "unat (u256_from_big_endian (take 32 data)) = be_nat (take 32 data)"
    "unat (u256_from_big_endian (take 32 (drop 32 data))) = be_nat (take 32 (drop 32 data))"
    using fits [of "take 32 data"] fits [of "take 32 (drop 32 data)"] len
    by (simp_all add: u256_from_big_endian_def unat_of_nat)
  have amount: "try_into_u128 (u256_from_big_endian (take 32 data)) = Some amount
      \<longleftrightarrow> be_nat (take 32 data) = unat amount" (is "?A \<longleftrightarrow> ?B")
  proof
    assume ?A
    then show ?B
      by (auto simp: try_into_u128_def u unsigned_ucast_eq take_bit_nat_eq_self split: if_splits)
  next
    assume b: ?B
    have "unat amount < 2 ^ 128" using unsigned_less [where 'a = nat, of amount] by simp
    moreover have "u256_from_big_endian (take 32 data) = ucast amount"
      by (simp add: u256_from_big_endian_def b)
    ultimately show ?A using try_into_u128_ucast by simp
  qed
  show ?thesis
    using len amount
    by (auto simp: extract_deposit_data_def try_into_usize_def u Let_def split: option.splits if_splits)
qed

section \<open>The nonce bit mask\<close>

lemma and_push_bit_iff: "w AND push_bit n 1 \<noteq> 0 \<longleftrightarrow> bit w n" for w :: "'a::len word"
  by (simp add: bit_iff_and_push_bit_not_eq_0)

lemma is_proposal_executed_bit:
  "is_proposal_executed n d s \<longleftrightarrow> bit (used_nonces s (d, n div 64)) (unat (n mod 64))"
  unfolding is_proposal_executed_def by (rule and_push_bit_iff)

lemma unat_mod_64_less: "unat (n mod 64) < 64" for n :: u64
  by (simp add: unat_mod)

lemma is_proposal_executed_set:
  "is_proposal_executed n' d' (set_proposal_executed n d s) \<longleftrightarrow>
     (n' = n \<and> d' = d) \<or> is_proposal_executed n' d' s"
proof (cases "d' = d \<and> n' div 64 = n div 64")
  case False
  then show ?thesis
    by (auto simp: is_proposal_executed_bit set_proposal_executed_def used_nonces_def Let_def)
next
  case True
  have "unat (n' mod 64) = unat (n mod 64) \<longleftrightarrow> n' = n"
    using True set_bit_div_mod_64 by (metis unsigned_word_eqI)
  then show ?thesis
    using True unat_mod_64_less [of n'] unat_mod_64_less [of n]
    by (auto simp: is_proposal_executed_bit set_proposal_executed_def used_nonces_def Let_def
        bit_or_iff bit_exp_iff)
qed

text \<open>
  The abstract view of the mask is the set of executed proposals, as pairs of domain and nonce. The
  contract of such a record, and what a run of marks does to it, is the locale \<open>execution_record\<close>.
\<close>

locale execution_record =
  fixes executed :: "'s \<Rightarrow> ('d \<times> 'n) set"
    and mark :: "'d \<times> 'n \<Rightarrow> 's \<Rightarrow> 's"
  assumes executed_mark: "executed (mark k s) = insert k (executed s)"
begin

lemma executed_fold_mark: "executed (fold mark ks s) = set ks \<union> executed s"
  by (induction ks arbitrary: s) (auto simp: executed_mark)

lemma mark_mono: "executed s \<subseteq> executed (mark k s)"
  by (auto simp: executed_mark)

end

definition executed_set :: "('l, 'z) bridge_storage_scheme \<Rightarrow> (DomainID \<times> DepositNonce) set" where
  "executed_set s = {(d, n). is_proposal_executed n d s}"

lemma in_executed_set [simp]: "(d, n) \<in> executed_set s \<longleftrightarrow> is_proposal_executed n d s"
  by (simp add: executed_set_def)

interpretation nonce_mask: execution_record
  executed_set "\<lambda>(d, n). set_proposal_executed n d"
  by unfold_locales (auto simp: executed_set_def is_proposal_executed_set)

lemma executed_set_empty: "UsedNonces s = Map.empty \<Longrightarrow> executed_set s = {}"
  by (auto simp: executed_set_def is_proposal_executed_bit used_nonces_def)

lemma executed_set_cong: "UsedNonces s = UsedNonces t \<Longrightarrow> executed_set s = executed_set t"
  by (simp add: executed_set_def is_proposal_executed_def used_nonces_def)

lemma set_proposal_executed_fields [simp]:
  "bridge_events (set_proposal_executed n d s) = bridge_events s"
  "IsPaused (set_proposal_executed n d s) = IsPaused s"
  "DestDomainIds (set_proposal_executed n d s) = DestDomainIds s"
  "DestChainIds (set_proposal_executed n d s) = DestChainIds s"
  "MpcAddr (set_proposal_executed n d s) = MpcAddr s"
  "DepositCounts (set_proposal_executed n d s) = DepositCounts s"
  "ledger (set_proposal_executed n d s) = ledger s"
  "ExtrinsicAccess (set_proposal_executed n d s) = ExtrinsicAccess s"
  "fee_tables (set_proposal_executed n d s) = fee_tables s"
  by (simp_all add: set_proposal_executed_def Let_def fee_tables_def)

end
