(* ===== verification/Bridge_Admin.thy ===== *)
theory Bridge_Admin
  imports Bridge_Data
begin

text \<open>
  The administrative extrinsics of the bridge pallet (\<^verbatim>\<open>bridge/src/lib.rs\<close>, lines 287 to 430, 534 to 566
  and 631 to 684) and the two sweeps over all domains (lines 938 to 948).
\<close>

section \<open>Operations\<close>

definition bridge_access ::
    "('st, 'c) bridge_config_scheme \<Rightarrow> string \<Rightarrow> RuntimeOrigin \<Rightarrow> ('l, 'z) bridge_storage_scheme \<Rightarrow> bool" where
  "bridge_access cfg extrinsic_name origin s =
     has_access cfg (BridgePalletIndex cfg) (ascii extrinsic_name) origin s"

definition pause_bridge ::
    "('st, 'c) bridge_config_scheme \<Rightarrow> RuntimeOrigin \<Rightarrow> DomainID \<Rightarrow> ('l, 'z) bridge_storage_scheme call" where
  "pause_bridge cfg origin dest_domain_id s =
     (if \<not> bridge_access cfg ''pause_bridge'' origin s then (Inl (bridge_error AccessDenied), s)
      else if \<not> dest_domain_ids s dest_domain_id then (Inl (bridge_error DestDomainNotSupported), s)
      else (Inr (), deposit_event (BridgePausedEvent dest_domain_id)
              (s\<lparr>IsPaused := (IsPaused s)(dest_domain_id \<mapsto> True)\<rparr>)))"

definition unpause_bridge ::
    "('st, 'c) bridge_config_scheme \<Rightarrow> RuntimeOrigin \<Rightarrow> DomainID \<Rightarrow> ('l, 'z) bridge_storage_scheme call" where
  "unpause_bridge cfg origin dest_domain_id s =
     (if \<not> bridge_access cfg ''unpause_bridge'' origin s then (Inl (bridge_error AccessDenied), s)
      else if \<not> dest_domain_ids s dest_domain_id then (Inl (bridge_error DestDomainNotSupported), s)
      else if \<not> is_paused s dest_domain_id then (Inl (bridge_error BridgeUnpaused), s)
      else (Inr (), deposit_event (BridgeUnpausedEvent dest_domain_id)
              (s\<lparr>IsPaused := (IsPaused s)(dest_domain_id \<mapsto> False)\<rparr>)))"

definition unpause_all_domains :: "('l, 'z) bridge_storage_scheme \<Rightarrow> ('l, 'z) bridge_storage_scheme" where
  "unpause_all_domains s =
     (let s = fold (\<lambda>d s. s\<lparr>IsPaused := (IsPaused s)(d \<mapsto> False)\<rparr>) (iter_keys (DestDomainIds s)) s
      in fold (\<lambda>d s. s\<lparr>IsPaused := (IsPaused s)(d \<mapsto> False)\<rparr>) (iter_keys (IsPaused s)) s)"

definition pause_all_domains :: "('l, 'z) bridge_storage_scheme \<Rightarrow> ('l, 'z) bridge_storage_scheme" where
  "pause_all_domains s =
     (let s = fold (\<lambda>d s. s\<lparr>IsPaused := (IsPaused s)(d \<mapsto> True)\<rparr>) (iter_keys (DestDomainIds s)) s
      in fold (\<lambda>d s. s\<lparr>IsPaused := (IsPaused s)(d \<mapsto> True)\<rparr>) (iter_keys (IsPaused s)) s)"

definition set_mpc_address ::
    "('st, 'c) bridge_config_scheme \<Rightarrow> RuntimeOrigin \<Rightarrow> MpcAddress \<Rightarrow> ('l, 'z) bridge_storage_scheme call" where
  "set_mpc_address cfg origin addr s =
     (if \<not> bridge_access cfg ''set_mpc_address'' origin s then (Inl (bridge_error AccessDenied), s)
      else if \<not> is_clear (mpc_addr s) then (Inl (bridge_error MpcAddrNotUpdatable), s)
      else (Inr (), unpause_all_domains (s\<lparr>MpcAddr := Some addr\<rparr>)))"

definition register_domain ::
    "('st, 'c) bridge_config_scheme \<Rightarrow> RuntimeOrigin \<Rightarrow> DomainID \<Rightarrow> ChainID
     \<Rightarrow> ('l, 'z) bridge_storage_scheme call" where
  "register_domain cfg origin dest_domain_id dest_chain_id s =
     (if \<not> bridge_access cfg ''register_domain'' origin s then (Inl (bridge_error AccessDenied), s)
      else (Inr (), deposit_event (RegisterDestDomain (event_sender origin) dest_domain_id dest_chain_id)
              (s\<lparr>DestDomainIds := (DestDomainIds s)(dest_domain_id \<mapsto> True),
                 DestChainIds := (DestChainIds s)(dest_domain_id \<mapsto> dest_chain_id)\<rparr>)))"

definition unregister_domain ::
    "('st, 'c) bridge_config_scheme \<Rightarrow> RuntimeOrigin \<Rightarrow> DomainID \<Rightarrow> ChainID
     \<Rightarrow> ('l, 'z) bridge_storage_scheme call" where
  "unregister_domain cfg origin dest_domain_id dest_chain_id s =
     (if \<not> bridge_access cfg ''unregister_domain'' origin s then (Inl (bridge_error AccessDenied), s)
      else if \<not> dest_domain_ids s dest_domain_id then (Inl (bridge_error DestDomainNotSupported), s)
      else case dest_chain_ids s dest_domain_id of
        None \<Rightarrow> (Inl (bridge_error DestDomainNotSupported), s)
      | Some co_chain_id \<Rightarrow>
          if co_chain_id \<noteq> dest_chain_id then (Inl (bridge_error DestChainIDNotMatch), s)
          else (Inr (), deposit_event (UnregisterDestDomain (event_sender origin) dest_domain_id dest_chain_id)
                  (s\<lparr>DestDomainIds := (DestDomainIds s)(dest_domain_id := None),
                     DestChainIds := (DestChainIds s)(dest_domain_id := None)\<rparr>)))"

definition retry ::
    "('st, 'c) bridge_config_scheme \<Rightarrow> RuntimeOrigin \<Rightarrow> u128 \<Rightarrow> DomainID
     \<Rightarrow> ('l, 'z) bridge_storage_scheme call" where
  "retry cfg origin deposit_on_block_height dest_domain_id = transactional (\<lambda>s.
     if \<not> bridge_access cfg ''retry'' origin s then (Inl (bridge_error AccessDenied), s)
     else if is_clear (mpc_addr s) then (Inl (bridge_error MissingMpcAddress), s)
     else if is_paused s dest_domain_id then (Inl (bridge_error BridgePaused), s)
     else if \<not> dest_domain_ids s dest_domain_id then (Inl (bridge_error DestDomainNotSupported), s)
     else (Inr (), deposit_event (Retry deposit_on_block_height dest_domain_id (event_sender origin)) s))"

definition pause_all_bridges ::
    "('st, 'c) bridge_config_scheme \<Rightarrow> RuntimeOrigin \<Rightarrow> ('l, 'z) bridge_storage_scheme call" where
  "pause_all_bridges cfg origin s =
     (if \<not> bridge_access cfg ''pause_all_bridges'' origin s then (Inl (bridge_error AccessDenied), s)
      else (Inr (), deposit_event (AllBridgePaused (event_sender origin)) (pause_all_domains s)))"

definition unpause_all_bridges ::
    "('st, 'c) bridge_config_scheme \<Rightarrow> RuntimeOrigin \<Rightarrow> ('l, 'z) bridge_storage_scheme call" where
  "unpause_all_bridges cfg origin s =
     (if \<not> bridge_access cfg ''unpause_all_bridges'' origin s then (Inl (bridge_error AccessDenied), s)
      else if is_clear (mpc_addr s) then (Inl (bridge_error MissingMpcAddress), s)
      else (Inr (), deposit_event (AllBridgeUnpaused (event_sender origin)) (unpause_all_domains s)))"

section \<open>The sweeps over all domains in closed form\<close>

lemma fold_IsPaused:
  "fold (\<lambda>d s. s\<lparr>IsPaused := (IsPaused s)(d \<mapsto> v)\<rparr>) ds s =
   s\<lparr>IsPaused := \<lambda>d. if d \<in> set ds then Some v else IsPaused s d\<rparr>"
  for s :: "('l, 'z) bridge_storage_scheme"
proof (induction ds arbitrary: s)
  case (Cons d ds)
  have "(\<lambda>e. if e \<in> set ds then Some v else if e = d then Some v else IsPaused s e) =
        (\<lambda>e. if e = d \<or> e \<in> set ds then Some v else IsPaused s e)"
    by auto
  then show ?case by (simp add: Cons.IH [unfolded fun_upd_def] fun_upd_def cong: if_cong)
qed simp

lemma sweep_map:
  "(\<lambda>d. if d \<in> dom (\<lambda>d. if d \<in> A then Some v else m d) then Some v
        else (if d \<in> A then Some v else m d)) =
   (\<lambda>d. if d \<in> A \<union> dom m then Some v else None)"
  by (auto simp: fun_eq_iff dom_def)

lemma unpause_all_domains_eq:
  "unpause_all_domains s =
   s\<lparr>IsPaused := \<lambda>d. if d \<in> dom (DestDomainIds s) \<union> dom (IsPaused s) then Some False else None\<rparr>"
  using sweep_map [of "dom (DestDomainIds s)" False "IsPaused s"]
  by (simp add: unpause_all_domains_def Let_def fold_IsPaused set_iter_keys cong: if_cong)

lemma pause_all_domains_eq:
  "pause_all_domains s =
   s\<lparr>IsPaused := \<lambda>d. if d \<in> dom (DestDomainIds s) \<union> dom (IsPaused s) then Some True else None\<rparr>"
  using sweep_map [of "dom (DestDomainIds s)" True "IsPaused s"]
  by (simp add: pause_all_domains_def Let_def fold_IsPaused set_iter_keys cong: if_cong)

lemma is_paused_unpause_all: "\<not> is_paused (unpause_all_domains s) d"
  by (simp add: is_paused_def unpause_all_domains_eq value_query_def)

lemma is_paused_pause_all:
  "is_paused (pause_all_domains s) d \<longleftrightarrow> d \<in> dom (DestDomainIds s) \<union> dom (IsPaused s)"
  by (simp add: is_paused_def pause_all_domains_eq value_query_def)

lemma dest_domain_ids_dom: "dest_domain_ids s d \<Longrightarrow> d \<in> dom (DestDomainIds s)"
  by (auto simp: dest_domain_ids_def value_query_def split: option.splits)

section \<open>Every administrative call is guarded\<close>

lemmas admin_defs = pause_bridge_def unpause_bridge_def set_mpc_address_def register_domain_def
  unregister_domain_def retry_def pause_all_bridges_def unpause_all_bridges_def

lemma pause_bridge_guarded:
  "guarded_call (bridge_access cfg ''pause_bridge'') (\<lambda>origin. pause_bridge cfg origin d) (bridge_error AccessDenied)"
  by unfold_locales (auto simp: pause_bridge_def split: if_splits)

lemma unpause_bridge_guarded:
  "guarded_call (bridge_access cfg ''unpause_bridge'') (\<lambda>origin. unpause_bridge cfg origin d) (bridge_error AccessDenied)"
  by unfold_locales (auto simp: unpause_bridge_def split: if_splits)

lemma set_mpc_address_guarded:
  "guarded_call (bridge_access cfg ''set_mpc_address'') (\<lambda>origin. set_mpc_address cfg origin a) (bridge_error AccessDenied)"
  by unfold_locales (auto simp: set_mpc_address_def split: if_splits)

lemma register_domain_guarded:
  "guarded_call (bridge_access cfg ''register_domain'') (\<lambda>origin. register_domain cfg origin d c) (bridge_error AccessDenied)"
  by unfold_locales (auto simp: register_domain_def split: if_splits)

lemma unregister_domain_guarded:
  "guarded_call (bridge_access cfg ''unregister_domain'') (\<lambda>origin. unregister_domain cfg origin d c) (bridge_error AccessDenied)"
  by unfold_locales (auto simp: unregister_domain_def split: if_splits option.splits)

lemma retry_guarded:
  "guarded_call (bridge_access cfg ''retry'') (\<lambda>origin. retry cfg origin b d) (bridge_error AccessDenied)"
  by unfold_locales (auto simp: retry_def transactional_def split: if_splits)

lemma pause_all_bridges_guarded:
  "guarded_call (bridge_access cfg ''pause_all_bridges'') (pause_all_bridges cfg) (bridge_error AccessDenied)"
  by unfold_locales (auto simp: pause_all_bridges_def split: if_splits)

lemma unpause_all_bridges_guarded:
  "guarded_call (bridge_access cfg ''unpause_all_bridges'') (unpause_all_bridges cfg) (bridge_error AccessDenied)"
  by unfold_locales (auto simp: unpause_all_bridges_def split: if_splits)

interpretation pause: guarded_call "bridge_access cfg ''pause_bridge''"
  "\<lambda>origin. pause_bridge cfg origin d" "bridge_error AccessDenied" for cfg d
  by (rule pause_bridge_guarded)

interpretation unpause: guarded_call "bridge_access cfg ''unpause_bridge''"
  "\<lambda>origin. unpause_bridge cfg origin d" "bridge_error AccessDenied" for cfg d
  by (rule unpause_bridge_guarded)

interpretation set_mpc: guarded_call "bridge_access cfg ''set_mpc_address''"
  "\<lambda>origin. set_mpc_address cfg origin a" "bridge_error AccessDenied" for cfg a
  by (rule set_mpc_address_guarded)

interpretation register: guarded_call "bridge_access cfg ''register_domain''"
  "\<lambda>origin. register_domain cfg origin d c" "bridge_error AccessDenied" for cfg d c
  by (rule register_domain_guarded)

interpretation unregister: guarded_call "bridge_access cfg ''unregister_domain''"
  "\<lambda>origin. unregister_domain cfg origin d c" "bridge_error AccessDenied" for cfg d c
  by (rule unregister_domain_guarded)

interpretation retry: guarded_call "bridge_access cfg ''retry''"
  "\<lambda>origin. retry cfg origin b d" "bridge_error AccessDenied" for cfg b d
  by (rule retry_guarded)

interpretation pause_all: guarded_call "bridge_access cfg ''pause_all_bridges''"
  "pause_all_bridges cfg" "bridge_error AccessDenied" for cfg
  by (rule pause_all_bridges_guarded)

interpretation unpause_all: guarded_call "bridge_access cfg ''unpause_all_bridges''"
  "unpause_all_bridges cfg" "bridge_error AccessDenied" for cfg
  by (rule unpause_all_bridges_guarded)

section \<open>The registered domains\<close>

text \<open>
  A domain is marked as supported exactly when it has a chain identifier; the mark is never stored as
  \<^verbatim>\<open>false\<close>.
\<close>

definition domains_consistent :: "('l, 'z) bridge_storage_scheme \<Rightarrow> bool" where
  "domains_consistent s \<longleftrightarrow>
     (\<forall>d. DestDomainIds s d = (case DestChainIds s d of None \<Rightarrow> None | Some _ \<Rightarrow> Some True))"

lemma domains_consistentD:
  "domains_consistent s \<Longrightarrow> dest_domain_ids s d \<longleftrightarrow> dest_chain_ids s d \<noteq> None"
  by (auto simp: domains_consistent_def dest_domain_ids_def dest_chain_ids_def value_query_def
      split: option.splits)

lemma domains_consistent_cong:
  "DestDomainIds s = DestDomainIds t \<Longrightarrow> DestChainIds s = DestChainIds t \<Longrightarrow>
   domains_consistent s = domains_consistent t"
  by (simp add: domains_consistent_def)

lemma register_domain_consistent:
  "domains_consistent s \<Longrightarrow> domains_consistent (snd (register_domain cfg origin d c s))"
  by (auto simp: domains_consistent_def register_domain_def deposit_event_def)

lemma unregister_domain_consistent:
  "domains_consistent s \<Longrightarrow> domains_consistent (snd (unregister_domain cfg origin d c s))"
  by (auto simp: domains_consistent_def unregister_domain_def deposit_event_def split: option.split)

lemma other_admin_domains:
  "DestDomainIds (snd (pause_bridge cfg origin d s)) = DestDomainIds s"
  "DestDomainIds (snd (unpause_bridge cfg origin d s)) = DestDomainIds s"
  "DestDomainIds (snd (set_mpc_address cfg origin a s)) = DestDomainIds s"
  "DestDomainIds (snd (retry cfg origin b d s)) = DestDomainIds s"
  "DestDomainIds (snd (pause_all_bridges cfg origin s)) = DestDomainIds s"
  "DestDomainIds (snd (unpause_all_bridges cfg origin s)) = DestDomainIds s"
  "DestChainIds (snd (pause_bridge cfg origin d s)) = DestChainIds s"
  "DestChainIds (snd (unpause_bridge cfg origin d s)) = DestChainIds s"
  "DestChainIds (snd (set_mpc_address cfg origin a s)) = DestChainIds s"
  "DestChainIds (snd (retry cfg origin b d s)) = DestChainIds s"
  "DestChainIds (snd (pause_all_bridges cfg origin s)) = DestChainIds s"
  "DestChainIds (snd (unpause_all_bridges cfg origin s)) = DestChainIds s"
  by (simp_all add: admin_defs deposit_event_def transactional_def unpause_all_domains_eq
      pause_all_domains_eq split: prod.splits)

end
