(* ===== verification/Encode_Packed.thy ===== *)
theory Encode_Packed
  imports Frame
begin

text \<open>
  Solidity's packed encoding (\<^verbatim>\<open>bridge/src/encode.rs\<close>). A \<^verbatim>\<open>U256\<close> is an array of four 64-bit limbs,
  least significant first; \<open>limbs\<close> reads them off the word. The pallet runs as 32-bit WebAssembly, so
  \<^verbatim>\<open>usize\<close> arithmetic is arithmetic on 32-bit words.
\<close>

type_synonym usize = "32 word"

datatype SolidityDataType =
    SString string
  | SAddress bytes
  | SBytes bytes
  | SBool bool
  | SNumber u256
  | SNumberWithShift u256 usize

definition limbs :: "u256 \<Rightarrow> u64 list" where
  "limbs n = map (\<lambda>i. ucast (drop_bit (64 * i) n)) [0..<4]"

definition u64_to_be_bytes :: "u64 \<Rightarrow> bytes" where
  "u64_to_be_bytes b = be_bytes 8 (unat b)"

definition pack :: "SolidityDataType \<Rightarrow> bytes" where
  "pack data_type = (case data_type of
     SString s \<Rightarrow> ascii s
   | SAddress a \<Rightarrow> a
   | SNumber n \<Rightarrow> fold (\<lambda>b res. res @ u64_to_be_bytes b) (rev (limbs n)) []
   | SBytes b \<Rightarrow> b
   | SBool b \<Rightarrow> (if b then [1] else [0])
   | SNumberWithShift n to_take \<Rightarrow>
       (let local_res = fold (\<lambda>i acc. acc @ u64_to_be_bytes i) (rev (limbs n)) [];
            to_skip = word_of_nat (length local_res) - to_take div 8
        in drop (unat to_skip) local_res))"

definition encode_packed :: "SolidityDataType list \<Rightarrow> bytes" where
  "encode_packed items = concat (fold (\<lambda>i acc. acc @ [pack i]) items [])"

section \<open>The encoding of a number is its 32 big-endian bytes\<close>

lemma fold_append_concat: "fold (\<lambda>i acc. acc @ f i) xs acc = acc @ concat (map f xs)"
  by (induction xs arbitrary: acc) auto

lemma fold_snoc_map: "fold (\<lambda>i acc. acc @ [f i]) xs acc = acc @ map f xs"
  by (induction xs arbitrary: acc) auto

lemma encode_packed_eq: "encode_packed items = concat (map pack items)"
  by (simp add: encode_packed_def fold_snoc_map)

lemma encode_packed_append: "encode_packed (xs @ ys) = encode_packed xs @ encode_packed ys"
  by (simp add: encode_packed_eq)

lemma be_bytes_split: "be_bytes (m + n) x = be_bytes m (x div 256 ^ n) @ be_bytes n x"
proof (induction n arbitrary: x)
  case 0
  then show ?case by simp
next
  case (Suc n)
  have "x div 256 div 256 ^ n = x div 256 ^ Suc n" by (simp add: div_mult2_eq)
  then show ?case using Suc.IH [of "x div 256"] by simp
qed

lemma be_bytes_mod: "be_bytes n (x mod 256 ^ n) = be_bytes n x"
  by (metis be_bytes_be_nat be_nat_be_bytes length_be_bytes)

lemma unat_limb: "unat (ucast (drop_bit (64 * i) n) :: u64) = drop_bit (64 * i) (unat n) mod 2 ^ 64"
  for n :: u256
proof -
  have "unat n < 2 ^ 256" using unsigned_less [where 'a = nat, of n] by simp
  then show ?thesis unfolding unsigned_ucast_eq unsigned_drop_bit_eq take_bit_eq_mod by simp
qed

lemma limb_bytes: "u64_to_be_bytes (ucast (drop_bit (64 * i) n)) = be_bytes 8 (unat n div 256 ^ (8 * i))"
  for n :: u256
proof -
  have "(256::nat) = 2 ^ 8" by simp
  then have "(256::nat) ^ (8 * i) = 2 ^ (64 * i)" by (simp only: power_mult [symmetric]) simp
  then have "drop_bit (64 * i) (unat n) = unat n div 256 ^ (8 * i)" by (simp add: drop_bit_eq_div)
  then show ?thesis
    using be_bytes_mod [of 8 "unat n div 256 ^ (8 * i)"]
    by (simp only: u64_to_be_bytes_def unat_limb) simp
qed

lemma number_bytes: "concat (map u64_to_be_bytes (rev (limbs n))) = be_bytes 32 (unat n)"
proof -
  have "be_bytes 32 (unat n) =
      be_bytes 8 (unat n div 256 ^ 24) @ be_bytes 8 (unat n div 256 ^ 16)
      @ be_bytes 8 (unat n div 256 ^ 8) @ be_bytes 8 (unat n)"
    using be_bytes_split [of 8 24 "unat n"] be_bytes_split [of 8 16 "unat n"]
      be_bytes_split [of 8 8 "unat n"] by simp
  moreover have "rev (limbs n) = map (\<lambda>i. ucast (drop_bit (64 * i) n)) [3, 2, 1, 0]"
    by (simp add: limbs_def upt_conv_Cons)
  ultimately show ?thesis
    using limb_bytes [of 3 n] limb_bytes [of 2 n] limb_bytes [of 1 n] limb_bytes [of 0 n] by simp
qed

lemma pack_number: "pack (SNumber n) = be_bytes 32 (unat n)"
  by (simp add: pack_def fold_append_concat number_bytes)

lemma pack_number_with_shift:
  assumes "unat to_take div 8 \<le> 32"
  shows "pack (SNumberWithShift n to_take) = drop (32 - unat to_take div 8) (be_bytes 32 (unat n))"
proof -
  have "unat (to_take div 8) = unat to_take div 8" by (simp add: unat_div)
  then have "unat (word_of_nat 32 - to_take div 8 :: usize) = 32 - unat to_take div 8"
    using assms by (simp add: unat_sub word_le_nat_alt)
  then show ?thesis
    by (simp add: pack_def fold_append_concat number_bytes Let_def)
qed

section \<open>Reading packed numbers back\<close>

lemma be_nat_drop_be_bytes: "k \<le> n \<Longrightarrow> be_nat (drop (n - k) (be_bytes n x)) = x mod 256 ^ k"
  using be_bytes_split [of "n - k" k x] by (simp add: be_nat_be_bytes)

text \<open>
  C24. Packing a number loses nothing that is asked for: a plain number is 32 bytes that read back as the
  number, and a number cut down to \<open>8 * k\<close> bits is \<open>k\<close> bytes that read back as its low \<open>k\<close> bytes. A list of
  values is packed value by value, in order.
\<close>

theorem packed_numbers_read_back:
  assumes "k \<le> 32"
  shows "be_nat (encode_packed [SNumber n]) = unat n \<and> length (encode_packed [SNumber n]) = 32 \<and>
    be_nat (encode_packed [SNumberWithShift n (word_of_nat (8 * k))]) = unat n mod 256 ^ k \<and>
    length (encode_packed [SNumberWithShift n (word_of_nat (8 * k))]) = k \<and>
    encode_packed (xs @ ys) = encode_packed xs @ encode_packed ys"
proof -
  have n: "unat n < 256 ^ 32" using unsigned_less [where 'a = nat, of n] by simp
  have k: "unat (word_of_nat (8 * k) :: usize) div 8 = k"
    using assms by (simp add: unat_of_nat del: of_nat_mult)
  have "pack (SNumberWithShift n (word_of_nat (8 * k))) = drop (32 - k) (be_bytes 32 (unat n))"
    using pack_number_with_shift [of "word_of_nat (8 * k)" n] assms unfolding k by simp
  then show ?thesis
    using n assms by (simp add: encode_packed_eq pack_number be_nat_be_bytes be_nat_drop_be_bytes)
qed

theorem packed_numbers_read_back_witness:
  "be_nat (encode_packed [SNumberWithShift 0x010203 (word_of_nat (8 * 2))]) = 0x0203"
  using packed_numbers_read_back [of 2 "0x010203"] by simp

end
