(* ===== verification/Eip712.thy ===== *)
theory Eip712
  imports Sygma_Host
begin

text \<open>
  The domain separator of EIP-712 typed data (\<^verbatim>\<open>bridge/src/eip712.rs\<close>). The two type hashes are the
  constants of the source.
\<close>

definition EIP712_DOMAIN_TYPE_HASH :: bytes where
  "EIP712_DOMAIN_TYPE_HASH = [
     139, 115, 195, 198, 155, 184, 254, 61, 81, 46, 204, 76, 247, 89, 204, 121, 35, 159, 123, 23,
     155, 15, 250, 202, 169, 167, 93, 82, 43, 57, 64, 15]"

definition EIP712_DOMAIN_TYPE_HASH_WITH_SALT :: bytes where
  "EIP712_DOMAIN_TYPE_HASH_WITH_SALT = [
     216, 124, 214, 239, 121, 212, 226, 185, 94, 21, 206, 138, 191, 115, 45, 181, 30, 199, 113, 241,
     202, 46, 220, 207, 34, 164, 108, 114, 154, 197, 100, 114]"

record EIP712Domain =
  domain_name :: bytes
  domain_version :: bytes
  domain_chain_id :: u256
  domain_verifying_contract :: bytes
  domain_salt :: "bytes option"

text \<open>The derived \<^verbatim>\<open>Default\<close>.\<close>

definition default_EIP712Domain :: EIP712Domain where
  "default_EIP712Domain = \<lparr>domain_name = [], domain_version = [], domain_chain_id = 0,
     domain_verifying_contract = replicate 20 0, domain_salt = None\<rparr>"

text \<open>\<^verbatim>\<open>U256::from\<close> of a 32-byte array reads it big-endian.\<close>

definition u256_of_bytes :: "bytes \<Rightarrow> u256" where
  "u256_of_bytes bs = word_of_nat (be_nat bs)"

definition separator_tokens :: "host \<Rightarrow> EIP712Domain \<Rightarrow> Token list" where
  "separator_tokens h d =
     (let domain_type_hash = (if domain_salt d \<noteq> None then EIP712_DOMAIN_TYPE_HASH_WITH_SALT
                              else EIP712_DOMAIN_TYPE_HASH);
          tokens = [TUint (u256_of_bytes domain_type_hash),
                    TUint (u256_of_bytes (keccak_256 h (domain_name d))),
                    TUint (u256_of_bytes (keccak_256 h (domain_version d))),
                    TUint (domain_chain_id d),
                    TAddress (domain_verifying_contract d)]
      in case domain_salt d of
           None \<Rightarrow> tokens
         | Some salt \<Rightarrow> tokens @ [TUint (u256_of_bytes salt)])"

definition separator :: "host \<Rightarrow> EIP712Domain \<Rightarrow> bytes" where
  "separator h d = keccak_256 h (abi_encode h (separator_tokens h d))"

lemma length_type_hashes [simp]:
  "length EIP712_DOMAIN_TYPE_HASH = 32" "length EIP712_DOMAIN_TYPE_HASH_WITH_SALT = 32"
  by (simp_all add: EIP712_DOMAIN_TYPE_HASH_def EIP712_DOMAIN_TYPE_HASH_WITH_SALT_def)

lemma unat_u256_of_bytes: "length bs = 32 \<Longrightarrow> unat (u256_of_bytes bs) = be_nat bs"
  using be_nat_less [of bs] by (simp add: u256_of_bytes_def unat_of_nat)

lemma static_word_u256_of_bytes: "length bs = 32 \<Longrightarrow> static_word (TUint (u256_of_bytes bs)) = bs"
  using be_bytes_be_nat [of bs] by (simp add: unat_u256_of_bytes)

lemma separator_tokens_static:
  "length (domain_verifying_contract d) = 20 \<Longrightarrow> list_all static_token (separator_tokens h d)"
  by (auto simp: separator_tokens_def Let_def split: option.splits)

text \<open>
  The tokens of an unsalted domain determine its chain identifier and contract address: two chains, or
  two deployments on one chain, never share the encoded domain.
\<close>

lemma separator_preimage_binds:
  assumes laws: "abi_static h" "keccak_digests h"
    and d: "length (domain_verifying_contract d) = 20" "domain_salt d = None"
    and e: "length (domain_verifying_contract e) = 20" "domain_salt e = None"
    and eq: "abi_encode h (separator_tokens h d) = abi_encode h (separator_tokens h e)"
  shows "domain_chain_id d = domain_chain_id e
    \<and> domain_verifying_contract d = domain_verifying_contract e
    \<and> keccak_256 h (domain_name d) = keccak_256 h (domain_name e)
    \<and> keccak_256 h (domain_version d) = keccak_256 h (domain_version e)"
proof -
  have "length (separator_tokens h d) = length (separator_tokens h e)"
    using d e by (simp add: separator_tokens_def Let_def)
  then have words: "map static_word (separator_tokens h d) = map static_word (separator_tokens h e)"
    using laws(1) d e eq by (intro abi_static_inj separator_tokens_static) auto
  have "length (keccak_256 h x) = 32" for x using laws(2) by (simp add: keccak_digests_def)
  then show ?thesis
    using words d e
    by (auto simp: separator_tokens_def Let_def static_word_u256_of_bytes
          simp del: static_word.simps(3) dest: static_word_TUint_inj)
qed

end
