(* ===== verification/Bridge_Signing.thy ===== *)
theory Bridge_Signing
  imports Bridge_Data Encode_Packed Eip712
begin

text \<open>
  The message the relayers sign and its verification (\<^verbatim>\<open>bridge/src/lib.rs\<close>, lines 707 to 726 and 735 to
  808). The main result is that the message binds the batch: as long as Keccak has no collision among
  the byte strings hashed for two batches, equal messages mean equal batches.
\<close>

section \<open>Operations\<close>

definition public_key_to_address :: "host \<Rightarrow> bytes \<Rightarrow> bytes" where
  "public_key_to_address h public_key = take 20 (drop 12 (keccak_256 h public_key))"

definition verify_by_mpc_address ::
    "host \<Rightarrow> bytes \<Rightarrow> bytes \<Rightarrow> ('l, 'z) bridge_storage_scheme \<Rightarrow> bool" where
  "verify_by_mpc_address h signing_message signature s =
     (if length signature \<noteq> 65 then False
      else case secp256k1_ecdsa_recover h signature signing_message of
        Some pubkey \<Rightarrow> public_key_to_address h pubkey = mpc_addr s
      | None \<Rightarrow> False)"

definition PROPOSALS_TYPE :: bytes where
  "PROPOSALS_TYPE = ascii ''Proposals(Proposal[] proposals)Proposal(uint8 originDomainID,uint64 depositNonce,bytes32 resourceID,bytes data)''"

definition PROPOSAL_TYPE :: bytes where
  "PROPOSAL_TYPE = ascii ''Proposal(uint8 originDomainID,uint64 depositNonce,bytes32 resourceID,bytes data)''"

text \<open>The tokens of one proposal, the loop body of the source.\<close>

definition proposal_tokens :: "host \<Rightarrow> Proposal \<Rightarrow> Token list" where
  "proposal_tokens h prop =
     [TFixedBytes (keccak_256 h PROPOSAL_TYPE),
      TUint (ucast (origin_domain_id prop)),
      TUint (ucast (deposit_nonce prop)),
      TFixedBytes (resource_id prop),
      TFixedBytes (keccak_256 h (proposal_data prop))]"

definition proposal_hashes :: "host \<Rightarrow> Proposal list \<Rightarrow> bytes list" where
  "proposal_hashes h proposals =
     fold (\<lambda>prop keccak_data. keccak_data @ [keccak_256 h (abi_encode h (proposal_tokens h prop))])
       proposals []"

definition bridge_domain :: "('st, 'c) bridge_config_scheme \<Rightarrow> EIP712Domain" where
  "bridge_domain cfg = \<lparr>domain_name = ascii ''Bridge'', domain_version = ascii ''3.1.0'',
     domain_chain_id = EIP712ChainID cfg,
     domain_verifying_contract = DestVerifyingContractAddress cfg,
     domain_salt = domain_salt default_EIP712Domain\<rparr>"

definition construct_ecdsa_signing_proposals_data ::
    "('st, 'c) bridge_config_scheme \<Rightarrow> host \<Rightarrow> Proposal list \<Rightarrow> bytes" where
  "construct_ecdsa_signing_proposals_data cfg h proposals =
     (let proposals_typehash = keccak_256 h PROPOSALS_TYPE
      in if proposals = [] then replicate 32 0
         else
           let keccak_data = proposal_hashes h proposals;
               final_keccak_data = fold (\<lambda>d acc. fold (\<lambda>b acc. acc @ [b]) d acc) keccak_data [];
               bytes = encode_packed [SBytes final_keccak_data];
               hashed_keccak_data = keccak_256 h bytes;
               struct_hash = keccak_256 h (abi_encode h
                 [TFixedBytes proposals_typehash, TFixedBytes hashed_keccak_data]);
               domain_separator = separator h (bridge_domain cfg);
               bytes = encode_packed
                 [SString [CHR 0x19, CHR 0x01], SBytes domain_separator, SBytes struct_hash]
           in keccak_256 h bytes)"

section \<open>The message in closed form\<close>

definition struct_preimage :: "host \<Rightarrow> Proposal list \<Rightarrow> bytes" where
  "struct_preimage h ps = abi_encode h
     [TFixedBytes (keccak_256 h PROPOSALS_TYPE), TFixedBytes (keccak_256 h (concat (proposal_hashes h ps)))]"

definition final_preimage :: "('st, 'c) bridge_config_scheme \<Rightarrow> host \<Rightarrow> Proposal list \<Rightarrow> bytes" where
  "final_preimage cfg h ps =
     [0x19, 0x01] @ separator h (bridge_domain cfg) @ keccak_256 h (struct_preimage h ps)"

lemma fold_fold_snoc: "fold (\<lambda>d acc. fold (\<lambda>b acc. acc @ [b]) d acc) ds acc = acc @ concat ds"
proof (induction ds arbitrary: acc)
  case (Cons d ds)
  have "fold (\<lambda>b acc. acc @ [b]) d acc = acc @ d"
    using fold_snoc_map [of "\<lambda>b. b" d acc] by simp
  then show ?case by (simp add: Cons.IH)
qed simp

lemma proposal_hashes_eq:
  "proposal_hashes h ps = map (\<lambda>p. keccak_256 h (abi_encode h (proposal_tokens h p))) ps"
  using fold_snoc_map [of "\<lambda>p. keccak_256 h (abi_encode h (proposal_tokens h p))" ps "[]"]
  by (simp add: proposal_hashes_def)

lemma signing_data_eq:
  "ps \<noteq> [] \<Longrightarrow> construct_ecdsa_signing_proposals_data cfg h ps = keccak_256 h (final_preimage cfg h ps)"
  by (simp add: construct_ecdsa_signing_proposals_data_def Let_def fold_fold_snoc encode_packed_eq
      pack_def final_preimage_def struct_preimage_def ascii_def)

section \<open>The message binds the batch\<close>

text \<open>
  The byte strings hashed while the message of a batch is built: the data of each proposal, the
  encoded proposals, the concatenation of their hashes, and the two outer preimages.
\<close>

definition hashed_inputs :: "('st, 'c) bridge_config_scheme \<Rightarrow> host \<Rightarrow> Proposal list \<Rightarrow> bytes set" where
  "hashed_inputs cfg h ps =
     proposal_data ` set ps \<union> (\<lambda>p. abi_encode h (proposal_tokens h p)) ` set ps \<union>
     {concat (proposal_hashes h ps), struct_preimage h ps, final_preimage cfg h ps}"

text \<open>What the types of the source say of a proposal: its resource identifier has 32 bytes.\<close>

definition proposal_wf :: "Proposal \<Rightarrow> bool" where
  "proposal_wf p \<longleftrightarrow> length (resource_id p) = 32"

lemma proposal_tokens_static:
  "keccak_digests h \<Longrightarrow> proposal_wf p \<Longrightarrow> list_all static_token (proposal_tokens h p)"
  by (simp add: proposal_tokens_def keccak_digests_def proposal_wf_def)

lemma unat_ucast_u8: "unat (ucast n :: u256) = unat n" for n :: u8
proof -
  have "unat n < 2 ^ 256" using unsigned_less [where 'a = nat, of n] by simp
  then show ?thesis by (simp add: unsigned_ucast_eq take_bit_nat_eq_self)
qed

lemma unat_ucast_u64: "unat (ucast n :: u256) = unat n" for n :: u64
proof -
  have "unat n < 2 ^ 256" using unsigned_less [where 'a = nat, of n] by simp
  then show ?thesis by (simp add: unsigned_ucast_eq take_bit_nat_eq_self)
qed

lemma proposal_encoding_inj:
  assumes laws: "keccak_digests h" "abi_static h" and wf: "proposal_wf p" "proposal_wf q"
    and eq: "abi_encode h (proposal_tokens h p) = abi_encode h (proposal_tokens h q)"
    and inj: "inj_on (keccak_256 h) {proposal_data p, proposal_data q}"
  shows "p = q"
proof -
  have "map static_word (proposal_tokens h p) = map static_word (proposal_tokens h q)"
    using laws wf eq by (intro abi_static_inj proposal_tokens_static) (auto simp: proposal_tokens_def)
  then have w: "be_bytes 32 (unat (ucast (origin_domain_id p) :: u256)) = be_bytes 32 (unat (ucast (origin_domain_id q) :: u256))"
    "be_bytes 32 (unat (ucast (deposit_nonce p) :: u256)) = be_bytes 32 (unat (ucast (deposit_nonce q) :: u256))"
    "resource_id p = resource_id q" "keccak_256 h (proposal_data p) = keccak_256 h (proposal_data q)"
    by (simp_all add: proposal_tokens_def)
  have "(ucast (origin_domain_id p) :: u256) = ucast (origin_domain_id q)" using w(1) by (rule be_bytes_32_inj)
  then have d: "origin_domain_id p = origin_domain_id q" by (metis unat_ucast_u8 word_unat_eq_iff)
  have "(ucast (deposit_nonce p) :: u256) = ucast (deposit_nonce q)" using w(2) by (rule be_bytes_32_inj)
  then have n: "deposit_nonce p = deposit_nonce q" by (metis unat_ucast_u64 word_unat_eq_iff)
  have "proposal_data p = proposal_data q" using w(4) inj by (auto dest: inj_onD)
  with d n w(3) show ?thesis by simp
qed

lemma concat_same_length_inj:
  assumes "\<And>x. x \<in> set xs \<union> set ys \<Longrightarrow> length x = n" and "0 < n" and "concat xs = concat ys"
  shows "xs = ys"
  using assms(1,3)
proof (induction xs arbitrary: ys)
  case Nil
  then show ?case using assms(2) by (cases ys) auto
next
  case (Cons x xs)
  then obtain y ys' where ys: "ys = y # ys'" using assms(2) by (cases ys) auto
  with Cons.prems have "length x = length y" by simp
  with Cons.prems ys have "x = y" and "concat xs = concat ys'" by simp_all
  with Cons.IH [of ys'] Cons.prems ys show ?case by simp
qed

lemma signing_data_binds:
  assumes laws: "keccak_digests h" "abi_static h"
    and wf: "list_all proposal_wf ps" "list_all proposal_wf qs" and ne: "ps \<noteq> []" "qs \<noteq> []"
    and inj: "inj_on (keccak_256 h) (hashed_inputs cfg h ps \<union> hashed_inputs cfg h qs)"
    and eq: "construct_ecdsa_signing_proposals_data cfg h ps = construct_ecdsa_signing_proposals_data cfg h qs"
  shows "ps = qs"
proof -
  have len: "length (keccak_256 h x) = 32" for x using laws(1) by (simp add: keccak_digests_def)
  have injD: "x = y" if "keccak_256 h x = keccak_256 h y"
    "x \<in> hashed_inputs cfg h ps" "y \<in> hashed_inputs cfg h qs" for x y
    using inj_onD [OF inj that(1)] that(2,3) by blast
  have "final_preimage cfg h ps = final_preimage cfg h qs"
    by (rule injD) (use eq ne in \<open>auto simp: signing_data_eq hashed_inputs_def\<close>)
  then have "keccak_256 h (struct_preimage h ps) = keccak_256 h (struct_preimage h qs)"
    by (simp add: final_preimage_def)
  then have "struct_preimage h ps = struct_preimage h qs"
    by (rule injD) (auto simp: hashed_inputs_def)
  then have "map static_word [TFixedBytes (keccak_256 h PROPOSALS_TYPE), TFixedBytes (keccak_256 h (concat (proposal_hashes h ps)))]
      = map static_word [TFixedBytes (keccak_256 h PROPOSALS_TYPE), TFixedBytes (keccak_256 h (concat (proposal_hashes h qs)))]"
    unfolding struct_preimage_def by (rule abi_static_inj [OF laws(2), rotated 3]) (simp_all add: len)
  then have "keccak_256 h (concat (proposal_hashes h ps)) = keccak_256 h (concat (proposal_hashes h qs))"
    by simp
  then have "concat (proposal_hashes h ps) = concat (proposal_hashes h qs)"
    by (rule injD) (auto simp: hashed_inputs_def)
  then have hashes: "proposal_hashes h ps = proposal_hashes h qs"
    by (rule concat_same_length_inj [where n = 32, rotated 2]) (auto simp: proposal_hashes_eq len)
  have "p = q" if "p \<in> set ps" "q \<in> set qs"
    "keccak_256 h (abi_encode h (proposal_tokens h p)) = keccak_256 h (abi_encode h (proposal_tokens h q))" for p q
  proof (rule proposal_encoding_inj [OF laws])
    show "abi_encode h (proposal_tokens h p) = abi_encode h (proposal_tokens h q)"
      by (rule injD) (use that in \<open>auto simp: hashed_inputs_def\<close>)
    show "inj_on (keccak_256 h) {proposal_data p, proposal_data q}"
      using inj by (rule inj_on_subset) (use that in \<open>auto simp: hashed_inputs_def\<close>)
  qed (use wf that in \<open>auto simp: list_all_iff\<close>)
  then show ?thesis
    using hashes unfolding proposal_hashes_eq
    by (intro list.inj_map_strong [of ps qs "\<lambda>p. keccak_256 h (abi_encode h (proposal_tokens h p))"
          "\<lambda>p. keccak_256 h (abi_encode h (proposal_tokens h p))"]) auto
qed

section \<open>Verification\<close>

lemma verify_by_mpc_address_iff:
  "verify_by_mpc_address h m sig s \<longleftrightarrow>
     length sig = 65 \<and> (\<exists>pk. secp256k1_ecdsa_recover h sig m = Some pk \<and> public_key_to_address h pk = mpc_addr s)"
  by (auto simp: verify_by_mpc_address_def split: option.splits)

lemma verify_cong: "MpcAddr s = MpcAddr t \<Longrightarrow> verify_by_mpc_address h m sig s = verify_by_mpc_address h m sig t"
  by (simp add: verify_by_mpc_address_iff mpc_addr_def)

end
