(* ===== verification/Bridge_Transfer.thy ===== *)
theory Bridge_Transfer
  imports Bridge_Admin Bridge_Signing
begin

text \<open>
  The two transfer extrinsics of the bridge pallet: \<open>deposit\<close>, which takes assets in and announces them
  to the relayers, and \<open>execute_proposal\<close>, which pays assets out on a batch the relayers signed
  (\<^verbatim>\<open>bridge/src/lib.rs\<close>, lines 432 to 532, 568 to 629, 687 to 701 and 888 to 936).

  The storage after each call of the asset transactor is passed on, also where the call fails: only
  \<open>transactional\<close> undoes writes, and \<open>execute_proposal_internal\<close> is not transactional by itself.
\<close>

section \<open>Deposits\<close>

definition deposit_body ::
    "(('l, 'z) bridge_storage_scheme, 'c) bridge_config_scheme \<Rightarrow> RuntimeOrigin \<Rightarrow> MultiAsset
     \<Rightarrow> MultiLocation \<Rightarrow> ('l, 'z) bridge_storage_scheme call" where
  "deposit_body cfg origin asset dest =
     try_result (ensure_signed origin) (\<lambda>sender.
     reads mpc_addr (\<lambda>addr.
     ensure (\<not> is_clear addr) (bridge_error MissingMpcAddress) (
     unwind (ExtractDestData cfg dest) (\<lambda>extracted.
     ok_or extracted (bridge_error ExtractDestDataFailed) (\<lambda>(recipient, dest_domain_id).
     reads is_paused (\<lambda>paused.
     ensure (\<not> paused dest_domain_id) (bridge_error BridgePaused) (
     reads dest_domain_ids (\<lambda>supported.
     ensure (supported dest_domain_id) (bridge_error DestDomainNotSupported) (
     ok_or (extract_asset cfg asset) (bridge_error AssetNotBound) (\<lambda>(resource_id, amount, transfer_type).
     reads (\<lambda>s. FeeHandler cfg s dest_domain_id asset) (\<lambda>get_fee.
     ok_or get_fee (bridge_error MissingFeeConfig) (\<lambda>fee.
     ensure (amount > fee) (bridge_error FeeTooExpensive) (
     invoke_or (bridge_error TransactFailed)
       (withdraw_asset cfg asset (account_location sender)) (\<lambda>_.
     invoke_or (bridge_error TransactFailed)
       (deposit_asset cfg (fungible_asset (asset_id asset) fee) (account_location (FeeReserveAccount cfg))) (\<lambda>_.
     let bridge_amount = amount - fee in
     ok_or (get_token_reserved_account cfg (asset_id asset)) (bridge_error NoLiquidityHolderAccountBound)
       (\<lambda>token_reserved_account.
     invoke_or (bridge_error TransactFailed)
       (\<lambda>s. if IsReserve cfg asset here
            then deposit_asset cfg (fungible_asset (asset_id asset) bridge_amount)
                   (account_location token_reserved_account) s
            else (Inr (), s)) (\<lambda>_.
     reads (\<lambda>s. deposit_counts s dest_domain_id) (\<lambda>deposit_nonce.
     ok_or (checked_add deposit_nonce 1) (bridge_error DepositNonceOverflow) (\<lambda>next_nonce.
     writes (\<lambda>s. s\<lparr>DepositCounts := (DepositCounts s)(dest_domain_id \<mapsto> next_nonce)\<rparr>) (
     ok_or (convert_to cfg (fungible_asset (asset_id asset) bridge_amount)) (bridge_error DecimalConversionFail)
       (\<lambda>decimal_converted_amount.
     writes (deposit_event (Deposit dest_domain_id resource_id deposit_nonce sender transfer_type
               (create_deposit_data decimal_converted_amount recipient) [])) (
     writes (deposit_event (FeeCollected sender dest_domain_id resource_id fee (asset_id asset))) (
     done_with ())))))))))))))))))))))))"

definition deposit ::
    "(('l, 'z) bridge_storage_scheme, 'c) bridge_config_scheme \<Rightarrow> RuntimeOrigin \<Rightarrow> MultiAsset
     \<Rightarrow> MultiLocation \<Rightarrow> ('l, 'z) bridge_storage_scheme call" where
  "deposit cfg origin asset dest = transactional (deposit_body cfg origin asset dest)"

text \<open>The trait \<^verbatim>\<open>Bridge\<close>: a transfer is a deposit signed by the sender; the weight is not used.\<close>

definition bridge_transfer ::
    "(('l, 'z) bridge_storage_scheme, 'c) bridge_config_scheme \<Rightarrow> bytes \<Rightarrow> MultiAsset
     \<Rightarrow> MultiLocation \<Rightarrow> Weight option \<Rightarrow> ('l, 'z) bridge_storage_scheme call" where
  "bridge_transfer cfg sender asset dest max_weight = deposit cfg (Signed sender) asset dest"

section \<open>Proposals\<close>

definition execute_proposal_internal ::
    "(('l, 'z) bridge_storage_scheme, 'c) bridge_config_scheme \<Rightarrow> host \<Rightarrow> Proposal
     \<Rightarrow> ('l, 'z) bridge_storage_scheme call" where
  "execute_proposal_internal cfg h proposal =
     reads is_paused (\<lambda>paused.
     ensure (\<not> paused (origin_domain_id proposal)) (bridge_error BridgePaused) (
     reads dest_domain_ids (\<lambda>supported.
     ensure (supported (origin_domain_id proposal)) (bridge_error DestDomainNotSupported) (
     reads (is_proposal_executed (deposit_nonce proposal) (origin_domain_id proposal)) (\<lambda>executed.
     ensure (\<not> executed) (bridge_error ProposalAlreadyComplete) (
     ok_or (rid_to_assetid cfg (resource_id proposal)) (bridge_error AssetNotBound) (\<lambda>asset_id.
     try_result (extract_deposit_data h (proposal_data proposal)) (\<lambda>(amount, location).
     ok_or (convert_from cfg (fungible_asset asset_id amount)) (bridge_error DecimalConversionFail)
       (\<lambda>decimal_converted_asset.
     ok_or (get_token_reserved_account cfg asset_id) (bridge_error NoLiquidityHolderAccountBound)
       (\<lambda>token_reserved_account.
     invoke_or (bridge_error TransactFailed)
       (\<lambda>s. if IsReserve cfg decimal_converted_asset here
            then withdraw_asset cfg decimal_converted_asset (account_location token_reserved_account) s
            else (Inr [], s)) (\<lambda>_.
     invoke_or (bridge_error TransactFailed)
       (deposit_asset cfg decimal_converted_asset location) (\<lambda>_.
     done_with ()))))))))))))"

text \<open>One pass of the loop over the batch.\<close>

definition execute_one ::
    "(('l, 'z) bridge_storage_scheme, 'c) bridge_config_scheme \<Rightarrow> host \<Rightarrow> Proposal
     \<Rightarrow> ('l, 'z) bridge_storage_scheme \<Rightarrow> ('l, 'z) bridge_storage_scheme" where
  "execute_one cfg h proposal s =
     (case execute_proposal_internal cfg h proposal s of
        (Inl e, s') \<Rightarrow>
          deposit_event (FailedHandlerExecution (ascii (error_text e))
            (origin_domain_id proposal) (deposit_nonce proposal)) s'
      | (Inr _, s') \<Rightarrow>
          deposit_event (ProposalExecution (origin_domain_id proposal) (deposit_nonce proposal)
            (keccak_256 h (concat [proposal_data proposal, PalletAccount cfg])))
            (set_proposal_executed (deposit_nonce proposal) (origin_domain_id proposal) s'))"

definition execute_proposal ::
    "(('l, 'z) bridge_storage_scheme, 'c) bridge_config_scheme \<Rightarrow> host \<Rightarrow> RuntimeOrigin
     \<Rightarrow> Proposal list \<Rightarrow> bytes \<Rightarrow> ('l, 'z) bridge_storage_scheme call" where
  "execute_proposal cfg h origin proposals signature = transactional (\<lambda>s.
     if is_clear (mpc_addr s) then (Inl (bridge_error MissingMpcAddress), s)
     else if proposals = [] then (Inl (bridge_error EmptyProposalList), s)
     else let final_message = construct_ecdsa_signing_proposals_data cfg h proposals in
       if \<not> verify_by_mpc_address h final_message signature s
       then (Inl (bridge_error BadMpcSignature), s)
       else (Inr (), fold (execute_one cfg h) proposals s))"

section \<open>What a call that succeeds has done\<close>

text \<open>
  The facts behind a successful deposit: the checks that held, the transfers that were made, and the
  storage left behind.
\<close>

definition deposit_facts ::
    "(('l, 'z) bridge_storage_scheme, 'c) bridge_config_scheme \<Rightarrow> AccountId \<Rightarrow> MultiAsset \<Rightarrow> MultiLocation
     \<Rightarrow> DomainID \<Rightarrow> bytes \<Rightarrow> ResourceId \<Rightarrow> u128 \<Rightarrow> u128 \<Rightarrow> AccountId \<Rightarrow> u128
     \<Rightarrow> ('l, 'z) bridge_storage_scheme \<Rightarrow> ('l, 'z) bridge_storage_scheme \<Rightarrow> bool" where
  "deposit_facts cfg sender asset dest d recipient rid amount fee acct dca s t \<longleftrightarrow>
     \<not> is_clear (mpc_addr s) \<and> ExtractDestData cfg dest = Returns (Some (recipient, d)) \<and>
     \<not> is_paused s d \<and> dest_domain_ids s d \<and>
     extract_asset cfg asset = Some (rid, amount, FungibleTransfer) \<and>
     FeeHandler cfg s d asset = Some fee \<and> fee < amount \<and>
     get_token_reserved_account cfg (asset_id asset) = Some acct \<and>
     convert_to cfg (fungible_asset (asset_id asset) (amount - fee)) = Some dca \<and>
     (\<exists>held s1 s2.
        withdraw_asset cfg asset (account_location sender) s = (Inr held, s1) \<and>
        deposit_asset cfg (fungible_asset (asset_id asset) fee)
          (account_location (FeeReserveAccount cfg)) s1 = (Inr (), s2) \<and>
        (if IsReserve cfg asset here
         then deposit_asset cfg (fungible_asset (asset_id asset) (amount - fee)) (account_location acct) s2
                = (Inr (), t)
         else t = s2))"

lemma extract_asset_type: "extract_asset cfg asset = Some (rid, n, t) \<Longrightarrow> t = FungibleTransfer"
  by (auto simp: extract_asset_def split: Fungibility.splits)

lemma deposit_okE:
  assumes "deposit cfg origin asset dest s = (Inr u, s')"
  obtains sender d recipient rid amount fee acct dca t where
    "origin = Signed sender"
    and "deposit_facts cfg sender asset dest d recipient rid amount fee acct dca s t"
    and "unat (deposit_counts t d) + 1 < 2 ^ 64"
    and "s' = t\<lparr>DepositCounts := (DepositCounts t)(d \<mapsto> deposit_counts t d + 1),
                bridge_events := bridge_events t @
                  [Deposit d rid (deposit_counts t d) sender FungibleTransfer (create_deposit_data dca recipient) [],
                   FeeCollected sender d rid fee (asset_id asset)]\<rparr>"
proof -
  from assms show ?thesis
    unfolding deposit_def transactional_Inr_iff deposit_body_def Let_def
    apply (clarsimp simp: exec_ok checked_add_Some_iff deposit_event_def)
    apply (frule extract_asset_type)
    apply (rule that)
    apply (auto simp: deposit_facts_def)
    done
qed

lemma deposit_okI:
  assumes "deposit_facts cfg sender asset dest d recipient rid amount fee acct dca s t"
    and "unat (deposit_counts t d) + 1 < 2 ^ 64"
  shows "deposit cfg (Signed sender) asset dest s =
    (Inr (), t\<lparr>DepositCounts := (DepositCounts t)(d \<mapsto> deposit_counts t d + 1),
                bridge_events := bridge_events t @
                  [Deposit d rid (deposit_counts t d) sender FungibleTransfer (create_deposit_data dca recipient) [],
                   FeeCollected sender d rid fee (asset_id asset)]\<rparr>)"
proof -
  have "checked_add (deposit_counts t d) 1 = Some (deposit_counts t d + 1)"
    using assms(2) by (simp add: checked_add_Some_iff)
  moreover obtain s1 s2 held where
    "withdraw_asset cfg asset (account_location sender) s = (Inr held, s1)"
    "deposit_asset cfg (fungible_asset (asset_id asset) fee) (account_location (FeeReserveAccount cfg)) s1 = (Inr (), s2)"
    "if IsReserve cfg asset here
     then deposit_asset cfg (fungible_asset (asset_id asset) (amount - fee)) (account_location acct) s2 = (Inr (), t)
     else t = s2"
    using assms(1) unfolding deposit_facts_def by blast
  ultimately show ?thesis
    using assms(1) unfolding deposit_def transactional_Inr_iff deposit_body_def Let_def deposit_facts_def
    by (simp add: exec_eval deposit_event_def ensure_signed_def split: if_splits)
qed

end
