(* ===== verification/Bridge_Runtime.thy ===== *)
theory Bridge_Runtime
  imports Bridge_Transfer
begin

text \<open>
  A chain that runs the pallets, as a state machine: every extrinsic of the access segregator, the fee
  handlers, the router and the bridge is a call that \<open>dispatch\<close> executes for an origin, and the rest of
  the chain may change its own state (the ledger) between calls. The locale \<open>bridge_contract\<close> states what
  the bridge relies on of the asset transactor its runtime plugs in; the invariants of the bridge's
  records are proved against it, for all reachable states.
\<close>

section \<open>Calls and reachable states\<close>

datatype RuntimeCall =
    GrantAccess u8 bytes AccountId
  | SetFee DomainID AssetId u128
  | SetFeeRate DomainID AssetId u32 u128 u128
  | SetFeeHandler DomainID AssetId FeeHandlerType
  | PauseBridge DomainID
  | UnpauseBridge DomainID
  | SetMpcAddress MpcAddress
  | RegisterDomain DomainID ChainID
  | UnregisterDomain DomainID ChainID
  | DepositCall MultiAsset MultiLocation
  | RetryCall u128 DomainID
  | ExecuteProposal "Proposal list" bytes
  | PauseAllBridges
  | UnpauseAllBridges

fun dispatch ::
    "(('l, 'z) bridge_storage_scheme, 'c) bridge_config_scheme \<Rightarrow> host \<Rightarrow> RuntimeOrigin \<Rightarrow> RuntimeCall
     \<Rightarrow> ('l, 'z) bridge_storage_scheme call" where
  "dispatch cfg h origin (GrantAccess i n who) = grant_access cfg origin i n who"
| "dispatch cfg h origin (SetFee d a n) = set_fee cfg origin d a n"
| "dispatch cfg h origin (SetFeeRate d a r lo hi) = set_fee_rate cfg origin d a r lo hi"
| "dispatch cfg h origin (SetFeeHandler d a t) = set_fee_handler cfg origin d a t"
| "dispatch cfg h origin (PauseBridge d) = pause_bridge cfg origin d"
| "dispatch cfg h origin (UnpauseBridge d) = unpause_bridge cfg origin d"
| "dispatch cfg h origin (SetMpcAddress a) = set_mpc_address cfg origin a"
| "dispatch cfg h origin (RegisterDomain d c) = register_domain cfg origin d c"
| "dispatch cfg h origin (UnregisterDomain d c) = unregister_domain cfg origin d c"
| "dispatch cfg h origin (DepositCall asset dest) = deposit cfg origin asset dest"
| "dispatch cfg h origin (RetryCall b d) = retry cfg origin b d"
| "dispatch cfg h origin (ExecuteProposal ps sig) = execute_proposal cfg h origin ps sig"
| "dispatch cfg h origin PauseAllBridges = pause_all_bridges cfg origin"
| "dispatch cfg h origin UnpauseAllBridges = unpause_all_bridges cfg origin"

text \<open>The storage before the pallets were used.\<close>

definition fresh_storage :: "('l, 'z) bridge_storage_scheme \<Rightarrow> bool" where
  "fresh_storage s \<longleftrightarrow> ExtrinsicAccess s = Map.empty \<and> AssetFees s = Map.empty \<and>
     AssetFeeRate s = Map.empty \<and> HandlerType s = Map.empty \<and> DepositCounts s = Map.empty \<and>
     IsPaused s = Map.empty \<and> MpcAddr s = None \<and> UsedNonces s = Map.empty \<and>
     DestDomainIds s = Map.empty \<and> DestChainIds s = Map.empty \<and> bridge_events s = []"

inductive reachable ::
    "(('l, 'z) bridge_storage_scheme, 'c) bridge_config_scheme \<Rightarrow> host \<Rightarrow> ('l, 'z) bridge_storage_scheme \<Rightarrow> bool"
  for cfg h where
  genesis: "fresh_storage s \<Longrightarrow> reachable cfg h s"
| call: "reachable cfg h s \<Longrightarrow> reachable cfg h (snd (dispatch cfg h origin c s))"
| environment: "reachable cfg h s \<Longrightarrow> reachable cfg h (s\<lparr>ledger := l\<rparr>)"

section \<open>What the event log says\<close>

text \<open>The outcome of a proposal: its domain and nonce, and whether it was executed.\<close>

fun outcome_of :: "bridge_event \<Rightarrow> ((DomainID \<times> DepositNonce) \<times> bool) list" where
  "outcome_of (ProposalExecution d n _) = [((d, n), True)]"
| "outcome_of (FailedHandlerExecution _ d n) = [((d, n), False)]"
| "outcome_of _ = []"

fun deposit_of :: "DomainID \<Rightarrow> bridge_event \<Rightarrow> DepositNonce list" where
  "deposit_of d (Deposit d' _ n _ _ _ _) = (if d' = d then [n] else [])"
| "deposit_of d _ = []"

definition outcomes :: "bridge_event list \<Rightarrow> ((DomainID \<times> DepositNonce) \<times> bool) list" where
  "outcomes es = concat (map outcome_of es)"

definition executions :: "bridge_event list \<Rightarrow> (DomainID \<times> DepositNonce) list" where
  "executions es = map fst (filter snd (outcomes es))"

definition deposit_nonces :: "DomainID \<Rightarrow> bridge_event list \<Rightarrow> DepositNonce list" where
  "deposit_nonces d es = concat (map (deposit_of d) es)"

lemma outcomes_simps [simp]:
  "outcomes [] = []" "outcomes (es @ fs) = outcomes es @ outcomes fs"
  "outcomes (e # es) = outcome_of e @ outcomes es"
  by (simp_all add: outcomes_def)

lemma executions_append [simp]: "executions (es @ fs) = executions es @ executions fs"
  by (simp add: executions_def)

lemma executions_cong: "outcomes es = outcomes fs \<Longrightarrow> executions es = executions fs"
  by (simp add: executions_def)

lemma deposit_nonces_simps [simp]:
  "deposit_nonces d [] = []" "deposit_nonces d (es @ fs) = deposit_nonces d es @ deposit_nonces d fs"
  "deposit_nonces d (e # es) = deposit_of d e @ deposit_nonces d es"
  by (simp_all add: deposit_nonces_def)

text \<open>
  Each proposal has at most one execution event, and the nonce mask holds exactly the executed ones;
  the deposits to a domain carry the nonces 0, 1, 2, and so on, up to the counter.
\<close>

definition execution_log_ok :: "('l, 'z) bridge_storage_scheme \<Rightarrow> bool" where
  "execution_log_ok s \<longleftrightarrow>
     distinct (executions (bridge_events s)) \<and> set (executions (bridge_events s)) = executed_set s"

definition deposit_log_ok :: "('l, 'z) bridge_storage_scheme \<Rightarrow> bool" where
  "deposit_log_ok s \<longleftrightarrow>
     (\<forall>d. map unat (deposit_nonces d (bridge_events s)) = [0..<unat (deposit_counts s d)])"

section \<open>The contract of the asset transactor\<close>

text \<open>A change of the ledger only.\<close>

definition only_ledger :: "('l, 'z) bridge_storage_scheme \<Rightarrow> ('l, 'z) bridge_storage_scheme \<Rightarrow> bool" where
  "only_ledger s t \<longleftrightarrow> (\<exists>l. t = s\<lparr>ledger := l\<rparr>)"

text \<open>What a transfer may never touch, even one that leaves the chain and re-enters the pallets.\<close>

definition keeps_control :: "('l, 'z) bridge_storage_scheme \<Rightarrow> ('l, 'z) bridge_storage_scheme \<Rightarrow> bool" where
  "keeps_control s t \<longleftrightarrow>
     ExtrinsicAccess t = ExtrinsicAccess s \<and> fee_tables t = fee_tables s \<and> IsPaused t = IsPaused s \<and>
     MpcAddr t = MpcAddr s \<and> UsedNonces t = UsedNonces s \<and> DestDomainIds t = DestDomainIds s \<and>
     DestChainIds t = DestChainIds s \<and> outcomes (bridge_events t) = outcomes (bridge_events s) \<and>
     bridge_storage_version t = bridge_storage_version s"

lemma only_ledger_refl [simp]: "only_ledger s s"
  by (auto simp: only_ledger_def intro: exI [of _ "ledger s"])

lemma only_ledger_trans: "only_ledger s t \<Longrightarrow> only_ledger t u \<Longrightarrow> only_ledger s u"
  by (auto simp: only_ledger_def)

lemma only_ledger_fields:
  assumes "only_ledger s t"
  shows "ExtrinsicAccess t = ExtrinsicAccess s" "fee_tables t = fee_tables s" "IsPaused t = IsPaused s"
    "MpcAddr t = MpcAddr s" "UsedNonces t = UsedNonces s" "DestDomainIds t = DestDomainIds s"
    "DestChainIds t = DestChainIds s" "DepositCounts t = DepositCounts s" "bridge_events t = bridge_events s"
    "deposit_counts t d = deposit_counts s d" "HandlerType t = HandlerType s" "AssetFees t = AssetFees s"
    "AssetFeeRate t = AssetFeeRate s" "bridge_storage_version t = bridge_storage_version s"
  using assms by (auto simp: only_ledger_def fee_tables_def deposit_counts_def)

lemma only_ledger_control: "only_ledger s t \<Longrightarrow> keeps_control s t"
  by (simp add: keeps_control_def only_ledger_fields)

lemma only_ledger_deposit_log: "only_ledger s t \<Longrightarrow> deposit_log_ok t = deposit_log_ok s"
  by (simp add: deposit_log_ok_def only_ledger_fields)

lemma keeps_control_refl [simp]: "keeps_control s s"
  by (simp add: keeps_control_def)

lemma keeps_control_trans: "keeps_control s t \<Longrightarrow> keeps_control t u \<Longrightarrow> keeps_control s u"
  by (auto simp: keeps_control_def)

lemma keeps_control_log: "keeps_control s t \<Longrightarrow> execution_log_ok t = execution_log_ok s"
  using executed_set_cong [of t s] executions_cong [of "bridge_events t" "bridge_events s"]
  by (simp add: keeps_control_def execution_log_ok_def)

lemma keeps_control_domains: "keeps_control s t \<Longrightarrow> domains_consistent t = domains_consistent s"
  using domains_consistent_cong [of t s] by (simp add: keeps_control_def)

locale bridge_contract =
  fixes cfg :: "(('l, 'z) bridge_storage_scheme, 'c) bridge_config_scheme"
  assumes local_withdraw: "only_ledger s (snd (withdraw_asset cfg asset (account_location who) s))"
    and local_deposit: "only_ledger s (snd (deposit_asset cfg asset (account_location who) s))"
    and deposit_control: "keeps_control s (snd (deposit_asset cfg asset where_to s))"
    and deposit_log: "deposit_log_ok s \<Longrightarrow> deposit_log_ok (snd (deposit_asset cfg asset where_to s))"
begin

text \<open>The transfers inside a deposit touch the ledger only.\<close>

lemma deposit_facts_ledger:
  assumes "deposit_facts cfg sender asset dest d recipient rid amount fee acct dca s t"
  shows "only_ledger s t"
proof -
  obtain held s1 s2 where w: "withdraw_asset cfg asset (account_location sender) s = (Inr held, s1)"
    and f: "deposit_asset cfg (fungible_asset (asset_id asset) fee)
      (account_location (FeeReserveAccount cfg)) s1 = (Inr (), s2)"
    and r: "if IsReserve cfg asset here
      then deposit_asset cfg (fungible_asset (asset_id asset) (amount - fee)) (account_location acct) s2 = (Inr (), t)
      else t = s2"
    using assms unfolding deposit_facts_def by blast
  have "only_ledger s s1" using local_withdraw [of s asset sender] w by simp
  moreover have "only_ledger s1 s2" using local_deposit [of s1] f by (metis snd_conv)
  moreover have "only_ledger s2 t" using local_deposit [of s2] r by (metis only_ledger_refl snd_conv)
  ultimately show ?thesis by (blast intro: only_ledger_trans)
qed

lemma deposit_keeps_control: "keeps_control s (snd (deposit cfg origin asset dest s))"
proof (cases "fst (deposit cfg origin asset dest s)")
  case (Inl e)
  then have "snd (deposit cfg origin asset dest s) = s"
    unfolding deposit_def by (metis prod.collapse transactional_Inl)
  then show ?thesis by simp
next
  case (Inr u)
  then have "deposit cfg origin asset dest s = (Inr u, snd (deposit cfg origin asset dest s))"
    by (metis prod.collapse)
  then show ?thesis
    by (rule deposit_okE) (drule deposit_facts_ledger, simp add: keeps_control_def only_ledger_fields fee_tables_def)
qed

lemma deposit_keeps_log: "deposit_log_ok s \<Longrightarrow> deposit_log_ok (snd (deposit cfg origin asset dest s))"
proof (cases "fst (deposit cfg origin asset dest s)")
  case (Inl e)
  then have "snd (deposit cfg origin asset dest s) = s"
    unfolding deposit_def by (metis prod.collapse transactional_Inl)
  then show "deposit_log_ok s \<Longrightarrow> ?thesis" by simp
next
  case (Inr u)
  assume log: "deposit_log_ok s"
  from Inr have "deposit cfg origin asset dest s = (Inr u, snd (deposit cfg origin asset dest s))"
    by (metis prod.collapse)
  then obtain sender d recipient rid amount fee acct dca t where
    facts: "deposit_facts cfg sender asset dest d recipient rid amount fee acct dca s t"
    and room: "unat (deposit_counts t d) + 1 < 2 ^ 64"
    and post: "snd (deposit cfg origin asset dest s) = t\<lparr>DepositCounts := (DepositCounts t)(d \<mapsto> deposit_counts t d + 1),
                bridge_events := bridge_events t @
                  [Deposit d rid (deposit_counts t d) sender FungibleTransfer (create_deposit_data dca recipient) [],
                   FeeCollected sender d rid fee (asset_id asset)]\<rparr>" (is "?post = _")
    by (rule deposit_okE)
  have lt: "deposit_log_ok t"
    using log only_ledger_deposit_log [OF deposit_facts_ledger [OF facts]] by simp
  have next_nonce: "unat (deposit_counts t d + 1) = Suc (unat (deposit_counts t d))"
    using room by (simp add: unat_word_ariths)
  have counts: "deposit_counts ?post e = (if e = d then deposit_counts t d + 1 else deposit_counts t e)" for e
    by (simp add: post deposit_counts_def)
  have nonces: "deposit_nonces e (bridge_events ?post) =
      deposit_nonces e (bridge_events t) @ (if e = d then [deposit_counts t d] else [])" for e
    by (simp add: post)
  show ?thesis
    using lt by (auto simp: deposit_log_ok_def counts nonces next_nonce)
qed

text \<open>One proposal of a batch.\<close>

lemma payout_keeps_control:
  "keeps_control s (snd (invoke_or e
     (\<lambda>s. if b then withdraw_asset cfg asset (account_location who) s else (Inr [], s))
     (\<lambda>_. invoke_or e' (deposit_asset cfg asset location) (\<lambda>_. done_with u)) s))"
proof -
  let ?w = "if b then withdraw_asset cfg asset (account_location who) s else (Inr [], s)"
  have w: "keeps_control s (snd ?w)"
    using only_ledger_control [OF local_withdraw] by simp
  have "keeps_control t (snd (invoke_or e' (deposit_asset cfg asset location) (\<lambda>_. done_with u) t))" for t
    using deposit_control [of t asset location]
    by (simp add: invoke_or_def done_with_def split_beta split: sum.split)
  with w show ?thesis
    unfolding invoke_or_def [of e] by (auto simp: split_beta split: sum.split intro: keeps_control_trans)
qed

lemma internal_keeps_control: "keeps_control s (snd (execute_proposal_internal cfg h p s))"
  unfolding execute_proposal_internal_def
  by (simp add: ensure_def reads_def ok_or_def try_result_def payout_keeps_control [where u = "()", simplified]
      split: option.split sum.split prod.split)

lemma internal_keeps_log: "deposit_log_ok s \<Longrightarrow> deposit_log_ok (snd (execute_proposal_internal cfg h p s))"
proof -
  assume log: "deposit_log_ok s"
  have w: "deposit_log_ok (snd (withdraw_asset cfg a (account_location x) s))" for a x
    using log only_ledger_deposit_log [OF local_withdraw [of s a x]] by simp
  have d: "deposit_log_ok t \<Longrightarrow>
      deposit_log_ok (snd (invoke_or e' (deposit_asset cfg a l) done_with t))" for t e' a l
    using deposit_log [of t a l] by (simp add: invoke_or_def done_with_def split_beta split: sum.split)
  have "deposit_log_ok (snd (invoke_or e
     (\<lambda>s. if b then withdraw_asset cfg a (account_location x) s else (Inr [], s))
     (\<lambda>_. invoke_or e' (deposit_asset cfg a l) done_with) s))" for e e' b a x l
    using log w [of a x] d unfolding invoke_or_def [of e] by (simp add: split_beta split: sum.split)
  then show ?thesis
    using log unfolding execute_proposal_internal_def
    by (simp add: ensure_def reads_def ok_or_def try_result_def split: option.split sum.split prod.split)
qed

lemma execute_one_control:
  "MpcAddr (execute_one cfg h p s) = MpcAddr s" "IsPaused (execute_one cfg h p s) = IsPaused s"
  "DestDomainIds (execute_one cfg h p s) = DestDomainIds s"
  "DestChainIds (execute_one cfg h p s) = DestChainIds s"
  "ExtrinsicAccess (execute_one cfg h p s) = ExtrinsicAccess s"
  "fee_tables (execute_one cfg h p s) = fee_tables s"
  "bridge_storage_version (execute_one cfg h p s) = bridge_storage_version s"
  using internal_keeps_control [of s h p]
  by (auto simp: execute_one_def deposit_event_def keeps_control_def fee_tables_def
      set_proposal_executed_def Let_def split: prod.split sum.split)

lemma execute_one_log: "execution_log_ok s \<Longrightarrow> execution_log_ok (execute_one cfg h p s)"
proof -
  assume log: "execution_log_ok s"
  obtain r t where rt: "execute_proposal_internal cfg h p s = (r, t)" by (meson surj_pair)
  let ?d = "origin_domain_id p" and ?n = "deposit_nonce p"
  have keep: "keeps_control s t" using internal_keeps_control [of s h p] rt by simp
  have lt: "execution_log_ok t" using log keeps_control_log [OF keep] by simp
  show ?thesis
  proof (cases r)
    case (Inl e)
    then show ?thesis
      using lt executed_set_cong [of "execute_one cfg h p s" t]
      by (simp add: execute_one_def rt execution_log_ok_def deposit_event_def executions_def)
  next
    case (Inr u)
    then have "\<not> is_proposal_executed ?n ?d s"
      using rt by (auto simp: execute_proposal_internal_def exec_ok)
    then have new: "(?d, ?n) \<notin> executed_set t"
      using keep by (simp add: keeps_control_def is_proposal_executed_def used_nonces_def)
    have exec: "executed_set (execute_one cfg h p s) = insert (?d, ?n) (executed_set t)"
      using nonce_mask.executed_mark [of "(?d, ?n)" t]
        executed_set_cong [of "execute_one cfg h p s" "set_proposal_executed ?n ?d t"]
      by (simp add: execute_one_def rt Inr deposit_event_def)
    have "executions (bridge_events (execute_one cfg h p s)) = executions (bridge_events t) @ [(?d, ?n)]"
      by (simp add: execute_one_def rt Inr deposit_event_def executions_def)
    then show ?thesis using lt new exec by (auto simp: execution_log_ok_def)
  qed
qed

lemma execute_one_deposit_log: "deposit_log_ok s \<Longrightarrow> deposit_log_ok (execute_one cfg h p s)"
  using internal_keeps_log [of s h p]
  by (auto simp: execute_one_def deposit_event_def deposit_log_ok_def deposit_counts_def split: prod.split sum.split)

text \<open>The outcome of a proposal is logged, whether it is paid out or not.\<close>

lemma execute_one_outcomes:
  "outcomes (bridge_events (execute_one cfg h p s)) = outcomes (bridge_events s) @
     [((origin_domain_id p, deposit_nonce p), fst (execute_proposal_internal cfg h p s) = Inr ())]"
  using internal_keeps_control [of s h p]
  by (auto simp: execute_one_def deposit_event_def keeps_control_def split: prod.split sum.split)

lemma fold_execute_outcomes:
  "map fst (outcomes (bridge_events (fold (execute_one cfg h) ps s))) =
   map fst (outcomes (bridge_events s)) @ map (\<lambda>p. (origin_domain_id p, deposit_nonce p)) ps"
  by (induction ps arbitrary: s) (simp_all add: execute_one_outcomes)

text \<open>A batch.\<close>

lemma fold_execute_one:
  "MpcAddr (fold (execute_one cfg h) ps s) = MpcAddr s"
  "IsPaused (fold (execute_one cfg h) ps s) = IsPaused s"
  "DestDomainIds (fold (execute_one cfg h) ps s) = DestDomainIds s"
  "DestChainIds (fold (execute_one cfg h) ps s) = DestChainIds s"
  "ExtrinsicAccess (fold (execute_one cfg h) ps s) = ExtrinsicAccess s"
  "fee_tables (fold (execute_one cfg h) ps s) = fee_tables s"
  "bridge_storage_version (fold (execute_one cfg h) ps s) = bridge_storage_version s"
  "execution_log_ok s \<Longrightarrow> execution_log_ok (fold (execute_one cfg h) ps s)"
  "deposit_log_ok s \<Longrightarrow> deposit_log_ok (fold (execute_one cfg h) ps s)"
  by (induction ps arbitrary: s) (auto simp: execute_one_control execute_one_log execute_one_deposit_log)

end

section \<open>Executing a batch\<close>

lemma execute_proposal_state:
  "snd (execute_proposal cfg h origin ps sig s) =
   (if fst (execute_proposal cfg h origin ps sig s) = Inr () then fold (execute_one cfg h) ps s else s)"
  by (auto simp: execute_proposal_def transactional_def Let_def)

lemma execute_proposal_ok_iff:
  "fst (execute_proposal cfg h origin ps sig s) = Inr () \<longleftrightarrow>
     \<not> is_clear (mpc_addr s) \<and> ps \<noteq> [] \<and>
     verify_by_mpc_address h (construct_ecdsa_signing_proposals_data cfg h ps) sig s"
  by (auto simp: execute_proposal_def Let_def)

section \<open>What the other calls leave alone\<close>

fun is_transfer :: "RuntimeCall \<Rightarrow> bool" where
  "is_transfer (DepositCall _ _) = True"
| "is_transfer (ExecuteProposal _ _) = True"
| "is_transfer _ = False"

definition keeps_records :: "('l, 'z) bridge_storage_scheme \<Rightarrow> ('l, 'z) bridge_storage_scheme \<Rightarrow> bool" where
  "keeps_records s t \<longleftrightarrow> UsedNonces t = UsedNonces s \<and> DepositCounts t = DepositCounts s \<and>
     outcomes (bridge_events t) = outcomes (bridge_events s) \<and>
     (\<forall>d. deposit_nonces d (bridge_events t) = deposit_nonces d (bridge_events s))"

lemma keeps_records_logs:
  assumes "keeps_records s t"
  shows "execution_log_ok t = execution_log_ok s" "deposit_log_ok t = deposit_log_ok s"
  using assms executed_set_cong [of t s] executions_cong [of "bridge_events t" "bridge_events s"]
  by (simp_all add: keeps_records_def execution_log_ok_def deposit_log_ok_def deposit_counts_def)

lemmas settings_defs = grant_access_def set_fee_def set_fee_rate_def set_fee_handler_def admin_defs
  transactional_def deposit_event_def unpause_all_domains_eq pause_all_domains_eq

lemma settings_keep_records:
  "\<not> is_transfer c \<Longrightarrow> keeps_records s (snd (dispatch cfg h origin c s))"
  by (cases c) (auto simp: keeps_records_def settings_defs split: option.split)

text \<open>The MPC address, once set, is never replaced by a call.\<close>

lemma settings_keep_mpc:
  "\<not> is_transfer c \<Longrightarrow> \<not> is_clear (mpc_addr s) \<Longrightarrow> MpcAddr (snd (dispatch cfg h origin c s)) = MpcAddr s"
  by (cases c) (auto simp: settings_defs split: option.split)

lemma settings_keep_version:
  "\<not> is_transfer c \<Longrightarrow> bridge_storage_version (snd (dispatch cfg h origin c s)) = bridge_storage_version s"
  by (cases c) (auto simp: settings_defs split: option.split)

lemma settings_keep_domains:
  "\<not> is_transfer c \<Longrightarrow> domains_consistent s \<Longrightarrow> domains_consistent (snd (dispatch cfg h origin c s))"
  by (cases c) (auto simp: settings_defs domains_consistent_def split: option.split)

lemma settings_keep_rates:
  "\<not> is_transfer c \<Longrightarrow> rates_valid s \<Longrightarrow> rates_valid (snd (dispatch cfg h origin c s))"
  by (cases c) (auto simp: settings_defs set_fee_rate_valid [unfolded set_fee_rate_def] rates_valid_def
      split: option.split)

section \<open>Invariants of all reachable states\<close>

definition bridge_invariant :: "('l, 'z) bridge_storage_scheme \<Rightarrow> bool" where
  "bridge_invariant s \<longleftrightarrow>
     execution_log_ok s \<and> deposit_log_ok s \<and> domains_consistent s \<and> rates_valid s"

lemma bridge_invariant_fresh: "fresh_storage s \<Longrightarrow> bridge_invariant s"
  by (auto simp: bridge_invariant_def fresh_storage_def execution_log_ok_def deposit_log_ok_def executions_def
      executed_set_empty deposit_counts_def value_query_def domains_consistent_def rates_valid_def)

lemma bridge_invariant_ledger: "bridge_invariant (s\<lparr>ledger := l\<rparr>) = bridge_invariant s"
  using executed_set_cong [of "s\<lparr>ledger := l\<rparr>" s]
  by (simp add: bridge_invariant_def execution_log_ok_def deposit_log_ok_def deposit_counts_def
      domains_consistent_def rates_valid_def)

context bridge_contract
begin

lemma dispatch_mpc:
  "\<not> is_clear (mpc_addr s) \<Longrightarrow> MpcAddr (snd (dispatch cfg h origin c s)) = MpcAddr s"
proof (cases "is_transfer c")
  case True
  then show ?thesis
    using deposit_keeps_control [unfolded keeps_control_def]
    by (cases c) (auto simp: execute_proposal_state fold_execute_one)
qed (rule settings_keep_mpc)

text \<open>No call changes the version of the storage.\<close>

lemma dispatch_version: "bridge_storage_version (snd (dispatch cfg h origin c s)) = bridge_storage_version s"
proof (cases "is_transfer c")
  case True
  then show ?thesis
    using deposit_keeps_control [unfolded keeps_control_def]
    by (cases c) (auto simp: execute_proposal_state fold_execute_one)
qed (rule settings_keep_version)

lemma dispatch_invariant:
  assumes "bridge_invariant s" shows "bridge_invariant (snd (dispatch cfg h origin c s))"
proof (cases "is_transfer c")
  case False
  then show ?thesis
    using assms keeps_records_logs [OF settings_keep_records [OF False, of s cfg h origin]]
    by (simp add: bridge_invariant_def settings_keep_domains settings_keep_rates)
next
  case True
  have rates: "fee_tables t = fee_tables u \<Longrightarrow> rates_valid u \<Longrightarrow> rates_valid t"
    for t u :: "('l, 'z) bridge_storage_scheme"
    by (simp add: fee_tables_def rates_valid_def)
  have dep: "bridge_invariant (snd (deposit cfg origin asset dest s))" for asset dest
    using assms deposit_keeps_log [of s origin asset dest]
      keeps_control_log [OF deposit_keeps_control [of s origin asset dest]]
      keeps_control_domains [OF deposit_keeps_control [of s origin asset dest]]
      rates [of "snd (deposit cfg origin asset dest s)" s] deposit_keeps_control [of s origin asset dest]
    by (simp add: bridge_invariant_def keeps_control_def)
  have "bridge_invariant (fold (execute_one cfg h) ps s)" for ps
    using assms rates [of "fold (execute_one cfg h) ps s" s]
      domains_consistent_cong [of "fold (execute_one cfg h) ps s" s]
    by (simp add: bridge_invariant_def fold_execute_one)
  with dep True assms show ?thesis
    by (cases c) (auto simp: execute_proposal_state)
qed

lemma reachable_invariant: "reachable cfg h s \<Longrightarrow> bridge_invariant s"
  by (induction rule: reachable.induct)
    (auto simp: bridge_invariant_fresh dispatch_invariant bridge_invariant_ledger)

end

end
