(* ===== verification/Xcm_Bridge.thy ===== *)
theory Xcm_Bridge
  imports Bridge_Runtime
begin

text \<open>
  The pallet \<^verbatim>\<open>sygma_xcm_bridge\<close> (\<^verbatim>\<open>xcm-bridge/src/lib.rs\<close>): a transfer to another parachain as an XCM
  program, which the executor of the chain then runs.

  The executor, the weigher, the re-anchoring of an asset (\<^verbatim>\<open>MultiAsset::reanchored\<close>) and the encoding of
  a program belong to the \<^verbatim>\<open>xcm\<close> packages and are fields of the configuration. The executor acts on the
  state of the rest of the chain. A program is a list of instructions, with the instructions the
  pallet builds as constructors.
\<close>

section \<open>Programs\<close>

datatype WeightLimit = Unlimited | Limited Weight

datatype WildMultiAsset = All | AllCounted u32

datatype Instruction =
    WithdrawAsset "MultiAsset list"
  | TransferReserveAsset "MultiAsset list" MultiLocation "Instruction list"
  | InitiateReserveWithdraw WildMultiAsset MultiLocation "Instruction list"
  | DepositReserveAsset WildMultiAsset MultiLocation "Instruction list"
  | DepositAsset WildMultiAsset MultiLocation
  | BuyExecution MultiAsset WeightLimit

datatype Outcome = Complete Weight | Incomplete Weight XcmError | ErrorOutcome XcmError

record 'l xcm_bridge_config =
  Weigher :: "Instruction list \<Rightarrow> Weight option"
  XcmExecutor :: "MultiLocation \<Rightarrow> Instruction list \<Rightarrow> bytes \<Rightarrow> Weight \<Rightarrow> Weight \<Rightarrow> 'l \<Rightarrow> Outcome \<times> 'l"
  AssetReservedChecker :: "MultiAsset \<Rightarrow> bool"
  UniversalLocation :: "Junction list"
  SelfLocation :: MultiLocation
  MinXcmFee :: "(AssetId \<times> u128) list"
  reanchored :: "MultiAsset \<Rightarrow> MultiLocation \<Rightarrow> Junction list \<Rightarrow> MultiAsset option"
  encode_xcm :: "Instruction list \<Rightarrow> bytes"

datatype TransferKind = SelfReserveAsset | ToReserve | ToNonReserve

datatype xcm_bridge_event = XCMTransferSend MultiAsset MultiLocation MultiLocation

datatype xcm_bridge_error =
    FailToWeightMessage | XcmExecutionFailed | InvalidDestination | UnknownTransferType
  | CannotReanchor | NoXcmMinFeeSet | AssetReservedLocationNotFound

definition xcm_bridge_error :: "xcm_bridge_error \<Rightarrow> DispatchError" where
  "xcm_bridge_error e = Module XcmBridgePallet (case e of
     FailToWeightMessage \<Rightarrow> ''FailToWeightMessage'' | XcmExecutionFailed \<Rightarrow> ''XcmExecutionFailed''
   | InvalidDestination \<Rightarrow> ''InvalidDestination'' | UnknownTransferType \<Rightarrow> ''UnknownTransferType''
   | CannotReanchor \<Rightarrow> ''CannotReanchor'' | NoXcmMinFeeSet \<Rightarrow> ''NoXcmMinFeeSet''
   | AssetReservedLocationNotFound \<Rightarrow> ''AssetReservedLocationNotFound'')"

record 'l xcm_bridge_storage = "'l bridge_storage" +
  xcm_bridge_events :: "xcm_bridge_event list"

record XcmObject =
  xcm_asset :: MultiAsset
  xcm_fee :: MultiAsset
  xcm_origin :: MultiLocation
  xcm_dest :: MultiLocation
  xcm_recipient :: MultiLocation
  xcm_weight :: Weight

section \<open>Locations\<close>

definition reserved_location :: "MultiAsset \<Rightarrow> MultiLocation option" where
  "reserved_location asset =
     (case (asset_id asset, asset_fun asset) of
        (Concrete i, Fungible _) \<Rightarrow>
          if parents i = 1 then
            (case first_interior i of
               Some (Parachain p) \<Rightarrow> Some (new_location 1 [Parachain p])
             | _ \<Rightarrow> Some parent)
          else if parents i = 0 then
            (case first_interior i of
               Some (Parachain p) \<Rightarrow> Some (new_location 0 [Parachain p])
             | None \<Rightarrow> Some i
             | _ \<Rightarrow> None)
          else None
      | _ \<Rightarrow> None)"

definition extract_dest :: "MultiLocation \<Rightarrow> (MultiLocation \<times> MultiLocation) option" where
  "extract_dest dest =
     (if parents dest = 1 then
        (case first_interior dest of
           Some (Parachain p) \<Rightarrow> Some (new_location 1 [Parachain p], new_location 0 (tl (interior dest)))
         | _ \<Rightarrow> Some (parent, new_location 0 (interior dest)))
      else None)"

section \<open>Building the program\<close>

definition fungible_amount :: "MultiAsset \<Rightarrow> u128" where
  "fungible_amount asset = (case asset_fun asset of Fungible n \<Rightarrow> n | NonFungible _ \<Rightarrow> 0)"

definition half :: "MultiAsset \<Rightarrow> MultiAsset" where
  "half asset = \<lparr>asset_id = asset_id asset, asset_fun = Fungible (fungible_amount asset div 2)\<rparr>"

definition xcm_deposit_asset :: "MultiLocation \<Rightarrow> u32 \<Rightarrow> Instruction" where
  "xcm_deposit_asset recipient max_assets = DepositAsset (AllCounted max_assets) recipient"

definition buy_execution ::
    "('l, 'c) xcm_bridge_config_scheme \<Rightarrow> MultiAsset \<Rightarrow> MultiLocation \<Rightarrow> WeightLimit \<Rightarrow> DispatchError + Instruction" where
  "buy_execution xc asset at weight_limit =
     (case reanchored xc asset at (interior (SelfLocation xc)) of
        None \<Rightarrow> Inl (xcm_bridge_error CannotReanchor)
      | Some fees \<Rightarrow> Inr (BuyExecution fees weight_limit))"

definition transfer_self_reserve_asset ::
    "('l, 'c) xcm_bridge_config_scheme \<Rightarrow> MultiAsset list \<Rightarrow> MultiAsset \<Rightarrow> MultiLocation \<Rightarrow> MultiLocation
     \<Rightarrow> WeightLimit \<Rightarrow> DispatchError + Instruction list" where
  "transfer_self_reserve_asset xc assets fee dest recipient dest_weight_limit =
     (case buy_execution xc fee dest dest_weight_limit of
        Inl e \<Rightarrow> Inl e
      | Inr buy \<Rightarrow> Inr [TransferReserveAsset assets dest
          [buy, xcm_deposit_asset recipient (word_of_nat (length assets))]])"

definition transfer_to_reserve_asset ::
    "('l, 'c) xcm_bridge_config_scheme \<Rightarrow> MultiAsset list \<Rightarrow> MultiAsset \<Rightarrow> MultiLocation \<Rightarrow> MultiLocation
     \<Rightarrow> WeightLimit \<Rightarrow> DispatchError + Instruction list" where
  "transfer_to_reserve_asset xc assets fee reserve recipient dest_weight_limit =
     (case buy_execution xc fee reserve dest_weight_limit of
        Inl e \<Rightarrow> Inl e
      | Inr buy \<Rightarrow> Inr
          [WithdrawAsset assets,
           InitiateReserveWithdraw All reserve
             [buy, xcm_deposit_asset recipient (word_of_nat (length assets))]])"

definition reanchored_destination :: "MultiLocation \<Rightarrow> MultiLocation \<Rightarrow> MultiLocation" where
  "reanchored_destination reserve dest =
     (if reserve = parent then
        (if parents dest = 1 then
           (case interior dest of
              [] \<Rightarrow> dest
            | j # js \<Rightarrow> (case (j, js) of (Parachain p, []) \<Rightarrow> junction_location (Parachain p) | _ \<Rightarrow> dest))
         else dest)
      else dest)"

definition transfer_to_non_reserve_asset ::
    "('l, 'c) xcm_bridge_config_scheme \<Rightarrow> MultiAsset list \<Rightarrow> MultiAsset \<Rightarrow> MultiLocation \<Rightarrow> MultiLocation
     \<Rightarrow> MultiLocation \<Rightarrow> WeightLimit \<Rightarrow> DispatchError + Instruction list" where
  "transfer_to_non_reserve_asset xc assets fee reserve dest recipient dest_weight_limit =
     (let reanchored_dest = reanchored_destination reserve dest;
          max_assets = word_of_nat (length assets) in
      case buy_execution xc (half fee) reserve dest_weight_limit of
        Inl e \<Rightarrow> Inl e
      | Inr buy_reserve \<Rightarrow>
          (case buy_execution xc (half fee) dest dest_weight_limit of
             Inl e \<Rightarrow> Inl e
           | Inr buy_dest \<Rightarrow> Inr
               [WithdrawAsset assets,
                InitiateReserveWithdraw All reserve
                  [buy_reserve,
                   DepositReserveAsset (AllCounted max_assets) reanchored_dest
                     [buy_dest, xcm_deposit_asset recipient max_assets]]]))"

definition transfer_kind :: "('l, 'c) xcm_bridge_config_scheme \<Rightarrow> XcmObject \<Rightarrow> MultiLocation \<Rightarrow> TransferKind option" where
  "transfer_kind xc xcm asset_reserved_location =
     (if AssetReservedChecker xc (xcm_asset xcm) then Some SelfReserveAsset
      else if asset_reserved_location = xcm_dest xcm then Some ToReserve
      else Some ToNonReserve)"

definition create_instructions :: "('l, 'c) xcm_bridge_config_scheme \<Rightarrow> XcmObject \<Rightarrow> DispatchError + Instruction list" where
  "create_instructions xc xcm =
     (case reserved_location (xcm_asset xcm) of
        None \<Rightarrow> Inl (xcm_bridge_error AssetReservedLocationNotFound)
      | Some asset_reserved_location \<Rightarrow>
          (case transfer_kind xc xcm asset_reserved_location of
             None \<Rightarrow> Inl (xcm_bridge_error UnknownTransferType)
           | Some kind \<Rightarrow>
               let assets = [xcm_asset xcm] in
               (case kind of
                  SelfReserveAsset \<Rightarrow> transfer_self_reserve_asset xc assets (xcm_fee xcm) (xcm_dest xcm)
                    (xcm_recipient xcm) (Limited (xcm_weight xcm))
                | ToReserve \<Rightarrow> transfer_to_reserve_asset xc assets (xcm_fee xcm) (xcm_dest xcm)
                    (xcm_recipient xcm) (Limited (xcm_weight xcm))
                | ToNonReserve \<Rightarrow> transfer_to_non_reserve_asset xc assets (xcm_fee xcm) asset_reserved_location
                    (xcm_dest xcm) (xcm_recipient xcm) (Limited (xcm_weight xcm)))))"

section \<open>Running the program\<close>

definition execute_instructions ::
    "('l, 'c) xcm_bridge_config_scheme \<Rightarrow> host \<Rightarrow> XcmObject \<Rightarrow> Instruction list
     \<Rightarrow> ('l, 'z) xcm_bridge_storage_scheme call" where
  "execute_instructions xc h xcm xcm_instructions =
     ok_or (Weigher xc xcm_instructions) (xcm_bridge_error FailToWeightMessage) (\<lambda>message_weight.
     invoke_or (xcm_bridge_error XcmExecutionFailed)
       (\<lambda>s. let hash = blake2_256 h (encode_xcm xc xcm_instructions) in
            case XcmExecutor xc (xcm_origin xcm) xcm_instructions hash (xcm_weight xcm) message_weight (ledger s) of
              (outcome, l) \<Rightarrow>
                ((case outcome of Complete _ \<Rightarrow> Inr () | Incomplete _ e \<Rightarrow> Inl e | ErrorOutcome e \<Rightarrow> Inl e),
                 s\<lparr>ledger := l\<rparr>)) (\<lambda>_.
     done_with ()))"

definition default_xcm_weight :: Weight where
  "default_xcm_weight = (6000000000, 2000000)"

definition xcm_transfer ::
    "('l, 'c) xcm_bridge_config_scheme \<Rightarrow> host \<Rightarrow> bytes \<Rightarrow> MultiAsset \<Rightarrow> MultiLocation \<Rightarrow> Weight option
     \<Rightarrow> ('l, 'z) xcm_bridge_storage_scheme call" where
  "xcm_transfer xc h sender asset dest max_weight =
     (let origin_location = account_location sender;
          min_fee = map_option (\<lambda>i. snd (MinXcmFee xc ! i)) (position (\<lambda>a. fst a = asset_id asset) (MinXcmFee xc)) in
     ok_or (extract_dest dest) (xcm_bridge_error InvalidDestination) (\<lambda>(dest_location, recipient).
     ok_or min_fee (xcm_bridge_error NoXcmMinFeeSet) (\<lambda>fee_per_asset.
     let xcm = \<lparr>xcm_asset = asset, xcm_fee = fungible_asset (asset_id asset) fee_per_asset,
                xcm_origin = origin_location, xcm_dest = dest_location, xcm_recipient = recipient,
                xcm_weight = (case max_weight of None \<Rightarrow> default_xcm_weight | Some w \<Rightarrow> w)\<rparr> in
     try_result (create_instructions xc xcm) (\<lambda>msg.
     invoke (execute_instructions xc h xcm msg) (\<lambda>_.
     writes (\<lambda>s. s\<lparr>xcm_bridge_events := xcm_bridge_events s @ [XCMTransferSend asset origin_location dest]\<rparr>) (
     done_with ()))))))"

section \<open>Properties of the locations\<close>

text \<open>A destination splits into the chain and the recipient on it, and puts together again.\<close>

lemma first_interior_Some_iff: "first_interior l = Some j \<longleftrightarrow> (\<exists>js. interior l = j # js)"
  by (simp add: first_interior_def split: list.split)

lemma extract_dest_recombines:
  assumes "extract_dest dest = Some (chain, recipient)"
  shows "parents dest = 1" "parents chain = 1" "parents recipient = 0"
    "interior dest = interior chain @ interior recipient"
  using assms by (auto simp: extract_dest_def parent_def first_interior_Some_iff
      split: if_splits option.splits Junction.splits)

lemma extract_dest_None_iff: "extract_dest dest = None \<longleftrightarrow> parents dest \<noteq> 1"
  by (auto simp: extract_dest_def split: option.split Junction.split)

text \<open>Two halves of a fee never exceed it, and lose at most one unit.\<close>

lemma half_bounds:
  "2 * unat (fungible_amount (half fee)) \<le> unat (fungible_amount fee)"
  "unat (fungible_amount fee) \<le> 2 * unat (fungible_amount (half fee)) + 1"
  by (simp_all add: half_def fungible_amount_def unat_div)

section \<open>What a transfer touches\<close>

text \<open>All of the storage of the bridge pallet is left alone; only the rest of the chain changes.\<close>

lemma execute_instructions_storage:
  "\<exists>l. snd (execute_instructions xc h xcm msg s) = s\<lparr>ledger := l\<rparr>"
  unfolding execute_instructions_def ok_or_def invoke_or_def done_with_def Let_def
  by (auto simp: split_beta split: option.split sum.split intro: exI [of _ "ledger s"])

lemma xcm_transfer_storage:
  "\<exists>l es. snd (xcm_transfer xc h sender asset dest w s) = s\<lparr>ledger := l, xcm_bridge_events := es\<rparr>"
proof -
  have same: "\<exists>l es. s = s\<lparr>ledger := l, xcm_bridge_events := es\<rparr>"
    by (intro exI [of _ "ledger s"] exI [of _ "xcm_bridge_events s"]) simp
  have run: "\<exists>l es. snd (invoke (execute_instructions xc h xcm msg) (\<lambda>_.
      writes (\<lambda>s. s\<lparr>xcm_bridge_events := xcm_bridge_events s @ [e]\<rparr>) (done_with ())) s) =
      s\<lparr>ledger := l, xcm_bridge_events := es\<rparr>" for xcm msg e
  proof -
    obtain l where l: "snd (execute_instructions xc h xcm msg s) = s\<lparr>ledger := l\<rparr>"
      using execute_instructions_storage [of xc h xcm msg s] by auto
    have "\<exists>l' es. s\<lparr>ledger := l\<rparr> = s\<lparr>ledger := l', xcm_bridge_events := es\<rparr>"
      by (intro exI [of _ l] exI [of _ "xcm_bridge_events s"]) simp
    with l show ?thesis
      by (auto simp: invoke_def writes_def done_with_def split_beta split: sum.split)
  qed
  show ?thesis
    unfolding xcm_transfer_def Let_def ok_or_def try_result_def
    using same run by (simp split: option.split sum.split prod.split)
qed

lemma xcm_transfer_bridge:
  "bridge_storage.truncate (snd (xcm_transfer xc h sender asset dest w s)) =
   (bridge_storage.truncate s)\<lparr>ledger := ledger (snd (xcm_transfer xc h sender asset dest w s))\<rparr>"
proof -
  obtain l es where "snd (xcm_transfer xc h sender asset dest w s) = s\<lparr>ledger := l, xcm_bridge_events := es\<rparr>"
    using xcm_transfer_storage [of xc h sender asset dest w s] by auto
  then show ?thesis by (simp add: bridge_storage.defs)
qed

section \<open>Where a program takes the assets\<close>

text \<open>The assets a program takes, the chains it visits in order, who is paid in the end, and the fees bought.\<close>

fun taken :: "Instruction \<Rightarrow> MultiAsset list" where
  "taken (WithdrawAsset assets) = assets"
| "taken (TransferReserveAsset assets _ _) = assets"
| "taken _ = []"

fun stops :: "Instruction \<Rightarrow> MultiLocation list" where
  "stops (TransferReserveAsset _ dest xcm) = dest # concat (map stops xcm)"
| "stops (InitiateReserveWithdraw _ reserve xcm) = reserve # concat (map stops xcm)"
| "stops (DepositReserveAsset _ dest xcm) = dest # concat (map stops xcm)"
| "stops _ = []"

fun beneficiaries :: "Instruction \<Rightarrow> MultiLocation list" where
  "beneficiaries (TransferReserveAsset _ _ xcm) = concat (map beneficiaries xcm)"
| "beneficiaries (InitiateReserveWithdraw _ _ xcm) = concat (map beneficiaries xcm)"
| "beneficiaries (DepositReserveAsset _ _ xcm) = concat (map beneficiaries xcm)"
| "beneficiaries (DepositAsset _ who) = [who]"
| "beneficiaries _ = []"

fun bought :: "Instruction \<Rightarrow> MultiAsset list" where
  "bought (TransferReserveAsset _ _ xcm) = concat (map bought xcm)"
| "bought (InitiateReserveWithdraw _ _ xcm) = concat (map bought xcm)"
| "bought (DepositReserveAsset _ _ xcm) = concat (map bought xcm)"
| "bought (BuyExecution fees _) = [fees]"
| "bought _ = []"

lemma buy_execution_Inr_iff:
  "buy_execution xc asset at w = Inr i \<longleftrightarrow>
     (\<exists>fees. reanchored xc asset at (interior (SelfLocation xc)) = Some fees \<and> i = BuyExecution fees w)"
  by (auto simp: buy_execution_def split: option.splits)

lemma create_instructions_Inr:
  assumes "create_instructions xc x = Inr program"
  obtains (self) fees where "AssetReservedChecker xc (xcm_asset x)"
      "reanchored xc (xcm_fee x) (xcm_dest x) (interior (SelfLocation xc)) = Some fees"
      "program = [TransferReserveAsset [xcm_asset x] (xcm_dest x)
        [BuyExecution fees (Limited (xcm_weight x)), DepositAsset (AllCounted 1) (xcm_recipient x)]]"
  | (reserve) fees where "\<not> AssetReservedChecker xc (xcm_asset x)" "reserved_location (xcm_asset x) = Some (xcm_dest x)"
      "reanchored xc (xcm_fee x) (xcm_dest x) (interior (SelfLocation xc)) = Some fees"
      "program = [WithdrawAsset [xcm_asset x], InitiateReserveWithdraw All (xcm_dest x)
        [BuyExecution fees (Limited (xcm_weight x)), DepositAsset (AllCounted 1) (xcm_recipient x)]]"
  | (other) res fees fees' where "\<not> AssetReservedChecker xc (xcm_asset x)" "reserved_location (xcm_asset x) = Some res"
      "res \<noteq> xcm_dest x" "reanchored xc (half (xcm_fee x)) res (interior (SelfLocation xc)) = Some fees"
      "reanchored xc (half (xcm_fee x)) (xcm_dest x) (interior (SelfLocation xc)) = Some fees'"
      "program = [WithdrawAsset [xcm_asset x], InitiateReserveWithdraw All res
        [BuyExecution fees (Limited (xcm_weight x)),
         DepositReserveAsset (AllCounted 1) (reanchored_destination res (xcm_dest x))
           [BuyExecution fees' (Limited (xcm_weight x)), DepositAsset (AllCounted 1) (xcm_recipient x)]]]"
proof -
  obtain res where res: "reserved_location (xcm_asset x) = Some res"
    using assms by (auto simp: create_instructions_def split: option.splits)
  consider "AssetReservedChecker xc (xcm_asset x)"
    | "\<not> AssetReservedChecker xc (xcm_asset x)" "res = xcm_dest x"
    | "\<not> AssetReservedChecker xc (xcm_asset x)" "res \<noteq> xcm_dest x" by blast
  then show thesis
  proof cases
    case 1
    with assms res self show thesis
      by (auto simp: create_instructions_def transfer_kind_def transfer_self_reserve_asset_def xcm_deposit_asset_def
          buy_execution_Inr_iff Let_def split: sum.splits)
  next
    case 2
    with assms res reserve show thesis
      by (auto simp: create_instructions_def transfer_kind_def transfer_to_reserve_asset_def xcm_deposit_asset_def
          buy_execution_Inr_iff Let_def split: sum.splits)
  next
    case 3
    with assms res other show thesis
      by (auto simp: create_instructions_def transfer_kind_def transfer_to_non_reserve_asset_def xcm_deposit_asset_def
          buy_execution_Inr_iff Let_def split: sum.splits)
  qed
qed

section \<open>Properties\<close>



end
