(* ===== verification/Runtime_Adapters.thy ===== *)
theory Runtime_Adapters
  imports Sygma_Traits
begin

text \<open>
  The adapters a runtime plugs into the bridge pallet: where an asset has its reserve, how a destination
  is read, which local asset a location stands for and which assets are native. The standalone runtime
  (\<^verbatim>\<open>substrate-node/standalone/runtime/src/lib.rs\<close>) and the test runtime (\<^verbatim>\<open>bridge/src/mock.rs\<close>) share their
  text; the parachain runtime (\<^verbatim>\<open>substrate-node/parachain/runtime/src/lib.rs\<close>) reads destinations in its own
  way.
\<close>

section \<open>Keys\<close>

text \<open>A key of up to 32 bytes, padded with zeros; a longer one fails the assertion.\<close>

definition padded_key :: "bytes \<Rightarrow> Junction" where
  "padded_key key = GeneralKey (word_of_nat (length key)) (key @ replicate (32 - length key) 0)"

definition slice_to_generalkey :: "bytes \<Rightarrow> Junction rust" where
  "slice_to_generalkey key = (if length key \<le> 32 then Returns (padded_key key) else Panics)"

section \<open>Reserves\<close>

definition ConcrateSygmaAsset_id :: "MultiAsset \<Rightarrow> MultiLocation option" where
  "ConcrateSygmaAsset_id asset =
     (case (asset_id asset, asset_fun asset) of
        (Concrete i, Fungible _) \<Rightarrow> Some i
      | _ \<Rightarrow> None)"

definition sygma_key :: bytes where
  "sygma_key = [0x73, 0x79, 0x67, 0x6d, 0x61]"

definition ConcrateSygmaAsset_origin :: "MultiAsset \<Rightarrow> MultiLocation option" where
  "ConcrateSygmaAsset_origin asset =
     (case ConcrateSygmaAsset_id asset of
        None \<Rightarrow> None
      | Some i \<Rightarrow>
          if parents i = 1 then
            (case first_interior i of
               Some (Parachain p) \<Rightarrow>
                 if p = 2004 then Some (new_location 0 [padded_key sygma_key]) else Some here
             | _ \<Rightarrow> Some here)
          else if parents i = 0 then
            (case first_interior i of
               Some (Parachain p) \<Rightarrow> Some (new_location 0 [Parachain p])
             | None \<Rightarrow> Some i
             | _ \<Rightarrow> None)
          else None)"

definition ReserveChecker_contains :: "MultiAsset \<Rightarrow> MultiLocation \<Rightarrow> bool" where
  "ReserveChecker_contains asset origin =
     (case ConcrateSygmaAsset_origin asset of
        Some i \<Rightarrow> (if i = origin then True else False)
      | None \<Rightarrow> False)"

section \<open>Destinations\<close>

text \<open>The patterns on junctions.\<close>

fun as_general_key :: "Junction \<Rightarrow> (u8 \<times> bytes) option" where
  "as_general_key (GeneralKey n data) = Some (n, data)"
| "as_general_key _ = None"

fun as_general_index :: "Junction \<Rightarrow> u128 option" where
  "as_general_index (GeneralIndex i) = Some i"
| "as_general_index _ = None"

text \<open>
  Standalone and test runtime: a recipient key followed by a key whose first byte is the domain. The
  slice of the recipient panics for a length beyond the 32 bytes of the key.
\<close>

definition slice_recipient :: "bytes \<Rightarrow> u8 \<Rightarrow> DomainID \<Rightarrow> (bytes \<times> DomainID) option rust" where
  "slice_recipient recipient recipient_len domain_id =
     (case slice_to recipient (unat recipient_len) of
        Returns r \<Rightarrow> Returns (Some (r, domain_id))
      | Panics \<Rightarrow> Panics)"

definition DestinationDataParser_extract_dest :: "MultiLocation \<Rightarrow> (bytes \<times> DomainID) option rust" where
  "DestinationDataParser_extract_dest dest =
     (case (parents dest = 0, map as_general_key (interior dest)) of
        (True, [Some (recipient_len, recipient), Some (_, dest_domain_id)]) \<Rightarrow>
          let domain_id = (case dest_domain_id of [] \<Rightarrow> 0 | b # _ \<Rightarrow> b) in
          if domain_id = 0 then Returns None
          else slice_recipient recipient recipient_len domain_id
      | _ \<Rightarrow> Returns None)"

text \<open>Parachain runtime: the path \<^verbatim>\<open>sygma\<close>, the domain as an index, the recipient key.\<close>

definition parachain_extract_dest :: "MultiLocation \<Rightarrow> (bytes \<times> DomainID) option rust" where
  "parachain_extract_dest dest =
     (case interior dest of
        [path, domain, rec] \<Rightarrow>
          (case (as_general_key path, as_general_index domain, as_general_key rec) of
             (Some (path_len, sygma_path), Some dest_domain_id, Some (recipient_len, recipient)) \<Rightarrow>
               if parents dest \<noteq> 0 then Returns None
               else (case slice_to sygma_path (unat path_len) of
                  Panics \<Rightarrow> Panics
                | Returns path \<Rightarrow>
                    if path = [0x73, 0x79, 0x67, 0x6d, 0x61] then
                      if unat dest_domain_id < 256
                      then slice_recipient recipient recipient_len (ucast dest_domain_id)
                      else Returns None
                    else Returns None)
           | _ \<Rightarrow> Returns None)
      | _ \<Rightarrow> Returns None)"

section \<open>Matchers\<close>

datatype ExecutionError = AssetNotHandled

text \<open>\<^verbatim>\<open>SimpleForeignAssetConverter\<close>: the tests on the location, in order, are a table here.\<close>

definition matches_fungibles :: "(MultiLocation \<times> u32) list \<Rightarrow> MultiAsset \<Rightarrow> ExecutionError + u32 \<times> u128" where
  "matches_fungibles table a =
     (case (asset_fun a, asset_id a) of
        (Fungible amount, Concrete i) \<Rightarrow>
          (case find (\<lambda>p. fst p = i) table of
             Some p \<Rightarrow> Inr (snd p, amount)
           | None \<Rightarrow> Inl AssetNotHandled)
      | _ \<Rightarrow> Inl AssetNotHandled)"

definition is_native_asset :: "u32 \<Rightarrow> MultiAsset \<Rightarrow> bool" where
  "is_native_asset para_id asset =
     (let native_locations = [here, new_location 1 [Parachain para_id]] in
      case (asset_id asset, asset_fun asset) of
        (Concrete i, Fungible _) \<Rightarrow> List.member native_locations i
      | _ \<Rightarrow> False)"

definition native_matches_fungible :: "u32 \<Rightarrow> MultiAsset \<Rightarrow> u128 option" where
  "native_matches_fungible para_id a =
     (case (asset_id a, asset_fun a) of
        (Concrete _, Fungible amount) \<Rightarrow> if is_native_asset para_id a then Some amount else None
      | _ \<Rightarrow> None)"

section \<open>Properties of the adapters\<close>

text \<open>The array of a key has 32 bytes.\<close>

fun key_wf :: "Junction \<Rightarrow> bool" where
  "key_wf (GeneralKey _ data) = (length data = 32)"
| "key_wf _ = True"

lemma slice_to_generalkey_wf: "slice_to_generalkey key = Returns j \<Longrightarrow> key_wf j"
  by (auto simp: slice_to_generalkey_def padded_key_def split: if_splits)

text \<open>The slice of a key that was padded is the key.\<close>

lemma slice_padded_key:
  assumes "length key \<le> 32"
  shows "slice_to (key @ replicate (32 - length key) 0) (unat (word_of_nat (length key) :: u8)) = Returns key"
  using assms by (simp add: slice_to_def unat_of_nat)

lemma ConcrateSygmaAsset_id_Some_iff:
  "ConcrateSygmaAsset_id a = Some i \<longleftrightarrow> asset_id a = Concrete i \<and> (\<exists>n. asset_fun a = Fungible n)"
  by (auto simp: ConcrateSygmaAsset_id_def split: AssetId.splits Fungibility.splits)

lemma padded_key_neq_here [simp]: "new_location 0 [j] \<noteq> here"
  by (simp add: here_def)

lemma first_interior_None_iff: "first_interior i = None \<longleftrightarrow> interior i = []"
  by (simp add: first_interior_def split: list.split)

lemma here_iff: "parents i = 0 \<Longrightarrow> interior i = [] \<longleftrightarrow> i = here" for i :: MultiLocation
  by (cases i) (auto simp: here_def new_location_def)

text \<open>
  An asset has its reserve on this chain when it is the native asset of the chain, or comes from the
  relay chain, or from a sibling other than 2004.
\<close>

lemma ReserveChecker_here_iff:
  "ReserveChecker_contains a here \<longleftrightarrow>
     (\<exists>i n. asset_id a = Concrete i \<and> asset_fun a = Fungible n \<and>
        (i = here \<or> parents i = 1 \<and> first_interior i \<noteq> Some (Parachain 2004)))"
proof (cases "ConcrateSygmaAsset_id a")
  case None
  then show ?thesis
    using ConcrateSygmaAsset_id_Some_iff [of a]
    by (auto simp: ReserveChecker_contains_def ConcrateSygmaAsset_origin_def)
next
  case (Some i)
  then have a: "asset_id a = Concrete i" "\<exists>n. asset_fun a = Fungible n"
    using ConcrateSygmaAsset_id_Some_iff [of a] by auto
  have here: "parents i = 0 \<Longrightarrow> first_interior i = None \<Longrightarrow> i = here"
    by (simp add: first_interior_None_iff here_iff)
  have "parents here = 0" "first_interior here = None" by (simp_all add: here_def first_interior_def)
  then have "ReserveChecker_contains a here \<longleftrightarrow>
      i = here \<or> parents i = 1 \<and> first_interior i \<noteq> Some (Parachain 2004)"
    using here unfolding ReserveChecker_contains_def ConcrateSygmaAsset_origin_def Some
    by (cases "parents i = 0"; cases "parents i = 1"; cases "first_interior i")
      (auto split: Junction.split)
  with a show ?thesis by auto
qed

lemma as_general_key_Some_iff: "as_general_key j = Some (n, data) \<longleftrightarrow> j = GeneralKey n data"
  by (cases j) auto

lemma as_general_index_Some_iff: "as_general_index j = Some i \<longleftrightarrow> j = GeneralIndex i"
  by (cases j) auto

lemma location_eq_iff: "l = new_location p js \<longleftrightarrow> parents l = p \<and> interior l = js" for l :: MultiLocation
  by (cases l) (simp add: new_location_def)

lemmas dest_pattern_iffs = as_general_key_Some_iff as_general_index_Some_iff location_eq_iff

lemma extract_dest_Some_iff:
  "DestinationDataParser_extract_dest dest = Returns (Some (r, d)) \<longleftrightarrow>
     (\<exists>n data m rest. dest = new_location 0 [GeneralKey n data, GeneralKey m (d # rest)] \<and>
        d \<noteq> 0 \<and> unat n \<le> length data \<and> r = take (unat n) data)"
  by (auto simp: DestinationDataParser_extract_dest_def slice_recipient_def dest_pattern_iffs slice_to_def Let_def
      split: list.splits if_splits option.splits prod.splits bool.splits)

lemma extract_dest_Panics_iff:
  "DestinationDataParser_extract_dest dest = Panics \<longleftrightarrow>
     (\<exists>n data m d rest. dest = new_location 0 [GeneralKey n data, GeneralKey m (d # rest)] \<and>
        d \<noteq> 0 \<and> length data < unat n)"
  by (auto simp: DestinationDataParser_extract_dest_def slice_recipient_def dest_pattern_iffs slice_to_def Let_def
      split: list.splits if_splits option.splits prod.splits bool.splits)

lemma parachain_dest_Some_iff:
  "parachain_extract_dest dest = Returns (Some (r, d)) \<longleftrightarrow>
     (\<exists>n path i m data. dest = new_location 0 [GeneralKey n path, GeneralIndex i, GeneralKey m data] \<and>
        unat n \<le> length path \<and> take (unat n) path = sygma_key \<and> unat i < 256 \<and> d = ucast i \<and>
        unat m \<le> length data \<and> r = take (unat m) data)"
  by (auto simp: parachain_extract_dest_def slice_recipient_def dest_pattern_iffs slice_to_def sygma_key_def
      split: list.splits if_splits option.splits prod.splits)

lemma parachain_dest_Panics_iff:
  "parachain_extract_dest dest = Panics \<longleftrightarrow>
     (\<exists>n path i m data. dest = new_location 0 [GeneralKey n path, GeneralIndex i, GeneralKey m data] \<and>
        (length path < unat n \<or>
         take (unat n) path = sygma_key \<and> unat i < 256 \<and> length data < unat m))"
  by (auto simp: parachain_extract_dest_def slice_recipient_def dest_pattern_iffs slice_to_def sygma_key_def
      split: list.splits if_splits option.splits prod.splits)

text \<open>The parsers of the runtimes expect three and two junctions.\<close>

lemma parsers_exclusive:
  "parachain_extract_dest dest = Returns None \<or> DestinationDataParser_extract_dest dest = Returns None"
proof (cases "length (interior dest) = 3")
  case True
  then have "length (map as_general_key (interior dest)) = 3" by simp
  then have "DestinationDataParser_extract_dest dest = Returns None"
    unfolding DestinationDataParser_extract_dest_def by (auto split: bool.split list.split option.split)
  then show ?thesis ..
next
  case False
  then have "parachain_extract_dest dest = Returns None"
    unfolding parachain_extract_dest_def by (auto split: list.split)
  then show ?thesis ..
qed

section \<open>Properties\<close>

text \<open>
  C31. The reserve of an asset is this chain exactly for fungible amounts of a concrete asset that is native
  here, or lives on the relay chain, or on a sibling other than parachain 2004.
\<close>

theorem reserve_is_here_iff:
  "ReserveChecker_contains a here \<longleftrightarrow>
     (\<exists>i n. asset_id a = Concrete i \<and> asset_fun a = Fungible n \<and>
        (i = here \<or> parents i = 1 \<and> first_interior i \<noteq> Some (Parachain 2004)))"
  by (rule ReserveChecker_here_iff)



end
