(* ===== verification/Bridge_Forwarder.thy ===== *)
theory Bridge_Forwarder
  imports Xcm_Bridge Runtime_Adapters
begin

text \<open>
  The pallet \<^verbatim>\<open>sygma_bridge_forwarder\<close> and the asset transactor that feeds it
  (\<^verbatim>\<open>bridge-forwarder/src/lib.rs\<close> and \<^verbatim>\<open>bridge-forwarder/src/xcm_asset_transactor.rs\<close>). The transactor pays
  recipients on this chain directly. Assets for recipients elsewhere are put into a temporary account,
  from which the forwarder sends them on: to the bridge pallet or to the XCM bridge.
\<close>

section \<open>The forwarder\<close>

type_synonym 's bridge_fn = "bytes \<Rightarrow> MultiAsset \<Rightarrow> MultiLocation \<Rightarrow> Weight option \<Rightarrow> 's call"
type_synonym 's forward_fn = "bytes \<Rightarrow> MultiAsset \<Rightarrow> MultiLocation \<Rightarrow> 's call"

datatype forwarder_event =
    XCMTransferForward MultiAsset MultiLocation MultiLocation
  | OtherWorldTransferForward MultiAsset MultiLocation MultiLocation

record 'l forwarder_storage = "'l xcm_bridge_storage" +
  forwarder_events :: "forwarder_event list"

definition xcm_transactor_forwarder ::
    "('l, 'z) forwarder_storage_scheme bridge_fn \<Rightarrow> ('l, 'z) forwarder_storage_scheme forward_fn" where
  "xcm_transactor_forwarder XCMBridge origin what dest =
     (let cap_weight = (- 1, - 1) in
      invoke (XCMBridge origin what dest (Some cap_weight)) (\<lambda>_.
      writes (\<lambda>s. s\<lparr>forwarder_events := forwarder_events s @ [XCMTransferForward what (account_location origin) dest]\<rparr>) (
      done_with ())))"

definition other_world_transactor_forwarder ::
    "('l, 'z) forwarder_storage_scheme bridge_fn \<Rightarrow> ('l, 'z) forwarder_storage_scheme forward_fn" where
  "other_world_transactor_forwarder SygmaBridge origin what dest =
     invoke (SygmaBridge origin what dest None) (\<lambda>_.
     writes (\<lambda>s. s\<lparr>forwarder_events := forwarder_events s @ [OtherWorldTransferForward what (account_location origin) dest]\<rparr>) (
     done_with ()))"

section \<open>The asset transactor\<close>

record 's transactor =
  tr_withdraw :: "'s withdraw_fn"
  tr_deposit :: "'s deposit_fn"

text \<open>A transactor of the rest of the chain, applied to the storage of the whole chain.\<close>

definition on_ledger ::
    "('l \<Rightarrow> 'r \<times> 'l) \<Rightarrow> ('l, 'z) frame_storage_scheme \<Rightarrow> 'r \<times> ('l, 'z) frame_storage_scheme" where
  "on_ledger f s = (case f (ledger s) of (r, l) \<Rightarrow> (r, s\<lparr>ledger := l\<rparr>))"

definition is_local_recipient :: "MultiLocation \<Rightarrow> bool" where
  "is_local_recipient who =
     (case interior who of
        [j] \<Rightarrow> (case j of
            AccountId32 _ _ \<Rightarrow> parents who = 0
          | AccountKey20 _ _ \<Rightarrow> parents who = 0
          | Parachain _ \<Rightarrow> parents who = 1
          | _ \<Rightarrow> False)
      | _ \<Rightarrow> False)"

definition sygma_bridge_key :: bytes where
  "sygma_bridge_key = [0x73, 0x79, 0x67, 0x6d, 0x61, 0x2d, 0x62, 0x72, 0x69, 0x64, 0x67, 0x65]"

text \<open>The pattern of a recipient outside the ecosystem. It does not look at \<^verbatim>\<open>parents\<close>.\<close>

definition is_other_world :: "MultiLocation \<Rightarrow> bool" where
  "is_other_world who =
     (case interior who of
        [sygma, sygma_bridge, domain, recipient] \<Rightarrow>
          as_general_key sygma = Some (5, sygma_key @ replicate 27 0) \<and>
          as_general_key sygma_bridge = Some (12, sygma_bridge_key @ replicate 20 0) \<and>
          as_general_index domain \<noteq> None \<and> as_general_key recipient \<noteq> None
      | _ \<Rightarrow> False)"

text \<open>The temporary account: the hash of an encoded location with a key of repeated bytes.\<close>

definition tmp_account :: "host \<Rightarrow> u8 \<Rightarrow> bytes" where
  "tmp_account h b = blake2_256 h (encode_location h (new_location 0 [GeneralKey 8 (replicate 32 b)]))"

definition deposit_by_kind ::
    "('l, 'z) forwarder_storage_scheme transactor \<Rightarrow> ('l, 'z) forwarder_storage_scheme transactor
     \<Rightarrow> (MultiAsset \<Rightarrow> bool) \<Rightarrow> ('l, 'z) forwarder_storage_scheme deposit_fn" where
  "deposit_by_kind CurrencyTransactor FungiblesTransactor is_native what who =
     (if is_native what then tr_deposit CurrencyTransactor what who
      else tr_deposit FungiblesTransactor what who)"

definition forwarded ::
    "('l, 'z) forwarder_storage_scheme call
     \<Rightarrow> ('l, 'z) forwarder_storage_scheme \<Rightarrow> (XcmError + unit) \<times> ('l, 'z) forwarder_storage_scheme" where
  "forwarded m s = (case m s of
     (Inl e, s') \<Rightarrow> (Inl (FailedToTransactAsset (error_text e)), s')
   | (Inr u, s') \<Rightarrow> (Inr u, s'))"

definition XCMAssetTransactor_deposit_asset ::
    "host \<Rightarrow> ('l, 'z) forwarder_storage_scheme transactor \<Rightarrow> ('l, 'z) forwarder_storage_scheme transactor
     \<Rightarrow> (MultiAsset \<Rightarrow> bool) \<Rightarrow> ('l, 'z) forwarder_storage_scheme forward_fn
     \<Rightarrow> ('l, 'z) forwarder_storage_scheme forward_fn \<Rightarrow> ('l, 'z) forwarder_storage_scheme deposit_fn" where
  "XCMAssetTransactor_deposit_asset h cur fung is_native other_world xcm what who s =
     (if is_local_recipient who then deposit_by_kind cur fung is_native what who s
      else if is_other_world who then
        let tmp = tmp_account h 1 in
        (case deposit_by_kind cur fung is_native what (account_location tmp) s of
           (Inl e, s') \<Rightarrow> (Inl e, s')
         | (Inr _, s') \<Rightarrow> forwarded (other_world tmp what who) s')
      else
        let tmp = tmp_account h 2 in
        (case deposit_by_kind cur fung is_native what (account_location tmp) s of
           (Inl e, s') \<Rightarrow> (Inl e, s')
         | (Inr _, s') \<Rightarrow> forwarded (xcm tmp what who) s'))"

definition XCMAssetTransactor_withdraw_asset ::
    "('l, 'z) forwarder_storage_scheme transactor \<Rightarrow> ('l, 'z) forwarder_storage_scheme transactor
     \<Rightarrow> (MultiAsset \<Rightarrow> bool) \<Rightarrow> ('l, 'z) forwarder_storage_scheme withdraw_fn" where
  "XCMAssetTransactor_withdraw_asset cur fung is_native what who =
     (if is_native what then tr_withdraw cur what who else tr_withdraw fung what who)"

section \<open>Routing\<close>

lemma account_is_local [simp]: "is_local_recipient (account_location who)"
  by (simp add: is_local_recipient_def account_location_def junction_location_def)

lemma is_other_world_iff:
  "is_other_world who \<longleftrightarrow>
     (\<exists>i n data. interior who =
        [padded_key sygma_key, padded_key sygma_bridge_key, GeneralIndex i, GeneralKey n data])"
  by (auto simp: is_other_world_def padded_key_def sygma_key_def sygma_bridge_key_def dest_pattern_iffs
      split: list.splits)

lemma local_not_other_world: "is_local_recipient who \<Longrightarrow> \<not> is_other_world who"
  by (auto simp: is_other_world_iff is_local_recipient_def)

lemma on_ledger_only: "only_ledger s (snd (on_ledger f s))"
  by (auto simp: on_ledger_def only_ledger_def split: prod.split)

text \<open>For a local recipient the forwarders are not used.\<close>

lemma transactor_local:
  "is_local_recipient who \<Longrightarrow>
   XCMAssetTransactor_deposit_asset h cur fung is_native ow xcm what who s = deposit_by_kind cur fung is_native what who s"
  by (simp add: XCMAssetTransactor_deposit_asset_def)

text \<open>The forwarders add to their own log and otherwise do what the bridge they call does.\<close>

lemma xcm_transactor_forwarder_state:
  "xcm_transactor_forwarder br origin what dest s =
     (case br origin what dest (Some (- 1, - 1)) s of
        (Inl e, t) \<Rightarrow> (Inl e, t)
      | (Inr u, t) \<Rightarrow> (Inr u, t\<lparr>forwarder_events :=
          forwarder_events t @ [XCMTransferForward what (account_location origin) dest]\<rparr>))"
  by (simp add: xcm_transactor_forwarder_def invoke_def writes_def done_with_def Let_def
      split: prod.split sum.split)

lemma other_world_forwarder_state:
  "other_world_transactor_forwarder br origin what dest s =
     (case br origin what dest None s of
        (Inl e, t) \<Rightarrow> (Inl e, t)
      | (Inr u, t) \<Rightarrow> (Inr u, t\<lparr>forwarder_events :=
          forwarder_events t @ [OtherWorldTransferForward what (account_location origin) dest]\<rparr>))"
  by (simp add: other_world_transactor_forwarder_def invoke_def writes_def done_with_def
      split: prod.split sum.split)

end
