(* ===== verification/Decimal_Converter.thy ===== *)
theory Decimal_Converter
  imports Xcm_Types
begin

text \<open>
  \<^verbatim>\<open>SygmaDecimalConverter\<close>, which the three runtimes of the repository define with the same text: amounts
  leave the chain with 18 decimals and come back with the decimals of the asset.

  The arithmetic is that of \<^verbatim>\<open>FixedU128<U16>\<close> of the package \<^verbatim>\<open>fixed\<close>, a parameter here: 112 integer bits
  and 16 fractional bits. \<open>u112f16\<close> states the documented behaviour the conversions rely on, as equations
  on the raw bits of a value. \<^verbatim>\<open>from_num\<close> of a number that does not fit is only constrained by
  \<open>u112f16_wraps\<close>, the documented behaviour of builds without debug assertions.
\<close>

record 'f fixed_u128 =
  from_num :: "u128 \<Rightarrow> 'f"
  checked_div :: "'f \<Rightarrow> 'f \<Rightarrow> 'f option"
  fixed_saturating_mul :: "'f \<Rightarrow> 'f \<Rightarrow> 'f"
  to_num :: "'f \<Rightarrow> u128"
  to_bits :: "'f \<Rightarrow> u128"
  exceeds_MAX :: "u128 \<Rightarrow> bool"

definition u112f16 :: "'f fixed_u128 \<Rightarrow> bool" where
  "u112f16 fx \<longleftrightarrow>
     (\<forall>n. unat n < 2 ^ 112 \<longrightarrow> unat (to_bits fx (from_num fx n)) = unat n * 2 ^ 16) \<and>
     (\<forall>a b. let q = unat (to_bits fx a) * 2 ^ 16 div unat (to_bits fx b) in
        if to_bits fx b = 0 \<or> 2 ^ 128 \<le> q then checked_div fx a b = None
        else (\<exists>c. checked_div fx a b = Some c \<and> unat (to_bits fx c) = q)) \<and>
     (\<forall>a b. unat (to_bits fx (fixed_saturating_mul fx a b)) =
        min (unat (to_bits fx a) * unat (to_bits fx b) div 2 ^ 16) (2 ^ 128 - 1)) \<and>
     (\<forall>a. unat (to_num fx a) = unat (to_bits fx a) div 2 ^ 16) \<and>
     (\<forall>n. exceeds_MAX fx n \<longleftrightarrow> 2 ^ 112 \<le> unat n)"

definition u112f16_wraps :: "'f fixed_u128 \<Rightarrow> bool" where
  "u112f16_wraps fx \<longleftrightarrow> (\<forall>n. unat (to_bits fx (from_num fx n)) = unat n * 2 ^ 16 mod 2 ^ 128)"

section \<open>The conversions\<close>

definition unwrap_or_zero :: "'f fixed_u128 \<Rightarrow> 'f option \<Rightarrow> 'f" where
  "unwrap_or_zero fx b = (case b of None \<Rightarrow> from_num fx 0 | Some x \<Rightarrow> x)"

definition decimal_convert_to :: "'f fixed_u128 \<Rightarrow> (AssetId \<times> u8) list \<Rightarrow> MultiAsset \<Rightarrow> u128 option" where
  "decimal_convert_to fx DecimalPairs asset =
     (case asset_fun asset of
        Fungible amount \<Rightarrow>
          (case find (\<lambda>p. fst p = asset_id asset) DecimalPairs of
             None \<Rightarrow> None
           | Some (_, decimal) \<Rightarrow>
               if decimal = 18 then Some amount
               else if decimal > 18 then
                 let a = from_num fx (saturating_pow 10 (unat decimal - 18));
                     b = checked_div fx (from_num fx amount) a;
                     r = to_num fx (unwrap_or_zero fx b)
                 in if r = 0 then None else Some r
               else if exceeds_MAX fx amount then None
               else
                 let a = from_num fx (saturating_pow 10 (18 - unat decimal));
                     b = fixed_saturating_mul fx (from_num fx amount) a
                 in Some (to_num fx b))
      | NonFungible _ \<Rightarrow> None)"

definition decimal_convert_from :: "'f fixed_u128 \<Rightarrow> (AssetId \<times> u8) list \<Rightarrow> MultiAsset \<Rightarrow> MultiAsset option" where
  "decimal_convert_from fx DecimalPairs asset =
     (case asset_fun asset of
        Fungible amount \<Rightarrow>
          (case find (\<lambda>p. fst p = asset_id asset) DecimalPairs of
             None \<Rightarrow> None
           | Some (_, decimal) \<Rightarrow>
               if decimal = 18 then Some (fungible_asset (asset_id asset) amount)
               else if decimal > 18 then
                 if exceeds_MAX fx amount then None
                 else
                   let a = from_num fx (saturating_pow 10 (unat decimal - 18));
                       b = fixed_saturating_mul fx (from_num fx amount) a;
                       r = to_num fx b
                   in Some (fungible_asset (asset_id asset) r)
               else
                 let a = from_num fx (saturating_pow 10 (18 - unat decimal));
                     b = checked_div fx (from_num fx amount) a;
                     r = to_num fx (unwrap_or_zero fx b)
                 in if r = 0 then None else Some (fungible_asset (asset_id asset) r))
      | NonFungible _ \<Rightarrow> None)"

section \<open>A reference implementation of the fixed-point type\<close>

text \<open>Raw bits as a word: the arithmetic the package documents, with the wrap-around of a release build.\<close>

definition fixed_words :: "u128 fixed_u128" where
  "fixed_words = \<lparr>
     from_num = \<lambda>n. n * 65536,
     checked_div = \<lambda>a b. let q = unat a * 65536 div unat b in
       if b = 0 \<or> 2 ^ 128 \<le> q then None else Some (word_of_nat q),
     fixed_saturating_mul = \<lambda>a b. word_of_nat (min (unat a * unat b div 65536) (2 ^ 128 - 1)),
     to_num = \<lambda>a. a div 65536,
     to_bits = \<lambda>a. a,
     exceeds_MAX = \<lambda>n. 2 ^ 112 \<le> unat n\<rparr>"

lemma fixed_words_u112f16: "u112f16 fixed_words"
proof -
  have mul: "unat (n * 65536) = unat n * 65536" if "unat n < 2 ^ 112" for n :: u128
    using that by (simp add: unat_word_ariths)
  have sat: "unat (word_of_nat (min m (2 ^ 128 - 1)) :: u128) = min m (2 ^ 128 - 1)" for m :: nat
    by (simp add: unat_of_nat)
  show ?thesis
    by (simp add: u112f16_def fixed_words_def mul sat [simplified] unat_div unat_of_nat Let_def)
qed

lemma fixed_words_wraps: "u112f16_wraps fixed_words"
  by (simp add: u112f16_wraps_def fixed_words_def unat_word_ariths)

section \<open>The arithmetic on the natural numbers\<close>

lemma u112f16_mul:
  assumes fx: "u112f16 fx" and n: "unat n < 2 ^ 112" and k: "unat k < 2 ^ 112"
  shows "unat (to_num fx (fixed_saturating_mul fx (from_num fx n) (from_num fx k))) =
    min (unat n * unat k) (2 ^ 112 - 1)"
proof -
  have "unat (to_bits fx (fixed_saturating_mul fx (from_num fx n) (from_num fx k))) =
      min (unat n * unat k * 2 ^ 16) (2 ^ 128 - 1)"
    using fx n k by (simp add: u112f16_def ac_simps)
  then have "unat (to_num fx (fixed_saturating_mul fx (from_num fx n) (from_num fx k))) =
      min (unat n * unat k * 2 ^ 16) (2 ^ 128 - 1) div 2 ^ 16"
    using fx by (simp add: u112f16_def)
  also have "\<dots> = min (unat n * unat k) (2 ^ 112 - 1)"
    by (simp add: min_def)
  finally show ?thesis .
qed

lemma u112f16_div_bits:
  assumes fx: "u112f16 fx" and x: "unat (to_bits fx x) = m * 2 ^ 16" and m: "m < 2 ^ 112"
    and k: "0 < unat k" "unat k < 2 ^ 112"
  shows "unat (to_num fx (unwrap_or_zero fx (checked_div fx x (from_num fx k)))) = m div unat k"
proof -
  have kb: "unat (to_bits fx (from_num fx k)) = unat k * 2 ^ 16"
    using fx k by (simp add: u112f16_def)
  have q: "m * 2 ^ 16 * 2 ^ 16 div (unat k * 2 ^ 16) = m * 2 ^ 16 div unat k"
    by (simp add: ac_simps)
  have small: "m * 2 ^ 16 div unat k < 2 ^ 128"
    using m by (intro le_less_trans [OF div_le_dividend]) simp
  have "to_bits fx (from_num fx k) \<noteq> 0"
    using kb k by (metis mult_pos_pos not_gr_zero unsigned_0 zero_less_numeral zero_less_power)
  then obtain c where c: "checked_div fx x (from_num fx k) = Some c"
    and cb: "unat (to_bits fx c) = m * 2 ^ 16 div unat k"
    using fx small q unfolding u112f16_def Let_def by (metis kb x not_le)
  have "unat (to_num fx c) = m * 2 ^ 16 div unat k div 2 ^ 16"
    using fx cb by (simp add: u112f16_def)
  also have "\<dots> = m div unat k"
    by (simp add: div_mult2_eq [symmetric] mult.commute)
  finally show ?thesis by (simp add: c unwrap_or_zero_def)
qed

lemma u112f16_div:
  assumes fx: "u112f16 fx" and n: "unat n < 2 ^ 112" and k: "0 < unat k" "unat k < 2 ^ 112"
  shows "unat (to_num fx (unwrap_or_zero fx (checked_div fx (from_num fx n) (from_num fx k)))) = unat n div unat k"
proof (rule u112f16_div_bits [OF fx _ n k])
  show "unat (to_bits fx (from_num fx n)) = unat n * 2 ^ 16" using fx n by (simp add: u112f16_def)
qed

text \<open>Powers of ten up to the 33rd fit into the integer bits, which covers assets of up to 51 decimals.\<close>

lemma unat_pow10:
  assumes "k \<le> 33"
  shows "unat (saturating_pow 10 k :: u128) = 10 ^ k" "unat (saturating_pow 10 k :: u128) < 2 ^ 112"
proof -
  have "(10::nat) ^ k \<le> 10 ^ 33" using assms by (intro power_increasing) simp_all
  then have "(10::nat) ^ k < 2 ^ 112" by simp
  then show "unat (saturating_pow 10 k :: u128) = 10 ^ k" "unat (saturating_pow 10 k :: u128) < 2 ^ 112"
    by (simp_all add: unat_saturating_pow)
qed

text \<open>The two conversions as the mathematics has them, for an asset of \<open>d\<close> decimals.\<close>

definition to_18 :: "nat \<Rightarrow> nat \<Rightarrow> nat option" where
  "to_18 d n =
     (if d = 18 then Some n
      else if 18 < d then (let r = n div 10 ^ (d - 18) in if r = 0 then None else Some r)
      else if 2 ^ 112 \<le> n then None else Some (min (n * 10 ^ (18 - d)) (2 ^ 112 - 1)))"

definition from_18 :: "nat \<Rightarrow> nat \<Rightarrow> nat option" where
  "from_18 d n =
     (if d = 18 then Some n
      else if 18 < d then (if 2 ^ 112 \<le> n then None else Some (min (n * 10 ^ (d - 18)) (2 ^ 112 - 1)))
      else (let r = n div 10 ^ (18 - d) in if r = 0 then None else Some r))"

lemma convert_to_eq:
  assumes fx: "u112f16 fx" and listed: "find (\<lambda>p. fst p = a) pairs = Some (a', d)"
    and d: "unat d \<le> 51" and n: "18 < unat d \<longrightarrow> unat n < 2 ^ 112"
  shows "map_option unat (decimal_convert_to fx pairs (fungible_asset a n)) = to_18 (unat d) (unat n)"
proof -
  have eq18: "d = 18 \<longleftrightarrow> unat d = 18" and gt18: "18 < d \<longleftrightarrow> 18 < unat d"
    by (simp_all add: word_unat_eq_iff word_less_nat_alt)
  have max: "exceeds_MAX fx n \<longleftrightarrow> 2 ^ 112 \<le> unat n" using fx by (simp add: u112f16_def)
  consider "unat d = 18" | "18 < unat d" | "unat d < 18" by linarith
  then show ?thesis
  proof cases
    case 2
    then have k: "unat d - 18 \<le> 33" using d by simp
    have "unat (to_num fx (unwrap_or_zero fx (checked_div fx (from_num fx n)
        (from_num fx (saturating_pow 10 (unat d - 18)))))) = unat n div 10 ^ (unat d - 18)"
      using u112f16_div [OF fx, of n "saturating_pow 10 (unat d - 18)"] unat_pow10 [OF k] n 2 by simp
    then show ?thesis
      using 2 by (simp add: decimal_convert_to_def listed eq18 gt18 to_18_def Let_def unat_eq_0 [symmetric])
  next
    case 3
    then have k: "18 - unat d \<le> 33" by simp
    have "unat n < 2 ^ 112 \<Longrightarrow> unat (to_num fx (fixed_saturating_mul fx (from_num fx n)
        (from_num fx (saturating_pow 10 (18 - unat d))))) = min (unat n * 10 ^ (18 - unat d)) (2 ^ 112 - 1)"
      using u112f16_mul [OF fx, of n "saturating_pow 10 (18 - unat d)"] unat_pow10 [OF k] by simp
    then show ?thesis
      using 3 max by (simp add: decimal_convert_to_def listed eq18 gt18 to_18_def Let_def)
  qed (simp add: decimal_convert_to_def listed eq18 to_18_def)
qed

lemma convert_from_eq:
  assumes fx: "u112f16 fx" and listed: "find (\<lambda>p. fst p = a) pairs = Some (a', d)"
    and d: "unat d \<le> 51" and n: "unat d < 18 \<longrightarrow> unat n < 2 ^ 112"
  shows "decimal_convert_from fx pairs (fungible_asset a n) =
    map_option (\<lambda>r. fungible_asset a (word_of_nat r)) (from_18 (unat d) (unat n))"
proof -
  have eq18: "d = 18 \<longleftrightarrow> unat d = 18" and gt18: "18 < d \<longleftrightarrow> 18 < unat d"
    by (simp_all add: word_unat_eq_iff word_less_nat_alt)
  have max: "exceeds_MAX fx n \<longleftrightarrow> 2 ^ 112 \<le> unat n" using fx by (simp add: u112f16_def)
  have word: "unat w = m \<Longrightarrow> w = word_of_nat m" for w :: u128 and m by auto
  consider "unat d = 18" | "18 < unat d" | "unat d < 18" by linarith
  then show ?thesis
  proof cases
    case 2
    then have k: "unat d - 18 \<le> 33" using d by simp
    have "unat n < 2 ^ 112 \<Longrightarrow> unat (to_num fx (fixed_saturating_mul fx (from_num fx n)
        (from_num fx (saturating_pow 10 (unat d - 18))))) = min (unat n * 10 ^ (unat d - 18)) (2 ^ 112 - 1)"
      using u112f16_mul [OF fx, of n "saturating_pow 10 (unat d - 18)"] unat_pow10 [OF k] by simp
    then show ?thesis
      using 2 max by (auto simp: decimal_convert_from_def listed eq18 gt18 from_18_def Let_def dest!: word)
  next
    case 3
    then have k: "18 - unat d \<le> 33" by simp
    have "unat (to_num fx (unwrap_or_zero fx (checked_div fx (from_num fx n)
        (from_num fx (saturating_pow 10 (18 - unat d)))))) = unat n div 10 ^ (18 - unat d)"
      using u112f16_div [OF fx, of n "saturating_pow 10 (18 - unat d)"] unat_pow10 [OF k] n 3 by simp
    then show ?thesis
      using 3 by (auto simp: decimal_convert_from_def listed eq18 gt18 from_18_def Let_def unat_eq_0 [symmetric]
          dest: word)
  qed (simp add: decimal_convert_from_def listed eq18 from_18_def)
qed

text \<open>There and back: nothing is created, and less than one unit of the 18-decimal amount is lost.\<close>

lemma from_to_18:
  assumes "to_18 d n = Some m" and "d < 18 \<longrightarrow> n * 10 ^ (18 - d) < 2 ^ 112" and "18 < d \<longrightarrow> n < 2 ^ 112" and "0 < n"
  shows "\<exists>k. from_18 d m = Some k \<and> k \<le> n \<and> n < k + 10 ^ (d - 18)"
proof -
  consider "d = 18" | "18 < d" | "d < 18" by linarith
  then show ?thesis
  proof cases
    case 2
    define p where "p = (10::nat) ^ (d - 18)"
    have p: "0 < p" by (simp add: p_def)
    have m: "m = n div p" using assms(1) 2 by (auto simp: to_18_def p_def Let_def split: if_splits)
    have "m * p \<le> n" "n < m * p + p"
      using p m by (simp_all add: div_times_less_eq_dividend) (metis add.commute dividend_less_div_times)
    moreover have "m < 2 ^ 112" using assms(3) 2 m le_less_trans [OF div_le_dividend] by blast
    ultimately show ?thesis using 2 assms(3) by (simp add: from_18_def p_def)
  qed (use assms in \<open>auto simp: to_18_def from_18_def Let_def split: if_splits\<close>)
qed

text \<open>
  Division after the wrap-around: where the code divides, an amount stands for its remainder modulo 2 to the
  112, the number its integer bits can hold.
\<close>

lemma wrapped_div:
  assumes fx: "u112f16 fx" "u112f16_wraps fx" and k: "k \<le> 33"
  shows "unat (to_num fx (unwrap_or_zero fx (checked_div fx (from_num fx n) (from_num fx (saturating_pow 10 k))))) =
    unat n mod 2 ^ 112 div 10 ^ k"
proof -
  have "unat (to_bits fx (from_num fx n)) = unat n mod 2 ^ 112 * 2 ^ 16"
    using fx(2) mult_mod_right [of "2 ^ 16" "unat n" "2 ^ 112"] by (simp add: u112f16_wraps_def mult.commute)
  then show ?thesis
    using u112f16_div_bits [OF fx(1), of "from_num fx n" "unat n mod 2 ^ 112" "saturating_pow 10 k"] unat_pow10 [OF k]
    by simp
qed

lemma convert_to_wrapped:
  assumes "u112f16 fx" "u112f16_wraps fx" and "find (\<lambda>p. fst p = a) pairs = Some (a', d)" and "unat d \<le> 51" "18 < unat d"
  shows "map_option unat (decimal_convert_to fx pairs (fungible_asset a n)) = to_18 (unat d) (unat n mod 2 ^ 112)"
proof -
  have "d \<noteq> 18" "18 < d" using assms(5) by (auto simp: word_less_nat_alt)
  then show ?thesis
    using wrapped_div [OF assms(1,2), of "unat d - 18" n] assms(4,5)
    by (simp add: decimal_convert_to_def assms(3) to_18_def Let_def unat_eq_0 [symmetric])
qed

lemma convert_from_wrapped:
  assumes "u112f16 fx" "u112f16_wraps fx" and "find (\<lambda>p. fst p = a) pairs = Some (a', d)" and "unat d < 18"
  shows "decimal_convert_from fx pairs (fungible_asset a n) =
    map_option (\<lambda>r. fungible_asset a (word_of_nat r)) (from_18 (unat d) (unat n mod 2 ^ 112))"
proof -
  have d: "d \<noteq> 18" "\<not> 18 < d" using assms(4) by (auto simp: word_less_nat_alt)
  have k: "18 - unat d \<le> 33" by simp
  have word: "unat w = m \<Longrightarrow> w = word_of_nat m" for w :: u128 and m by auto
  show ?thesis
    using wrapped_div [OF assms(1,2) k, of n] assms(4) d
    by (auto simp: decimal_convert_from_def assms(3) from_18_def Let_def unat_eq_0 [symmetric] dest: word)
qed

text \<open>What comes back of an amount whose product was cut to the largest representable number.\<close>

lemma saturated_return:
  assumes "d < 18" and "n < 2 ^ 112" and "2 ^ 112 \<le> n * 10 ^ (18 - d)" and "to_18 d n = Some m"
  shows "\<exists>k. from_18 d m = Some k \<and> k < n"
proof -
  define p where "p = (10::nat) ^ (18 - d)"
  have "p \<le> 10 ^ 18" unfolding p_def by (intro power_increasing) simp_all
  then have p: "0 < p" "p \<le> 2 ^ 112 - 1" by (simp_all add: p_def)
  have m: "m = 2 ^ 112 - 1" using assms by (simp add: to_18_def)
  have "2 ^ 112 - 1 < n * p" using assms(3) by (simp add: p_def)
  then have "(2 ^ 112 - 1) div p < n" using p by (simp add: less_mult_imp_div_less)
  moreover have "(2 ^ 112 - 1) div p \<noteq> 0" using p by (simp add: div_eq_0_iff)
  ultimately show ?thesis using assms(1) m by (simp add: from_18_def p_def)
qed

text \<open>The round trip on the natural numbers, for every amount the way out accepts.\<close>

lemma decimal_roundtrip_nat:
  assumes fx: "u112f16 fx" "u112f16_wraps fx" and listed: "find (\<lambda>p. fst p = a) pairs = Some (a, d)" and d: "unat d \<le> 51"
    and n: "0 < unat n" and out: "decimal_convert_to fx pairs (fungible_asset a n) = Some m"
  shows "\<exists>k. from_18 (unat d) (unat m) = Some k \<and> k \<le> unat n \<and>
    (unat n < k + 10 ^ (unat d - 18) \<longleftrightarrow>
       (unat d < 18 \<longrightarrow> unat n * 10 ^ (18 - unat d) < 2 ^ 112) \<and> (18 < unat d \<longrightarrow> unat n < 2 ^ 112)) \<and>
    (unat d < 18 \<longrightarrow> unat m < 2 ^ 112)"
proof -
  consider "unat d = 18" | "18 < unat d" | "unat d < 18" by linarith
  then show ?thesis
  proof cases
    case 1
    then show ?thesis using convert_to_eq [OF fx(1) listed d, of n] out by (simp add: to_18_def from_18_def)
  next
    case 2
    define r where "r = unat n mod 2 ^ 112"
    have r: "r < 2 ^ 112" "r \<le> unat n" by (simp_all add: r_def)
    have to: "to_18 (unat d) r = Some (unat m)" using convert_to_wrapped [OF fx listed d 2, of n] out by (simp add: r_def)
    then have "0 < r" using 2 by (cases "r = 0") (auto simp: to_18_def Let_def split: if_splits)
    then obtain k where k: "from_18 (unat d) (unat m) = Some k" "k \<le> r" "r < k + 10 ^ (unat d - 18)"
      using from_to_18 [OF to] 2 r by auto
    have "(10::nat) ^ (unat d - 18) \<le> 10 ^ 33" using d by (intro power_increasing) simp_all
    then have small: "(10::nat) ^ (unat d - 18) < 2 ^ 112" by simp
    have "unat n < k + 10 ^ (unat d - 18) \<longleftrightarrow> unat n < 2 ^ 112"
    proof (cases "unat n < 2 ^ 112")
      case False
      then have "r + 2 ^ 112 \<le> unat n"
        using mod_less_eq_dividend [of "unat n - 2 ^ 112" "2 ^ 112"] by (simp add: r_def le_mod_geq)
      then show ?thesis using False k small by linarith
    qed (use k in \<open>simp add: r_def\<close>)
    then show ?thesis using 2 k r by auto
  next
    case 3
    have to: "to_18 (unat d) (unat n) = Some (unat m)" using convert_to_eq [OF fx(1) listed d, of n] 3 out by simp
    then have n': "unat n < 2 ^ 112" "unat m < 2 ^ 112" using 3 by (auto simp: to_18_def split: if_splits)
    show ?thesis
    proof (cases "unat n * 10 ^ (18 - unat d) < 2 ^ 112")
      case True
      then show ?thesis using from_to_18 [OF to] 3 n n' by auto
    next
      case False
      then show ?thesis using saturated_return [OF 3 n'(1) _ to] 3 n' by auto
    qed
  qed
qed

section \<open>Properties\<close>

text \<open>
  C28. The conversions compute what they should on assets of up to 51 decimals and amounts below 2 to the 112:
  out of the chain, the amount times or divided by the power of ten between the decimals of the asset and
  18, and back the other way. An amount that comes out as zero is refused, and a product that does not fit
  is cut to the largest representable number.
\<close>

theorem decimal_conversions:
  assumes "u112f16 fx" and "find (\<lambda>p. fst p = a) pairs = Some (a, d)" and "unat d \<le> 51" and "unat n < 2 ^ 112"
  shows "map_option unat (decimal_convert_to fx pairs (fungible_asset a n)) =
      (if unat d \<le> 18 then Some (if unat d = 18 then unat n else min (unat n * 10 ^ (18 - unat d)) (2 ^ 112 - 1))
       else if unat n < 10 ^ (unat d - 18) then None else Some (unat n div 10 ^ (unat d - 18))) \<and>
    decimal_convert_from fx pairs (fungible_asset a n) =
      map_option (\<lambda>r. fungible_asset a (word_of_nat r))
        (if 18 \<le> unat d then Some (if unat d = 18 then unat n else min (unat n * 10 ^ (unat d - 18)) (2 ^ 112 - 1))
         else if unat n < 10 ^ (18 - unat d) then None else Some (unat n div 10 ^ (18 - unat d)))"
  using convert_to_eq [OF assms(1-3)] convert_from_eq [OF assms(1-3)] assms(4)
  by (auto simp: to_18_def from_18_def Let_def div_eq_0_iff)

theorem decimal_conversions_witness:
  "decimal_convert_to fixed_words [(Concrete here, 24)] (fungible_asset (Concrete here) 5000000) = Some 5"
  using decimal_conversions [OF fixed_words_u112f16, of "Concrete here" "[(Concrete here, 24)]" 24 5000000]
  by (auto simp: word_unat_eq_iff)



text \<open>
  C30. Amounts beyond 112 bits are treated differently by the two branches. Where the code multiplies, it refuses
  an amount of 2 to the 112 and more, but a smaller one whose product does not fit comes out as the largest
  representable number. Where it divides, it does not test the amount: the bits from the 112th on are dropped
  (in a build without overflow checks), and the rest is divided, or refused if the quotient is zero.
\<close>

theorem large_amounts:
  assumes fx: "u112f16 fx" "u112f16_wraps fx" and listed: "find (\<lambda>p. fst p = a) pairs = Some (a, d)" and d: "unat d \<le> 51"
  shows "(unat d < 18 \<and> 2 ^ 112 \<le> unat n * 10 ^ (18 - unat d) \<longrightarrow>
      decimal_convert_to fx pairs (fungible_asset a n) = (if 2 ^ 112 \<le> unat n then None else Some (2 ^ 112 - 1))) \<and>
    (18 < unat d \<and> 2 ^ 112 \<le> unat n * 10 ^ (unat d - 18) \<longrightarrow>
      decimal_convert_from fx pairs (fungible_asset a n) =
        (if 2 ^ 112 \<le> unat n then None else Some (fungible_asset a (2 ^ 112 - 1)))) \<and>
    (18 < unat d \<and> 2 ^ 112 \<le> unat n \<longrightarrow>
      map_option unat (decimal_convert_to fx pairs (fungible_asset a n)) =
        (if unat n mod 2 ^ 112 < 10 ^ (unat d - 18) then None else Some (unat n mod 2 ^ 112 div 10 ^ (unat d - 18)))) \<and>
    (unat d < 18 \<and> 2 ^ 112 \<le> unat n \<longrightarrow>
      decimal_convert_from fx pairs (fungible_asset a n) =
        (if unat n mod 2 ^ 112 < 10 ^ (18 - unat d) then None
         else Some (fungible_asset a (word_of_nat (unat n mod 2 ^ 112 div 10 ^ (18 - unat d))))))"
proof (intro conjI impI; elim conjE)
  assume "unat d < 18" "2 ^ 112 \<le> unat n * 10 ^ (18 - unat d)"
  then have "map_option unat (decimal_convert_to fx pairs (fungible_asset a n)) =
      (if 2 ^ 112 \<le> unat n then None else Some (unat (2 ^ 112 - 1 :: u128)))"
    using convert_to_eq [OF fx(1) listed d, of n] by (simp add: to_18_def)
  then show "decimal_convert_to fx pairs (fungible_asset a n) = (if 2 ^ 112 \<le> unat n then None else Some (2 ^ 112 - 1))"
    by (auto simp: word_unat_eq_iff split: if_splits)
next
  assume "18 < unat d" "2 ^ 112 \<le> unat n * 10 ^ (unat d - 18)"
  then show "decimal_convert_from fx pairs (fungible_asset a n) =
      (if 2 ^ 112 \<le> unat n then None else Some (fungible_asset a (2 ^ 112 - 1)))"
    using convert_from_eq [OF fx(1) listed d, of n] by (simp add: from_18_def)
next
  assume "18 < unat d"
  then show "map_option unat (decimal_convert_to fx pairs (fungible_asset a n)) =
      (if unat n mod 2 ^ 112 < 10 ^ (unat d - 18) then None else Some (unat n mod 2 ^ 112 div 10 ^ (unat d - 18)))"
    using convert_to_wrapped [OF fx listed d] by (simp add: to_18_def Let_def div_eq_0_iff)
next
  assume "unat d < 18"
  then show "decimal_convert_from fx pairs (fungible_asset a n) =
      (if unat n mod 2 ^ 112 < 10 ^ (18 - unat d) then None
       else Some (fungible_asset a (word_of_nat (unat n mod 2 ^ 112 div 10 ^ (18 - unat d)))))"
    using convert_from_wrapped [OF fx listed] by (simp add: from_18_def Let_def div_eq_0_iff)
qed

theorem large_amounts_witness:
  "decimal_convert_to fixed_words [(Concrete here, 12)] (fungible_asset (Concrete here) (2 ^ 100)) = Some (2 ^ 112 - 1) \<and>
   decimal_convert_to fixed_words [(Concrete here, 12)] (fungible_asset (Concrete here) (2 ^ 112)) = None \<and>
   map_option unat (decimal_convert_to fixed_words [(Concrete here, 24)] (fungible_asset (Concrete here) (2 ^ 112 + 3000000))) =
     Some 3 \<and>
   decimal_convert_from fixed_words [(Concrete here, 12)] (fungible_asset (Concrete here) (2 ^ 112 + 1)) = None"
  using large_amounts [OF fixed_words_u112f16 fixed_words_wraps, of "Concrete here" "[(Concrete here, 12)]" 12 "2 ^ 100"]
    large_amounts [OF fixed_words_u112f16 fixed_words_wraps, of "Concrete here" "[(Concrete here, 12)]" 12 "2 ^ 112"]
    large_amounts [OF fixed_words_u112f16 fixed_words_wraps, of "Concrete here" "[(Concrete here, 12)]" 12 "2 ^ 112 + 1"]
    large_amounts [OF fixed_words_u112f16 fixed_words_wraps, of "Concrete here" "[(Concrete here, 24)]" 24 "2 ^ 112 + 3000000"]
  by simp

end
