(* ===== verification/Bridge_Spec.thy ===== *)
theory Bridge_Spec
  imports Bridge_Runtime
begin

text \<open>
  The bridge pallet as its clients see it: an abstract machine whose state is the key of the relayers, the
  chains on record, the paused domains, the executed proposals and the next nonces, and whose visible steps
  are the events of the pallet. \<open>bridge_abs\<close> maps the storage to that state. The locale \<open>specified_bridge\<close>
  extends the contract of the asset transactor with what a transfer may do in the abstract machine, and
  shows that every reachable storage is reached by a run of the abstract machine that emits exactly the
  event log of the pallet.
\<close>

section \<open>The abstract machine\<close>

record bridge_spec =
  spec_key :: MpcAddress
  spec_chains :: "DomainID \<rightharpoonup> ChainID"
  spec_paused :: "DomainID set"
  spec_executed :: "(DomainID \<times> DepositNonce) set"
  spec_next :: "DomainID \<Rightarrow> nat"

definition spec_init :: bridge_spec where
  "spec_init = \<lparr>spec_key = default_mpc_address, spec_chains = Map.empty, spec_paused = {}, spec_executed = {},
     spec_next = \<lambda>_. 0\<rparr>"

text \<open>Transfers with a domain are possible once the key is set, for a domain on record that is not paused.\<close>

definition spec_open :: "bridge_spec \<Rightarrow> DomainID \<Rightarrow> bool" where
  "spec_open a d \<longleftrightarrow> \<not> is_clear (spec_key a) \<and> d \<in> dom (spec_chains a) \<and> d \<notin> spec_paused a"

text \<open>
  One step, with the event it emits; setting the key emits none. Pausing all bridges pauses at least the
  domains on record: the pallet also pauses domains that were paused once and are not on record any more.
\<close>

inductive spec_step :: "bridge_spec \<Rightarrow> bridge_event option \<Rightarrow> bridge_spec \<Rightarrow> bool" where
  spec_set_key: "is_clear (spec_key a) \<Longrightarrow> spec_step a None (a\<lparr>spec_key := k, spec_paused := {}\<rparr>)"
| spec_register: "spec_step a (Some (RegisterDestDomain who d c)) (a\<lparr>spec_chains := (spec_chains a)(d \<mapsto> c)\<rparr>)"
| spec_unregister: "spec_chains a d = Some c \<Longrightarrow>
    spec_step a (Some (UnregisterDestDomain who d c)) (a\<lparr>spec_chains := (spec_chains a)(d := None)\<rparr>)"
| spec_pause: "d \<in> dom (spec_chains a) \<Longrightarrow>
    spec_step a (Some (BridgePausedEvent d)) (a\<lparr>spec_paused := insert d (spec_paused a)\<rparr>)"
| spec_unpause: "d \<in> dom (spec_chains a) \<Longrightarrow> d \<in> spec_paused a \<Longrightarrow>
    spec_step a (Some (BridgeUnpausedEvent d)) (a\<lparr>spec_paused := spec_paused a - {d}\<rparr>)"
| spec_pause_all: "dom (spec_chains a) \<union> spec_paused a \<subseteq> P \<Longrightarrow>
    spec_step a (Some (AllBridgePaused who)) (a\<lparr>spec_paused := P\<rparr>)"
| spec_unpause_all: "\<not> is_clear (spec_key a) \<Longrightarrow>
    spec_step a (Some (AllBridgeUnpaused who)) (a\<lparr>spec_paused := {}\<rparr>)"
| spec_retry: "spec_open a d \<Longrightarrow> spec_step a (Some (Retry b d who)) a"
| spec_deposit: "spec_open a d \<Longrightarrow> unat n = spec_next a d \<Longrightarrow> Suc (spec_next a d) < 2 ^ 64 \<Longrightarrow>
    spec_step a (Some (Deposit d rid n who ty dat resp)) (a\<lparr>spec_next := (spec_next a)(d := Suc (spec_next a d))\<rparr>)"
| spec_fee: "spec_open a d \<Longrightarrow> spec_step a (Some (FeeCollected who d rid fee i)) a"
| spec_execute: "spec_open a d \<Longrightarrow> (d, n) \<notin> spec_executed a \<Longrightarrow>
    spec_step a (Some (ProposalExecution d n hash)) (a\<lparr>spec_executed := insert (d, n) (spec_executed a)\<rparr>)"
| spec_fail: "\<not> is_clear (spec_key a) \<Longrightarrow> spec_step a (Some (FailedHandlerExecution err d n)) a"

inductive spec_run :: "bridge_spec \<Rightarrow> bridge_event list \<Rightarrow> bridge_spec \<Rightarrow> bool" where
  spec_stop: "spec_run a [] a"
| spec_silent: "spec_run a es b \<Longrightarrow> spec_step b None c \<Longrightarrow> spec_run a es c"
| spec_emit: "spec_run a es b \<Longrightarrow> spec_step b (Some e) c \<Longrightarrow> spec_run a (es @ [e]) c"

inductive_simps spec_step_deposit: "spec_step a (Some (Deposit d rid n who ty dat resp)) b"
inductive_simps spec_step_execute: "spec_step a (Some (ProposalExecution d n hash)) b"
inductive_simps spec_step_retry: "spec_step a (Some (Retry b d who)) a'"
inductive_simps spec_step_fee: "spec_step a (Some (FeeCollected who d rid fee i)) b"

lemma spec_run_trans: "spec_run b fs c \<Longrightarrow> spec_run a es b \<Longrightarrow> spec_run a (es @ fs) c"
  by (induction b fs c rule: spec_run.induct) (auto intro: spec_run.intros simp flip: append_assoc)

lemma spec_run_one: "spec_step a (Some e) b \<Longrightarrow> spec_run a [e] b"
  using spec_emit [OF spec_stop] by simp

text \<open>A run can be cut at every event.\<close>

lemma spec_run_cut:
  "spec_run a es b \<Longrightarrow> es = xs @ e # ys \<Longrightarrow> \<exists>a' b'. spec_run a xs a' \<and> spec_step a' (Some e) b' \<and> spec_run b' ys b"
proof (induction arbitrary: ys rule: spec_run.induct)
  case (spec_silent a es b c)
  from spec_silent.IH [OF spec_silent.prems] spec_silent.hyps(2) show ?case
    by (blast intro: spec_run.spec_silent)
next
  case (spec_emit a es b f c)
  show ?case
  proof (cases ys rule: rev_cases)
    case Nil
    with spec_emit show ?thesis by (auto intro: spec_stop)
  next
    case (snoc zs g)
    with spec_emit have "es = xs @ e # zs" "g = f" by auto
    with spec_emit snoc show ?thesis by (metis spec_run.spec_emit)
  qed
qed simp

section \<open>What the event log says about the chains on record\<close>

fun registry_step :: "bridge_event \<Rightarrow> (DomainID \<rightharpoonup> ChainID) \<Rightarrow> (DomainID \<rightharpoonup> ChainID)" where
  "registry_step (RegisterDestDomain _ d c) m = m(d \<mapsto> c)"
| "registry_step (UnregisterDestDomain _ d _) m = m(d := None)"
| "registry_step _ m = m"

text \<open>The chains on record after the events \<open>es\<close>, read off the log alone.\<close>

definition registry :: "bridge_event list \<Rightarrow> DomainID \<rightharpoonup> ChainID" where
  "registry es = fold registry_step es Map.empty"

text \<open>The domain of an event that only an open domain may cause.\<close>

fun transfer_domain :: "bridge_event \<Rightarrow> DomainID option" where
  "transfer_domain (Deposit d _ _ _ _ _ _) = Some d"
| "transfer_domain (ProposalExecution d _ _) = Some d"
| "transfer_domain (Retry _ d _) = Some d"
| "transfer_domain (FeeCollected _ d _ _ _) = Some d"
| "transfer_domain _ = None"

lemma spec_step_registry: "spec_step a l b \<Longrightarrow> spec_chains b = (case l of None \<Rightarrow> id | Some e \<Rightarrow> registry_step e) (spec_chains a)"
  by (induction rule: spec_step.induct) simp_all

lemma spec_run_registry: "spec_run a es b \<Longrightarrow> spec_chains b = fold registry_step es (spec_chains a)"
  by (induction rule: spec_run.induct) (auto dest: spec_step_registry)

lemma spec_step_open: "spec_step a (Some e) b \<Longrightarrow> transfer_domain e = Some d \<Longrightarrow> spec_open a d"
  by (cases e) (auto simp: spec_step_deposit spec_step_execute spec_step_retry spec_step_fee)

lemma spec_transfers_registered:
  assumes "spec_run spec_init es b" and "es = xs @ e # ys" and "transfer_domain e = Some d"
  shows "registry xs d \<noteq> None"
proof -
  obtain a b' where run: "spec_run spec_init xs a" and step: "spec_step a (Some e) b'"
    using spec_run_cut [OF assms(1,2)] by blast
  have "spec_chains a = registry xs"
    using spec_run_registry [OF run] by (simp add: registry_def spec_init_def)
  then show ?thesis
    using spec_step_open [OF step assms(3)] by (auto simp: spec_open_def)
qed

section \<open>The storage as a state of the abstract machine\<close>

definition bridge_abs :: "('l, 'z) bridge_storage_scheme \<Rightarrow> bridge_spec" where
  "bridge_abs s = \<lparr>spec_key = mpc_addr s, spec_chains = DestChainIds s, spec_paused = {d. is_paused s d},
     spec_executed = executed_set s, spec_next = \<lambda>d. unat (deposit_counts s d)\<rparr>"

definition simulated :: "('l, 'z) bridge_storage_scheme \<Rightarrow> ('l, 'z) bridge_storage_scheme \<Rightarrow> bool" where
  "simulated s t \<longleftrightarrow> (\<exists>es. bridge_events t = bridge_events s @ es \<and> spec_run (bridge_abs s) es (bridge_abs t))"

lemma bridge_abs_cong:
  assumes "MpcAddr t = MpcAddr s" and "DestChainIds t = DestChainIds s" and "IsPaused t = IsPaused s"
    and "UsedNonces t = UsedNonces s" and "DepositCounts t = DepositCounts s"
  shows "bridge_abs t = bridge_abs s"
  using assms executed_set_cong [of t s] by (simp add: bridge_abs_def mpc_addr_def is_paused_def deposit_counts_def)

lemma simulated_same: "bridge_abs t = bridge_abs s \<Longrightarrow> bridge_events t = bridge_events s \<Longrightarrow> simulated s t"
  by (auto simp: simulated_def intro: spec_stop)

lemma simulated_trans: "simulated s t \<Longrightarrow> simulated t u \<Longrightarrow> simulated s u"
  by (auto simp: simulated_def intro: spec_run_trans)

lemma simulated_step:
  "bridge_events t = bridge_events s @ [e] \<Longrightarrow> spec_step (bridge_abs s) (Some e) (bridge_abs t) \<Longrightarrow> simulated s t"
  by (auto simp: simulated_def intro: spec_run_one)

lemma simulated_silent:
  "bridge_events t = bridge_events s \<Longrightarrow> spec_step (bridge_abs s) None (bridge_abs t) \<Longrightarrow> simulated s t"
  by (auto simp: simulated_def intro: spec_silent [OF spec_stop])

lemma simulated_ledger: "only_ledger s t \<Longrightarrow> simulated s t"
  by (intro simulated_same bridge_abs_cong) (simp_all add: only_ledger_fields)

text \<open>Changes of other parts of the storage are not seen.\<close>

lemma simulated_cong:
  "simulated s t \<Longrightarrow> bridge_abs u = bridge_abs t \<Longrightarrow> bridge_events u = bridge_events t \<Longrightarrow> simulated s u"
  by (simp add: simulated_def)

lemma bridge_abs_fresh: "fresh_storage s \<Longrightarrow> bridge_abs s = spec_init"
  by (simp add: bridge_abs_def spec_init_def fresh_storage_def mpc_addr_def is_paused_def value_query_def
      executed_set_empty deposit_counts_def fun_eq_iff)

text \<open>The guards of the pallet and those of the abstract machine.\<close>

lemma bridge_abs_dom: "domains_consistent s \<Longrightarrow> d \<in> dom (spec_chains (bridge_abs s)) \<longleftrightarrow> dest_domain_ids s d"
  by (auto simp: bridge_abs_def domains_consistentD dest_chain_ids_def)

lemma bridge_abs_open:
  "domains_consistent s \<Longrightarrow>
   spec_open (bridge_abs s) d \<longleftrightarrow> \<not> is_clear (mpc_addr s) \<and> dest_domain_ids s d \<and> \<not> is_paused s d"
  by (simp add: spec_open_def bridge_abs_dom) (simp add: bridge_abs_def)

text \<open>How the abstract state follows the updates of the storage.\<close>

lemma bridge_abs_event [simp]: "bridge_abs (deposit_event e s) = bridge_abs s"
  by (rule bridge_abs_cong) (simp_all add: deposit_event_def)

lemma bridge_abs_set_paused:
  "bridge_abs (s\<lparr>IsPaused := p\<rparr>) = (bridge_abs s)\<lparr>spec_paused := {d. value_query False p d}\<rparr>"
  using executed_set_cong [of "s\<lparr>IsPaused := p\<rparr>" s] by (simp add: bridge_abs_def getter_defs)

lemma bridge_abs_set_key: "bridge_abs (s\<lparr>MpcAddr := Some k\<rparr>) = (bridge_abs s)\<lparr>spec_key := k\<rparr>"
  using executed_set_cong [of "s\<lparr>MpcAddr := Some k\<rparr>" s] by (simp add: bridge_abs_def getter_defs)

lemma bridge_abs_set_domains:
  "bridge_abs (s\<lparr>DestDomainIds := m, DestChainIds := c\<rparr>) = (bridge_abs s)\<lparr>spec_chains := c\<rparr>"
  using executed_set_cong [of "s\<lparr>DestDomainIds := m, DestChainIds := c\<rparr>" s] by (simp add: bridge_abs_def getter_defs)

lemma bridge_abs_set_counts:
  "bridge_abs (s\<lparr>DepositCounts := (DepositCounts s)(d \<mapsto> n), bridge_events := es\<rparr>) =
     (bridge_abs s)\<lparr>spec_next := (spec_next (bridge_abs s))(d := unat n)\<rparr>"
  using executed_set_cong [of "s\<lparr>DepositCounts := (DepositCounts s)(d \<mapsto> n), bridge_events := es\<rparr>" s]
  by (simp add: bridge_abs_def getter_defs fun_eq_iff)

lemma bridge_abs_set_executed:
  "bridge_abs (set_proposal_executed n d s) = (bridge_abs s)\<lparr>spec_executed := insert (d, n) (executed_set s)\<rparr>"
  using nonce_mask.executed_mark [of "(d, n)" s] by (simp add: bridge_abs_def getter_defs)

lemmas bridge_abs_updates = bridge_abs_set_paused bridge_abs_set_key bridge_abs_set_domains bridge_abs_set_counts
  bridge_abs_set_executed

lemma bridge_abs_fields [simp]:
  "spec_key (bridge_abs s) = mpc_addr s" "spec_chains (bridge_abs s) = DestChainIds s"
  "spec_paused (bridge_abs s) = {d. is_paused s d}"
  "spec_executed (bridge_abs s) = executed_set s" "spec_next (bridge_abs s) d = unat (deposit_counts s d)"
  by (simp_all add: bridge_abs_def)

lemma simulated_event:
  "bridge_events t = bridge_events s \<Longrightarrow> spec_step (bridge_abs s) (Some e) (bridge_abs t) \<Longrightarrow>
   simulated s (deposit_event e t)"
  by (rule simulated_step) (simp_all add: bridge_abs_updates, simp add: deposit_event_def)

section \<open>The administrative calls\<close>

lemma pause_bridge_simulated:
  assumes "domains_consistent s" shows "simulated s (snd (pause_bridge cfg origin d s))"
proof -
  have "{e. value_query False ((IsPaused s)(d \<mapsto> True)) e} = insert d {e. is_paused s e}"
    by (auto simp: is_paused_def)
  then have "dest_domain_ids s d \<Longrightarrow> spec_step (bridge_abs s) (Some (BridgePausedEvent d))
      (bridge_abs (s\<lparr>IsPaused := (IsPaused s)(d \<mapsto> True)\<rparr>))"
    using spec_pause [of d "bridge_abs s"] bridge_abs_dom [OF assms, of d] by (simp add: bridge_abs_set_paused)
  then show ?thesis by (auto simp: pause_bridge_def simulated_same intro: simulated_event)
qed

lemma unpause_bridge_simulated:
  assumes "domains_consistent s" shows "simulated s (snd (unpause_bridge cfg origin d s))"
proof -
  have "{e. value_query False ((IsPaused s)(d \<mapsto> False)) e} = {e. is_paused s e} - {d}"
    by (auto simp: is_paused_def)
  then have "dest_domain_ids s d \<Longrightarrow> is_paused s d \<Longrightarrow> spec_step (bridge_abs s) (Some (BridgeUnpausedEvent d))
      (bridge_abs (s\<lparr>IsPaused := (IsPaused s)(d \<mapsto> False)\<rparr>))"
    using spec_unpause [of d "bridge_abs s"] bridge_abs_dom [OF assms, of d] by (simp add: bridge_abs_set_paused)
  then show ?thesis by (auto simp: unpause_bridge_def simulated_same intro: simulated_event)
qed

lemma bridge_abs_sweeps:
  "bridge_abs (unpause_all_domains s) = (bridge_abs s)\<lparr>spec_paused := {}\<rparr>"
  "bridge_abs (pause_all_domains s) = (bridge_abs s)\<lparr>spec_paused := dom (DestDomainIds s) \<union> dom (IsPaused s)\<rparr>"
  "bridge_events (unpause_all_domains s) = bridge_events s"
  "bridge_events (pause_all_domains s) = bridge_events s"
  by (simp_all add: unpause_all_domains_eq pause_all_domains_eq bridge_abs_set_paused value_query_def Un_def)

lemma set_mpc_address_simulated: "simulated s (snd (set_mpc_address cfg origin k s))"
  using spec_set_key [of "bridge_abs s" k]
  by (auto simp: set_mpc_address_def simulated_same bridge_abs_sweeps bridge_abs_set_key intro!: simulated_silent)

lemma register_domain_simulated: "simulated s (snd (register_domain cfg origin d c s))"
  using spec_register [of "bridge_abs s" "event_sender origin" d c]
  by (auto simp: register_domain_def simulated_same bridge_abs_set_domains intro!: simulated_event)

lemma unregister_domain_simulated: "simulated s (snd (unregister_domain cfg origin d c s))"
  using spec_unregister [of "bridge_abs s" d c "event_sender origin"]
  by (auto simp: unregister_domain_def simulated_same bridge_abs_set_domains dest_chain_ids_def
      split: option.split intro!: simulated_event)

lemma retry_simulated: "domains_consistent s \<Longrightarrow> simulated s (snd (retry cfg origin b d s))"
  using spec_retry [of "bridge_abs s" d b "event_sender origin"]
  by (auto simp: retry_def transactional_def simulated_same bridge_abs_open intro!: simulated_event)

lemma pause_all_bridges_simulated:
  assumes "domains_consistent s" shows "simulated s (snd (pause_all_bridges cfg origin s))"
proof -
  have "dom (DestDomainIds s) = dom (DestChainIds s)"
    using assms by (auto simp: domains_consistent_def dom_def option.case_eq_if)
  moreover have "{d. is_paused s d} \<subseteq> dom (IsPaused s)"
    by (auto simp: is_paused_def value_query_def split: option.splits)
  ultimately have "dom (DestChainIds s) \<union> {d. is_paused s d} \<subseteq> dom (DestDomainIds s) \<union> dom (IsPaused s)"
    by blast
  then show ?thesis
    using spec_pause_all [of "bridge_abs s" "dom (DestDomainIds s) \<union> dom (IsPaused s)" "event_sender origin"]
    by (auto simp: pause_all_bridges_def simulated_same bridge_abs_sweeps intro!: simulated_event)
qed

lemma unpause_all_bridges_simulated: "simulated s (snd (unpause_all_bridges cfg origin s))"
  using spec_unpause_all [of "bridge_abs s" "event_sender origin"]
  by (auto simp: unpause_all_bridges_def simulated_same bridge_abs_sweeps intro!: simulated_event)

lemma settings_simulated:
  assumes "\<not> is_transfer c" and "domains_consistent s"
  shows "simulated s (snd (dispatch cfg h origin c s))"
proof -
  have "simulated s (snd (grant_access cfg origin i n who s))" "simulated s (snd (set_fee cfg origin d a m s))"
    "simulated s (snd (set_fee_rate cfg origin d a r lo hi s))" "simulated s (snd (set_fee_handler cfg origin d a t s))"
    for i n who d a m r lo hi t
    by (auto simp: grant_access_def set_fee_def set_fee_rate_def set_fee_handler_def
        intro!: simulated_same bridge_abs_cong)
  then show ?thesis
    using assms by (cases c) (simp_all add: pause_bridge_simulated unpause_bridge_simulated set_mpc_address_simulated
        register_domain_simulated unregister_domain_simulated retry_simulated pause_all_bridges_simulated
        unpause_all_bridges_simulated)
qed

section \<open>Deposits\<close>

context bridge_contract
begin

lemma deposit_call_simulated:
  assumes "domains_consistent s"
  shows "simulated s (snd (deposit cfg origin asset dest s))"
proof (cases "fst (deposit cfg origin asset dest s)")
  case (Inl e)
  then have "snd (deposit cfg origin asset dest s) = s"
    unfolding deposit_def by (metis prod.collapse transactional_Inl)
  then show ?thesis by (simp add: simulated_same)
next
  case (Inr u)
  then have "deposit cfg origin asset dest s = (Inr u, snd (deposit cfg origin asset dest s))"
    by (metis prod.collapse)
  then obtain sender d recipient rid amount fee acct dca t where
    facts: "deposit_facts cfg sender asset dest d recipient rid amount fee acct dca s t"
    and room: "unat (deposit_counts t d) + 1 < 2 ^ 64"
    and post: "snd (deposit cfg origin asset dest s) = t\<lparr>DepositCounts := (DepositCounts t)(d \<mapsto> deposit_counts t d + 1),
                bridge_events := bridge_events t @
                  [Deposit d rid (deposit_counts t d) sender FungibleTransfer (create_deposit_data dca recipient) [],
                   FeeCollected sender d rid fee (asset_id asset)]\<rparr>" (is "?post = _")
    by (rule deposit_okE)
  have led: "only_ledger s t" by (rule deposit_facts_ledger [OF facts])
  have dc: "domains_consistent t"
    using assms keeps_control_domains [OF only_ledger_control [OF led]] by simp
  have op: "spec_open (bridge_abs t) d"
    using facts only_ledger_fields [OF led]
    by (simp add: bridge_abs_open [OF dc] deposit_facts_def getter_defs)
  have abs: "bridge_abs ?post = (bridge_abs t)\<lparr>spec_next := (spec_next (bridge_abs t))(d := Suc (unat (deposit_counts t d)))\<rparr>"
    using room by (simp add: post bridge_abs_set_counts unat_word_ariths)
  have op': "spec_open (bridge_abs ?post) d" using op by (simp add: abs spec_open_def)
  have "spec_step (bridge_abs t) (Some (Deposit d rid (deposit_counts t d) sender FungibleTransfer
      (create_deposit_data dca recipient) [])) (bridge_abs ?post)"
    using room op spec_deposit [OF op, of "deposit_counts t d"] by (simp add: abs)
  from spec_emit [OF spec_run_one [OF this] spec_fee [OF op', of sender rid fee "asset_id asset"]]
  have "simulated t ?post" by (auto simp: simulated_def post)
  with simulated_ledger [OF led] show ?thesis by (rule simulated_trans)
qed

end

section \<open>Transfers\<close>

text \<open>
  A transactor may take part in the abstract machine: one that leaves the chain may enter the pallet again,
  and what it does there must be steps of the abstract machine too.
\<close>

locale specified_bridge = bridge_contract cfg
  for cfg :: "(('l, 'z) bridge_storage_scheme, 'c) bridge_config_scheme" +
  assumes deposit_simulated: "domains_consistent s \<Longrightarrow> simulated s (snd (deposit_asset cfg asset where_to s))"
begin

lemma payout_simulated:
  assumes "domains_consistent s"
  shows "simulated s (snd (invoke_or e
     (\<lambda>s. if b then withdraw_asset cfg asset (account_location who) s else (Inr [], s))
     (\<lambda>_. invoke_or e' (deposit_asset cfg asset location) done_with) s))"
proof -
  let ?w = "if b then withdraw_asset cfg asset (account_location who) s else (Inr [], s)"
  have led: "only_ledger s (snd ?w)" using local_withdraw by simp
  then have w: "simulated s (snd ?w)" "domains_consistent (snd ?w)"
    using assms keeps_control_domains [OF only_ledger_control [OF led]] by (auto intro: simulated_ledger)
  have "simulated t (snd (invoke_or e' (deposit_asset cfg asset location) done_with t))" if "domains_consistent t" for t
    using deposit_simulated [OF that, of asset location]
    by (simp add: invoke_or_def done_with_def split_beta split: sum.split)
  with w show ?thesis
    unfolding invoke_or_def [of e] by (auto simp: split_beta split: sum.split intro: simulated_trans)
qed

lemma internal_simulated: "domains_consistent s \<Longrightarrow> simulated s (snd (execute_proposal_internal cfg h p s))"
  unfolding execute_proposal_internal_def
  by (simp add: ensure_def reads_def ok_or_def try_result_def payout_simulated simulated_same
      split: option.split sum.split prod.split)

lemma execute_one_simulated:
  assumes "domains_consistent s" and "\<not> is_clear (mpc_addr s)"
  shows "simulated s (execute_one cfg h p s)"
proof -
  obtain r t where rt: "execute_proposal_internal cfg h p s = (r, t)" by (meson surj_pair)
  have sim: "simulated s t" using internal_simulated [OF assms(1), of h p] rt by simp
  have keep: "keeps_control s t" using internal_keeps_control [of s h p] rt by simp
  have dc: "domains_consistent t" using assms(1) keeps_control_domains [OF keep] by simp
  have same: "mpc_addr t = mpc_addr s" "is_paused t = is_paused s" "dest_domain_ids t = dest_domain_ids s"
    "is_proposal_executed n d t = is_proposal_executed n d s" for n d
    using keep by (simp_all add: keeps_control_def getter_defs is_proposal_executed_def)
  show ?thesis
  proof (cases r)
    case (Inl e)
    have "simulated t (deposit_event (FailedHandlerExecution e' (origin_domain_id p) (deposit_nonce p)) t)" for e'
      using assms(2) same by (intro simulated_event spec_fail) simp_all
    with sim show ?thesis by (auto simp: execute_one_def rt Inl intro: simulated_trans)
  next
    case (Inr u)
    then have "\<not> is_paused s (origin_domain_id p)" "dest_domain_ids s (origin_domain_id p)"
      "\<not> is_proposal_executed (deposit_nonce p) (origin_domain_id p) s"
      using rt by (auto simp: execute_proposal_internal_def exec_ok)
    then have "simulated t (deposit_event (ProposalExecution (origin_domain_id p) (deposit_nonce p) hash)
        (set_proposal_executed (deposit_nonce p) (origin_domain_id p) t))" for hash
      using assms(2) same spec_execute [of "bridge_abs t" "origin_domain_id p" "deposit_nonce p" hash]
      by (intro simulated_event) (simp_all add: bridge_abs_open [OF dc] bridge_abs_set_executed)
    with sim show ?thesis by (auto simp: execute_one_def rt Inr intro: simulated_trans)
  qed
qed

lemma fold_execute_simulated:
  "domains_consistent s \<Longrightarrow> \<not> is_clear (mpc_addr s) \<Longrightarrow> simulated s (fold (execute_one cfg h) ps s)"
proof (induction ps arbitrary: s)
  case (Cons p ps)
  have "domains_consistent (execute_one cfg h p s)" "\<not> is_clear (mpc_addr (execute_one cfg h p s))"
    using Cons.prems domains_consistent_cong [of "execute_one cfg h p s" s]
    by (simp_all add: execute_one_control mpc_addr_def)
  from Cons.IH [OF this] execute_one_simulated [OF Cons.prems, of h p] show ?case
    by (auto intro: simulated_trans)
qed (simp add: simulated_same)

lemma dispatch_simulated:
  assumes "domains_consistent s"
  shows "simulated s (snd (dispatch cfg h origin c s))"
proof (cases "is_transfer c")
  case True
  then show ?thesis
    using assms by (cases c) (auto simp: deposit_call_simulated execute_proposal_state simulated_same
        execute_proposal_ok_iff fold_execute_simulated)
qed (simp add: settings_simulated assms)

lemma reachable_refines: "reachable cfg h s \<Longrightarrow> spec_run spec_init (bridge_events s) (bridge_abs s)"
proof (induction rule: reachable.induct)
  case (genesis s)
  then show ?case using bridge_abs_fresh [OF genesis] by (auto simp: fresh_storage_def intro: spec_stop)
next
  case (call s origin c)
  have "domains_consistent s"
    using reachable_invariant [OF call.hyps] by (simp add: bridge_invariant_def)
  then obtain es where "bridge_events (snd (dispatch cfg h origin c s)) = bridge_events s @ es"
    "spec_run (bridge_abs s) es (bridge_abs (snd (dispatch cfg h origin c s)))"
    using dispatch_simulated [of s h origin c] by (auto simp: simulated_def)
  then show ?case using spec_run_trans [OF _ call.IH] by simp
next
  case (environment s l)
  have "bridge_abs (s\<lparr>ledger := l\<rparr>) = bridge_abs s" by (rule bridge_abs_cong) simp_all
  with environment.IH show ?case by simp
qed

end

text \<open>A transactor that only moves balances takes no step of the abstract machine.\<close>

lemma ledger_specified:
  assumes "bridge_contract cfg" and "\<And>asset where_to s. only_ledger s (snd (deposit_asset cfg asset where_to s))"
  shows "specified_bridge cfg"
  by (intro specified_bridge.intro specified_bridge_axioms.intro assms(1) simulated_ledger assms(2))

end
