(* ===== verification/Runtime_Transactors.thy ===== *)
theory Runtime_Transactors
  imports Bridge_Forwarder Decimal_Converter Bridge_Spec
begin

text \<open>
  How the runtimes assemble an asset transactor. The building blocks \<^verbatim>\<open>IsConcrete\<close>, \<^verbatim>\<open>CurrencyAdapter\<close> and
  \<^verbatim>\<open>FungiblesAdapter\<close> (package \<^verbatim>\<open>xcm-builder\<close>), a pair of transactors used as one (\<^verbatim>\<open>xcm-executor\<close>) and the
  accounts derived from a pallet identifier (\<^verbatim>\<open>sp_runtime\<close>; \<open>into_vec_truncating\<close> is the same conversion at the
  type of byte vectors, which the bridge pallet uses for the hash of an execution event) are the fields of the record \<open>platform\<close>. The
  adapters move balances of the rest of the chain; the matchers they are given are code of the
  repository. \<open>platform_laws\<close> states what their documentation promises and the theorems use.
\<close>

record 'l platform =
  IsConcrete :: "MultiLocation \<Rightarrow> MultiAsset \<Rightarrow> u128 option"
  CurrencyAdapter :: "(MultiAsset \<Rightarrow> u128 option) \<Rightarrow> 'l transactor"
  FungiblesAdapter :: "(MultiAsset \<Rightarrow> ExecutionError + u32 \<times> u128) \<Rightarrow> 'l transactor"
  transactor_pair :: "'l transactor \<Rightarrow> 'l transactor \<Rightarrow> 'l transactor"
  into_account_truncating :: "bytes \<Rightarrow> bytes"
  into_sub_account_truncating :: "bytes \<Rightarrow> u32 \<Rightarrow> bytes"
  into_vec_truncating :: "bytes \<Rightarrow> bytes"

text \<open>
  A matcher for a location accepts fungible amounts of that concrete asset only, and an adapter refuses
  an asset its matcher does not accept, without touching any balance.
\<close>

definition is_concrete_law :: "'l platform \<Rightarrow> bool" where
  "is_concrete_law pf \<longleftrightarrow> (\<forall>l a. IsConcrete pf l a =
     (case asset_fun a of Fungible n \<Rightarrow> if asset_id a = Concrete l then Some n else None | NonFungible _ \<Rightarrow> None))"

definition currency_refuses_law :: "'l platform \<Rightarrow> bool" where
  "currency_refuses_law pf \<longleftrightarrow> (\<forall>m what who l. m what = None \<longrightarrow>
     (\<exists>e. tr_deposit (CurrencyAdapter pf m) what who l = (Inl e, l)) \<and>
     (\<exists>e. tr_withdraw (CurrencyAdapter pf m) what who l = (Inl e, l)))"

definition lift_transactor :: "'l transactor \<Rightarrow> ('l, 'z) frame_storage_scheme transactor" where
  "lift_transactor tr = \<lparr>tr_withdraw = \<lambda>what who. on_ledger (tr_withdraw tr what who),
                         tr_deposit = \<lambda>what who. on_ledger (tr_deposit tr what who)\<rparr>"

text \<open>The contract of a transactor that only moves balances.\<close>

locale ledger_transactor =
  fixes tr :: "('l, 'z) bridge_storage_scheme transactor"
  assumes withdraw_ledger: "only_ledger s (snd (tr_withdraw tr what who s))"
    and deposit_ledger: "only_ledger s (snd (tr_deposit tr what who s))"
begin

lemma deposit_keeps_control: "keeps_control s (snd (tr_deposit tr what who s))"
  by (rule only_ledger_control [OF deposit_ledger])

lemma deposit_keeps_log: "deposit_log_ok s \<Longrightarrow> deposit_log_ok (snd (tr_deposit tr what who s))"
  using only_ledger_deposit_log [OF deposit_ledger] by simp

text \<open>Such a transactor satisfies everything the bridge pallet asks for.\<close>

lemma satisfies_bridge:
  assumes "withdraw_asset cfg = tr_withdraw tr" and "deposit_asset cfg = tr_deposit tr"
  shows "bridge_contract cfg"
  by unfold_locales (simp_all add: assms withdraw_ledger deposit_ledger deposit_keeps_control deposit_keeps_log)

lemma satisfies_spec:
  assumes "withdraw_asset cfg = tr_withdraw tr" and "deposit_asset cfg = tr_deposit tr"
  shows "specified_bridge cfg"
  using satisfies_bridge [OF assms] by (rule ledger_specified) (simp add: assms deposit_ledger)

end

interpretation lifted: ledger_transactor "lift_transactor tr" for tr
  by unfold_locales (simp_all add: lift_transactor_def on_ledger_only)

section \<open>The forwarding transactor\<close>

text \<open>What the forwarding transactor keeps, when the forwarders keep it.\<close>

lemma XCMAssetTransactor_keeps:
  fixes cur fung :: "('l, 'z) forwarder_storage_scheme transactor"
  assumes loc: "\<And>what who s. P s \<Longrightarrow> P (snd (deposit_by_kind cur fung is_native what who s))"
    and ow: "\<And>tmp what who s. is_other_world who \<Longrightarrow> P s \<Longrightarrow> P (snd (ow tmp what who s))"
    and xcm: "\<And>tmp what who s. P s \<Longrightarrow> P (snd (xcm tmp what who s))"
    and "P s"
  shows "P (snd (XCMAssetTransactor_deposit_asset h cur fung is_native ow xcm what who s))"
proof -
  have fwd: "snd (forwarded m t) = snd (m t)" for m and t :: "('l, 'z) forwarder_storage_scheme"
    by (simp add: forwarded_def split: prod.split sum.split)
  show ?thesis
    using loc [OF \<open>P s\<close>, of what who] loc [OF \<open>P s\<close>, of what "account_location (tmp_account h 1)"]
      loc [OF \<open>P s\<close>, of what "account_location (tmp_account h 2)"] ow xcm
    by (auto simp: XCMAssetTransactor_deposit_asset_def Let_def fwd split_beta split: sum.split)
qed

end
