(* ===== verification/Standalone_Runtime.thy ===== *)
theory Standalone_Runtime
  imports Runtime_Transactors
begin

text \<open>
  The configuration of the standalone runtime (\<^verbatim>\<open>substrate-node/standalone/runtime/src/lib.rs\<close>): pallet
  indexes, registered extrinsics, assets and their identifiers, reserve accounts, and the record that
  assembles them for the pallets.
\<close>

section \<open>Access control\<close>

definition standalone_AccessSegregatorPalletIndex :: u8 where
  "standalone_AccessSegregatorPalletIndex = 9"

definition standalone_BasicFeeHandlerPalletIndex :: u8 where
  "standalone_BasicFeeHandlerPalletIndex = 10"

definition standalone_BridgePalletIndex :: u8 where
  "standalone_BridgePalletIndex = 11"

definition standalone_FeeHandlerRouterPalletIndex :: u8 where
  "standalone_FeeHandlerRouterPalletIndex = 12"

definition standalone_PercentageFeeHandlerRouterPalletIndex :: u8 where
  "standalone_PercentageFeeHandlerRouterPalletIndex = 13"

definition standalone_RegisteredExtrinsics :: "(u8 \<times> bytes) list" where
  "standalone_RegisteredExtrinsics =
     [(standalone_AccessSegregatorPalletIndex, ascii ''grant_access''),
      (standalone_BasicFeeHandlerPalletIndex, ascii ''set_fee''),
      (standalone_BridgePalletIndex, ascii ''set_mpc_address''),
      (standalone_BridgePalletIndex, ascii ''pause_bridge''),
      (standalone_BridgePalletIndex, ascii ''unpause_bridge''),
      (standalone_BridgePalletIndex, ascii ''register_domain''),
      (standalone_BridgePalletIndex, ascii ''unregister_domain''),
      (standalone_BridgePalletIndex, ascii ''retry''),
      (standalone_BridgePalletIndex, ascii ''pause_all_bridges''),
      (standalone_BridgePalletIndex, ascii ''unpause_all_bridges''),
      (standalone_FeeHandlerRouterPalletIndex, ascii ''set_fee_handler''),
      (standalone_PercentageFeeHandlerRouterPalletIndex, ascii ''set_fee_rate'')]"

text \<open>\<^verbatim>\<open>frame_system::EnsureRoot\<close>.\<close>

definition ensure_root :: "RuntimeOrigin \<Rightarrow> bool" where
  "ensure_root origin = (case origin of Root \<Rightarrow> True | _ \<Rightarrow> False)"

text \<open>The indexes of the pallets in \<^verbatim>\<open>construct_runtime!\<close>.\<close>

definition standalone_construct_runtime :: "Pallet \<Rightarrow> u8 option" where
  "standalone_construct_runtime p = (case p of
     AccessSegregatorPallet \<Rightarrow> Some 9 | BasicFeeHandlerPallet \<Rightarrow> Some 10 | BridgePallet \<Rightarrow> Some 11
   | FeeHandlerRouterPallet \<Rightarrow> Some 12 | PercentageFeeHandlerPallet \<Rightarrow> Some 13 | XcmBridgePallet \<Rightarrow> None)"

section \<open>Assets\<close>

definition NativeLocation :: MultiLocation where
  "NativeLocation = here"

definition SygmaBridgePalletId :: bytes where
  "SygmaBridgePalletId = ascii ''sygma/01''"

definition TreasuryAccount :: bytes where
  "TreasuryAccount = replicate 32 100"

definition sibling_key_location :: "string \<Rightarrow> MultiLocation" where
  "sibling_key_location name = new_location 1 [Parachain 2005, padded_key (ascii ''sygma''), padded_key (ascii name)]"

definition standalone_UsdcLocation :: MultiLocation where
  "standalone_UsdcLocation = sibling_key_location ''usdc''"

definition standalone_ERC20TSTLocation :: MultiLocation where
  "standalone_ERC20TSTLocation = sibling_key_location ''erc20tst''"

definition standalone_ERC20TSTD20Location :: MultiLocation where
  "standalone_ERC20TSTD20Location = sibling_key_location ''erc20tstd20''"

definition standalone_NativeResourceId :: ResourceId where
  "standalone_NativeResourceId = be_bytes 32 0x1"

definition standalone_UsdcResourceId :: ResourceId where
  "standalone_UsdcResourceId = be_bytes 32 0x300"

definition standalone_ERC20TSTResourceId :: ResourceId where
  "standalone_ERC20TSTResourceId = be_bytes 32 0x0"

definition standalone_ERC20TSTD20ResourceId :: ResourceId where
  "standalone_ERC20TSTD20ResourceId = be_bytes 32 0x900"

definition standalone_ResourcePairs :: "(AssetId \<times> ResourceId) list" where
  "standalone_ResourcePairs =
     [(Concrete NativeLocation, standalone_NativeResourceId),
      (Concrete standalone_UsdcLocation, standalone_UsdcResourceId),
      (Concrete standalone_ERC20TSTLocation, standalone_ERC20TSTResourceId),
      (Concrete standalone_ERC20TSTD20Location, standalone_ERC20TSTD20ResourceId)]"

definition standalone_AssetDecimalPairs :: "(AssetId \<times> u8) list" where
  "standalone_AssetDecimalPairs =
     [(Concrete NativeLocation, 12), (Concrete standalone_UsdcLocation, 12),
      (Concrete standalone_ERC20TSTLocation, 18), (Concrete standalone_ERC20TSTD20Location, 20)]"

definition standalone_BridgeAccountNative :: "'l platform \<Rightarrow> AccountId" where
  "standalone_BridgeAccountNative pf = into_account_truncating pf SygmaBridgePalletId"

definition standalone_BridgeAccountOtherToken :: "'l platform \<Rightarrow> AccountId" where
  "standalone_BridgeAccountOtherToken pf = into_sub_account_truncating pf SygmaBridgePalletId 1"

definition standalone_bridge_accounts :: "'l platform \<Rightarrow> AssetId \<rightharpoonup> AccountId" where
  "standalone_bridge_accounts pf =
     [Concrete NativeLocation \<mapsto> standalone_BridgeAccountNative pf,
      Concrete standalone_UsdcLocation \<mapsto> standalone_BridgeAccountOtherToken pf,
      Concrete standalone_ERC20TSTLocation \<mapsto> standalone_BridgeAccountOtherToken pf,
      Concrete standalone_ERC20TSTD20Location \<mapsto> standalone_BridgeAccountOtherToken pf]"

definition standalone_UsdcAssetId :: u32 where
  "standalone_UsdcAssetId = 2000"

definition standalone_ERC20TSTAssetId :: u32 where
  "standalone_ERC20TSTAssetId = 2001"

definition standalone_ERC20TSTD20AssetId :: u32 where
  "standalone_ERC20TSTD20AssetId = 2002"

definition standalone_matches_fungibles :: "MultiAsset \<Rightarrow> ExecutionError + u32 \<times> u128" where
  "standalone_matches_fungibles = matches_fungibles
     [(standalone_UsdcLocation, standalone_UsdcAssetId), (standalone_ERC20TSTLocation, standalone_ERC20TSTAssetId),
      (standalone_ERC20TSTD20Location, standalone_ERC20TSTD20AssetId)]"

definition DEST_VERIFYING_CONTRACT_ADDRESS :: bytes where
  "DEST_VERIFYING_CONTRACT_ADDRESS = be_bytes 20 0x6CdE2Cd82a4F8B74693Ff5e194c19CA08c2d1c68"

definition standalone_DestVerifyingContractAddress :: VerifyingContractAddress where
  "standalone_DestVerifyingContractAddress = DEST_VERIFYING_CONTRACT_ADDRESS"

definition standalone_EIP712ChainID :: ChainID where
  "standalone_EIP712ChainID = 5"

section \<open>The runtime\<close>

definition standalone_CurrencyTransactor :: "'l platform \<Rightarrow> 'l transactor" where
  "standalone_CurrencyTransactor pf = CurrencyAdapter pf (IsConcrete pf NativeLocation)"

definition standalone_FungiblesTransactor :: "'l platform \<Rightarrow> 'l transactor" where
  "standalone_FungiblesTransactor pf = FungiblesAdapter pf standalone_matches_fungibles"

definition standalone_AssetTransactors :: "'l platform \<Rightarrow> 'l transactor" where
  "standalone_AssetTransactors pf =
     transactor_pair pf (standalone_CurrencyTransactor pf) (standalone_FungiblesTransactor pf)"

text \<open>The implementations of the traits \<^verbatim>\<open>Config\<close>, one for each pallet.\<close>

definition standalone_access_config :: "'c \<Rightarrow> 'c access_config_scheme" where
  "standalone_access_config rest = \<lparr>
     BridgeCommitteeOrigin = ensure_root,
     AccessPalletIndex = standalone_AccessSegregatorPalletIndex,
     Extrinsics = standalone_RegisteredExtrinsics, \<dots> = rest\<rparr>"

definition standalone_basic_config :: "'c \<Rightarrow> 'c basic_config_scheme" where
  "standalone_basic_config rest = standalone_access_config \<lparr>BasicPalletIndex = standalone_BasicFeeHandlerPalletIndex, \<dots> = rest\<rparr>"

definition standalone_percentage_config :: "'c \<Rightarrow> 'c percentage_config_scheme" where
  "standalone_percentage_config rest = standalone_basic_config \<lparr>PercentagePalletIndex = standalone_PercentageFeeHandlerRouterPalletIndex, \<dots> = rest\<rparr>"

definition standalone_router_config :: "'c \<Rightarrow> 'c router_config_scheme" where
  "standalone_router_config rest = standalone_percentage_config \<lparr>RouterPalletIndex = standalone_FeeHandlerRouterPalletIndex, \<dots> = rest\<rparr>"

definition standalone_config ::
    "'l platform \<Rightarrow> 'f fixed_u128 \<Rightarrow> ('l, 'z) bridge_storage_scheme bridge_config" where
  "standalone_config pf fx = standalone_router_config \<lparr>
     TransferReserveAccounts = standalone_bridge_accounts pf,
     DestVerifyingContractAddress = standalone_DestVerifyingContractAddress,
     EIP712ChainID = standalone_EIP712ChainID,
     FeeReserveAccount = TreasuryAccount,
     FeeHandler = router_get_fee,
     withdraw_asset = tr_withdraw (lift_transactor (standalone_AssetTransactors pf)),
     deposit_asset = tr_deposit (lift_transactor (standalone_AssetTransactors pf)),
     ResourcePairs = standalone_ResourcePairs,
     IsReserve = ReserveChecker_contains,
     ExtractDestData = DestinationDataParser_extract_dest,
     PalletAccount = into_vec_truncating pf SygmaBridgePalletId,
     BridgePalletIndex = standalone_BridgePalletIndex,
     convert_to = decimal_convert_to fx standalone_AssetDecimalPairs,
     convert_from = decimal_convert_from fx standalone_AssetDecimalPairs\<rparr>"

lemmas standalone_config_defs = standalone_config_def standalone_router_config_def standalone_percentage_config_def standalone_basic_config_def
  standalone_access_config_def

section \<open>The runtime meets the contracts\<close>

interpretation standalone: specified_bridge "standalone_config pf fx" for pf fx
  by (rule lifted.satisfies_spec) (simp_all add: standalone_config_defs)

lemma ascii_simps [simp]: "ascii [] = []" "ascii (c # cs) = word_of_nat (of_char c) # ascii cs"
  by (simp_all add: ascii_def)

lemma length_ascii [simp]: "length (ascii s) = length s"
  by (simp add: ascii_def)

text \<open>The names of the keys are short enough for the assertion in \<open>slice_to_generalkey\<close>.\<close>

lemma standalone_keys_fit:
  "list_all (\<lambda>k. slice_to_generalkey (ascii k) = Returns (padded_key (ascii k)))
     [''sygma'', ''usdc'', ''usdt'', ''astr'', ''erc20tst'', ''erc20tstd20'']"
  by (simp add: slice_to_generalkey_def)

text \<open>Different keys of up to 32 bytes are different junctions.\<close>

lemma padded_key_inj: "length a \<le> 32 \<Longrightarrow> length b \<le> 32 \<Longrightarrow> padded_key a = padded_key b \<longleftrightarrow> a = b"
  by (auto simp: padded_key_def word_unat_eq_iff unat_of_nat)

lemma sibling_key_location_inj:
  "length a \<le> 32 \<Longrightarrow> length b \<le> 32 \<Longrightarrow> sibling_key_location a = sibling_key_location b \<longleftrightarrow> a = b"
  by (simp add: sibling_key_location_def padded_key_inj ascii_inj)


text \<open>Every guarded extrinsic of the pallets is registered under the index its pallet checks.\<close>

definition registers_all :: "(('l, 'z) bridge_storage_scheme, 'c) bridge_config_scheme \<Rightarrow> bool" where
  "registers_all cfg \<longleftrightarrow>
     has_registered cfg (AccessPalletIndex cfg) (ascii ''grant_access'') \<and>
     has_registered cfg (BasicPalletIndex cfg) (ascii ''set_fee'') \<and>
     has_registered cfg (PercentagePalletIndex cfg) (ascii ''set_fee_rate'') \<and>
     has_registered cfg (RouterPalletIndex cfg) (ascii ''set_fee_handler'') \<and>
     list_all (\<lambda>x. has_registered cfg (BridgePalletIndex cfg) (ascii x))
       [''set_mpc_address'', ''pause_bridge'', ''unpause_bridge'', ''register_domain'', ''unregister_domain'',
        ''retry'', ''pause_all_bridges'', ''unpause_all_bridges'']"

text \<open>The index under which each pallet checks access to its own extrinsics.\<close>

definition checked_index :: "('st, 'c) bridge_config_scheme \<Rightarrow> Pallet \<Rightarrow> u8 option" where
  "checked_index cfg p = (case p of
     AccessSegregatorPallet \<Rightarrow> Some (AccessPalletIndex cfg) | BasicFeeHandlerPallet \<Rightarrow> Some (BasicPalletIndex cfg)
   | BridgePallet \<Rightarrow> Some (BridgePalletIndex cfg) | FeeHandlerRouterPallet \<Rightarrow> Some (RouterPalletIndex cfg)
   | PercentageFeeHandlerPallet \<Rightarrow> Some (PercentagePalletIndex cfg) | XcmBridgePallet \<Rightarrow> None)"

lemma standalone_registers_all: "registers_all (standalone_config pf fx)"
  by (simp add: registers_all_def has_registered_def standalone_config_defs standalone_RegisteredExtrinsics_def
      del: ascii_simps)

lemma standalone_indexes: "standalone_construct_runtime p = checked_index (standalone_config pf fx) p"
  by (simp add: standalone_construct_runtime_def checked_index_def standalone_config_defs
      standalone_AccessSegregatorPalletIndex_def standalone_BasicFeeHandlerPalletIndex_def
      standalone_PercentageFeeHandlerRouterPalletIndex_def standalone_FeeHandlerRouterPalletIndex_def
      standalone_BridgePalletIndex_def split: Pallet.split)

lemma be_bytes_eq_iff: "x < 256 ^ n \<Longrightarrow> y < 256 ^ n \<Longrightarrow> be_bytes n x = be_bytes n y \<longleftrightarrow> x = y"
  by (metis be_nat_be_bytes mod_less)

lemma standalone_pairs_distinct:
  "distinct (map fst standalone_ResourcePairs)" "distinct (map snd standalone_ResourcePairs)"
  "map fst standalone_AssetDecimalPairs = map fst standalone_ResourcePairs"
proof -
  have loc: "sibling_key_location k \<noteq> here" for k by (simp add: sibling_key_location_def here_def)
  show "distinct (map fst standalone_ResourcePairs)"
    by (simp add: standalone_ResourcePairs_def NativeLocation_def standalone_UsdcLocation_def
        standalone_ERC20TSTLocation_def standalone_ERC20TSTD20Location_def sibling_key_location_inj
        loc [symmetric])
  show "distinct (map snd standalone_ResourcePairs)"
    by (simp add: standalone_ResourcePairs_def standalone_NativeResourceId_def standalone_UsdcResourceId_def
        standalone_ERC20TSTResourceId_def standalone_ERC20TSTD20ResourceId_def be_bytes_eq_iff)
qed (simp add: standalone_ResourcePairs_def standalone_AssetDecimalPairs_def)

end
