(* ===== verification/Parachain_Adapters.thy ===== *)
theory Parachain_Adapters
  imports Decimal_Converter Runtime_Adapters
begin

text \<open>
  The adapters of the parachain runtime (\<^verbatim>\<open>substrate-node/parachain/runtime/src/lib.rs\<close>, and \<^verbatim>\<open>xcm_config.rs\<close>
  for the second copy of \<^verbatim>\<open>NativeAssetTypeIdentifier\<close>), which the repository keeps as copies of those of the
  standalone runtime. The loops over the decimal pairs are written as loops here, and as look-ups in
  \<open>Decimal_Converter\<close>. The last section shows that keys, reserves, decimals and the test for native assets agree,
  so that the configuration of the parachain runtime can use the definitions of the other theories.
\<close>

section \<open>Keys and reserves\<close>

definition parachain_slice_to_generalkey :: "bytes \<Rightarrow> Junction rust" where
  "parachain_slice_to_generalkey key =
     (let len = length key in
      if \<not> len \<le> 32 then Panics
      else
        let data = replicate 32 0;
            data = key @ drop len data
        in Returns (GeneralKey (word_of_nat len) data))"

definition parachain_ConcrateSygmaAsset_id :: "MultiAsset \<Rightarrow> MultiLocation option" where
  "parachain_ConcrateSygmaAsset_id asset =
     (case (asset_id asset, asset_fun asset) of
        (Concrete i, Fungible _) \<Rightarrow> Some i
      | _ \<Rightarrow> None)"

definition parachain_ConcrateSygmaAsset_origin :: "MultiAsset \<Rightarrow> MultiLocation option" where
  "parachain_ConcrateSygmaAsset_origin asset =
     Option.bind (parachain_ConcrateSygmaAsset_id asset) (\<lambda>i.
       case first_interior i of
         Some (Parachain p) \<Rightarrow>
           (if parents i = 1 then
              (if p = 2004 then Some (new_location 0 [padded_key sygma_key]) else Some here)
            else if parents i = 0 then Some (new_location 0 [Parachain p])
            else None)
       | None \<Rightarrow> (if parents i = 1 then Some here else if parents i = 0 then Some i else None)
       | Some _ \<Rightarrow> (if parents i = 1 then Some here else None))"

definition parachain_ReserveChecker_contains :: "MultiAsset \<Rightarrow> MultiLocation \<Rightarrow> bool" where
  "parachain_ReserveChecker_contains asset origin =
     (case parachain_ConcrateSygmaAsset_origin asset of
        Some i \<Rightarrow> (if i = origin then True else False)
      | None \<Rightarrow> False)"

definition xcm_config_is_native_asset :: "u32 \<Rightarrow> MultiAsset \<Rightarrow> bool" where
  "xcm_config_is_native_asset para_id asset =
     (case (asset_id asset, asset_fun asset) of
        (Concrete i, Fungible _) \<Rightarrow> i = here \<or> i = new_location 1 [Parachain para_id]
      | _ \<Rightarrow> False)"

section \<open>Decimals\<close>

primrec parachain_convert_to_loop :: "'f fixed_u128 \<Rightarrow> AssetId \<Rightarrow> u128 \<Rightarrow> (AssetId \<times> u8) list \<Rightarrow> u128 option" where
  "parachain_convert_to_loop fx i amount [] = None"
| "parachain_convert_to_loop fx i amount (p # pairs) =
     (case p of (a_id, decimal) \<Rightarrow>
       if a_id = i then
         if decimal = 18 then Some amount
         else if decimal > 18 then
           let a = from_num fx (saturating_pow 10 (unat decimal - 18));
               b = checked_div fx (from_num fx amount) a;
               r = to_num fx (case b of Some x \<Rightarrow> x | None \<Rightarrow> from_num fx 0)
           in if r = 0 then None else Some r
         else if exceeds_MAX fx amount then None
         else
           let a = from_num fx (saturating_pow 10 (18 - unat decimal));
               b = fixed_saturating_mul fx (from_num fx amount) a
           in Some (to_num fx b)
       else parachain_convert_to_loop fx i amount pairs)"

definition parachain_convert_to :: "'f fixed_u128 \<Rightarrow> (AssetId \<times> u8) list \<Rightarrow> MultiAsset \<Rightarrow> u128 option" where
  "parachain_convert_to fx DecimalPairs asset =
     (case asset_fun asset of
        Fungible amount \<Rightarrow> parachain_convert_to_loop fx (asset_id asset) amount DecimalPairs
      | NonFungible _ \<Rightarrow> None)"

primrec parachain_convert_from_loop ::
    "'f fixed_u128 \<Rightarrow> AssetId \<Rightarrow> u128 \<Rightarrow> (AssetId \<times> u8) list \<Rightarrow> MultiAsset option" where
  "parachain_convert_from_loop fx i amount [] = None"
| "parachain_convert_from_loop fx i amount (p # pairs) =
     (case p of (a_id, decimal) \<Rightarrow>
       if a_id = i then
         if decimal = 18 then Some (fungible_asset i amount)
         else if decimal > 18 then
           if exceeds_MAX fx amount then None
           else
             let a = from_num fx (saturating_pow 10 (unat decimal - 18));
                 b = fixed_saturating_mul fx (from_num fx amount) a
             in Some (fungible_asset i (to_num fx b))
         else
           let a = from_num fx (saturating_pow 10 (18 - unat decimal));
               b = checked_div fx (from_num fx amount) a;
               r = to_num fx (case b of Some x \<Rightarrow> x | None \<Rightarrow> from_num fx 0)
           in if r = 0 then None else Some (fungible_asset i r)
       else parachain_convert_from_loop fx i amount pairs)"

definition parachain_convert_from :: "'f fixed_u128 \<Rightarrow> (AssetId \<times> u8) list \<Rightarrow> MultiAsset \<Rightarrow> MultiAsset option" where
  "parachain_convert_from fx DecimalPairs asset =
     (case asset_fun asset of
        Fungible amount \<Rightarrow> parachain_convert_from_loop fx (asset_id asset) amount DecimalPairs
      | NonFungible _ \<Rightarrow> None)"

section \<open>The copies agree\<close>

lemma parachain_key_eq: "parachain_slice_to_generalkey key = slice_to_generalkey key"
  by (simp add: parachain_slice_to_generalkey_def slice_to_generalkey_def padded_key_def Let_def)

lemma parachain_origin_eq: "parachain_ConcrateSygmaAsset_origin a = ConcrateSygmaAsset_origin a"
proof -
  have "parachain_ConcrateSygmaAsset_id a = ConcrateSygmaAsset_id a"
    by (simp add: parachain_ConcrateSygmaAsset_id_def ConcrateSygmaAsset_id_def)
  then show ?thesis
    by (auto simp: parachain_ConcrateSygmaAsset_origin_def ConcrateSygmaAsset_origin_def
        split: option.split Junction.split)
qed

lemma parachain_reserve_eq: "parachain_ReserveChecker_contains a o' = ReserveChecker_contains a o'"
  by (simp add: parachain_ReserveChecker_contains_def ReserveChecker_contains_def parachain_origin_eq)

lemma xcm_config_native_eq: "xcm_config_is_native_asset para_id a = is_native_asset para_id a"
  by (simp add: xcm_config_is_native_asset_def is_native_asset_def
      split: AssetId.split Fungibility.split)

lemma parachain_convert_to_eq: "parachain_convert_to fx pairs a = decimal_convert_to fx pairs a"
proof -
  have "parachain_convert_to_loop fx i amount pairs = decimal_convert_to fx pairs (fungible_asset i amount)" for i amount
    by (induction pairs)
      (auto simp: decimal_convert_to_def unwrap_or_zero_def Let_def split: option.split)
  then show ?thesis
    by (simp add: parachain_convert_to_def decimal_convert_to_def split: Fungibility.split)
qed

lemma parachain_convert_from_eq: "parachain_convert_from fx pairs a = decimal_convert_from fx pairs a"
proof -
  have "parachain_convert_from_loop fx i amount pairs = decimal_convert_from fx pairs (fungible_asset i amount)"
    for i amount
    by (induction pairs)
      (auto simp: decimal_convert_from_def unwrap_or_zero_def Let_def split: option.split)
  then show ?thesis
    by (simp add: parachain_convert_from_def decimal_convert_from_def split: Fungibility.split
        cong: option.case_cong if_cong)
qed

end
