(* ===== verification/Parachain_Runtime.thy ===== *)
theory Parachain_Runtime
  imports Standalone_Runtime Parachain_Adapters
begin

text \<open>
  The configuration of the parachain runtime (\<^verbatim>\<open>substrate-node/parachain/runtime/src/lib.rs\<close> and
  \<^verbatim>\<open>xcm_config.rs\<close>). Its asset transactor is the forwarding one, so the bridge pallet may be entered again
  from inside a payout: \<open>parachain_deposit_asset\<close> forwards to a bridge whose own transfers are local,
  \<open>parachain_knot_eq\<close> shows that this is the bridge of the runtime itself, and \<open>parachain_level_settles\<close> that the
  references between the types settle after two rounds, whatever they start from.
\<close>

section \<open>Access control and assets\<close>

definition parachain_AccessSegregatorPalletIndex :: u8 where
  "parachain_AccessSegregatorPalletIndex = 9"

definition parachain_BasicFeeHandlerPalletIndex :: u8 where
  "parachain_BasicFeeHandlerPalletIndex = 10"

definition parachain_BridgePalletIndex :: u8 where
  "parachain_BridgePalletIndex = 11"

definition parachain_FeeHandlerRouterPalletIndex :: u8 where
  "parachain_FeeHandlerRouterPalletIndex = 12"

definition parachain_PercentageFeeHandlerRouterPalletIndex :: u8 where
  "parachain_PercentageFeeHandlerRouterPalletIndex = 13"

definition parachain_RegisteredExtrinsics :: "(u8 \<times> bytes) list" where
  "parachain_RegisteredExtrinsics =
     [(parachain_AccessSegregatorPalletIndex, ascii ''grant_access''),
      (parachain_BasicFeeHandlerPalletIndex, ascii ''set_fee''),
      (parachain_BridgePalletIndex, ascii ''set_mpc_address''),
      (parachain_BridgePalletIndex, ascii ''pause_bridge''),
      (parachain_BridgePalletIndex, ascii ''unpause_bridge''),
      (parachain_BridgePalletIndex, ascii ''register_domain''),
      (parachain_BridgePalletIndex, ascii ''unregister_domain''),
      (parachain_BridgePalletIndex, ascii ''retry''),
      (parachain_BridgePalletIndex, ascii ''pause_all_bridges''),
      (parachain_BridgePalletIndex, ascii ''unpause_all_bridges''),
      (parachain_FeeHandlerRouterPalletIndex, ascii ''set_fee_handler''),
      (parachain_PercentageFeeHandlerRouterPalletIndex, ascii ''set_fee_rate'')]"

definition parachain_construct_runtime :: "Pallet \<Rightarrow> u8 option" where
  "parachain_construct_runtime p = (case p of
     AccessSegregatorPallet \<Rightarrow> Some 40 | BasicFeeHandlerPallet \<Rightarrow> Some 41 | BridgePallet \<Rightarrow> Some 42
   | FeeHandlerRouterPallet \<Rightarrow> Some 43 | PercentageFeeHandlerPallet \<Rightarrow> Some 44 | XcmBridgePallet \<Rightarrow> Some 45)"

definition parachain_UsdtLocation :: MultiLocation where
  "parachain_UsdtLocation = sibling_key_location ''usdt''"

definition parachain_ERC20TSTLocation :: MultiLocation where
  "parachain_ERC20TSTLocation = sibling_key_location ''erc20tst''"

definition parachain_ERC20TSTD20Location :: MultiLocation where
  "parachain_ERC20TSTD20Location = sibling_key_location ''erc20tstd20''"

definition parachain_NativeResourceId :: ResourceId where
  "parachain_NativeResourceId = be_bytes 32 0x1"

definition parachain_UsdtResourceId :: ResourceId where
  "parachain_UsdtResourceId = be_bytes 32 0x300"

definition parachain_ERC20TSTResourceId :: ResourceId where
  "parachain_ERC20TSTResourceId = be_bytes 32 0x0"

definition parachain_ERC20TSTD20ResourceId :: ResourceId where
  "parachain_ERC20TSTD20ResourceId = be_bytes 32 0x900"

definition parachain_ResourcePairs :: "(AssetId \<times> ResourceId) list" where
  "parachain_ResourcePairs =
     [(Concrete NativeLocation, parachain_NativeResourceId), (Concrete parachain_UsdtLocation, parachain_UsdtResourceId),
      (Concrete parachain_ERC20TSTLocation, parachain_ERC20TSTResourceId),
      (Concrete parachain_ERC20TSTD20Location, parachain_ERC20TSTD20ResourceId)]"

definition parachain_AssetDecimalPairs :: "(AssetId \<times> u8) list" where
  "parachain_AssetDecimalPairs =
     [(Concrete NativeLocation, 12), (Concrete parachain_UsdtLocation, 12),
      (Concrete parachain_ERC20TSTLocation, 18), (Concrete parachain_ERC20TSTD20Location, 20)]"

definition parachain_BridgeAccountNative :: "'l platform \<Rightarrow> AccountId" where
  "parachain_BridgeAccountNative pf = into_account_truncating pf SygmaBridgePalletId"

definition parachain_BridgeAccountOtherToken :: "'l platform \<Rightarrow> AccountId" where
  "parachain_BridgeAccountOtherToken pf = into_sub_account_truncating pf SygmaBridgePalletId 1"

definition parachain_bridge_accounts :: "'l platform \<Rightarrow> AssetId \<rightharpoonup> AccountId" where
  "parachain_bridge_accounts pf =
     [Concrete NativeLocation \<mapsto> parachain_BridgeAccountNative pf,
      Concrete parachain_UsdtLocation \<mapsto> parachain_BridgeAccountOtherToken pf,
      Concrete parachain_ERC20TSTLocation \<mapsto> parachain_BridgeAccountOtherToken pf,
      Concrete parachain_ERC20TSTD20Location \<mapsto> parachain_BridgeAccountOtherToken pf]"

definition parachain_UsdtAssetId :: u32 where
  "parachain_UsdtAssetId = 2000"

definition parachain_ERC20TSTAssetId :: u32 where
  "parachain_ERC20TSTAssetId = 2001"

definition parachain_ERC20TSTD20AssetId :: u32 where
  "parachain_ERC20TSTD20AssetId = 2002"

definition parachain_matches_fungibles :: "MultiAsset \<Rightarrow> ExecutionError + u32 \<times> u128" where
  "parachain_matches_fungibles = matches_fungibles
     [(parachain_UsdtLocation, parachain_UsdtAssetId), (parachain_ERC20TSTLocation, parachain_ERC20TSTAssetId),
      (parachain_ERC20TSTD20Location, parachain_ERC20TSTD20AssetId)]"

definition parachain_DEST_VERIFYING_CONTRACT_ADDRESS :: bytes where
  "parachain_DEST_VERIFYING_CONTRACT_ADDRESS = be_bytes 20 0x6CdE2Cd82a4F8B74693Ff5e194c19CA08c2d1c68"

definition parachain_DestVerifyingContractAddress :: VerifyingContractAddress where
  "parachain_DestVerifyingContractAddress = parachain_DEST_VERIFYING_CONTRACT_ADDRESS"

definition parachain_EIP712ChainID :: ChainID where
  "parachain_EIP712ChainID = 5"

definition parachain_TreasuryAccount :: AccountId where
  "parachain_TreasuryAccount = replicate 32 100"

section \<open>The XCM bridge of the parachain\<close>

text \<open>The parts of the \<^verbatim>\<open>xcm\<close> packages the parachain plugs in.\<close>

record 'l xcm_platform =
  FixedWeightBounds :: "Weight \<Rightarrow> u32 \<Rightarrow> Instruction list \<Rightarrow> Weight option"
  xp_execute :: "MultiLocation \<Rightarrow> Instruction list \<Rightarrow> bytes \<Rightarrow> Weight \<Rightarrow> Weight \<Rightarrow> 'l \<Rightarrow> Outcome \<times> 'l"
  xp_reanchored :: "MultiAsset \<Rightarrow> MultiLocation \<Rightarrow> Junction list \<Rightarrow> MultiAsset option"
  xp_encode :: "Instruction list \<Rightarrow> bytes"

definition RelayLocation :: MultiLocation where
  "RelayLocation = parent"

definition parachain_UniversalLocation :: "u32 \<Rightarrow> Junction list" where
  "parachain_UniversalLocation para_id = [Parachain para_id]"

definition parachain_SelfLocation :: "u32 \<Rightarrow> MultiLocation" where
  "parachain_SelfLocation para_id = new_location 1 [Parachain para_id]"

definition parachain_MinXcmFee :: "(AssetId \<times> u128) list" where
  "parachain_MinXcmFee = [(Concrete NativeLocation, 1000000000000)]"

definition UnitWeightCost :: Weight where
  "UnitWeightCost = (1000000000, 64 * 1024)"

definition MaxInstructions :: u32 where
  "MaxInstructions = 100"

definition parachain_xcm_config :: "'l xcm_platform \<Rightarrow> u32 \<Rightarrow> 'l xcm_bridge_config" where
  "parachain_xcm_config xp para_id = \<lparr>
     Weigher = FixedWeightBounds xp UnitWeightCost MaxInstructions,
     XcmExecutor = xp_execute xp,
     AssetReservedChecker = xcm_config_is_native_asset para_id,
     UniversalLocation = parachain_UniversalLocation para_id,
     SelfLocation = parachain_SelfLocation para_id,
     MinXcmFee = parachain_MinXcmFee,
     reanchored = xp_reanchored xp,
     encode_xcm = xp_encode xp\<rparr>"

section \<open>The runtime\<close>

definition parachain_CurrencyTransactor :: "'l platform \<Rightarrow> ('l, 'z) forwarder_storage_scheme transactor" where
  "parachain_CurrencyTransactor pf = lift_transactor (CurrencyAdapter pf (IsConcrete pf RelayLocation))"

definition parachain_FungiblesTransactor :: "'l platform \<Rightarrow> ('l, 'z) forwarder_storage_scheme transactor" where
  "parachain_FungiblesTransactor pf = lift_transactor (FungiblesAdapter pf parachain_matches_fungibles)"

text \<open>The implementations of the traits \<^verbatim>\<open>Config\<close>, one for each pallet.\<close>

definition parachain_access_config :: "'c \<Rightarrow> 'c access_config_scheme" where
  "parachain_access_config rest = \<lparr>
     BridgeCommitteeOrigin = ensure_root,
     AccessPalletIndex = parachain_AccessSegregatorPalletIndex,
     Extrinsics = parachain_RegisteredExtrinsics, \<dots> = rest\<rparr>"

definition parachain_basic_config :: "'c \<Rightarrow> 'c basic_config_scheme" where
  "parachain_basic_config rest = parachain_access_config \<lparr>BasicPalletIndex = parachain_BasicFeeHandlerPalletIndex, \<dots> = rest\<rparr>"

definition parachain_percentage_config :: "'c \<Rightarrow> 'c percentage_config_scheme" where
  "parachain_percentage_config rest = parachain_basic_config \<lparr>PercentagePalletIndex = parachain_PercentageFeeHandlerRouterPalletIndex, \<dots> = rest\<rparr>"

definition parachain_router_config :: "'c \<Rightarrow> 'c router_config_scheme" where
  "parachain_router_config rest = parachain_percentage_config \<lparr>RouterPalletIndex = parachain_FeeHandlerRouterPalletIndex, \<dots> = rest\<rparr>"

definition parachain_config_with ::
    "('l, 'z) forwarder_storage_scheme deposit_fn \<Rightarrow> 'l platform \<Rightarrow> 'f fixed_u128 \<Rightarrow> u32
     \<Rightarrow> ('l, 'z) forwarder_storage_scheme bridge_config" where
  "parachain_config_with deposit_to pf fx para_id = parachain_router_config \<lparr>
     TransferReserveAccounts = parachain_bridge_accounts pf,
     DestVerifyingContractAddress = parachain_DestVerifyingContractAddress,
     EIP712ChainID = parachain_EIP712ChainID,
     FeeReserveAccount = parachain_TreasuryAccount,
     FeeHandler = router_get_fee,
     withdraw_asset = XCMAssetTransactor_withdraw_asset (parachain_CurrencyTransactor pf)
       (parachain_FungiblesTransactor pf) (is_native_asset para_id),
     deposit_asset = deposit_to,
     ResourcePairs = parachain_ResourcePairs,
     IsReserve = parachain_ReserveChecker_contains,
     ExtractDestData = parachain_extract_dest,
     PalletAccount = into_vec_truncating pf SygmaBridgePalletId,
     BridgePalletIndex = parachain_BridgePalletIndex,
     convert_to = parachain_convert_to fx parachain_AssetDecimalPairs,
     convert_from = parachain_convert_from fx parachain_AssetDecimalPairs\<rparr>"

lemmas parachain_config_defs = parachain_config_with_def parachain_router_config_def parachain_percentage_config_def parachain_basic_config_def
  parachain_access_config_def

definition parachain_local_deposit ::
    "'l platform \<Rightarrow> u32 \<Rightarrow> ('l, 'z) forwarder_storage_scheme deposit_fn" where
  "parachain_local_deposit pf para_id =
     deposit_by_kind (parachain_CurrencyTransactor pf) (parachain_FungiblesTransactor pf) (is_native_asset para_id)"

definition parachain_deposit_asset ::
    "host \<Rightarrow> 'l xcm_platform \<Rightarrow> 'l platform \<Rightarrow> 'f fixed_u128 \<Rightarrow> u32 \<Rightarrow> ('l, 'z) forwarder_storage_scheme deposit_fn" where
  "parachain_deposit_asset h xp pf fx para_id =
     XCMAssetTransactor_deposit_asset h (parachain_CurrencyTransactor pf) (parachain_FungiblesTransactor pf)
       (is_native_asset para_id)
       (other_world_transactor_forwarder
          (bridge_transfer (parachain_config_with (parachain_local_deposit pf para_id) pf fx para_id)))
       (xcm_transactor_forwarder (xcm_transfer (parachain_xcm_config xp para_id) h))"

definition parachain_config ::
    "host \<Rightarrow> 'l xcm_platform \<Rightarrow> 'l platform \<Rightarrow> 'f fixed_u128 \<Rightarrow> u32 \<Rightarrow> ('l, 'z) forwarder_storage_scheme bridge_config" where
  "parachain_config h xp pf fx para_id =
     parachain_config_with (parachain_deposit_asset h xp pf fx para_id) pf fx para_id"

section \<open>Re-entrance\<close>

text \<open>A deposit pays into accounts of this chain only, so it does not depend on the forwarding part.\<close>

lemma deposit_local_cong:
  assumes "\<And>a x. deposit_asset cfg a (account_location x) = f a (account_location x)"
  shows "deposit (cfg\<lparr>deposit_asset := f\<rparr>) origin asset dest = deposit cfg origin asset dest"
proof -
  have "get_token_reserved_account (cfg\<lparr>deposit_asset := f\<rparr>) = get_token_reserved_account cfg"
    "extract_asset (cfg\<lparr>deposit_asset := f\<rparr>) = extract_asset cfg"
    by (auto simp: get_token_reserved_account_def extract_asset_def fun_eq_iff split: Fungibility.split)
  then show ?thesis
    by (simp add: deposit_def deposit_body_def assms split_def cong: if_cong)
qed

lemma parachain_local:
  "parachain_deposit_asset h xp pf fx para_id a (account_location x) =
   parachain_local_deposit pf para_id a (account_location x)"
  by (rule ext) (simp add: parachain_deposit_asset_def parachain_local_deposit_def transactor_local)

lemma parachain_config_update:
  "parachain_config_with f pf fx para_id = (parachain_config_with g pf fx para_id)\<lparr>deposit_asset := f\<rparr>"
  by (simp add: parachain_config_defs)

lemma parachain_transfer:
  "bridge_transfer (parachain_config_with (parachain_local_deposit pf para_id) pf fx para_id) =
   bridge_transfer (parachain_config h xp pf fx para_id)"
proof (intro ext)
  fix sender asset dest w s
  have "deposit ((parachain_config h xp pf fx para_id)\<lparr>deposit_asset := parachain_local_deposit pf para_id\<rparr>)
      (Signed sender) asset dest s = deposit (parachain_config h xp pf fx para_id) (Signed sender) asset dest s"
    by (subst deposit_local_cong)
      (simp_all add: parachain_config_def parachain_config_defs parachain_local)
  then show "bridge_transfer (parachain_config_with (parachain_local_deposit pf para_id) pf fx para_id) sender asset dest w s =
      bridge_transfer (parachain_config h xp pf fx para_id) sender asset dest w s"
    by (simp add: bridge_transfer_def parachain_config_def
        parachain_config_update [of "parachain_local_deposit pf para_id" _ _ _ "parachain_deposit_asset h xp pf fx para_id"])
qed

lemma parachain_knot_eq:
  "deposit_asset (parachain_config h xp pf fx para_id) =
     XCMAssetTransactor_deposit_asset h (parachain_CurrencyTransactor pf) (parachain_FungiblesTransactor pf)
       (is_native_asset para_id)
       (other_world_transactor_forwarder (bridge_transfer (parachain_config h xp pf fx para_id)))
       (xcm_transactor_forwarder (xcm_transfer (parachain_xcm_config xp para_id) h))"
  by (simp add: parachain_transfer [of pf para_id fx h xp, symmetric])
    (simp add: parachain_config_def parachain_config_defs parachain_deposit_asset_def)

text \<open>
  The runtime types refer to each other: the transactor names the forwarder, which names the bridge pallet,
  whose configuration names the transactor. \<open>parachain_level n\<close> unfolds these references \<open>n\<close> times, with any
  function \<open>bottom\<close> in place of the rest.
\<close>

primrec parachain_level ::
    "host \<Rightarrow> 'l xcm_platform \<Rightarrow> 'l platform \<Rightarrow> 'f fixed_u128 \<Rightarrow> u32 \<Rightarrow> ('l, 'z) forwarder_storage_scheme deposit_fn
     \<Rightarrow> nat \<Rightarrow> ('l, 'z) forwarder_storage_scheme deposit_fn" where
  "parachain_level h xp pf fx para_id bottom 0 = bottom"
| "parachain_level h xp pf fx para_id bottom (Suc n) =
     XCMAssetTransactor_deposit_asset h (parachain_CurrencyTransactor pf) (parachain_FungiblesTransactor pf)
       (is_native_asset para_id)
       (other_world_transactor_forwarder
          (bridge_transfer (parachain_config_with (parachain_level h xp pf fx para_id bottom n) pf fx para_id)))
       (xcm_transactor_forwarder (xcm_transfer (parachain_xcm_config xp para_id) h))"

lemma bridge_transfer_local_cong:
  assumes "\<And>a x. f a (account_location x) = g a (account_location x)"
  shows "bridge_transfer (parachain_config_with f pf fx para_id) = bridge_transfer (parachain_config_with g pf fx para_id)"
proof (intro ext)
  fix sender asset dest w s
  show "bridge_transfer (parachain_config_with f pf fx para_id) sender asset dest w s =
      bridge_transfer (parachain_config_with g pf fx para_id) sender asset dest w s"
    unfolding bridge_transfer_def parachain_config_update [of g _ _ _ f]
    by (subst deposit_local_cong) (simp_all add: parachain_config_defs assms)
qed

lemma parachain_level_local:
  "parachain_level h xp pf fx para_id bottom (Suc n) a (account_location x) =
   parachain_local_deposit pf para_id a (account_location x)"
  by (rule ext) (simp add: parachain_local_deposit_def transactor_local)

lemma parachain_level_settles:
  "parachain_level h xp pf fx para_id bottom (Suc (Suc n)) = deposit_asset (parachain_config h xp pf fx para_id)"
proof -
  have "bridge_transfer (parachain_config_with (parachain_level h xp pf fx para_id bottom (Suc n)) pf fx para_id) =
      bridge_transfer (parachain_config_with (parachain_local_deposit pf para_id) pf fx para_id)"
    by (rule bridge_transfer_local_cong) (rule parachain_level_local)
  then show ?thesis
    unfolding parachain_level.simps(2) [of _ _ _ _ _ _ "Suc n"]
    by (simp only:) (simp add: parachain_config_def parachain_config_defs parachain_deposit_asset_def)
qed

section \<open>The runtime meets the contract\<close>

lemma parachain_by_kind:
  "only_ledger s (snd (deposit_by_kind (parachain_CurrencyTransactor pf) (parachain_FungiblesTransactor pf) n what who s))"
  by (simp add: deposit_by_kind_def parachain_CurrencyTransactor_def parachain_FungiblesTransactor_def
      lifted.deposit_ledger)

lemma parachain_withdraw:
  "only_ledger s (snd (XCMAssetTransactor_withdraw_asset (parachain_CurrencyTransactor pf)
     (parachain_FungiblesTransactor pf) n what who s))"
  by (simp add: XCMAssetTransactor_withdraw_asset_def parachain_CurrencyTransactor_def
      parachain_FungiblesTransactor_def lifted.withdraw_ledger)

interpretation parachain_inner: bridge_contract
  "parachain_config_with (parachain_local_deposit pf para_id) pf fx para_id" for pf fx para_id
  by unfold_locales
    (simp_all add: parachain_config_defs parachain_withdraw parachain_local_deposit_def
      parachain_by_kind only_ledger_control only_ledger_deposit_log [OF parachain_by_kind])

lemma xcm_forward_control:
  "keeps_control s (snd (xcm_transactor_forwarder (xcm_transfer xc h) tmp what who s))"
  "deposit_log_ok (snd (xcm_transactor_forwarder (xcm_transfer xc h) tmp what who s)) = deposit_log_ok s"
proof -
  obtain l es where "snd (xcm_transfer xc h tmp what who (Some (- 1, - 1)) s) = s\<lparr>ledger := l, xcm_bridge_events := es\<rparr>"
    using xcm_transfer_storage [of xc h tmp what who "Some (- 1, - 1)" s] by auto
  then have "\<exists>fs. snd (xcm_transactor_forwarder (xcm_transfer xc h) tmp what who s) =
      s\<lparr>ledger := l, xcm_bridge_events := es, forwarder_events := fs\<rparr>"
    by (auto simp: xcm_transactor_forwarder_state split: prod.split sum.split
        intro: exI [of _ "forwarder_events s"])
  then show "keeps_control s (snd (xcm_transactor_forwarder (xcm_transfer xc h) tmp what who s))"
    "deposit_log_ok (snd (xcm_transactor_forwarder (xcm_transfer xc h) tmp what who s)) = deposit_log_ok s"
    by (auto simp: keeps_control_def fee_tables_def deposit_log_ok_def deposit_counts_def)
qed

lemma other_world_control:
  fixes s :: "('l, 'z) forwarder_storage_scheme"
  assumes br: "br = bridge_transfer (parachain_config_with (parachain_local_deposit pf para_id) pf fx para_id)"
  shows "keeps_control s (snd (other_world_transactor_forwarder br tmp what who s))"
    "deposit_log_ok s \<Longrightarrow> deposit_log_ok (snd (other_world_transactor_forwarder br tmp what who s))"
  using parachain_inner.deposit_keeps_control [of s pf para_id fx "Signed tmp" what who]
    parachain_inner.deposit_keeps_log [of s pf para_id fx "Signed tmp" what who]
  unfolding br other_world_forwarder_state bridge_transfer_def
  by (auto simp: keeps_control_def fee_tables_def deposit_log_ok_def deposit_counts_def split_beta split: sum.split)

lemma parachain_deposit_keeps:
  "keeps_control s (snd (parachain_deposit_asset h xp pf fx para_id what who s))"
  "deposit_log_ok s \<Longrightarrow> deposit_log_ok (snd (parachain_deposit_asset h xp pf fx para_id what who s))"
proof -
  show "keeps_control s (snd (parachain_deposit_asset h xp pf fx para_id what who s))"
    unfolding parachain_deposit_asset_def
    by (rule XCMAssetTransactor_keeps [where P = "keeps_control s"])
      (blast intro: keeps_control_trans only_ledger_control parachain_by_kind other_world_control xcm_forward_control
        keeps_control_refl)+
  show "deposit_log_ok s \<Longrightarrow> deposit_log_ok (snd (parachain_deposit_asset h xp pf fx para_id what who s))"
    unfolding parachain_deposit_asset_def
    by (rule XCMAssetTransactor_keeps [where P = deposit_log_ok])
      (simp_all add: only_ledger_deposit_log [OF parachain_by_kind] other_world_control xcm_forward_control)
qed

text \<open>What a forwarded transfer does to the bridge are steps of its abstract machine.\<close>

lemma xcm_forward_simulated:
  "simulated s (snd (xcm_transactor_forwarder (xcm_transfer xc h) tmp what who s))"
proof -
  obtain l es where "snd (xcm_transfer xc h tmp what who (Some (- 1, - 1)) s) = s\<lparr>ledger := l, xcm_bridge_events := es\<rparr>"
    using xcm_transfer_storage [of xc h tmp what who "Some (- 1, - 1)" s] by auto
  then have "\<exists>fs. snd (xcm_transactor_forwarder (xcm_transfer xc h) tmp what who s) =
      s\<lparr>ledger := l, xcm_bridge_events := es, forwarder_events := fs\<rparr>"
    by (auto simp: xcm_transactor_forwarder_state split: prod.split sum.split
        intro: exI [of _ "forwarder_events s"])
  then show ?thesis by (auto intro!: simulated_same bridge_abs_cong)
qed

lemma other_world_simulated:
  fixes s :: "('l, 'z) forwarder_storage_scheme"
  assumes "br = bridge_transfer (parachain_config_with (parachain_local_deposit pf para_id) pf fx para_id)"
    and "domains_consistent s"
  shows "simulated s (snd (other_world_transactor_forwarder br tmp what who s))"
  using parachain_inner.deposit_call_simulated [OF assms(2), of pf para_id fx "Signed tmp" what who]
  unfolding assms(1) other_world_forwarder_state bridge_transfer_def
  by (auto simp: split_beta split: sum.split elim!: simulated_cong intro!: bridge_abs_cong)

lemma parachain_deposit_simulated:
  fixes s :: "('l, 'z) forwarder_storage_scheme"
  assumes "domains_consistent s"
  shows "simulated s (snd (parachain_deposit_asset h xp pf fx para_id what who s))"
proof -
  let ?P = "\<lambda>t. simulated s t \<and> domains_consistent t"
  have keeps: "keeps_control t u \<Longrightarrow> simulated t u \<Longrightarrow> ?P t \<Longrightarrow> ?P u" for t u :: "('l, 'z) forwarder_storage_scheme"
    using keeps_control_domains by (auto intro: simulated_trans)
  have "?P (snd (parachain_deposit_asset h xp pf fx para_id what who s))"
    unfolding parachain_deposit_asset_def
  proof (rule XCMAssetTransactor_keeps [where P = ?P])
    fix what who and t :: "('l, 'z) forwarder_storage_scheme"
    assume "?P t"
    then show "?P (snd (deposit_by_kind (parachain_CurrencyTransactor pf) (parachain_FungiblesTransactor pf)
        (is_native_asset para_id) what who t))"
      by (rule keeps [OF only_ledger_control [OF parachain_by_kind] simulated_ledger [OF parachain_by_kind]])
  next
    fix tmp what who and t :: "('l, 'z) forwarder_storage_scheme"
    assume t: "?P t"
    then show "?P (snd (other_world_transactor_forwarder (bridge_transfer (parachain_config_with
        (parachain_local_deposit pf para_id) pf fx para_id)) tmp what who t))"
      by (intro keeps [OF other_world_control(1) other_world_simulated]) simp_all
    show "?P (snd (xcm_transactor_forwarder (xcm_transfer (parachain_xcm_config xp para_id) h) tmp what who t))"
      by (rule keeps [OF xcm_forward_control(1) xcm_forward_simulated t])
  qed (simp add: assms simulated_same)
  then show ?thesis by simp
qed

interpretation parachain: specified_bridge "parachain_config h xp pf fx para_id" for h xp pf fx para_id
  by unfold_locales
    (simp_all add: parachain_config_def parachain_config_defs parachain_withdraw parachain_local
      parachain_local_deposit_def parachain_by_kind parachain_deposit_keeps parachain_deposit_simulated)

section \<open>Registered extrinsics\<close>

lemma parachain_registers_all: "registers_all (parachain_config h xp pf fx para_id)"
  by (simp add: registers_all_def has_registered_def parachain_config_def parachain_config_defs
      parachain_RegisteredExtrinsics_def del: ascii_simps)

text \<open>The indexes checked are those of the standalone runtime, not those of \<^verbatim>\<open>construct_runtime!\<close>.\<close>

lemma parachain_indexes:
  "checked_index (parachain_config h xp pf fx para_id) p = standalone_construct_runtime p"
  by (simp add: standalone_construct_runtime_def checked_index_def parachain_config_def parachain_config_defs
      parachain_AccessSegregatorPalletIndex_def parachain_BasicFeeHandlerPalletIndex_def
      parachain_PercentageFeeHandlerRouterPalletIndex_def parachain_FeeHandlerRouterPalletIndex_def
      parachain_BridgePalletIndex_def split: Pallet.split)

lemma parachain_indexes_differ:
  "checked_index (parachain_config h xp pf fx para_id) p \<noteq> None \<Longrightarrow>
   parachain_construct_runtime p \<noteq> checked_index (parachain_config h xp pf fx para_id) p"
  by (simp add: parachain_indexes parachain_construct_runtime_def standalone_construct_runtime_def split: Pallet.split)

end
