(* ===== verification/Bridge_Mock.thy ===== *)
theory Bridge_Mock
  imports Standalone_Runtime
begin

text \<open>
  The test runtime of the bridge pallet (\<^verbatim>\<open>bridge/src/mock.rs\<close>), and a reference platform on which it can be
  executed. The reference platform keeps balances in a function and implements the building blocks the
  way their documentation describes them; it shows that the hypotheses about the platform can hold, and
  concrete runs of the pallets are evaluated on it. No general theorem depends on it.
\<close>

section \<open>The test runtime\<close>

definition mock_AccessSegregatorPalletIndex :: u8 where "mock_AccessSegregatorPalletIndex = 4"

definition mock_BasicFeeHandlerPalletIndex :: u8 where "mock_BasicFeeHandlerPalletIndex = 5"

definition mock_BridgePalletIndex :: u8 where "mock_BridgePalletIndex = 6"

definition mock_PercentageFeeHandlerPalletIndex :: u8 where "mock_PercentageFeeHandlerPalletIndex = 7"

definition mock_FeeHandlerRouterPalletIndex :: u8 where "mock_FeeHandlerRouterPalletIndex = 8"

definition mock_RegisteredExtrinsics :: "(u8 \<times> bytes) list" where
  "mock_RegisteredExtrinsics =
     [(mock_AccessSegregatorPalletIndex, ascii ''grant_access''),
      (mock_BasicFeeHandlerPalletIndex, ascii ''set_fee''),
      (mock_PercentageFeeHandlerPalletIndex, ascii ''set_fee_rate''),
      (mock_FeeHandlerRouterPalletIndex, ascii ''set_fee_handler''),
      (mock_BridgePalletIndex, ascii ''set_mpc_address''),
      (mock_BridgePalletIndex, ascii ''pause_bridge''),
      (mock_BridgePalletIndex, ascii ''unpause_bridge''),
      (mock_BridgePalletIndex, ascii ''register_domain''),
      (mock_BridgePalletIndex, ascii ''unregister_domain''),
      (mock_BridgePalletIndex, ascii ''retry''),
      (mock_BridgePalletIndex, ascii ''pause_all_bridges''),
      (mock_BridgePalletIndex, ascii ''unpause_all_bridges'')]"

definition mock_construct_runtime :: "Pallet \<Rightarrow> u8 option" where
  "mock_construct_runtime p = (case p of
     AccessSegregatorPallet \<Rightarrow> Some 4 | BasicFeeHandlerPallet \<Rightarrow> Some 5 | BridgePallet \<Rightarrow> Some 6
   | PercentageFeeHandlerPallet \<Rightarrow> Some 7 | FeeHandlerRouterPallet \<Rightarrow> Some 8 | XcmBridgePallet \<Rightarrow> None)"

definition mock_UsdtLocation :: MultiLocation where
  "mock_UsdtLocation = sibling_key_location ''usdt''"

definition mock_AstrLocation :: MultiLocation where
  "mock_AstrLocation = sibling_key_location ''astr''"

definition mock_NativeResourceId :: ResourceId where
  "mock_NativeResourceId = be_bytes 32 0x00e6dfb61a2fb903df487c401663825643bb825d41695e63df8af6162ab145a6"

definition mock_UsdtResourceId :: ResourceId where
  "mock_UsdtResourceId = be_bytes 32 0x00b14e071ddad0b12be5aca6dffc5f2584ea158d9b0ce73e1437115e97a32a3e"

definition mock_AstrResourceId :: ResourceId where
  "mock_AstrResourceId = be_bytes 32 0x4e071db61a2fb903df487c401663825643ba158d9b0ce73e1437163825643bba"

definition mock_ResourcePairs :: "(AssetId \<times> ResourceId) list" where
  "mock_ResourcePairs =
     [(Concrete NativeLocation, mock_NativeResourceId), (Concrete mock_UsdtLocation, mock_UsdtResourceId),
      (Concrete mock_AstrLocation, mock_AstrResourceId)]"

definition mock_AssetDecimalPairs :: "(AssetId \<times> u8) list" where
  "mock_AssetDecimalPairs =
     [(Concrete NativeLocation, 12), (Concrete mock_UsdtLocation, 18), (Concrete mock_AstrLocation, 24)]"

definition mock_BridgeAccountNative :: "'l platform \<Rightarrow> AccountId" where
  "mock_BridgeAccountNative pf = into_account_truncating pf SygmaBridgePalletId"

definition mock_BridgeAccountOtherTokens :: "'l platform \<Rightarrow> AccountId" where
  "mock_BridgeAccountOtherTokens pf = into_sub_account_truncating pf SygmaBridgePalletId 1"

definition mock_bridge_accounts :: "'l platform \<Rightarrow> AssetId \<rightharpoonup> AccountId" where
  "mock_bridge_accounts pf =
     [Concrete NativeLocation \<mapsto> mock_BridgeAccountNative pf,
      Concrete mock_UsdtLocation \<mapsto> mock_BridgeAccountOtherTokens pf,
      Concrete mock_AstrLocation \<mapsto> mock_BridgeAccountOtherTokens pf]"

definition mock_UsdtAssetId :: u32 where
  "mock_UsdtAssetId = 0"

definition mock_AstrAssetId :: u32 where
  "mock_AstrAssetId = 1"

definition mock_matches_fungibles :: "MultiAsset \<Rightarrow> ExecutionError + u32 \<times> u128" where
  "mock_matches_fungibles = matches_fungibles [(mock_UsdtLocation, mock_UsdtAssetId), (mock_AstrLocation, mock_AstrAssetId)]"

definition mock_DestVerifyingContractAddress :: VerifyingContractAddress where
  "mock_DestVerifyingContractAddress = replicate 20 1"

text \<open>Four limbs with the value 1.\<close>

definition mock_EIP712ChainID :: ChainID where
  "mock_EIP712ChainID = 1 + 2 ^ 64 + 2 ^ 128 + 2 ^ 192"

definition mock_CurrencyTransactor :: "'l platform \<Rightarrow> 'l transactor" where
  "mock_CurrencyTransactor pf = CurrencyAdapter pf (IsConcrete pf NativeLocation)"

definition mock_FungiblesTransactor :: "'l platform \<Rightarrow> 'l transactor" where
  "mock_FungiblesTransactor pf = FungiblesAdapter pf mock_matches_fungibles"

definition mock_AssetTransactors :: "'l platform \<Rightarrow> 'l transactor" where
  "mock_AssetTransactors pf =
     transactor_pair pf (mock_CurrencyTransactor pf) (mock_FungiblesTransactor pf)"

text \<open>The implementations of the traits \<^verbatim>\<open>Config\<close>, one for each pallet.\<close>

definition mock_access_config :: "'c \<Rightarrow> 'c access_config_scheme" where
  "mock_access_config rest = \<lparr>
     BridgeCommitteeOrigin = ensure_root,
     AccessPalletIndex = mock_AccessSegregatorPalletIndex,
     Extrinsics = mock_RegisteredExtrinsics, \<dots> = rest\<rparr>"

definition mock_basic_config :: "'c \<Rightarrow> 'c basic_config_scheme" where
  "mock_basic_config rest = mock_access_config \<lparr>BasicPalletIndex = mock_BasicFeeHandlerPalletIndex, \<dots> = rest\<rparr>"

definition mock_percentage_config :: "'c \<Rightarrow> 'c percentage_config_scheme" where
  "mock_percentage_config rest = mock_basic_config \<lparr>PercentagePalletIndex = mock_PercentageFeeHandlerPalletIndex, \<dots> = rest\<rparr>"

definition mock_router_config :: "'c \<Rightarrow> 'c router_config_scheme" where
  "mock_router_config rest = mock_percentage_config \<lparr>RouterPalletIndex = mock_FeeHandlerRouterPalletIndex, \<dots> = rest\<rparr>"

definition mock_config ::
    "'l platform \<Rightarrow> 'f fixed_u128 \<Rightarrow> ('l, 'z) bridge_storage_scheme bridge_config" where
  "mock_config pf fx = mock_router_config \<lparr>
     TransferReserveAccounts = mock_bridge_accounts pf,
     DestVerifyingContractAddress = mock_DestVerifyingContractAddress,
     EIP712ChainID = mock_EIP712ChainID,
     FeeReserveAccount = TreasuryAccount,
     FeeHandler = router_get_fee,
     withdraw_asset = tr_withdraw (lift_transactor (mock_AssetTransactors pf)),
     deposit_asset = tr_deposit (lift_transactor (mock_AssetTransactors pf)),
     ResourcePairs = mock_ResourcePairs,
     IsReserve = ReserveChecker_contains,
     ExtractDestData = DestinationDataParser_extract_dest,
     PalletAccount = into_vec_truncating pf SygmaBridgePalletId,
     BridgePalletIndex = mock_BridgePalletIndex,
     convert_to = decimal_convert_to fx mock_AssetDecimalPairs,
     convert_from = decimal_convert_from fx mock_AssetDecimalPairs\<rparr>"

lemmas mock_config_defs = mock_config_def mock_router_config_def mock_percentage_config_def mock_basic_config_def
  mock_access_config_def

lemmas mock_transactor_defs = mock_AssetTransactors_def mock_CurrencyTransactor_def mock_FungiblesTransactor_def
  mock_UsdtAssetId_def mock_AstrAssetId_def

lemmas mock_account_defs = mock_bridge_accounts_def mock_BridgeAccountNative_def mock_BridgeAccountOtherTokens_def

definition ALICE :: AccountId where "ALICE = replicate 32 0"

definition ASSET_OWNER :: AccountId where "ASSET_OWNER = replicate 32 1"

definition BOB :: AccountId where "BOB = replicate 32 2"

definition ENDOWED_BALANCE :: nat where "ENDOWED_BALANCE = 1000000000000000000000000000"

definition DEST_DOMAIN_ID :: DomainID where "DEST_DOMAIN_ID = 1"

section \<open>A reference platform\<close>

type_synonym balances = "u32 option \<times> bytes \<Rightarrow> nat"

text \<open>The error with number 0 is the one for an asset the adapter does not handle.\<close>

definition reference_account :: "MultiLocation \<Rightarrow> bytes option" where
  "reference_account who =
     (if parents who = 0 then
        (case interior who of
           [j] \<Rightarrow> (case j of AccountId32 _ x \<Rightarrow> Some x | _ \<Rightarrow> None)
         | _ \<Rightarrow> None)
      else None)"

definition reference_adapter :: "(MultiAsset \<Rightarrow> (u32 option \<times> u128) option) \<Rightarrow> balances transactor" where
  "reference_adapter m = \<lparr>
     tr_withdraw = \<lambda>what who l. (case m what of
         None \<Rightarrow> (Inl (OtherXcmError 0), l)
       | Some (k, n) \<Rightarrow> (case reference_account who of
           None \<Rightarrow> (Inl (OtherXcmError 1), l)
         | Some x \<Rightarrow> if unat n \<le> l (k, x) then (Inr [what], l((k, x) := l (k, x) - unat n))
                     else (Inl (OtherXcmError 2), l))),
     tr_deposit = \<lambda>what who l. (case m what of
         None \<Rightarrow> (Inl (OtherXcmError 0), l)
       | Some (k, n) \<Rightarrow> (case reference_account who of
           None \<Rightarrow> (Inl (OtherXcmError 1), l)
         | Some x \<Rightarrow> if l (k, x) + unat n < 2 ^ 128 then (Inr (), l((k, x) := l (k, x) + unat n))
                     else (Inl (OtherXcmError 2), l)))\<rparr>"

definition reference_pair :: "balances transactor \<Rightarrow> balances transactor \<Rightarrow> balances transactor" where
  "reference_pair t u = \<lparr>
     tr_withdraw = \<lambda>what who l. (case tr_withdraw t what who l of
         (Inl e, l') \<Rightarrow> if e = OtherXcmError 0 then tr_withdraw u what who l' else (Inl e, l')
       | r \<Rightarrow> r),
     tr_deposit = \<lambda>what who l. (case tr_deposit t what who l of
         (Inl e, l') \<Rightarrow> if e = OtherXcmError 0 then tr_deposit u what who l' else (Inl e, l')
       | r \<Rightarrow> r)\<rparr>"

definition reference_platform :: "balances platform" where
  "reference_platform = \<lparr>
     IsConcrete = \<lambda>l a. (case asset_fun a of
         Fungible n \<Rightarrow> if asset_id a = Concrete l then Some n else None | NonFungible _ \<Rightarrow> None),
     CurrencyAdapter = \<lambda>m. reference_adapter (\<lambda>a. map_option (\<lambda>n. (None, n)) (m a)),
     FungiblesAdapter = \<lambda>m. reference_adapter (\<lambda>a. case m a of Inl _ \<Rightarrow> None | Inr (k, n) \<Rightarrow> Some (Some k, n)),
     transactor_pair = reference_pair,
     into_account_truncating = \<lambda>p. take 32 (ascii ''modl'' @ p @ replicate 32 0),
     into_sub_account_truncating = \<lambda>p i. take 32 (ascii ''modl'' @ p @ [ucast i] @ replicate 32 0),
     into_vec_truncating = \<lambda>p. p\<rparr>"

section \<open>The runtime meets the contracts\<close>

interpretation mock: specified_bridge "mock_config pf fx" for pf fx
  by (rule lifted.satisfies_spec) (simp_all add: mock_config_defs)

lemma reference_is_concrete: "is_concrete_law reference_platform"
  by (simp add: is_concrete_law_def reference_platform_def)

lemma reference_refuses: "currency_refuses_law reference_platform"
  by (auto simp: currency_refuses_law_def reference_platform_def reference_adapter_def)

lemma mock_registers_all: "registers_all (mock_config pf fx)"
  by (simp add: registers_all_def mock_config_defs mock_RegisteredExtrinsics_def del: ascii_simps)

lemma mock_indexes: "mock_construct_runtime p = checked_index (mock_config pf fx) p"
  by (simp add: mock_construct_runtime_def checked_index_def mock_config_defs
      mock_AccessSegregatorPalletIndex_def mock_BasicFeeHandlerPalletIndex_def mock_PercentageFeeHandlerPalletIndex_def
      mock_FeeHandlerRouterPalletIndex_def mock_BridgePalletIndex_def split: Pallet.split)

end
