(* ===== verification/Bridge_Accounting.thy ===== *)
theory Bridge_Accounting
  imports Bridge_Runtime
begin

text \<open>
  Where the assets go. The balances of the chain are read by a function \<open>bal\<close> of the ledger, an asset and
  an account; \<open>moves_balances\<close> is the documented effect of a transactor call that succeeds: a withdrawal
  takes the amount from the account, a deposit adds it, and nothing else changes. Deposits and proposals
  of the bridge are then accounted for entry by entry.
\<close>

type_synonym 'l balance_fn = "'l \<Rightarrow> AssetId \<Rightarrow> AccountId \<Rightarrow> nat"

definition withdraw_moves ::
    "'l balance_fn \<Rightarrow> (('l, 'z) bridge_storage_scheme, 'c) bridge_config_scheme \<Rightarrow> bool" where
  "withdraw_moves bal cfg \<longleftrightarrow> (\<forall>what n who s held t.
     asset_fun what = Fungible n \<longrightarrow>
     withdraw_asset cfg what (account_location who) s = (Inr held, t) \<longrightarrow>
     (\<forall>b y. bal (ledger t) b y + (if b = asset_id what \<and> y = who then unat n else 0) = bal (ledger s) b y))"

definition deposit_moves ::
    "'l balance_fn \<Rightarrow> (('l, 'z) bridge_storage_scheme, 'c) bridge_config_scheme \<Rightarrow> bool" where
  "deposit_moves bal cfg \<longleftrightarrow> (\<forall>what n who s t.
     asset_fun what = Fungible n \<longrightarrow>
     deposit_asset cfg what (account_location who) s = (Inr (), t) \<longrightarrow>
     (\<forall>b y. bal (ledger t) b y = bal (ledger s) b y + (if b = asset_id what \<and> y = who then unat n else 0)))"

definition moves_balances ::
    "'l balance_fn \<Rightarrow> (('l, 'z) bridge_storage_scheme, 'c) bridge_config_scheme \<Rightarrow> bool" where
  "moves_balances bal cfg \<longleftrightarrow> withdraw_moves bal cfg \<and> deposit_moves bal cfg"

lemma withdraw_movesD:
  assumes "moves_balances bal cfg" and "asset_fun what = Fungible n"
    and "withdraw_asset cfg what (account_location who) s = (Inr held, t)"
  shows "bal (ledger t) b y + (if b = asset_id what \<and> y = who then unat n else 0) = bal (ledger s) b y"
  using assms unfolding moves_balances_def withdraw_moves_def by blast

lemma deposit_movesD:
  assumes "moves_balances bal cfg" and "deposit_asset cfg (fungible_asset a n) (account_location who) s = (Inr (), t)"
  shows "bal (ledger t) b y = bal (ledger s) b y + (if b = a \<and> y = who then unat n else 0)"
  using assms unfolding moves_balances_def deposit_moves_def by (metis fungible_asset_simps)

section \<open>A deposit\<close>

lemma extract_asset_fun: "extract_asset cfg asset = Some (rid, amount, t) \<Longrightarrow> asset_fun asset = Fungible amount"
  by (auto simp: extract_asset_def split: Fungibility.splits)

lemma deposit_facts_balances:
  assumes mv: "moves_balances bal cfg"
    and facts: "deposit_facts cfg sender asset dest d recipient rid amount fee acct dca s t"
  shows "bal (ledger t) b y + (if b = asset_id asset \<and> y = sender then unat amount else 0) =
    bal (ledger s) b y + (if b = asset_id asset \<and> y = FeeReserveAccount cfg then unat fee else 0) +
    (if b = asset_id asset \<and> y = acct \<and> IsReserve cfg asset here then unat amount - unat fee else 0)"
proof -
  obtain held s1 s2 where w: "withdraw_asset cfg asset (account_location sender) s = (Inr held, s1)"
    and f: "deposit_asset cfg (fungible_asset (asset_id asset) fee)
      (account_location (FeeReserveAccount cfg)) s1 = (Inr (), s2)"
    and r: "if IsReserve cfg asset here
      then deposit_asset cfg (fungible_asset (asset_id asset) (amount - fee)) (account_location acct) s2 = (Inr (), t)
      else t = s2"
    and fe: "fee < amount" and "extract_asset cfg asset = Some (rid, amount, FungibleTransfer)"
    using facts unfolding deposit_facts_def by blast
  have fun_asset: "asset_fun asset = Fungible amount" by (rule extract_asset_fun) fact
  have diff: "unat (amount - fee) = unat amount - unat fee"
    using fe by (simp add: unat_sub_if_size word_less_nat_alt word_le_nat_alt)
  have t: "bal (ledger t) b y = bal (ledger s2) b y +
      (if b = asset_id asset \<and> y = acct \<and> IsReserve cfg asset here then unat amount - unat fee else 0)"
    using r deposit_movesD [OF mv, of "asset_id asset" "amount - fee" acct s2 t b y] diff
    by (auto split: if_splits)
  show ?thesis
    using withdraw_movesD [OF mv fun_asset w, of b y] deposit_movesD [OF mv f, of b y] t by simp
qed

section \<open>A proposal\<close>

text \<open>The facts behind a proposal that is paid out.\<close>

definition payout_facts ::
    "(('l, 'z) bridge_storage_scheme, 'c) bridge_config_scheme \<Rightarrow> host \<Rightarrow> Proposal \<Rightarrow> AssetId
     \<Rightarrow> MultiLocation \<Rightarrow> MultiAsset \<Rightarrow> AccountId \<Rightarrow> ('l, 'z) bridge_storage_scheme
     \<Rightarrow> ('l, 'z) bridge_storage_scheme \<Rightarrow> bool" where
  "payout_facts cfg h p a location asset acct s s1 \<longleftrightarrow>
     \<not> is_paused s (origin_domain_id p) \<and> dest_domain_ids s (origin_domain_id p) \<and>
     \<not> is_proposal_executed (deposit_nonce p) (origin_domain_id p) s \<and>
     rid_to_assetid cfg (resource_id p) = Some a \<and>
     (\<exists>amount. extract_deposit_data h (proposal_data p) = Inr (amount, location) \<and>
        convert_from cfg (fungible_asset a amount) = Some asset) \<and>
     get_token_reserved_account cfg a = Some acct \<and>
     (if IsReserve cfg asset here
      then \<exists>held. withdraw_asset cfg asset (account_location acct) s = (Inr held, s1)
      else s1 = s)"

lemma internal_okE:
  assumes "execute_proposal_internal cfg h p s = (Inr u, t)"
  obtains a location asset acct s1 where "payout_facts cfg h p a location asset acct s s1"
    and "deposit_asset cfg asset location s1 = (Inr (), t)"
proof -
  from assms show ?thesis
    unfolding execute_proposal_internal_def
    apply (clarsimp simp: exec_ok)
    apply (rule that)
     apply (auto simp: payout_facts_def split: if_splits)
    done
qed

text \<open>
  With the checks passed, the outcome is that of the last transfer. When it fails, the storage is the one
  after the withdrawal from the reserve.
\<close>

lemma internal_payout:
  assumes "payout_facts cfg h p a location asset acct s s1"
  shows "execute_proposal_internal cfg h p s =
    (case deposit_asset cfg asset location s1 of
       (Inl _, t) \<Rightarrow> (Inl (bridge_error TransactFailed), t)
     | (Inr u, t) \<Rightarrow> (Inr u, t))"
  using assms
  by (auto simp: payout_facts_def execute_proposal_internal_def exec_eval split: if_splits sum.split prod.split)

end
