(* ===== verification/Bridge_Safety.thy ===== *)
theory Bridge_Safety
  imports Bridge_Accounting
begin

text \<open>
  Facts about whole calls and runs that the safety properties of the bridge rest on: who may make which
  call, what a paused domain blocks, and what a run of calls leaves alone.
\<close>

section \<open>Access\<close>

text \<open>The guard of each call that changes settings, with the error it is refused with.\<close>

fun call_access ::
    "(('l, 'z) bridge_storage_scheme, 'c) bridge_config_scheme \<Rightarrow> RuntimeCall \<Rightarrow> RuntimeOrigin
     \<Rightarrow> ('l, 'z) bridge_storage_scheme \<Rightarrow> bool" where
  "call_access cfg (GrantAccess _ _ _) origin s = has_access cfg (AccessPalletIndex cfg) (ascii ''grant_access'') origin s"
| "call_access cfg (SetFee _ _ _) origin s = has_access cfg (BasicPalletIndex cfg) (ascii ''set_fee'') origin s"
| "call_access cfg (SetFeeRate _ _ _ _ _) origin s = has_access cfg (PercentagePalletIndex cfg) (ascii ''set_fee_rate'') origin s"
| "call_access cfg (SetFeeHandler _ _ _) origin s = has_access cfg (RouterPalletIndex cfg) (ascii ''set_fee_handler'') origin s"
| "call_access cfg (PauseBridge _) origin s = bridge_access cfg ''pause_bridge'' origin s"
| "call_access cfg (UnpauseBridge _) origin s = bridge_access cfg ''unpause_bridge'' origin s"
| "call_access cfg (SetMpcAddress _) origin s = bridge_access cfg ''set_mpc_address'' origin s"
| "call_access cfg (RegisterDomain _ _) origin s = bridge_access cfg ''register_domain'' origin s"
| "call_access cfg (UnregisterDomain _ _) origin s = bridge_access cfg ''unregister_domain'' origin s"
| "call_access cfg (RetryCall _ _) origin s = bridge_access cfg ''retry'' origin s"
| "call_access cfg PauseAllBridges origin s = bridge_access cfg ''pause_all_bridges'' origin s"
| "call_access cfg UnpauseAllBridges origin s = bridge_access cfg ''unpause_all_bridges'' origin s"
| "call_access cfg (DepositCall _ _) origin s = (\<exists>who. origin = Signed who)"
| "call_access cfg (ExecuteProposal _ _) origin s = True"

fun call_denied :: "RuntimeCall \<Rightarrow> DispatchError" where
  "call_denied (GrantAccess _ _ _) = access_error GrantAccessFailed"
| "call_denied (SetFee _ _ _) = basic_error BasicAccessDenied"
| "call_denied (SetFeeRate _ _ _ _ _) = percentage_error PercentageAccessDenied"
| "call_denied (SetFeeHandler _ _ _) = router_error RouterAccessDenied"
| "call_denied (DepositCall _ _) = BadOrigin"
| "call_denied _ = bridge_error AccessDenied"

lemma dispatch_refused:
  "\<not> call_access cfg c origin s \<Longrightarrow> dispatch cfg h origin c s = (Inl (call_denied c), s)"
  by (cases c)
    (auto simp: grant.refuses set_fee.refuses set_fee_rate.refuses set_fee_handler.refuses pause.refuses
      unpause.refuses set_mpc.refuses register.refuses unregister.refuses retry.refuses pause_all.refuses
      unpause_all.refuses deposit_def transactional_def deposit_body_def try_result_def
      split: sum.split simp: ensure_signed_Inl_iff)

text \<open>Every call that returns an error leaves the storage as it was.\<close>

lemma dispatch_atomic: "dispatch cfg h origin c s = (Inl e, s') \<Longrightarrow> s' = s"
  by (cases c)
    (auto dest: grant.atomic set_fee.atomic set_fee_rate.atomic set_fee_handler.atomic pause.atomic
      unpause.atomic set_mpc.atomic register.atomic unregister.atomic retry.atomic pause_all.atomic
      unpause_all.atomic transactional_Inl simp: deposit_def execute_proposal_def)

section \<open>Runs\<close>

text \<open>A sequence of calls, each with its origin.\<close>

definition run ::
    "(('l, 'z) bridge_storage_scheme, 'c) bridge_config_scheme \<Rightarrow> host \<Rightarrow> (RuntimeOrigin \<times> RuntimeCall) list
     \<Rightarrow> ('l, 'z) bridge_storage_scheme \<Rightarrow> ('l, 'z) bridge_storage_scheme" where
  "run cfg h calls s = fold (\<lambda>(origin, c) s. snd (dispatch cfg h origin c s)) calls s"

lemma run_simps [simp]:
  "run cfg h [] s = s"
  "run cfg h ((origin, c) # calls) s = run cfg h calls (snd (dispatch cfg h origin c s))"
  by (simp_all add: run_def)

lemma run_reachable: "reachable cfg h s \<Longrightarrow> reachable cfg h (run cfg h calls s)"
  by (induction calls arbitrary: s) (auto simp: reachable.call)

lemma run_mpc:
  assumes "bridge_contract cfg" and "\<not> is_clear (mpc_addr s)"
  shows "MpcAddr (run cfg h calls s) = MpcAddr s"
  using assms(2)
proof (induction calls arbitrary: s)
  case (Cons a calls)
  obtain origin c where a: "a = (origin, c)" by (cases a)
  have same: "MpcAddr (snd (dispatch cfg h origin c s)) = MpcAddr s"
    using bridge_contract.dispatch_mpc [OF assms(1) Cons.prems] .
  then have "\<not> is_clear (mpc_addr (snd (dispatch cfg h origin c s)))"
    using Cons.prems by (simp add: mpc_addr_def)
  from Cons.IH [OF this] show ?case by (simp add: a same)
qed simp

section \<open>Paused domains\<close>

lemma internal_needs_unpaused:
  "execute_proposal_internal cfg h p s = (Inr u, t) \<Longrightarrow>
   \<not> is_paused s (origin_domain_id p) \<and> dest_domain_ids s (origin_domain_id p) \<and>
   \<not> is_proposal_executed (deposit_nonce p) (origin_domain_id p) s"
  by (auto simp: execute_proposal_internal_def exec_ok)

context bridge_contract
begin

lemma execute_one_blocked:
  assumes "is_paused s d \<or> \<not> dest_domain_ids s d"
  shows "is_proposal_executed n d (execute_one cfg h p s) = is_proposal_executed n d s"
proof -
  obtain r t where rt: "execute_proposal_internal cfg h p s = (r, t)" by (meson surj_pair)
  have "UsedNonces t = UsedNonces s" using internal_keeps_control [of s h p] rt by (simp add: keeps_control_def)
  then have t: "is_proposal_executed n d t = is_proposal_executed n d s" for n d
    by (simp add: is_proposal_executed_def used_nonces_def)
  have ev: "is_proposal_executed n d (deposit_event e u) = is_proposal_executed n d u"
    for e and u :: "('l, 'z) bridge_storage_scheme"
    by (simp add: is_proposal_executed_def used_nonces_def deposit_event_def)
  show ?thesis
  proof (cases r)
    case (Inr u)
    then have "origin_domain_id p \<noteq> d" using assms rt internal_needs_unpaused by metis
    then show ?thesis by (simp add: execute_one_def rt Inr ev is_proposal_executed_set t)
  qed (simp add: execute_one_def rt ev t)
qed

lemma fold_execute_blocked:
  "is_paused s d \<or> \<not> dest_domain_ids s d \<Longrightarrow>
   is_proposal_executed n d (fold (execute_one cfg h) ps s) = is_proposal_executed n d s"
proof (induction ps arbitrary: s)
  case (Cons p ps)
  have "is_paused (execute_one cfg h p s) d \<or> \<not> dest_domain_ids (execute_one cfg h p s) d"
    using Cons.prems by (simp add: is_paused_def dest_domain_ids_def execute_one_control)
  from Cons.IH [OF this] show ?case using execute_one_blocked [OF Cons.prems] by simp
qed simp

end

end
