(* ===== verification/Bridge_Scenarios.thy ===== *)
theory Bridge_Scenarios
  imports Bridge_Mock Bridge_Safety
begin

text \<open>
  Concrete runs of the pallets on the test runtime, on the reference platform and with a small host: the
  set-up the unit tests of the bridge pallet start from, a deposit, proposals that are paid out and one
  whose recipient cannot be paid. They evaluate the definitions and serve as instances of the general
  theorems.
\<close>

definition test_host :: host where
  "test_host = \<lparr>
     keccak_256 = \<lambda>x. be_bytes 8 (length x) @ replicate 23 0 @ [sum_list x],
     blake2_256 = \<lambda>x. take 32 (x @ replicate 32 0),
     secp256k1_ecdsa_recover = \<lambda>sig msg. if sig = replicate 65 7 then Some (replicate 64 9) else None,
     abi_encode = \<lambda>ts. concat (map static_word ts),
     encode_location = \<lambda>l. (case reference_account l of Some x \<Rightarrow> x | None \<Rightarrow> []),
     decode_location = \<lambda>bs. if length bs = 32 then Some (account_location bs)
                         else if bs = [] then Some (new_location 0 [OnlyChild]) else None\<rparr>"

text \<open>The hash of the host: the length of the string and the sum of its bytes.\<close>

definition mock_mpc :: MpcAddress where
  "mock_mpc = replicate 19 0 @ [64]"

definition mock_genesis :: "balances bridge_storage" where
  "mock_genesis = \<lparr>ledger = (\<lambda>_. 0), ExtrinsicAccess = Map.empty, access_events = [],
     AssetFees = Map.empty, basic_events = [], AssetFeeRate = Map.empty, percentage_events = [],
     HandlerType = Map.empty, router_events = [],
     DepositCounts = Map.empty, IsPaused = Map.empty, MpcAddr = None, UsedNonces = Map.empty,
     DestDomainIds = Map.empty, DestChainIds = Map.empty, bridge_storage_version = 0, bridge_events = []\<rparr>"

text \<open>The balances of \<^verbatim>\<open>new_test_ext\<close>.\<close>

definition endowed :: balances where
  "endowed = (\<lambda>_. 0)((None, ALICE) := ENDOWED_BALANCE, (None, ASSET_OWNER) := ENDOWED_BALANCE,
                    (None, BOB) := ENDOWED_BALANCE)"

definition native :: AssetId where
  "native = Concrete NativeLocation"

definition mock_cfg :: "balances bridge_storage bridge_config" where
  "mock_cfg = mock_config reference_platform fixed_words"

text \<open>The committee sets the MPC address, registers domain 1 and sets a fee of 100 for the native asset.\<close>

definition setup_calls :: "RuntimeCall list" where
  "setup_calls = [SetMpcAddress mock_mpc, RegisterDomain 1 1,
     SetFeeHandler 1 native BasicFeeHandler, SetFee 1 native 100]"

definition mock_ready :: "balances bridge_storage" where
  "mock_ready = (fold (\<lambda>c s. snd (dispatch mock_cfg test_host Root c s)) setup_calls mock_genesis)\<lparr>ledger := endowed\<rparr>"

lemma mock_mpc_set [simp]: "\<not> is_clear mock_mpc"
  by (auto simp: is_clear_def default_mpc_address_def mock_mpc_def dest: arg_cong [where f = last])

lemma mock_cfg_fields [simp]:
  "BridgeCommitteeOrigin mock_cfg = ensure_root" "Extrinsics mock_cfg = mock_RegisteredExtrinsics"
  "TransferReserveAccounts mock_cfg = mock_bridge_accounts reference_platform"
  "FeeReserveAccount mock_cfg = TreasuryAccount" "FeeHandler mock_cfg = router_get_fee"
  "ResourcePairs mock_cfg = mock_ResourcePairs" "IsReserve mock_cfg = ReserveChecker_contains"
  "ExtractDestData mock_cfg = DestinationDataParser_extract_dest"
  "convert_to mock_cfg = decimal_convert_to fixed_words mock_AssetDecimalPairs"
  "convert_from mock_cfg = decimal_convert_from fixed_words mock_AssetDecimalPairs"
  by (simp_all add: mock_cfg_def mock_config_defs)

lemma mock_cfg_transactor:
  "withdraw_asset mock_cfg = tr_withdraw (lift_transactor (mock_AssetTransactors reference_platform))"
  "deposit_asset mock_cfg = tr_deposit (lift_transactor (mock_AssetTransactors reference_platform))"
  by (simp_all add: mock_cfg_def mock_config_defs)

lemma mock_contract: "bridge_contract mock_cfg"
  unfolding mock_cfg_def by (rule mock.bridge_contract_axioms)

lemma root_access [simp]: "has_access mock_cfg i n Root s" "bridge_access mock_cfg x Root s"
  by (simp_all add: has_access_def bridge_access_def ensure_root_def)

lemma mock_ready_eq:
  "mock_ready = mock_genesis\<lparr>ledger := endowed, AssetFees := [(1, native) \<mapsto> 100],
     basic_events := [FeeSet 1 native 100], HandlerType := [(1, native) \<mapsto> BasicFeeHandler],
     router_events := [FeeHandlerSet 1 native BasicFeeHandler],
     MpcAddr := Some mock_mpc, DestDomainIds := [1 \<mapsto> True], DestChainIds := [1 \<mapsto> 1],
     bridge_events := [RegisterDestDomain (replicate 32 0) 1 1]\<rparr>"
  by (simp add: mock_ready_def setup_calls_def set_mpc_address_def register_domain_def set_fee_handler_def
      set_fee_def mock_genesis_def mpc_addr_def is_clear_def default_mpc_address_def
      unpause_all_domains_eq deposit_event_def event_sender_def ensure_signed_def)

lemma mock_ready_reachable: "reachable mock_cfg test_host mock_ready"
proof -
  have "reachable mock_cfg test_host s \<Longrightarrow>
      reachable mock_cfg test_host (fold (\<lambda>c s. snd (dispatch mock_cfg test_host Root c s)) cs s)" for cs s
    by (induction cs arbitrary: s) (auto intro: reachable.call)
  moreover have "fresh_storage mock_genesis" by (simp add: fresh_storage_def mock_genesis_def)
  ultimately show ?thesis
    unfolding mock_ready_def by (blast intro: reachable.genesis reachable.environment)
qed

section \<open>A deposit\<close>

definition to_ethereum :: MultiLocation where
  "to_ethereum = new_location 0 [padded_key (ascii ''ethereum recipient''), padded_key [1]]"

lemma mock_ready_getters:
  "\<not> is_clear (mpc_addr mock_ready)" "\<not> is_paused mock_ready d" "dest_domain_ids mock_ready 1"
  "deposit_counts mock_ready d = 0" "ledger mock_ready = endowed"
  "router_get_fee mock_ready 1 (fungible_asset native n) = Some 100"
  by (simp_all add: mock_ready_eq mock_genesis_def getter_defs value_query_def router_get_fee_def basic_get_fee_def)

lemma to_ethereum_parsed:
  "DestinationDataParser_extract_dest to_ethereum = Returns (Some (ascii ''ethereum recipient'', 1))"
  using slice_padded_key [of "ascii ''ethereum recipient''"]
  by (simp add: to_ethereum_def DestinationDataParser_extract_dest_def slice_recipient_def padded_key_def)

lemma reference_account_location [simp]: "reference_account (account_location x) = Some x"
  by (simp add: reference_account_def account_location_def junction_location_def)

lemma native_matched:
  "IsConcrete reference_platform NativeLocation (fungible_asset native n) = Some n"
  by (simp add: reference_platform_def native_def)

lemma native_withdraw:
  "withdraw_asset mock_cfg (fungible_asset native n) (account_location x) s =
     (if unat n \<le> ledger s (None, x)
      then (Inr [fungible_asset native n], s\<lparr>ledger := (ledger s)((None, x) := ledger s (None, x) - unat n)\<rparr>)
      else (Inl (OtherXcmError 2), s))"
  by (simp add: mock_cfg_transactor lift_transactor_def on_ledger_def mock_transactor_defs reference_platform_def reference_pair_def
      reference_adapter_def native_def)

lemma native_deposit:
  "deposit_asset mock_cfg (fungible_asset native n) who s =
     (case reference_account who of
        None \<Rightarrow> (Inl (OtherXcmError 1), s)
      | Some x \<Rightarrow> if ledger s (None, x) + unat n < 2 ^ 128
          then (Inr (), s\<lparr>ledger := (ledger s)((None, x) := ledger s (None, x) + unat n)\<rparr>)
          else (Inl (OtherXcmError 2), s))"
  by (simp add: mock_cfg_transactor lift_transactor_def on_ledger_def mock_transactor_defs reference_platform_def reference_pair_def
      reference_adapter_def native_def split: option.split)

definition reserve_account :: AccountId where
  "reserve_account = into_account_truncating reference_platform SygmaBridgePalletId"

lemma accounts_differ [simp]:
  "ALICE \<noteq> BOB" "ALICE \<noteq> ASSET_OWNER" "BOB \<noteq> ASSET_OWNER" "ALICE \<noteq> TreasuryAccount" "BOB \<noteq> TreasuryAccount"
  "ASSET_OWNER \<noteq> TreasuryAccount" "reserve_account \<noteq> ALICE" "reserve_account \<noteq> BOB"
  "reserve_account \<noteq> ASSET_OWNER" "reserve_account \<noteq> TreasuryAccount"
proof -
  have hds: "hd ALICE = 0" "hd ASSET_OWNER = 1" "hd BOB = 2" "hd TreasuryAccount = 100" "hd reserve_account = 109"
    by (simp_all add: ALICE_def ASSET_OWNER_def BOB_def TreasuryAccount_def reserve_account_def reference_platform_def)
  show "ALICE \<noteq> BOB" "ALICE \<noteq> ASSET_OWNER" "BOB \<noteq> ASSET_OWNER" "ALICE \<noteq> TreasuryAccount" "BOB \<noteq> TreasuryAccount"
    "ASSET_OWNER \<noteq> TreasuryAccount" "reserve_account \<noteq> ALICE" "reserve_account \<noteq> BOB"
    "reserve_account \<noteq> ASSET_OWNER" "reserve_account \<noteq> TreasuryAccount"
    using hds by (auto dest!: arg_cong [where f = hd])
qed

lemmas accounts_differ_sym [simp] = accounts_differ [symmetric]

lemma native_bound:
  "extract_asset mock_cfg (fungible_asset native n) = Some (mock_NativeResourceId, n, FungibleTransfer)"
  "get_token_reserved_account mock_cfg native = Some reserve_account"
  "ReserveChecker_contains (fungible_asset native n) here"
  by (simp_all add: extract_asset_def mock_ResourcePairs_def native_def get_token_reserved_account_def
      mock_account_defs reserve_account_def NativeLocation_def mock_UsdtLocation_def mock_AstrLocation_def
      sibling_key_location_def here_def ReserveChecker_contains_def ConcrateSygmaAsset_origin_def
      ConcrateSygmaAsset_id_def first_interior_def)

lemma native_converted:
  "decimal_convert_to fixed_words mock_AssetDecimalPairs (fungible_asset native 199999999900) = Some 199999999900000000"
  by (simp add: decimal_convert_to_def mock_AssetDecimalPairs_def native_def fixed_words_def saturating_pow_def)

definition after_deposit :: balances where
  "after_deposit = endowed((None, ALICE) := ENDOWED_BALANCE - 200000000000, (None, TreasuryAccount) := 100,
     (None, reserve_account) := 199999999900)"

lemma native_deposit_facts:
  "deposit_facts mock_cfg ALICE (fungible_asset native 200000000000) to_ethereum 1 (ascii ''ethereum recipient'')
     mock_NativeResourceId 200000000000 100 reserve_account 199999999900000000
     mock_ready (mock_ready\<lparr>ledger := after_deposit\<rparr>)"
  unfolding deposit_facts_def
  by (simp add: mock_ready_getters to_ethereum_parsed native_bound native_converted native_withdraw native_deposit
      after_deposit_def endowed_def ENDOWED_BALANCE_def fun_upd_twist)

text \<open>The same storage with the counter of domain 1 exhausted.\<close>

definition mock_exhausted :: "balances bridge_storage" where
  "mock_exhausted = mock_ready\<lparr>DepositCounts := [1 \<mapsto> - 1]\<rparr>"

lemma exhausted_getters:
  "\<not> is_clear (mpc_addr mock_exhausted)" "\<not> is_paused mock_exhausted d" "dest_domain_ids mock_exhausted 1"
  "ledger mock_exhausted = endowed" "router_get_fee mock_exhausted 1 (fungible_asset native n) = Some 100"
  by (simp_all add: mock_exhausted_def mock_ready_eq mock_genesis_def getter_defs value_query_def
      router_get_fee_def basic_get_fee_def)

lemma exhausted_deposit_facts:
  "deposit_facts mock_cfg ALICE (fungible_asset native 200000000000) to_ethereum 1 (ascii ''ethereum recipient'')
     mock_NativeResourceId 200000000000 100 reserve_account 199999999900000000
     mock_exhausted (mock_exhausted\<lparr>ledger := after_deposit\<rparr>)"
  unfolding deposit_facts_def
  by (simp add: exhausted_getters to_ethereum_parsed native_bound native_converted native_withdraw native_deposit
      after_deposit_def endowed_def ENDOWED_BALANCE_def fun_upd_twist)

definition mock_deposited :: "balances bridge_storage" where
  "mock_deposited = run mock_cfg test_host
     [(Signed ALICE, DepositCall (fungible_asset native 200000000000) to_ethereum)] mock_ready"

lemma mock_deposited_reachable: "reachable mock_cfg test_host mock_deposited"
  unfolding mock_deposited_def by (rule run_reachable [OF mock_ready_reachable])

lemma mock_deposit_result:
  "deposit mock_cfg (Signed ALICE) (fungible_asset native 200000000000) to_ethereum mock_ready = (Inr (), mock_deposited)"
  and mock_deposited_state: "deposit_counts mock_deposited 1 = 1" "ledger mock_deposited = after_deposit"
proof -
  have counts: "unat (deposit_counts (mock_ready\<lparr>ledger := after_deposit\<rparr>) 1) + 1 < 2 ^ 64"
    by (simp add: mock_ready_eq mock_genesis_def getter_defs value_query_def)
  note ok = deposit_okI [OF native_deposit_facts counts]
  show "deposit mock_cfg (Signed ALICE) (fungible_asset native 200000000000) to_ethereum mock_ready = (Inr (), mock_deposited)"
    using ok by (simp add: mock_deposited_def)
  show "deposit_counts mock_deposited 1 = 1" "ledger mock_deposited = after_deposit"
    using ok by (simp_all add: mock_deposited_def mock_ready_eq mock_genesis_def getter_defs value_query_def)
qed

section \<open>Proposals\<close>

definition mock_funded :: "balances bridge_storage" where
  "mock_funded = mock_ready\<lparr>ledger := after_deposit\<rparr>"

definition pay :: "DepositNonce \<Rightarrow> bytes \<Rightarrow> Proposal" where
  "pay n recipient = \<lparr>origin_domain_id = 1, deposit_nonce = n, resource_id = mock_NativeResourceId,
     proposal_data = create_deposit_data 100000000 recipient\<rparr>"

definition good_signature :: bytes where
  "good_signature = replicate 65 7"

lemma pay_fields [simp]:
  "origin_domain_id (pay n r) = 1" "deposit_nonce (pay n r) = n" "resource_id (pay n r) = mock_NativeResourceId"
  "proposal_data (pay n r) = create_deposit_data 100000000 r"
  by (simp_all add: pay_def)

lemma mock_funded_reachable: "reachable mock_cfg test_host mock_funded"
  unfolding mock_funded_def by (rule reachable.environment [OF mock_ready_reachable])

lemma mock_funded_getters:
  "mpc_addr mock_funded = mock_mpc" "\<not> is_paused mock_funded d" "dest_domain_ids mock_funded 1"
  "\<not> is_proposal_executed n d mock_funded" "ledger mock_funded = after_deposit"
  "UsedNonces mock_funded = Map.empty"
  by (simp_all add: mock_funded_def mock_ready_eq mock_genesis_def getter_defs value_query_def is_proposal_executed_def)

lemma test_host_verifies:
  "verify_by_mpc_address test_host m good_signature s \<longleftrightarrow> mpc_addr s = mock_mpc"
proof -
  have "public_key_to_address test_host (replicate 64 9) = mock_mpc"
    by (simp add: test_host_def public_key_to_address_def mock_mpc_def sum_list_replicate)
  moreover have "secp256k1_ecdsa_recover test_host good_signature m = Some (replicate 64 9)"
    by (simp add: test_host_def good_signature_def)
  ultimately show ?thesis by (auto simp: verify_by_mpc_address_iff good_signature_def)
qed

lemma pay_resolved:
  "rid_to_assetid mock_cfg mock_NativeResourceId = Some native"
  "decimal_convert_from fixed_words mock_AssetDecimalPairs (fungible_asset native 100000000) = Some (fungible_asset native 100)"
  "length r < 2 ^ 32 \<Longrightarrow> extract_deposit_data test_host (create_deposit_data n r) =
    (case decode_location test_host r of Some l \<Rightarrow> Inr (n, l) | None \<Rightarrow> Inl (bridge_error InvalidDepositData))"
proof -
  show "length r < 2 ^ 32 \<Longrightarrow> extract_deposit_data test_host (create_deposit_data n r) =
      (case decode_location test_host r of Some l \<Rightarrow> Inr (n, l) | None \<Rightarrow> Inl (bridge_error InvalidDepositData))"
    by (rule extract_create_deposit_data)
qed (simp_all add: rid_to_assetid_def mock_ResourcePairs_def native_def decimal_convert_from_def
    mock_AssetDecimalPairs_def fixed_words_def saturating_pow_def unwrap_or_zero_def)

lemma recipients_decoded:
  "decode_location test_host BOB = Some (account_location BOB)" "length BOB = 32"
  "decode_location test_host [] = Some (new_location 0 [OnlyChild])"
  by (simp_all add: test_host_def BOB_def)

text \<open>The storage after the withdrawal from the reserve.\<close>

definition mock_withdrawn :: "balances bridge_storage" where
  "mock_withdrawn = mock_funded\<lparr>ledger := after_deposit((None, reserve_account) := 199999999800)\<rparr>"

lemma pay_bob_facts:
  "payout_facts mock_cfg test_host (pay n BOB) native (account_location BOB) (fungible_asset native 100)
     reserve_account mock_funded mock_withdrawn"
  by (simp add: payout_facts_def mock_funded_getters pay_resolved recipients_decoded native_bound native_withdraw
      mock_withdrawn_def after_deposit_def)

lemma pay_nobody_facts:
  "payout_facts mock_cfg test_host (pay n []) native (new_location 0 [OnlyChild]) (fungible_asset native 100)
     reserve_account mock_funded mock_withdrawn"
  by (simp add: payout_facts_def mock_funded_getters pay_resolved recipients_decoded native_bound native_withdraw
      mock_withdrawn_def after_deposit_def)

lemma pay_bob_deposit:
  "deposit_asset mock_cfg (fungible_asset native 100) (account_location BOB) mock_withdrawn =
     (Inr (), mock_withdrawn\<lparr>ledger := (ledger mock_withdrawn)((None, BOB) := ENDOWED_BALANCE + 100)\<rparr>)"
  by (simp add: native_deposit mock_withdrawn_def after_deposit_def endowed_def ENDOWED_BALANCE_def)

lemma pay_nobody_deposit:
  "deposit_asset mock_cfg (fungible_asset native 100) (new_location 0 [OnlyChild]) s = (Inl (OtherXcmError 1), s)"
  by (simp add: native_deposit reference_account_def)

definition mock_paid :: "balances bridge_storage" where
  "mock_paid = mock_withdrawn\<lparr>ledger := (ledger mock_withdrawn)((None, BOB) := ENDOWED_BALANCE + 100)\<rparr>"

lemma pay_bob_internal: "execute_proposal_internal mock_cfg test_host (pay n BOB) mock_funded = (Inr (), mock_paid)"
  by (simp add: internal_payout [OF pay_bob_facts] pay_bob_deposit mock_paid_def)

lemma pay_nobody_internal:
  "execute_proposal_internal mock_cfg test_host (pay n []) mock_funded =
     (Inl (bridge_error TransactFailed), mock_withdrawn)"
  by (simp add: internal_payout [OF pay_nobody_facts] pay_nobody_deposit)

text \<open>The same proposal twice in a batch: the second one fails.\<close>

definition mock_twice :: "balances bridge_storage" where
  "mock_twice = run mock_cfg test_host [(NoneOrigin, ExecuteProposal [pay 5 BOB, pay 5 BOB] good_signature)] mock_funded"

lemma execute_batch_ok:
  "ps \<noteq> [] \<Longrightarrow> execute_proposal mock_cfg test_host origin ps good_signature mock_funded =
     (Inr (), fold (execute_one mock_cfg test_host) ps mock_funded)"
  by (simp add: execute_proposal_def transactional_def Let_def test_host_verifies mock_funded_getters)

lemma executed_not_again:
  "is_proposal_executed (deposit_nonce p) (origin_domain_id p) s \<Longrightarrow>
   fst (execute_proposal_internal cfg h p s) \<noteq> Inr ()"
  using internal_needs_unpaused [of cfg h p s] by (metis prod.collapse)

lemma mock_funded_outcomes: "outcomes (bridge_events mock_funded) = []"
  by (simp add: mock_funded_def mock_ready_eq mock_genesis_def)

lemma mock_twice_outcomes:
  "outcomes (bridge_events mock_twice) = [((1, 5), True), ((1, 5), False)]"
proof -
  let ?s = "execute_one mock_cfg test_host (pay 5 BOB) mock_funded"
  have one: "?s = deposit_event (ProposalExecution 1 5
      (keccak_256 test_host (concat [proposal_data (pay 5 BOB), PalletAccount mock_cfg])))
      (set_proposal_executed 5 1 mock_paid)"
    by (simp add: execute_one_def pay_bob_internal)
  have "is_proposal_executed 5 1 (set_proposal_executed 5 1 mock_paid)"
    by (simp add: is_proposal_executed_set)
  then have "is_proposal_executed 5 1 ?s"
    unfolding one deposit_event_def is_proposal_executed_def used_nonces_def by simp
  then have "fst (execute_proposal_internal mock_cfg test_host (pay 5 BOB) ?s) \<noteq> Inr ()"
    by (intro executed_not_again) simp
  then show ?thesis
    by (simp add: mock_funded_outcomes mock_twice_def execute_batch_ok bridge_contract.execute_one_outcomes [OF mock_contract] pay_bob_internal)
qed

lemma mock_twice_reachable: "reachable mock_cfg test_host mock_twice"
  unfolding mock_twice_def by (rule run_reachable [OF mock_funded_reachable])

section \<open>Balances\<close>

definition mock_key :: "AssetId \<Rightarrow> u32 option option" where
  "mock_key a = (if a = native then Some None else if a = Concrete mock_UsdtLocation then Some (Some 0)
     else if a = Concrete mock_AstrLocation then Some (Some 1) else None)"

definition mock_balance :: "balances \<Rightarrow> AssetId \<Rightarrow> AccountId \<Rightarrow> nat" where
  "mock_balance l a x = (case mock_key a of None \<Rightarrow> 0 | Some k \<Rightarrow> l (k, x))"

lemma mock_key_inj: "mock_key a = Some k \<Longrightarrow> mock_key b = Some k \<Longrightarrow> a = b"
  by (auto simp: mock_key_def split: if_splits)

lemma mock_locations_differ:
  "mock_UsdtLocation \<noteq> mock_AstrLocation" "NativeLocation \<noteq> mock_UsdtLocation" "NativeLocation \<noteq> mock_AstrLocation"
  by (simp_all add: mock_UsdtLocation_def mock_AstrLocation_def sibling_key_location_inj NativeLocation_def)
    (simp_all add: here_def sibling_key_location_def)

lemma mock_transactor_account:
  assumes "asset_fun what = Fungible n"
  shows "withdraw_asset mock_cfg what (account_location x) s =
      (case mock_key (asset_id what) of
         None \<Rightarrow> (Inl (OtherXcmError 0), s)
       | Some k \<Rightarrow> if unat n \<le> ledger s (k, x)
           then (Inr [what], s\<lparr>ledger := (ledger s)((k, x) := ledger s (k, x) - unat n)\<rparr>)
           else (Inl (OtherXcmError 2), s))"
    "deposit_asset mock_cfg what (account_location x) s =
      (case mock_key (asset_id what) of
         None \<Rightarrow> (Inl (OtherXcmError 0), s)
       | Some k \<Rightarrow> if ledger s (k, x) + unat n < 2 ^ 128
           then (Inr (), s\<lparr>ledger := (ledger s)((k, x) := ledger s (k, x) + unat n)\<rparr>)
           else (Inl (OtherXcmError 2), s))"
  using assms mock_locations_differ
  by (auto simp: mock_cfg_transactor lift_transactor_def on_ledger_def mock_transactor_defs reference_platform_def
      reference_pair_def reference_adapter_def native_def mock_key_def mock_matches_fungibles_def matches_fungibles_def
      split: AssetId.split)

lemma mock_moves_balances: "moves_balances mock_balance mock_cfg"
  unfolding moves_balances_def withdraw_moves_def deposit_moves_def
  by (auto simp: mock_transactor_account mock_balance_def dest: mock_key_inj split: option.splits if_splits)

section \<open>Digests\<close>

lemma test_host_laws: "keccak_digests test_host" "abi_static test_host"
  by (simp_all add: keccak_digests_def abi_static_def test_host_def)

lemma sum_list_digest: "sum_list (keccak_256 test_host x) = sum_list (be_bytes 8 (length x)) + sum_list x"
  by (simp add: test_host_def sum_list_replicate)

lemma digest_eq_iff:
  "length x < 2 ^ 64 \<Longrightarrow> length y < 2 ^ 64 \<Longrightarrow>
   keccak_256 test_host x = keccak_256 test_host y \<longleftrightarrow> length x = length y \<and> sum_list x = sum_list y"
  by (auto simp: test_host_def be_bytes_eq_iff)

text \<open>The strings hashed for a batch of one payment, by their length and the sum of their bytes.\<close>

lemma length_digest [simp]: "length (keccak_256 test_host x) = 32"
  using test_host_laws(1) by (simp add: keccak_digests_def)

lemma sum_list_small: "x < 256 \<Longrightarrow> sum_list (be_bytes (Suc n) x) = word_of_nat x"
proof -
  have "sum_list (be_bytes n 0) = 0" for n by (induction n) simp_all
  then show "x < 256 \<Longrightarrow> ?thesis" by simp
qed

lemma payment_encoding:
  "length (abi_encode test_host (proposal_tokens test_host (pay n BOB))) = 160"
  "sum_list (abi_encode test_host (proposal_tokens test_host (pay 6 BOB))) =
   sum_list (abi_encode test_host (proposal_tokens test_host (pay 5 BOB))) + 1"
proof -
  have enc: "abi_encode test_host ts = concat (map static_word ts)" for ts by (simp add: test_host_def)
  have nonce: "sum_list (be_bytes 32 6) = sum_list (be_bytes 32 5) + 1"
    using sum_list_small [of 6 31] sum_list_small [of 5 31] by simp
  show "length (abi_encode test_host (proposal_tokens test_host (pay n BOB))) = 160"
    by (simp add: enc proposal_tokens_def mock_NativeResourceId_def)
  show "sum_list (abi_encode test_host (proposal_tokens test_host (pay 6 BOB))) =
      sum_list (abi_encode test_host (proposal_tokens test_host (pay 5 BOB))) + 1"
    using nonce by (simp add: enc proposal_tokens_def)
qed

lemma payment_inputs:
  fixes n :: DepositNonce
  shows "concat (proposal_hashes test_host [pay n BOB]) =
      keccak_256 test_host (abi_encode test_host (proposal_tokens test_host (pay n BOB)))"
    "length (struct_preimage test_host [pay n BOB]) = 64"
    "sum_list (struct_preimage test_host [pay n BOB]) =
      sum_list (keccak_256 test_host PROPOSALS_TYPE) + (sum_list (be_bytes 8 32) + (sum_list (be_bytes 8 160) +
        sum_list (abi_encode test_host (proposal_tokens test_host (pay n BOB)))))"
    "length (final_preimage mock_cfg test_host [pay n BOB]) = 66"
    "sum_list (final_preimage mock_cfg test_host [pay n BOB]) =
      0x1A + sum_list (separator test_host (bridge_domain mock_cfg)) +
      (sum_list (be_bytes 8 64) + sum_list (struct_preimage test_host [pay n BOB]))"
    "length (proposal_data (pay n BOB)) = 96"
proof -
  have enc: "abi_encode test_host ts = concat (map static_word ts)" for ts by (simp add: test_host_def)
  show hashes: "concat (proposal_hashes test_host [pay n BOB]) =
      keccak_256 test_host (abi_encode test_host (proposal_tokens test_host (pay n BOB)))"
    by (simp add: proposal_hashes_eq)
  show len: "length (struct_preimage test_host [pay n BOB]) = 64"
    by (simp add: struct_preimage_def enc)
  show "sum_list (struct_preimage test_host [pay n BOB]) =
      sum_list (keccak_256 test_host PROPOSALS_TYPE) + (sum_list (be_bytes 8 32) + (sum_list (be_bytes 8 160) +
        sum_list (abi_encode test_host (proposal_tokens test_host (pay n BOB)))))"
    by (simp add: struct_preimage_def hashes enc [of "[TFixedBytes _, TFixedBytes _]"]
        sum_list_digest [of "keccak_256 test_host _"]
        sum_list_digest [of "abi_encode test_host (proposal_tokens test_host _)"] payment_encoding)
  show "length (final_preimage mock_cfg test_host [pay n BOB]) = 66"
    by (simp add: final_preimage_def separator_def)
  show "sum_list (final_preimage mock_cfg test_host [pay n BOB]) =
      0x1A + sum_list (separator test_host (bridge_domain mock_cfg)) +
      (sum_list (be_bytes 8 64) + sum_list (struct_preimage test_host [pay n BOB]))"
    by (simp add: final_preimage_def sum_list_digest [of "struct_preimage test_host _"] len)
  show "length (proposal_data (pay n BOB)) = 96"
    by (simp add: length_create_deposit_data recipients_decoded)
qed

lemma nine_strings_inj:
  fixes D E K S F E' K' S' F' :: bytes
  assumes len: "length D = 96" "length E = 160" "length K = 32" "length S = 64" "length F = 66"
      "length E' = 160" "length K' = 32" "length S' = 64" "length F' = 66"
    and sum: "sum_list E' = sum_list E + 1" "sum_list K' = sum_list K + 1" "sum_list S' = sum_list S + 1"
      "sum_list F' = sum_list F + 1"
  shows "inj_on (keccak_256 test_host) {D, E, K, S, F, E', K', S', F'}"
proof (rule inj_onI)
  fix x y
  assume x: "x \<in> {D, E, K, S, F, E', K', S', F'}" and y: "y \<in> {D, E, K, S, F, E', K', S', F'}"
    and eq: "keccak_256 test_host x = keccak_256 test_host y"
  have "length x < 2 ^ 64" "length y < 2 ^ 64" using x y len by auto
  with eq have "length x = length y" "sum_list x = sum_list y" by (simp_all add: digest_eq_iff)
  with x y show "x = y" using len sum by auto
qed

lemma payments_collision_free:
  "inj_on (keccak_256 test_host) (hashed_inputs mock_cfg test_host [pay 5 BOB] \<union> hashed_inputs mock_cfg test_host [pay 6 BOB])"
proof -
  let ?E = "\<lambda>n. abi_encode test_host (proposal_tokens test_host (pay n BOB))"
  have sets: "hashed_inputs mock_cfg test_host [pay 5 BOB] \<union> hashed_inputs mock_cfg test_host [pay 6 BOB] =
      {proposal_data (pay 5 BOB), ?E 5, keccak_256 test_host (?E 5), struct_preimage test_host [pay 5 BOB],
       final_preimage mock_cfg test_host [pay 5 BOB], ?E 6, keccak_256 test_host (?E 6),
       struct_preimage test_host [pay 6 BOB], final_preimage mock_cfg test_host [pay 6 BOB]}"
    unfolding hashed_inputs_def payment_inputs(1) by auto
  have sums: "sum_list (keccak_256 test_host (?E 6)) = sum_list (keccak_256 test_host (?E 5)) + 1"
    "sum_list (struct_preimage test_host [pay 6 BOB]) = sum_list (struct_preimage test_host [pay 5 BOB]) + 1"
    by (simp_all only: sum_list_digest payment_inputs(3) payment_encoding add.assoc)
  then have "sum_list (final_preimage mock_cfg test_host [pay 6 BOB]) =
      sum_list (final_preimage mock_cfg test_host [pay 5 BOB]) + 1"
    by (simp only: payment_inputs(5) add.assoc)
  with sums show ?thesis
    unfolding sets
    by (intro nine_strings_inj payment_encoding payment_inputs(2,4,6) length_digest)
qed

text \<open>Two chains that differ in their identifier.\<close>

lemma four_strings_inj:
  fixes F F' P P' :: bytes
  assumes "length F = 66" "length F' = 66" "length P = 160" "length P' = 160"
    and "sum_list F' = sum_list F + 1" "sum_list P' = sum_list P + 1"
  shows "inj_on (keccak_256 test_host) {F, F', P, P'}"
  using assms by (intro inj_onI) (auto simp: digest_eq_iff)

lemma chain_preimage:
  assumes "n < 256"
  shows "length (abi_encode test_host (separator_tokens test_host (bridge_domain (mock_cfg\<lparr>EIP712ChainID := word_of_nat n\<rparr>)))) = 160"
    and "sum_list (abi_encode test_host (separator_tokens test_host (bridge_domain (mock_cfg\<lparr>EIP712ChainID := word_of_nat n\<rparr>)))) =
      sum_list (abi_encode test_host (separator_tokens test_host (bridge_domain (mock_cfg\<lparr>EIP712ChainID := 0\<rparr>)))) + word_of_nat n"
proof -
  have enc: "abi_encode test_host ts = concat (map static_word ts)" for ts by (simp add: test_host_def)
  have "unat (word_of_nat n :: u256) = n" using assms by (simp add: unat_of_nat)
  then have chain: "sum_list (be_bytes 32 (unat (word_of_nat n :: u256))) = word_of_nat n" "sum_list (be_bytes 32 0) = 0"
    using sum_list_small [of n 31] sum_list_small [of 0 31] assms by simp_all
  have addr: "length (DestVerifyingContractAddress mock_cfg) = 20"
    by (simp add: mock_cfg_def mock_config_defs mock_DestVerifyingContractAddress_def)
  show "length (abi_encode test_host (separator_tokens test_host (bridge_domain (mock_cfg\<lparr>EIP712ChainID := word_of_nat n\<rparr>)))) = 160"
    by (simp add: enc separator_tokens_def bridge_domain_def default_EIP712Domain_def addr)
  show "sum_list (abi_encode test_host (separator_tokens test_host (bridge_domain (mock_cfg\<lparr>EIP712ChainID := word_of_nat n\<rparr>)))) =
      sum_list (abi_encode test_host (separator_tokens test_host (bridge_domain (mock_cfg\<lparr>EIP712ChainID := 0\<rparr>)))) + word_of_nat n"
    by (simp add: enc separator_tokens_def bridge_domain_def default_EIP712Domain_def chain)
qed

lemma chains_collision_free:
  "inj_on (keccak_256 test_host)
     {final_preimage (mock_cfg\<lparr>EIP712ChainID := 5\<rparr>) test_host [pay 5 BOB],
      final_preimage (mock_cfg\<lparr>EIP712ChainID := 6\<rparr>) test_host [pay 5 BOB],
      abi_encode test_host (separator_tokens test_host (bridge_domain (mock_cfg\<lparr>EIP712ChainID := 5\<rparr>))),
      abi_encode test_host (separator_tokens test_host (bridge_domain (mock_cfg\<lparr>EIP712ChainID := 6\<rparr>)))}"
proof (rule four_strings_inj)
  note five = chain_preimage [of 5, simplified] and six = chain_preimage [of 6, simplified]
  show "length (abi_encode test_host (separator_tokens test_host (bridge_domain (mock_cfg\<lparr>EIP712ChainID := 5\<rparr>)))) = 160"
    "length (abi_encode test_host (separator_tokens test_host (bridge_domain (mock_cfg\<lparr>EIP712ChainID := 6\<rparr>)))) = 160"
    by (rule five six)+
  show sums: "sum_list (abi_encode test_host (separator_tokens test_host (bridge_domain (mock_cfg\<lparr>EIP712ChainID := 6\<rparr>)))) =
      sum_list (abi_encode test_host (separator_tokens test_host (bridge_domain (mock_cfg\<lparr>EIP712ChainID := 5\<rparr>)))) + 1"
    by (simp add: five six)
  show "length (final_preimage (mock_cfg\<lparr>EIP712ChainID := 5\<rparr>) test_host [pay 5 BOB]) = 66"
    "length (final_preimage (mock_cfg\<lparr>EIP712ChainID := 6\<rparr>) test_host [pay 5 BOB]) = 66"
    by (simp_all add: final_preimage_def separator_def)
  show "sum_list (final_preimage (mock_cfg\<lparr>EIP712ChainID := 6\<rparr>) test_host [pay 5 BOB]) =
      sum_list (final_preimage (mock_cfg\<lparr>EIP712ChainID := 5\<rparr>) test_host [pay 5 BOB]) + 1"
    using sums by (simp add: final_preimage_def separator_def sum_list_digest five six)
qed

end
