(* ===== verification/Parachain_Scenarios.thy ===== *)
theory Parachain_Scenarios
  imports Parachain_Runtime Bridge_Scenarios
begin

text \<open>
  A concrete parachain on the reference platform of \<open>Bridge_Mock\<close>, on which the theorems about the
  forwarding transactor are exercised. The executor completes every program without moving balances.
\<close>

definition reference_xcm :: "balances xcm_platform" where
  "reference_xcm = \<lparr>FixedWeightBounds = \<lambda>w _ _. Some w, xp_execute = \<lambda>_ _ _ _ w l. (Complete w, l),
     xp_reanchored = \<lambda>a _ _. Some a, xp_encode = \<lambda>_. []\<rparr>"

definition parachain_start :: "balances forwarder_storage" where
  "parachain_start = xcm_bridge_storage.extend
     (bridge_storage.extend mock_genesis (xcm_bridge_storage.fields [])) (forwarder_storage.fields [])"

lemma parachain_start_ledger: "ledger parachain_start = (\<lambda>_. 0)"
  by (simp add: parachain_start_def mock_genesis_def bridge_storage.defs xcm_bridge_storage.defs forwarder_storage.defs)

definition parachain_usdt :: "u128 \<Rightarrow> MultiAsset" where
  "parachain_usdt n = fungible_asset (Concrete parachain_UsdtLocation) n"

definition other_world_recipient :: MultiLocation where
  "other_world_recipient = new_location 0
     [padded_key sygma_key, padded_key sygma_bridge_key, GeneralIndex 1, GeneralKey 1 (replicate 32 7)]"

lemma other_world_recipient: "is_other_world other_world_recipient"
  unfolding is_other_world_iff other_world_recipient_def by simp

lemma parachain_usdt_not_native: "\<not> is_native_asset 2004 (parachain_usdt n)"
  by (simp add: is_native_asset_def parachain_usdt_def parachain_UsdtLocation_def sibling_key_location_def here_def)

lemma parachain_usdt_matches: "parachain_matches_fungibles (parachain_usdt n) = Inr (2000, n)"
  by (simp add: parachain_matches_fungibles_def matches_fungibles_def parachain_usdt_def
      parachain_UsdtAssetId_def)

lemma parachain_parks_usdt:
  "parachain_local_deposit reference_platform 2004 (parachain_usdt 7) (account_location x) parachain_start =
   (Inr (), parachain_start\<lparr>ledger := (ledger parachain_start)((Some 2000, x) := 7)\<rparr>)"
  by (simp add: parachain_local_deposit_def deposit_by_kind_def parachain_usdt_not_native parachain_FungiblesTransactor_def
      lift_transactor_def on_ledger_def reference_platform_def reference_adapter_def parachain_usdt_matches
      reference_account_def account_location_def junction_location_def parachain_start_ledger)

end
