(* ===== verification/Pallet_Tests.thy ===== *)
theory Pallet_Tests
  imports Bridge_Scenarios
begin

text \<open>
  The unit tests of the access and fee pallets (the modules \<^verbatim>\<open>test\<close> of their \<^verbatim>\<open>lib.rs\<close>, with the runtimes of
  their \<^verbatim>\<open>mock.rs\<close>), run against the model. A test is a list of steps; a step passes with the storage after
  it or fails. Each lemma says that the model passes a test of the repository. The events are kept in one
  list for each pallet, so \<open>assert_events\<close> looks at the list of one pallet.
\<close>

section \<open>Steps of a test\<close>

type_synonym 's test = "'s \<Rightarrow> 's option"

definition assert_ok :: "'s call \<Rightarrow> 's test" where
  "assert_ok c s = (case c s of (Inr _, t) \<Rightarrow> Some t | (Inl _, _) \<Rightarrow> None)"

text \<open>\<^verbatim>\<open>assert_noop!\<close> asks for the error and for an unchanged storage.\<close>

definition assert_noop :: "'s call \<Rightarrow> DispatchError \<Rightarrow> 's test" where
  "assert_noop c e s = (if c s = (Inl e, s) then Some s else None)"

definition assert_that :: "('s \<Rightarrow> bool) \<Rightarrow> 's test" where
  "assert_that P s = (if P s then Some s else None)"

text \<open>The expected events are the latest ones.\<close>

definition assert_events :: "('s \<Rightarrow> 'e list) \<Rightarrow> 'e list \<Rightarrow> 's test" where
  "assert_events events expected s =
     (if take (length expected) (rev (events s)) = rev expected then Some s else None)"

primrec execute_with :: "'s test list \<Rightarrow> 's test" where
  "execute_with [] s = Some s"
| "execute_with (t # ts) s = (case t s of None \<Rightarrow> None | Some s' \<Rightarrow> execute_with ts s')"

definition passes :: "'s test list \<Rightarrow> 's \<Rightarrow> bool" where
  "passes ts s \<longleftrightarrow> execute_with ts s \<noteq> None"

lemmas test_steps = passes_def assert_ok_def assert_noop_def assert_that_def assert_events_def

section \<open>Access segregator\<close>

definition access_test_BOB :: AccountId where "access_test_BOB = replicate 32 1"

definition access_test_CHARLIE :: AccountId where "access_test_CHARLIE = replicate 32 2"

definition access_test_RegisteredExtrinsics :: "(u8 \<times> bytes) list" where
  "access_test_RegisteredExtrinsics =
     [(2, ascii ''grant_access''), (2, ascii ''unknown_extrinsic''), (2, ascii ''unknown_extrinsic2'')]"

definition access_test_config :: access_config where
  "access_test_config = \<lparr>BridgeCommitteeOrigin = ensure_root, AccessPalletIndex = 2,
     Extrinsics = access_test_RegisteredExtrinsics\<rparr>"

definition access_new_test_ext :: "unit access_storage" where
  "access_new_test_ext = \<lparr>ledger = (), ExtrinsicAccess = Map.empty, access_events = []\<rparr>"

definition access_should_work :: "unit access_storage test list" where
  "access_should_work = (let cfg = access_test_config; BOB = access_test_BOB in
     [assert_noop (grant_access cfg (Signed ALICE) 2 (ascii ''grant_access'') BOB) (access_error GrantAccessFailed),
      assert_that (\<lambda>s. \<not> has_access cfg 2 (ascii ''grant_access'') (Signed ALICE) s),
      assert_ok (grant_access cfg Root 2 (ascii ''grant_access'') ALICE),
      assert_that (has_access cfg 2 (ascii ''grant_access'') (Signed ALICE)),
      assert_ok (grant_access cfg (Signed ALICE) 2 (ascii ''unknown_extrinsic'') BOB),
      assert_that (\<lambda>s. \<not> has_access cfg 2 (ascii ''unknown_extrinsic'') (Signed ALICE) s),
      assert_that (has_access cfg 2 (ascii ''unknown_extrinsic'') (Signed BOB)),
      assert_events access_events
        [AccessGranted 2 (ascii ''grant_access'') ALICE, AccessGranted 2 (ascii ''unknown_extrinsic'') BOB]])"

definition pure_grant_access_test :: "unit access_storage test list" where
  "pure_grant_access_test = (let cfg = access_test_config; BOB = access_test_BOB; CHARLIE = access_test_CHARLIE in
     [assert_noop (grant_access cfg (Signed ALICE) 2 (ascii ''grant_access'') BOB) (access_error GrantAccessFailed),
      assert_that (\<lambda>s. \<not> has_access cfg 2 (ascii ''grant_access'') (Signed ALICE) s),
      assert_that (\<lambda>s. \<not> has_access cfg 2 (ascii ''grant_access'') (Signed BOB) s),
      assert_ok (grant_access cfg Root 2 (ascii ''grant_access'') BOB),
      assert_that (has_access cfg 2 (ascii ''grant_access'') (Signed BOB)),
      assert_that (has_access cfg 2 (ascii ''grant_access'') Root),
      assert_that (\<lambda>s. \<not> has_access cfg 2 (ascii ''grant_access'') (Signed ALICE) s),
      assert_that (\<lambda>s. \<not> has_access cfg 2 (ascii ''unknown_extrinsic'') (Signed CHARLIE) s),
      assert_that (has_access cfg 2 (ascii ''unknown_extrinsic'') Root),
      assert_ok (grant_access cfg (Signed BOB) 2 (ascii ''unknown_extrinsic'') CHARLIE),
      assert_that (has_access cfg 2 (ascii ''grant_access'') (Signed BOB)),
      assert_that (\<lambda>s. \<not> has_access cfg 2 (ascii ''grant_access'') (Signed CHARLIE) s),
      assert_that (\<lambda>s. \<not> has_access cfg 2 (ascii ''unknown_extrinsic2'') (Signed CHARLIE) s),
      assert_that (has_access cfg 2 (ascii ''unknown_extrinsic'') (Signed CHARLIE)),
      assert_that (\<lambda>s. \<not> has_access cfg 2 (ascii ''unknown_extrinsic'') (Signed ALICE) s),
      assert_noop (grant_access cfg (Signed CHARLIE) 2 (ascii ''unknown_extrinsic'') ALICE)
        (access_error GrantAccessFailed)])"

text \<open>The accounts and the names that occur are different.\<close>

lemma test_accounts:
  "ALICE \<noteq> access_test_BOB" "access_test_BOB \<noteq> ALICE" "ALICE \<noteq> access_test_CHARLIE" "access_test_CHARLIE \<noteq> ALICE"
  "access_test_BOB \<noteq> access_test_CHARLIE" "access_test_CHARLIE \<noteq> access_test_BOB"
  by (simp_all add: ALICE_def access_test_BOB_def access_test_CHARLIE_def replicate_eq_replicate)

lemmas access_test_defs = access_test_config_def access_test_RegisteredExtrinsics_def access_new_test_ext_def
  grant_access_def has_access_def ensure_root_def ensure_signed_def Let_def

lemma access_should_work_passes: "passes access_should_work access_new_test_ext"
  by (simp add: access_should_work_def access_test_defs test_steps test_accounts ascii_inj del: ascii_simps)

lemma pure_grant_access_test_passes: "passes pure_grant_access_test access_new_test_ext"
  by (simp add: pure_grant_access_test_def access_test_defs test_steps test_accounts ascii_inj del: ascii_simps)

section \<open>Basic fee handler\<close>

definition basic_test_config :: basic_config where
  "basic_test_config = \<lparr>BridgeCommitteeOrigin = ensure_root, AccessPalletIndex = 3,
     Extrinsics = [(3, ascii ''grant_access''), (4, ascii ''set_fee'')], BasicPalletIndex = 4\<rparr>"

definition basic_new_test_ext :: "unit basic_storage" where
  "basic_new_test_ext = \<lparr>ledger = (), ExtrinsicAccess = Map.empty, access_events = [],
     AssetFees = Map.empty, basic_events = []\<rparr>"

definition basic_set_get_fee :: "unit basic_storage test list" where
  "basic_set_get_fee = (let cfg = basic_test_config; asset_id_a = Concrete (new_location 1 []);
       amount_a = 100; asset_id_b = Concrete (new_location 2 []); amount_b = 101 in
     [assert_ok (set_fee cfg Root 0 asset_id_a amount_a),
      assert_ok (set_fee cfg Root 1 asset_id_a (amount_a * 2)),
      assert_that (\<lambda>s. AssetFees s (0, asset_id_a) = Some amount_a),
      assert_that (\<lambda>s. AssetFees s (1, asset_id_a) = Some (amount_a * 2)),
      assert_ok (set_fee cfg Root 0 asset_id_b amount_b),
      assert_that (\<lambda>s. AssetFees s (0, asset_id_b) = Some amount_b),
      assert_that (\<lambda>s. the (AssetFees s (0, asset_id_a)) \<noteq> amount_b),
      assert_that (\<lambda>s. the (AssetFees s (0, asset_id_b)) \<noteq> amount_a),
      assert_noop (set_fee cfg (Signed ALICE) 0 asset_id_a amount_a) (basic_error BasicAccessDenied),
      assert_events basic_events
        [FeeSet 0 asset_id_a amount_a, FeeSet 1 asset_id_a (amount_a * 2), FeeSet 0 asset_id_b amount_b]])"

definition basic_access_control :: "unit basic_storage test list" where
  "basic_access_control = (let cfg = basic_test_config; asset_id = Concrete (new_location 0 []) in
     [assert_ok (set_fee cfg Root 0 asset_id 100),
      assert_noop (set_fee cfg (Signed ALICE) 0 asset_id 200) (basic_error BasicAccessDenied),
      assert_that (\<lambda>s. \<not> has_access cfg 4 (ascii ''set_fee'') (Signed ALICE) s),
      assert_ok (grant_access cfg Root 4 (ascii ''set_fee'') ALICE),
      assert_that (has_access cfg 4 (ascii ''set_fee'') (Signed ALICE)),
      assert_ok (set_fee cfg (Signed ALICE) 0 asset_id 200),
      assert_that (\<lambda>s. AssetFees s (0, asset_id) = Some 200)])"

lemmas basic_test_defs = basic_test_config_def basic_new_test_ext_def set_fee_def
  grant_access_def has_access_def ensure_root_def ensure_signed_def Let_def

lemma basic_set_get_fee_passes: "passes basic_set_get_fee basic_new_test_ext"
  by (simp add: basic_set_get_fee_def basic_test_defs test_steps ascii_inj del: ascii_simps)

lemma basic_access_control_passes: "passes basic_access_control basic_new_test_ext"
  by (simp add: basic_access_control_def basic_test_defs test_steps ascii_inj del: ascii_simps)

section \<open>Percentage fee handler\<close>

definition percentage_test_config :: percentage_config where
  "percentage_test_config = \<lparr>BridgeCommitteeOrigin = ensure_root, AccessPalletIndex = 3,
     Extrinsics = [(3, ascii ''grant_access''), (4, ascii ''set_fee_rate'')], BasicPalletIndex = 0,
     PercentagePalletIndex = 4\<rparr>"

definition percentage_new_test_ext :: "unit percentage_storage" where
  "percentage_new_test_ext = \<lparr>ledger = (), ExtrinsicAccess = Map.empty, access_events = [],
     AssetFees = Map.empty, basic_events = [], AssetFeeRate = Map.empty, percentage_events = []\<rparr>"

definition percentage_set_get_fee :: "unit percentage_storage test list" where
  "percentage_set_get_fee = (let cfg = percentage_test_config; asset_id_a = Concrete (new_location 1 []);
       asset_id_b = Concrete (new_location 2 []) in
     [assert_that (\<lambda>s. AssetFeeRate s (0, asset_id_a) = None),
      assert_ok (set_fee_rate cfg Root 0 asset_id_a 0 0 100),
      assert_noop (set_fee_rate cfg Root 0 asset_id_a 10000 0 100) (percentage_error FeeRateOutOfRange),
      assert_ok (set_fee_rate cfg Root 0 asset_id_a 50 0 100),
      assert_ok (set_fee_rate cfg Root 1 asset_id_b 200 0 100),
      assert_that (\<lambda>s. AssetFeeRate s (0, asset_id_a) = Some (50, 0, 100)),
      assert_that (\<lambda>s. AssetFeeRate s (1, asset_id_b) = Some (200, 0, 100)),
      assert_noop (set_fee_rate cfg (Signed ALICE) 0 asset_id_a 100 0 100) (percentage_error PercentageAccessDenied),
      assert_events percentage_events [FeeRateSet 0 asset_id_a 50 0 100, FeeRateSet 1 asset_id_b 200 0 100]])"

definition percentage_access_control :: "unit percentage_storage test list" where
  "percentage_access_control = (let cfg = percentage_test_config; asset_id = Concrete (new_location 0 []) in
     [assert_ok (set_fee_rate cfg Root 0 asset_id 100 0 100),
      assert_noop (set_fee_rate cfg (Signed ALICE) 0 asset_id 200 0 100) (percentage_error PercentageAccessDenied),
      assert_that (\<lambda>s. \<not> has_access cfg 4 (ascii ''set_fee_rate'') (Signed ALICE) s),
      assert_ok (grant_access cfg Root 4 (ascii ''set_fee_rate'') ALICE),
      assert_that (has_access cfg 4 (ascii ''set_fee_rate'') (Signed ALICE)),
      assert_ok (set_fee_rate cfg (Signed ALICE) 0 asset_id 200 0 100),
      assert_that (\<lambda>s. AssetFeeRate s (0, asset_id) = Some (200, 0, 100))])"

lemmas percentage_test_defs = percentage_test_config_def percentage_new_test_ext_def set_fee_rate_def
  grant_access_def has_access_def ensure_root_def ensure_signed_def Let_def

lemma percentage_set_get_fee_passes: "passes percentage_set_get_fee percentage_new_test_ext"
  by (simp add: percentage_set_get_fee_def percentage_test_defs test_steps ascii_inj del: ascii_simps)

lemma percentage_access_control_passes: "passes percentage_access_control percentage_new_test_ext"
  by (simp add: percentage_access_control_def percentage_test_defs test_steps ascii_inj del: ascii_simps)

section \<open>Fee handler router\<close>

definition EthereumDomainID :: DomainID where "EthereumDomainID = 0"

definition MoonbeamDomainID :: DomainID where "MoonbeamDomainID = 1"

definition PhaLocation :: MultiLocation where "PhaLocation = here"

definition router_test_config :: router_config where
  "router_test_config = \<lparr>BridgeCommitteeOrigin = ensure_root, AccessPalletIndex = 3,
     Extrinsics = [(3, ascii ''grant_access''), (5, ascii ''set_fee_handler'')], BasicPalletIndex = 4,
     PercentagePalletIndex = 6, RouterPalletIndex = 5\<rparr>"

definition router_new_test_ext :: "unit router_storage" where
  "router_new_test_ext = \<lparr>ledger = (), ExtrinsicAccess = Map.empty, access_events = [],
     AssetFees = Map.empty, basic_events = [], AssetFeeRate = Map.empty, percentage_events = [],
     HandlerType = Map.empty, router_events = []\<rparr>"

definition router_access_control :: "unit router_storage test list" where
  "router_access_control = (let cfg = router_test_config; asset_id = Concrete PhaLocation in
     [assert_ok (set_fee_handler cfg Root EthereumDomainID asset_id BasicFeeHandler),
      assert_noop (set_fee_handler cfg (Signed ALICE) EthereumDomainID asset_id BasicFeeHandler)
        (router_error RouterAccessDenied),
      assert_that (\<lambda>s. \<not> has_access cfg 5 (ascii ''set_fee_handler'') (Signed ALICE) s),
      assert_ok (grant_access cfg Root 5 (ascii ''set_fee_handler'') ALICE),
      assert_that (has_access cfg 5 (ascii ''set_fee_handler'') (Signed ALICE)),
      assert_ok (set_fee_handler cfg (Signed ALICE) MoonbeamDomainID asset_id DynamicFeeHandler),
      assert_that (\<lambda>s. HandlerType s (MoonbeamDomainID, asset_id) = Some DynamicFeeHandler)])"

definition fee_router_should_work :: "unit router_storage test list" where
  "fee_router_should_work = (let cfg = router_test_config; pha = Concrete PhaLocation in
     [assert_ok (set_fee_handler cfg Root EthereumDomainID pha BasicFeeHandler),
      assert_ok (set_fee_handler cfg Root MoonbeamDomainID pha DynamicFeeHandler),
      assert_ok (set_fee cfg Root EthereumDomainID pha 10000),
      assert_that (\<lambda>s. router_get_fee s EthereumDomainID (fungible_asset pha 10000) = Some 10000),
      assert_that (\<lambda>s. router_get_fee s MoonbeamDomainID (fungible_asset pha 10000) = None),
      assert_events router_events
        [FeeHandlerSet EthereumDomainID pha BasicFeeHandler, FeeHandlerSet MoonbeamDomainID pha DynamicFeeHandler],
      assert_events basic_events [FeeSet EthereumDomainID pha 10000]])"

lemmas router_test_defs = router_test_config_def router_new_test_ext_def set_fee_handler_def set_fee_def
  grant_access_def has_access_def ensure_root_def ensure_signed_def Let_def EthereumDomainID_def MoonbeamDomainID_def

lemma router_access_control_passes: "passes router_access_control router_new_test_ext"
  by (simp add: router_access_control_def router_test_defs test_steps ascii_inj del: ascii_simps)

lemma fee_router_should_work_passes: "passes fee_router_should_work router_new_test_ext"
  by (simp add: fee_router_should_work_def router_test_defs test_steps router_get_fee_def basic_get_fee_def
      ascii_inj del: ascii_simps)

end
