(* ===== verification/Forwarder_Tests.thy ===== *)
theory Forwarder_Tests
  imports Parachain_Scenarios Pallet_Tests
begin

text \<open>
  The test runtime of the forwarder (\<^verbatim>\<open>bridge-forwarder/src/mock.rs\<close>) and its unit tests (the module \<^verbatim>\<open>test\<close> of
  \<^verbatim>\<open>bridge-forwarder/src/lib.rs\<close>), run against the model on the reference platform. The temporary accounts are
  hashes, so the tests take the host as an argument.
\<close>

section \<open>The test runtime\<close>

text \<open>\<^verbatim>\<open>BridgeImplRuntime\<close> and \<^verbatim>\<open>ForwarderImplRuntime\<close> do nothing.\<close>

definition forwarder_mock_transfer :: "balances forwarder_storage bridge_fn" where
  "forwarder_mock_transfer sender asset dest max_weight s = (Inr (), s)"

definition forwarder_mock_xcm_forward :: "balances forwarder_storage forward_fn" where
  "forwarder_mock_xcm_forward sender what dest s = (Inr (), s)"

definition forwarder_mock_other_world_forward :: "balances forwarder_storage forward_fn" where
  "forwarder_mock_other_world_forward sender what dest s = (Inr (), s)"

definition forwarder_mock_NativeLocation :: MultiLocation where
  "forwarder_mock_NativeLocation = here"

definition forwarder_mock_UsdtAssetId :: u32 where
  "forwarder_mock_UsdtAssetId = 1"

definition forwarder_mock_slice_to_generalkey :: "bytes \<Rightarrow> Junction rust" where
  "forwarder_mock_slice_to_generalkey key =
     (let len = length key in
      if len \<le> 32 then Returns (GeneralKey (word_of_nat len) (key @ drop len (replicate 32 0))) else Panics)"

text \<open>The location of USDT, with the keys that \<open>forwarder_mock_slice_to_generalkey\<close> makes of short names.\<close>

definition forwarder_mock_UsdtLocation :: MultiLocation where
  "forwarder_mock_UsdtLocation = new_location 1 [Parachain 2005, padded_key (ascii ''sygma''), padded_key (ascii ''usdt'')]"

definition forwarder_mock_matches_fungibles :: "MultiAsset \<Rightarrow> ExecutionError + u32 \<times> u128" where
  "forwarder_mock_matches_fungibles a =
     (case (asset_fun a, asset_id a) of
        (Fungible amount, Concrete i) \<Rightarrow>
          if i = forwarder_mock_UsdtLocation then Inr (forwarder_mock_UsdtAssetId, amount) else Inl AssetNotHandled
      | _ \<Rightarrow> Inl AssetNotHandled)"

definition forwarder_mock_is_native_asset :: "u32 \<Rightarrow> MultiAsset \<Rightarrow> bool" where
  "forwarder_mock_is_native_asset para_id asset =
     (let native_locations = [here, new_location 1 [Parachain para_id]] in
      case (asset_id asset, asset_fun asset) of
        (Concrete i, Fungible _) \<Rightarrow> List.member native_locations i
      | _ \<Rightarrow> False)"

definition forwarder_mock_CurrencyTransactor :: "'l platform \<Rightarrow> ('l, 'z) forwarder_storage_scheme transactor" where
  "forwarder_mock_CurrencyTransactor pf = lift_transactor (CurrencyAdapter pf (IsConcrete pf forwarder_mock_NativeLocation))"

definition forwarder_mock_FungiblesTransactor :: "'l platform \<Rightarrow> ('l, 'z) forwarder_storage_scheme transactor" where
  "forwarder_mock_FungiblesTransactor pf = lift_transactor (FungiblesAdapter pf forwarder_mock_matches_fungibles)"

definition forwarder_mock_ALICE :: AccountId where "forwarder_mock_ALICE = replicate 32 0"

definition forwarder_mock_ASSET_OWNER :: AccountId where "forwarder_mock_ASSET_OWNER = replicate 32 1"

definition forwarder_mock_BOB :: AccountId where "forwarder_mock_BOB = replicate 32 2"

definition forwarder_mock_ENDOWED_BALANCE :: nat where
  "forwarder_mock_ENDOWED_BALANCE = 1000000000000000000000000000"

definition forwarder_new_test_ext :: "balances forwarder_storage" where
  "forwarder_new_test_ext = parachain_start\<lparr>ledger := (\<lambda>_. 0)
     ((None, forwarder_mock_ALICE) := forwarder_mock_ENDOWED_BALANCE,
      (None, forwarder_mock_ASSET_OWNER) := forwarder_mock_ENDOWED_BALANCE)\<rparr>"

text \<open>The identifier \<^verbatim>\<open>pallet_parachain_info\<close> starts with.\<close>

definition forwarder_mock_ParachainInfo :: u32 where "forwarder_mock_ParachainInfo = 100"

text \<open>The transactor the tests instantiate, as a step of a test.\<close>

definition test_deposit_asset :: "host \<Rightarrow> MultiAsset \<Rightarrow> MultiLocation \<Rightarrow> balances forwarder_storage test" where
  "test_deposit_asset h what who s =
     (case XCMAssetTransactor_deposit_asset h (forwarder_mock_CurrencyTransactor reference_platform)
         (forwarder_mock_FungiblesTransactor reference_platform)
         (forwarder_mock_is_native_asset forwarder_mock_ParachainInfo)
         forwarder_mock_other_world_forward forwarder_mock_xcm_forward what who s of
        (Inr _, t) \<Rightarrow> Some t | (Inl _, _) \<Rightarrow> None)"

definition test_withdraw_asset :: "MultiAsset \<Rightarrow> MultiLocation \<Rightarrow> balances forwarder_storage test" where
  "test_withdraw_asset what who s =
     (case XCMAssetTransactor_withdraw_asset (forwarder_mock_CurrencyTransactor reference_platform)
         (forwarder_mock_FungiblesTransactor reference_platform)
         (forwarder_mock_is_native_asset forwarder_mock_ParachainInfo) what who s of
        (Inr _, t) \<Rightarrow> Some t | (Inl _, _) \<Rightarrow> None)"

text \<open>\<^verbatim>\<open>Assets::mint\<close> on the reference platform, which keeps every asset without a call of \<^verbatim>\<open>create\<close>.\<close>

definition test_mint :: "AccountId \<Rightarrow> nat \<Rightarrow> balances forwarder_storage test" where
  "test_mint who n s = Some (s\<lparr>ledger := (ledger s)((Some forwarder_mock_UsdtAssetId, who) :=
     ledger s (Some forwarder_mock_UsdtAssetId, who) + n)\<rparr>)"

section \<open>The tests\<close>

definition test_xcm_transactor_forwarder :: "balances forwarder_storage test list" where
  "test_xcm_transactor_forwarder = (let asset = fungible_asset (Concrete (new_location 0 [])) 10;
       dest = new_location 1 [Parachain 1, GeneralIndex 1]; ALICE = forwarder_mock_ALICE in
     [assert_ok (xcm_transactor_forwarder forwarder_mock_transfer ALICE asset dest),
      assert_events forwarder_events [XCMTransferForward asset (account_location ALICE) dest]])"

definition test_other_world_transactor_forwarder :: "balances forwarder_storage test list" where
  "test_other_world_transactor_forwarder = (let asset = fungible_asset (Concrete (new_location 0 [])) 10;
       dest = new_location 1 [Parachain 1, GeneralIndex 1]; ALICE = forwarder_mock_ALICE in
     [assert_ok (other_world_transactor_forwarder forwarder_mock_transfer ALICE asset dest),
      assert_events forwarder_events [OtherWorldTransferForward asset (account_location ALICE) dest]])"

definition test_asset_type_identifier_native_asset :: "balances forwarder_storage test list" where
  "test_asset_type_identifier_native_asset = (let native = forwarder_mock_is_native_asset forwarder_mock_ParachainInfo;
       asset_local_native = fungible_asset (Concrete (new_location 0 [])) 10;
       asset_foreign_native = fungible_asset (Concrete (new_location 1 [Parachain 100])) 10;
       asset_foreign_asset = fungible_asset (Concrete (new_location 0 [Parachain 100])) 10 in
     [assert_that (\<lambda>_. native asset_local_native),
      assert_that (\<lambda>_. native asset_foreign_native),
      assert_that (\<lambda>_. \<not> native asset_foreign_asset)])"

definition test_xcm_asset_transactor_local :: "host \<Rightarrow> balances forwarder_storage test list" where
  "test_xcm_asset_transactor_local h = (let BOB = forwarder_mock_BOB; local_recipient = account_location BOB;
       local_native_asset = fungible_asset (Concrete (new_location 0 [])) 10;
       local_foreign_asset = fungible_asset (Concrete forwarder_mock_UsdtLocation) 10 in
     [test_deposit_asset h local_native_asset local_recipient,
      assert_that (\<lambda>s. ledger s (None, BOB) = 10),
      test_deposit_asset h local_foreign_asset local_recipient,
      assert_that (\<lambda>s. ledger s (Some forwarder_mock_UsdtAssetId, BOB) = 10)])"

definition test_xcm_asset_transactor_outer :: "host \<Rightarrow> balances forwarder_storage test list" where
  "test_xcm_asset_transactor_outer h = (let dest_domain_id = 1;
       outer_recipient = new_location 1 [GeneralKey 5 (sygma_key @ replicate 27 0),
         GeneralKey 12 (sygma_bridge_key @ replicate 20 0), GeneralIndex dest_domain_id,
         padded_key (ascii ''ethereum recipient'')];
       native_asset = fungible_asset (Concrete (new_location 0 [])) 10;
       foreign_asset = fungible_asset (Concrete forwarder_mock_UsdtLocation) 10 in
     [test_deposit_asset h native_asset outer_recipient,
      assert_that (\<lambda>s. ledger s (None, tmp_account h 1) = 10),
      test_deposit_asset h foreign_asset outer_recipient,
      assert_that (\<lambda>s. ledger s (Some forwarder_mock_UsdtAssetId, tmp_account h 1) = 10)])"

definition test_xcm_asset_transactor_substrate :: "host \<Rightarrow> balances forwarder_storage test list" where
  "test_xcm_asset_transactor_substrate h = (let
       substrate_recipient = new_location 1 [Parachain 2005, padded_key (ascii ''substrate recipient'')];
       native_asset = fungible_asset (Concrete (new_location 0 [])) 10;
       foreign_asset = fungible_asset (Concrete forwarder_mock_UsdtLocation) 10 in
     [test_deposit_asset h native_asset substrate_recipient,
      assert_that (\<lambda>s. ledger s (None, tmp_account h 2) = 10),
      test_deposit_asset h foreign_asset substrate_recipient,
      assert_that (\<lambda>s. ledger s (Some forwarder_mock_UsdtAssetId, tmp_account h 2) = 10)])"

definition test_xcm_asset_transactor_other_dest :: "host \<Rightarrow> balances forwarder_storage test list" where
  "test_xcm_asset_transactor_other_dest h = (let
       other_recipient = new_location 2 [Parachain 2005, padded_key (ascii ''substrate recipient''),
         AccountId32 None forwarder_mock_BOB];
       native_asset = fungible_asset (Concrete (new_location 0 [])) 10 in
     [test_deposit_asset h native_asset other_recipient,
      assert_that (\<lambda>s. ledger s (None, tmp_account h 1) = 0),
      assert_that (\<lambda>s. ledger s (None, tmp_account h 2) = 10)])"

definition test_xcm_asset_transactor_withdraw :: "balances forwarder_storage test list" where
  "test_xcm_asset_transactor_withdraw = (let ALICE = forwarder_mock_ALICE; from_account = account_location ALICE;
       native_asset = fungible_asset (Concrete (new_location 0 [])) 10;
       foreign_asset = fungible_asset (Concrete forwarder_mock_UsdtLocation) 10 in
     [test_withdraw_asset native_asset from_account,
      assert_that (\<lambda>s. ledger s (None, ALICE) = forwarder_mock_ENDOWED_BALANCE - 10),
      test_mint ALICE forwarder_mock_ENDOWED_BALANCE,
      assert_that (\<lambda>s. ledger s (Some forwarder_mock_UsdtAssetId, ALICE) = forwarder_mock_ENDOWED_BALANCE),
      test_withdraw_asset foreign_asset from_account,
      assert_that (\<lambda>s. ledger s (Some forwarder_mock_UsdtAssetId, ALICE) = forwarder_mock_ENDOWED_BALANCE - 10)])"

section \<open>Evaluation\<close>

lemma forwarder_mock_kinds:
  "forwarder_mock_is_native_asset i (fungible_asset (Concrete (new_location 0 [])) n)"
  "\<not> forwarder_mock_is_native_asset i (fungible_asset (Concrete forwarder_mock_UsdtLocation) n)"
  "forwarder_mock_matches_fungibles (fungible_asset (Concrete forwarder_mock_UsdtLocation) n) = Inr (forwarder_mock_UsdtAssetId, n)"
  by (simp_all add: forwarder_mock_is_native_asset_def here_def forwarder_mock_UsdtLocation_def
      forwarder_mock_matches_fungibles_def)

text \<open>The two adapters on the reference platform.\<close>

lemma forwarder_mock_moves:
  "tr_deposit (forwarder_mock_CurrencyTransactor reference_platform) (fungible_asset (Concrete (new_location 0 [])) n)
     (account_location x) s =
   (if ledger s (None, x) + unat n < 2 ^ 128
    then (Inr (), s\<lparr>ledger := (ledger s)((None, x) := ledger s (None, x) + unat n)\<rparr>) else (Inl (OtherXcmError 2), s))"
  "tr_deposit (forwarder_mock_FungiblesTransactor reference_platform) (fungible_asset (Concrete forwarder_mock_UsdtLocation) n)
     (account_location x) s =
   (if ledger s (Some forwarder_mock_UsdtAssetId, x) + unat n < 2 ^ 128
    then (Inr (), s\<lparr>ledger := (ledger s)((Some forwarder_mock_UsdtAssetId, x) := ledger s (Some forwarder_mock_UsdtAssetId, x) + unat n)\<rparr>)
    else (Inl (OtherXcmError 2), s))"
  "tr_withdraw (forwarder_mock_CurrencyTransactor reference_platform) (fungible_asset (Concrete (new_location 0 [])) n)
     (account_location x) s =
   (if unat n \<le> ledger s (None, x)
    then (Inr [fungible_asset (Concrete (new_location 0 [])) n], s\<lparr>ledger := (ledger s)((None, x) := ledger s (None, x) - unat n)\<rparr>)
    else (Inl (OtherXcmError 2), s))"
  "tr_withdraw (forwarder_mock_FungiblesTransactor reference_platform) (fungible_asset (Concrete forwarder_mock_UsdtLocation) n)
     (account_location x) s =
   (if unat n \<le> ledger s (Some forwarder_mock_UsdtAssetId, x)
    then (Inr [fungible_asset (Concrete forwarder_mock_UsdtLocation) n],
      s\<lparr>ledger := (ledger s)((Some forwarder_mock_UsdtAssetId, x) := ledger s (Some forwarder_mock_UsdtAssetId, x) - unat n)\<rparr>)
    else (Inl (OtherXcmError 2), s))"
  by (simp_all add: forwarder_mock_CurrencyTransactor_def forwarder_mock_FungiblesTransactor_def lift_transactor_def
      on_ledger_def reference_platform_def reference_adapter_def forwarder_mock_NativeLocation_def here_def
      forwarder_mock_kinds)

lemma forwarder_recipients:
  "is_other_world (new_location 1 [GeneralKey 5 (sygma_key @ replicate 27 0),
     GeneralKey 12 (sygma_bridge_key @ replicate 20 0), GeneralIndex i, padded_key r])"
  "\<not> is_local_recipient (new_location 1 [GeneralKey 5 (sygma_key @ replicate 27 0),
     GeneralKey 12 (sygma_bridge_key @ replicate 20 0), GeneralIndex i, padded_key r])"
  "\<not> is_local_recipient (new_location p [Parachain k, padded_key r])"
  "\<not> is_other_world (new_location p [Parachain k, padded_key r])"
  "\<not> is_local_recipient (new_location p [Parachain k, padded_key r, j])"
  "\<not> is_other_world (new_location p [Parachain k, padded_key r, j])"
  by (simp_all add: is_other_world_def is_local_recipient_def padded_key_def)

lemmas forwarder_evaluation = test_steps Let_def test_deposit_asset_def test_withdraw_asset_def test_mint_def
  XCMAssetTransactor_deposit_asset_def XCMAssetTransactor_withdraw_asset_def deposit_by_kind_def forwarded_def
  forwarder_mock_other_world_forward_def forwarder_mock_xcm_forward_def forwarder_mock_kinds forwarder_mock_moves
  forwarder_recipients xcm_transactor_forwarder_state other_world_forwarder_state forwarder_mock_transfer_def
  forwarder_new_test_ext_def forwarder_mock_ENDOWED_BALANCE_def forwarder_mock_UsdtAssetId_def

lemma forwarder_tests_pass:
  "passes test_xcm_transactor_forwarder forwarder_new_test_ext"
  "passes test_other_world_transactor_forwarder forwarder_new_test_ext"
  "passes test_asset_type_identifier_native_asset forwarder_new_test_ext"
  "passes (test_xcm_asset_transactor_local h) forwarder_new_test_ext"
  "passes test_xcm_asset_transactor_withdraw forwarder_new_test_ext"
proof -
  show "passes test_xcm_transactor_forwarder forwarder_new_test_ext"
    "passes test_other_world_transactor_forwarder forwarder_new_test_ext"
    by (simp_all add: test_xcm_transactor_forwarder_def test_other_world_transactor_forwarder_def forwarder_evaluation)
  show "passes test_asset_type_identifier_native_asset forwarder_new_test_ext"
    by (simp add: test_asset_type_identifier_native_asset_def test_steps Let_def forwarder_mock_is_native_asset_def
        here_def forwarder_mock_ParachainInfo_def)
  have "forwarder_mock_BOB \<noteq> forwarder_mock_ALICE" "forwarder_mock_BOB \<noteq> forwarder_mock_ASSET_OWNER"
    "forwarder_mock_ALICE \<noteq> forwarder_mock_ASSET_OWNER"
    by (auto simp: forwarder_mock_BOB_def forwarder_mock_ALICE_def forwarder_mock_ASSET_OWNER_def
        dest: arg_cong [where f = hd])
  then show "passes (test_xcm_asset_transactor_local h) forwarder_new_test_ext"
    "passes test_xcm_asset_transactor_withdraw forwarder_new_test_ext"
    by (simp_all add: test_xcm_asset_transactor_local_def test_xcm_asset_transactor_withdraw_def forwarder_evaluation)
qed

text \<open>The temporary accounts are different and none of the endowed ones, as for any collision-free hash.\<close>

lemma forwarder_remote_tests_pass:
  assumes "tmp_account h 1 \<noteq> tmp_account h 2"
    and "tmp_account h 1 \<notin> {forwarder_mock_ALICE, forwarder_mock_ASSET_OWNER}"
    and "tmp_account h 2 \<notin> {forwarder_mock_ALICE, forwarder_mock_ASSET_OWNER}"
  shows "passes (test_xcm_asset_transactor_outer h) forwarder_new_test_ext"
    "passes (test_xcm_asset_transactor_substrate h) forwarder_new_test_ext"
    "passes (test_xcm_asset_transactor_other_dest h) forwarder_new_test_ext"
  using assms
  by (simp_all add: test_xcm_asset_transactor_outer_def test_xcm_asset_transactor_substrate_def
      test_xcm_asset_transactor_other_dest_def forwarder_evaluation)

text \<open>A host with such a hash: the first byte of the encoded location is kept.\<close>

definition forwarder_host :: host where
  "forwarder_host = test_host\<lparr>encode_location := \<lambda>l. (case interior l of
     [j] \<Rightarrow> (case as_general_key j of Some (n, d) \<Rightarrow> (n # d) | None \<Rightarrow> []) | _ \<Rightarrow> [])\<rparr>"

lemma forwarder_host_tests_pass:
  "passes (test_xcm_asset_transactor_outer forwarder_host) forwarder_new_test_ext"
  "passes (test_xcm_asset_transactor_substrate forwarder_host) forwarder_new_test_ext"
  "passes (test_xcm_asset_transactor_other_dest forwarder_host) forwarder_new_test_ext"
proof -
  have tmp: "tmp_account forwarder_host b = 8 # replicate 31 b" for b
    by (simp add: tmp_account_def forwarder_host_def test_host_def)
  show "passes (test_xcm_asset_transactor_outer forwarder_host) forwarder_new_test_ext"
    "passes (test_xcm_asset_transactor_substrate forwarder_host) forwarder_new_test_ext"
    "passes (test_xcm_asset_transactor_other_dest forwarder_host) forwarder_new_test_ext"
    by (auto intro!: forwarder_remote_tests_pass simp: tmp forwarder_mock_ALICE_def forwarder_mock_ASSET_OWNER_def
        dest: arg_cong [where f = hd])
qed

end
