(* ===== verification/Bridge_Tests.thy ===== *)
theory Bridge_Tests
  imports Pallet_Tests
begin

text \<open>
  Unit tests of the bridge pallet (the module \<^verbatim>\<open>test\<close> of \<^verbatim>\<open>bridge/src/lib.rs\<close>) that need no signature and no
  transfer, run against the model with the test runtime. \<open>Deposit_Tests\<close> and \<open>Proposal_Tests\<close> hold the others.
\<close>

section \<open>Set-up\<close>

text \<open>The storage of \<^verbatim>\<open>new_test_ext\<close>; none of these tests looks at a balance.\<close>

definition bridge_new_test_ext :: "balances bridge_storage" where
  "bridge_new_test_ext = mock_genesis\<lparr>ledger := endowed\<rparr>"

definition test_mpc_addr :: MpcAddress where
  "test_mpc_addr = replicate 20 1"

definition act :: "('s \<Rightarrow> 's) \<Rightarrow> 's test" where
  "act f s = Some (f s)"

lemmas bridge_test_defs = bridge_new_test_ext_def mock_genesis_def bridge_access_def has_access_def grant_access_def
  ensure_root_def ensure_signed_def admin_defs transactional_def getter_defs value_query_def deposit_event_def
  event_sender_def unpause_all_domains_eq pause_all_domains_eq DEST_DOMAIN_ID_def mock_RegisteredExtrinsics_def
  mock_BridgePalletIndex_def mock_AccessSegregatorPalletIndex_def act_def Let_def

lemma test_mpc_addr_set: "\<not> is_clear test_mpc_addr" "is_clear default_mpc_address"
  by (simp_all add: is_clear_def default_mpc_address_def test_mpc_addr_def)

lemma mock_cfg_indexes [simp]:
  "BridgePalletIndex mock_cfg = mock_BridgePalletIndex" "AccessPalletIndex mock_cfg = mock_AccessSegregatorPalletIndex"
  by (simp_all add: mock_cfg_def mock_config_defs)

lemma test_ALICE_BOB: "ALICE \<noteq> BOB" "BOB \<noteq> ALICE"
  by (simp_all add: ALICE_def BOB_def)

section \<open>Data\<close>

definition get_token_reserved_account_test :: "balances bridge_storage test list" where
  "get_token_reserved_account_test = (let account = get_token_reserved_account mock_cfg in
     [assert_that (\<lambda>_. account (Concrete mock_UsdtLocation) = Some (mock_BridgeAccountOtherTokens reference_platform)),
      assert_that (\<lambda>_. account (Concrete NativeLocation) = Some (mock_BridgeAccountNative reference_platform)),
      assert_that (\<lambda>_. account (Concrete mock_AstrLocation) = Some (mock_BridgeAccountOtherTokens reference_platform)),
      assert_that (\<lambda>_. account (Concrete (new_location 2
        [Parachain 1000, padded_key (ascii ''sygma''), padded_key (ascii ''unknown'')])) = None)])"

definition test_recipient :: bytes where
  "test_recipient = ascii ''0x95ECF5ae000e0fe0e0dE63aDE9b7D82a372038b4''"

definition hex_zero_padding_32_test :: "balances bridge_storage test list" where
  "hex_zero_padding_32_test =
     [assert_that (\<lambda>_. hex_zero_padding_32 100 = replicate 31 0 @ [100]),
      assert_that (\<lambda>_. hex_zero_padding_32 (word_of_nat (length test_recipient)) = replicate 31 0 @ [42])]"

definition create_deposit_data_test :: "balances bridge_storage test list" where
  "create_deposit_data_test = (let data = create_deposit_data 100 test_recipient in
     [assert_that (\<lambda>_. length data = 106),
      assert_that (\<lambda>_. data = replicate 31 0 @ [100] @ replicate 31 0 @ [42] @
        [48, 120, 57, 53, 69, 67, 70, 53, 97, 101, 48, 48, 48, 101, 48, 102, 101, 48, 101, 48, 100, 69, 54, 51,
         97, 68, 69, 57, 98, 55, 68, 56, 50, 97, 51, 55, 50, 48, 51, 56, 98, 52])])"

text \<open>The loops over ranges of nonces.\<close>

definition deposit_nonce_fix_should_work :: "balances bridge_storage test list" where
  "deposit_nonce_fix_should_work = (let set_range = (\<lambda>m n. act (fold (\<lambda>nonce. set_proposal_executed (word_of_nat nonce) 0) [m..<n]));
       executed = (\<lambda>n. is_proposal_executed n 0) in
     [set_range 1 64,
      assert_that (\<lambda>s. \<not> executed 0 s), assert_that (executed 1), assert_that (executed 63),
      set_range 64 128,
      assert_that (executed 64), assert_that (executed 127), assert_that (\<lambda>s. \<not> executed 128 s),
      set_range 256 301,
      assert_that (executed 256), assert_that (executed 300), assert_that (\<lambda>s. \<not> executed 301 s)])"

section \<open>Administration\<close>

definition set_mpc_address_test :: "balances bridge_storage test list" where
  "set_mpc_address_test = (let cfg = mock_cfg; test_mpc_addr_b = replicate 20 2 in
     [assert_that (\<lambda>s. mpc_addr s = default_mpc_address),
      assert_ok (set_mpc_address cfg Root test_mpc_addr),
      assert_that (\<lambda>s. mpc_addr s = test_mpc_addr),
      assert_noop (set_mpc_address cfg Root test_mpc_addr_b) (bridge_error MpcAddrNotUpdatable),
      assert_noop (set_mpc_address cfg (Signed ALICE) test_mpc_addr) (bridge_error AccessDenied),
      assert_that (\<lambda>s. mpc_addr s = test_mpc_addr)])"

definition pause_bridge_test :: "balances bridge_storage test list" where
  "pause_bridge_test = (let cfg = mock_cfg in
     [assert_that (\<lambda>s. mpc_addr s = default_mpc_address),
      assert_ok (register_domain cfg Root DEST_DOMAIN_ID 1),
      assert_ok (pause_bridge cfg Root DEST_DOMAIN_ID),
      assert_that (\<lambda>s. is_paused s DEST_DOMAIN_ID),
      assert_events bridge_events [BridgePausedEvent DEST_DOMAIN_ID],
      assert_ok (pause_bridge cfg Root DEST_DOMAIN_ID),
      assert_that (\<lambda>s. is_paused s DEST_DOMAIN_ID),
      assert_events bridge_events [BridgePausedEvent DEST_DOMAIN_ID],
      assert_noop (pause_bridge cfg (Signed ALICE) DEST_DOMAIN_ID) (bridge_error AccessDenied),
      assert_that (\<lambda>s. is_paused s DEST_DOMAIN_ID)])"

definition unpause_bridge_test :: "balances bridge_storage test list" where
  "unpause_bridge_test = (let cfg = mock_cfg in
     [assert_that (\<lambda>s. mpc_addr s = default_mpc_address),
      assert_ok (register_domain cfg Root DEST_DOMAIN_ID 1),
      assert_ok (pause_bridge cfg Root DEST_DOMAIN_ID),
      assert_events bridge_events [BridgePausedEvent DEST_DOMAIN_ID],
      assert_that (\<lambda>s. is_paused s DEST_DOMAIN_ID),
      assert_ok (unpause_bridge cfg Root DEST_DOMAIN_ID),
      assert_events bridge_events [BridgeUnpausedEvent DEST_DOMAIN_ID],
      assert_noop (unpause_bridge cfg Root DEST_DOMAIN_ID) (bridge_error BridgeUnpaused),
      assert_noop (unpause_bridge cfg (Signed ALICE) DEST_DOMAIN_ID) (bridge_error AccessDenied),
      assert_that (\<lambda>s. \<not> is_paused s DEST_DOMAIN_ID)])"

definition retry_bridge_test :: "balances bridge_storage test list" where
  "retry_bridge_test = (let cfg = mock_cfg in
     [assert_noop (retry cfg (Signed ALICE) 1234567 DEST_DOMAIN_ID) (bridge_error AccessDenied),
      assert_ok (grant_access cfg Root mock_BridgePalletIndex (ascii ''retry'') ALICE),
      assert_noop (retry cfg (Signed ALICE) 1234567 DEST_DOMAIN_ID) (bridge_error MissingMpcAddress),
      assert_ok (set_mpc_address cfg Root test_mpc_addr),
      assert_ok (register_domain cfg Root DEST_DOMAIN_ID 1),
      assert_ok (pause_bridge cfg Root DEST_DOMAIN_ID),
      assert_noop (retry cfg (Signed ALICE) 1234567 DEST_DOMAIN_ID) (bridge_error BridgePaused),
      assert_ok (unpause_bridge cfg Root DEST_DOMAIN_ID),
      assert_that (\<lambda>s. \<not> is_paused s DEST_DOMAIN_ID),
      assert_ok (retry cfg (Signed ALICE) 1234567 DEST_DOMAIN_ID),
      assert_events bridge_events [Retry 1234567 DEST_DOMAIN_ID ALICE]])"

definition get_bridge_pause_status_test :: "balances bridge_storage test list" where
  "get_bridge_pause_status_test = (let cfg = mock_cfg in
     [assert_that (\<lambda>s. \<not> is_paused s DEST_DOMAIN_ID),
      assert_ok (set_mpc_address cfg Root test_mpc_addr),
      assert_ok (register_domain cfg Root DEST_DOMAIN_ID 1),
      assert_ok (pause_bridge cfg Root DEST_DOMAIN_ID),
      assert_that (\<lambda>s. is_paused s DEST_DOMAIN_ID),
      assert_ok (unpause_bridge cfg Root DEST_DOMAIN_ID),
      assert_that (\<lambda>s. \<not> is_paused s DEST_DOMAIN_ID)])"

definition access_control_test :: "balances bridge_storage test list" where
  "access_control_test = (let cfg = mock_cfg; i = mock_BridgePalletIndex in
     [assert_noop (set_mpc_address cfg (Signed ALICE) test_mpc_addr) (bridge_error AccessDenied),
      assert_noop (pause_bridge cfg (Signed BOB) DEST_DOMAIN_ID) (bridge_error AccessDenied),
      assert_noop (unpause_bridge cfg (Signed BOB) DEST_DOMAIN_ID) (bridge_error AccessDenied),
      assert_ok (grant_access cfg Root i (ascii ''set_mpc_address'') ALICE),
      assert_ok (grant_access cfg Root i (ascii ''pause_bridge'') BOB),
      assert_ok (grant_access cfg Root i (ascii ''unpause_bridge'') BOB),
      assert_noop (set_mpc_address cfg (Signed BOB) test_mpc_addr) (bridge_error AccessDenied),
      assert_ok (set_mpc_address cfg (Signed ALICE) test_mpc_addr),
      assert_ok (register_domain cfg Root DEST_DOMAIN_ID 1),
      assert_noop (pause_bridge cfg (Signed ALICE) DEST_DOMAIN_ID) (bridge_error AccessDenied),
      assert_noop (unpause_bridge cfg (Signed ALICE) DEST_DOMAIN_ID) (bridge_error AccessDenied),
      assert_ok (pause_bridge cfg (Signed BOB) DEST_DOMAIN_ID),
      assert_ok (unpause_bridge cfg (Signed BOB) DEST_DOMAIN_ID)])"

definition multi_domain_test :: "balances bridge_storage test list" where
  "multi_domain_test = (let cfg = mock_cfg; i = mock_BridgePalletIndex; alice = Signed ALICE in
     [assert_ok (register_domain cfg Root 1 0),
      assert_ok (set_mpc_address cfg Root test_mpc_addr),
      assert_noop (register_domain cfg alice 1 1) (bridge_error AccessDenied),
      assert_ok (grant_access cfg Root i (ascii ''register_domain'') ALICE),
      assert_ok (register_domain cfg alice 1 1),
      assert_events bridge_events [RegisterDestDomain ALICE 1 1],
      assert_that (\<lambda>s. dest_domain_ids s 1),
      assert_that (\<lambda>s. dest_chain_ids s 1 = Some 1),
      assert_noop (unregister_domain cfg alice 1 0) (bridge_error AccessDenied),
      assert_ok (grant_access cfg Root i (ascii ''unregister_domain'') ALICE),
      assert_noop (unregister_domain cfg alice 1 2) (bridge_error DestChainIDNotMatch),
      assert_noop (unregister_domain cfg alice 2 2) (bridge_error DestDomainNotSupported),
      assert_ok (unregister_domain cfg alice 1 1),
      assert_events bridge_events [UnregisterDestDomain ALICE 1 1],
      assert_that (\<lambda>s. \<not> dest_domain_ids s 1),
      assert_that (\<lambda>s. dest_chain_ids s 1 = None)])"

definition unpause_all_domains_test :: "balances bridge_storage test list" where
  "unpause_all_domains_test = (let cfg = mock_cfg; i = mock_BridgePalletIndex; alice = Signed ALICE in
     [assert_ok (grant_access cfg Root i (ascii ''register_domain'') ALICE),
      assert_ok (grant_access cfg Root i (ascii ''pause_bridge'') ALICE),
      assert_ok (register_domain cfg alice 1 1), assert_ok (register_domain cfg alice 2 2),
      assert_ok (register_domain cfg alice 3 3),
      assert_ok (pause_bridge cfg alice 1), assert_ok (pause_bridge cfg alice 2), assert_ok (pause_bridge cfg alice 3),
      assert_that (\<lambda>s. is_paused s 1), assert_that (\<lambda>s. is_paused s 2), assert_that (\<lambda>s. is_paused s 3),
      act unpause_all_domains,
      assert_that (\<lambda>s. \<not> is_paused s 1), assert_that (\<lambda>s. \<not> is_paused s 2), assert_that (\<lambda>s. \<not> is_paused s 3)])"

definition pause_all_bridges_test :: "balances bridge_storage test list" where
  "pause_all_bridges_test = (let cfg = mock_cfg; i = mock_BridgePalletIndex in
     [assert_ok (register_domain cfg Root 1 1), assert_ok (register_domain cfg Root 2 2),
      assert_ok (register_domain cfg Root 3 3),
      assert_that (\<lambda>s. \<not> is_paused s 1), assert_that (\<lambda>s. \<not> is_paused s 2), assert_that (\<lambda>s. \<not> is_paused s 3),
      assert_noop (pause_all_bridges cfg (Signed ALICE)) (bridge_error AccessDenied),
      assert_ok (grant_access cfg Root i (ascii ''pause_all_bridges'') ALICE),
      assert_ok (pause_all_bridges cfg (Signed ALICE)),
      assert_that (\<lambda>s. is_paused s 1), assert_that (\<lambda>s. is_paused s 2), assert_that (\<lambda>s. is_paused s 3),
      assert_events bridge_events [AllBridgePaused ALICE]])"

definition unpause_all_bridges_test :: "balances bridge_storage test list" where
  "unpause_all_bridges_test = (let cfg = mock_cfg; i = mock_BridgePalletIndex in
     [assert_ok (register_domain cfg Root 1 1), assert_ok (register_domain cfg Root 2 2),
      assert_ok (register_domain cfg Root 3 3),
      assert_noop (unpause_all_bridges cfg Root) (bridge_error MissingMpcAddress),
      assert_ok (set_mpc_address cfg Root test_mpc_addr),
      assert_noop (unpause_all_bridges cfg (Signed ALICE)) (bridge_error AccessDenied),
      assert_ok (grant_access cfg Root i (ascii ''unpause_all_bridges'') ALICE),
      assert_ok (pause_bridge cfg Root 1), assert_ok (pause_bridge cfg Root 2), assert_ok (pause_bridge cfg Root 3),
      assert_that (\<lambda>s. is_paused s 1), assert_that (\<lambda>s. is_paused s 2), assert_that (\<lambda>s. is_paused s 3),
      assert_ok (unpause_all_bridges cfg (Signed ALICE)),
      assert_that (\<lambda>s. \<not> is_paused s 1), assert_that (\<lambda>s. \<not> is_paused s 2), assert_that (\<lambda>s. \<not> is_paused s 3),
      assert_events bridge_events [AllBridgeUnpaused ALICE]])"

section \<open>The model passes the tests\<close>

lemma set_mpc_address_test_passes: "passes set_mpc_address_test bridge_new_test_ext"
  by (simp add: set_mpc_address_test_def bridge_test_defs test_steps test_mpc_addr_set)

lemma pause_bridge_test_passes: "passes pause_bridge_test bridge_new_test_ext"
  by (simp add: pause_bridge_test_def bridge_test_defs test_steps)

lemma unpause_bridge_test_passes: "passes unpause_bridge_test bridge_new_test_ext"
  by (simp add: unpause_bridge_test_def bridge_test_defs test_steps)

lemma retry_bridge_test_passes: "passes retry_bridge_test bridge_new_test_ext"
  by (simp add: retry_bridge_test_def bridge_test_defs test_steps test_mpc_addr_set)

lemma get_bridge_pause_status_test_passes: "passes get_bridge_pause_status_test bridge_new_test_ext"
  by (simp add: get_bridge_pause_status_test_def bridge_test_defs test_steps test_mpc_addr_set)

lemma access_control_test_passes: "passes access_control_test bridge_new_test_ext"
  by (simp add: access_control_test_def bridge_test_defs test_steps test_mpc_addr_set test_ALICE_BOB
      ascii_inj del: ascii_simps)

lemma multi_domain_test_passes: "passes multi_domain_test bridge_new_test_ext"
  by (simp add: multi_domain_test_def bridge_test_defs test_steps test_mpc_addr_set ascii_inj del: ascii_simps)

lemma unpause_all_domains_test_passes: "passes unpause_all_domains_test bridge_new_test_ext"
  by (simp add: unpause_all_domains_test_def bridge_test_defs test_steps ascii_inj del: ascii_simps)

lemma pause_all_bridges_test_passes: "passes pause_all_bridges_test bridge_new_test_ext"
  by (simp add: pause_all_bridges_test_def bridge_test_defs test_steps ascii_inj del: ascii_simps)

lemma unpause_all_bridges_test_passes: "passes unpause_all_bridges_test bridge_new_test_ext"
  by (simp add: unpause_all_bridges_test_def bridge_test_defs test_steps test_mpc_addr_set ascii_inj del: ascii_simps)

lemma get_token_reserved_account_test_passes: "passes get_token_reserved_account_test s"
  by (simp add: get_token_reserved_account_test_def test_steps Let_def get_token_reserved_account_def
      mock_bridge_accounts_def NativeLocation_def mock_UsdtLocation_def mock_AstrLocation_def sibling_key_location_def
      here_def padded_key_inj ascii_inj del: ascii_simps)

lemma be_bytes_zero: "be_bytes n 0 = replicate n 0"
  by (induction n) (simp_all add: replicate_append_same)

lemma be_bytes_32_small: "n < 256 \<Longrightarrow> be_bytes 32 n = replicate 31 0 @ [word_of_nat n]"
  using be_bytes_split [of 31 1 n] by (simp add: be_bytes_zero)

lemma hex_zero_padding_32_test_passes: "passes hex_zero_padding_32_test s"
  by (simp add: hex_zero_padding_32_test_def test_steps hex_zero_padding_32_def be_bytes_32_small test_recipient_def
      del: ascii_simps)

lemma create_deposit_data_test_passes: "passes create_deposit_data_test s"
  by (simp add: create_deposit_data_test_def test_steps Let_def create_deposit_data_def hex_zero_padding_32_def
      be_bytes_32_small test_recipient_def)

lemma executed_after_range:
  "is_proposal_executed n d (fold (\<lambda>m. set_proposal_executed (word_of_nat m) 0) ms s) \<longleftrightarrow>
     d = 0 \<and> n \<in> word_of_nat ` set ms \<or> is_proposal_executed n d s"
  by (induction ms arbitrary: s) (auto simp: is_proposal_executed_set)

lemma in_nonce_range: "b \<le> 2 ^ 64 \<Longrightarrow> n \<in> word_of_nat ` {a..<b} \<longleftrightarrow> a \<le> unat n \<and> unat n < b" for n :: DepositNonce
  by (auto simp: unat_of_nat intro!: image_eqI [of _ _ "unat n"])

lemma deposit_nonce_fix_should_work_passes: "passes deposit_nonce_fix_should_work bridge_new_test_ext"
proof -
  have "\<not> is_proposal_executed n d bridge_new_test_ext" for n d
    using executed_set_empty [of bridge_new_test_ext] by (auto simp: bridge_new_test_ext_def mock_genesis_def executed_set_def)
  then show ?thesis
    by (simp add: deposit_nonce_fix_should_work_def test_steps Let_def act_def executed_after_range in_nonce_range
        del: upt_rec_numeral)
qed

end
