(* ===== verification/Xcm_Network.thy ===== *)
theory Xcm_Network
  imports Bridge_Tests Xcm_Bridge
begin

text \<open>
  The test network of the XCM bridge (\<^verbatim>\<open>xcm-bridge/src/mock/para.rs\<close> and \<^verbatim>\<open>mock/mod.rs\<close>): three parachains with
  the same runtime, and the tests that send assets between them (the module \<^verbatim>\<open>test\<close> of
  \<^verbatim>\<open>xcm-bridge/src/lib.rs\<close>). The executor and the simulator belong to the \<^verbatim>\<open>xcm\<close> packages; \<open>network_execute\<close> is a
  reference executor for the instructions the pallet uses, with the effects their documentation gives them. A
  message is delivered at once, and an asset needs no registration. The lemmas are about this network only.
\<close>

section \<open>The runtime of the parachains\<close>

definition para_NativeLocation :: MultiLocation where "para_NativeLocation = here"

definition para_NativeAssetId :: u32 where "para_NativeAssetId = 0"

definition para_PAALocation :: MultiLocation where "para_PAALocation = new_location 1 [Parachain 1]"

definition para_PBALocation :: MultiLocation where "para_PBALocation = new_location 1 [Parachain 2]"

definition para_UsdtAssetId :: u32 where "para_UsdtAssetId = 1"

definition para_UsdtLocation :: MultiLocation where "para_UsdtLocation = new_location 1 [Parachain 2005]"

definition para_UnitWeightCost :: Weight where "para_UnitWeightCost = (1, 0)"

definition para_MaxInstructions :: u32 where "para_MaxInstructions = 100"

text \<open>Network identifiers are never inspected; Rococo is number 0.\<close>

definition para_UniversalLocation :: "u32 \<Rightarrow> Junction list" where
  "para_UniversalLocation para_id = [GlobalConsensus 0, Parachain para_id]"

definition para_SelfLocation :: "u32 \<Rightarrow> MultiLocation" where
  "para_SelfLocation para_id = new_location 1 [Parachain para_id]"

definition para_MinXcmFee :: "(AssetId \<times> u128) list" where
  "para_MinXcmFee = [(Concrete para_NativeLocation, 1000000000000), (Concrete para_PBALocation, 1000000000000),
     (Concrete para_UsdtLocation, 1000000)]"

definition para_matches_fungibles :: "MultiAsset \<Rightarrow> ExecutionError + u32 \<times> u128" where
  "para_matches_fungibles a =
     (case (asset_fun a, asset_id a) of
        (Fungible amount, Concrete i) \<Rightarrow>
          if i = para_UsdtLocation then Inr (para_UsdtAssetId, amount)
          else if i = para_PBALocation \<or> i = para_PAALocation then Inr (para_NativeAssetId, amount)
          else Inl AssetNotHandled
      | _ \<Rightarrow> Inl AssetNotHandled)"

definition para_is_native_asset :: "u32 \<Rightarrow> MultiAsset \<Rightarrow> bool" where
  "para_is_native_asset para_id asset =
     (let native_locations = [here, new_location 1 [Parachain para_id]] in
      case (asset_id asset, asset_fun asset) of
        (Concrete i, Fungible _) \<Rightarrow> List.member native_locations i
      | _ \<Rightarrow> False)"

section \<open>The trader\<close>

text \<open>
  \<^verbatim>\<open>AllTokensAreCreatedEqualToWeight\<close>: one unit of any token buys one unit of time. The trader remembers the
  location of the token. Assets held are pairs of an identifier and an amount.
\<close>

datatype trader_error = TooExpensive

type_synonym holding = "(AssetId \<times> u128) list"

definition trader_new :: MultiLocation where "trader_new = parent"

definition buy_weight :: "MultiLocation \<Rightarrow> Weight \<Rightarrow> holding \<Rightarrow> ((trader_error + holding) \<times> MultiLocation) rust" where
  "buy_weight trader weight payment =
     (case payment of
        [] \<Rightarrow> Panics
      | (a, n) # rest \<Rightarrow>
          let required = ucast (fst weight); trader = (case a of Concrete i \<Rightarrow> i | Abstract _ \<Rightarrow> trader) in
          Returns (if n < required then (Inl TooExpensive, trader)
                   else (Inr ((if n = required then [] else [(a, n - required)]) @ rest), trader)))"

definition refund_weight :: "MultiLocation \<Rightarrow> Weight \<Rightarrow> MultiAsset option" where
  "refund_weight trader weight =
     (if weight = (0, 0) then None else Some (fungible_asset (Concrete trader) (ucast (fst weight))))"

text \<open>What is bought and refunded again is what was paid.\<close>

lemma buy_then_refund:
  assumes "buy_weight trader weight ((Concrete i, n) # rest) = Returns (Inr unused, trader')" and "weight \<noteq> (0, 0)"
  shows "\<exists>m. refund_weight trader' weight = Some (fungible_asset (Concrete i) m) \<and> m \<le> n \<and>
    unused = (if n = m then [] else [(Concrete i, n - m)]) @ rest"
  using assms by (auto simp: buy_weight_def refund_weight_def Let_def not_less split: if_splits)

section \<open>A reference network\<close>

type_synonym network = "u32 \<Rightarrow> balances"

definition sibling_account :: "u32 \<Rightarrow> AccountId" where
  "sibling_account para_id = ascii ''sibl'' @ rev (be_bytes 4 (unat para_id)) @ replicate 24 0"

text \<open>\<^verbatim>\<open>LocationToAccountId\<close> for accounts of the chain and for sibling chains.\<close>

definition network_account :: "MultiLocation \<Rightarrow> AccountId option" where
  "network_account who =
     (case interior who of
        [j] \<Rightarrow> (case j of
            AccountId32 _ x \<Rightarrow> if parents who = 0 then Some x else None
          | Parachain p \<Rightarrow> if parents who = 1 then Some (sibling_account p) else None
          | _ \<Rightarrow> None)
      | _ \<Rightarrow> None)"

text \<open>The pair of transactors: the currency for the native location, the assets pallet for the others.\<close>

definition network_key :: "AssetId \<Rightarrow> u32 option option" where
  "network_key a = (if a = Concrete para_NativeLocation then Some None
     else case para_matches_fungibles (fungible_asset a 0) of Inl _ \<Rightarrow> None | Inr (k, _) \<Rightarrow> Some (Some k))"

definition network_withdraw :: "u32 \<Rightarrow> AssetId \<times> u128 \<Rightarrow> MultiLocation \<Rightarrow> network \<Rightarrow> network option" where
  "network_withdraw c an who net =
     (case (network_key (fst an), network_account who) of
        (Some k, Some x) \<Rightarrow>
          if unat (snd an) \<le> net c (k, x) then Some (net(c := (net c)((k, x) := net c (k, x) - unat (snd an)))) else None
      | _ \<Rightarrow> None)"

definition network_deposit :: "u32 \<Rightarrow> AssetId \<times> u128 \<Rightarrow> MultiLocation \<Rightarrow> network \<Rightarrow> network option" where
  "network_deposit c an who net =
     (case (network_key (fst an), network_account who) of
        (Some k, Some x) \<Rightarrow> Some (net(c := (net c)((k, x) := net c (k, x) + unat (snd an))))
      | _ \<Rightarrow> None)"

text \<open>An identifier of chain \<open>c\<close> as chain \<open>d\<close> sees it.\<close>

definition network_reanchor :: "u32 \<Rightarrow> u32 \<Rightarrow> AssetId \<Rightarrow> AssetId" where
  "network_reanchor c d a =
     (if a = Concrete here then Concrete (new_location 1 [Parachain c])
      else if a = Concrete (new_location 1 [Parachain d]) then Concrete here else a)"

definition chain_of :: "MultiLocation \<Rightarrow> u32 option" where
  "chain_of l = (case interior l of [j] \<Rightarrow> (case j of Parachain p \<Rightarrow> if parents l = 1 then Some p else None | _ \<Rightarrow> None) | _ \<Rightarrow> None)"

text \<open>
  The instructions, on a chain, with the origin, the weight of the whole message and the assets held. A
  message that starts with \<^verbatim>\<open>ReserveAssetDeposited\<close> or \<^verbatim>\<open>WithdrawAsset\<close> and \<^verbatim>\<open>ClearOrigin\<close> is received with the
  assets held already; its weight counts these two instructions.
\<close>

fun network_run :: "u32 \<Rightarrow> MultiLocation \<Rightarrow> nat \<Rightarrow> holding \<Rightarrow> Instruction list \<Rightarrow> network \<Rightarrow> network option" where
  "network_run c origin weight held [] net = Some net"
| "network_run c origin weight held (WithdrawAsset assets # is) net =
     (case assets of
        [a] \<Rightarrow> (case network_withdraw c (asset_id a, fungible_amount a) origin net of
            None \<Rightarrow> None
          | Some net' \<Rightarrow> network_run c origin weight ((asset_id a, fungible_amount a) # held) is net')
      | _ \<Rightarrow> None)"
| "network_run c origin weight held (TransferReserveAsset assets dest xcm # is) net =
     (case (assets, chain_of dest) of
        ([a], Some d) \<Rightarrow> (case network_withdraw c (asset_id a, fungible_amount a) origin net of
            None \<Rightarrow> None
          | Some net1 \<Rightarrow> (case network_deposit c (asset_id a, fungible_amount a) dest net1 of
              None \<Rightarrow> None
            | Some net2 \<Rightarrow> (case network_run d here (2 + length xcm)
                  [(network_reanchor c d (asset_id a), fungible_amount a)] xcm net2 of
                None \<Rightarrow> None
              | Some net3 \<Rightarrow> network_run c origin weight held is net3)))
      | _ \<Rightarrow> None)"
| "network_run c origin weight held (InitiateReserveWithdraw _ reserve xcm # is) net =
     (case (held, chain_of reserve) of
        ([(a, n)], Some d) \<Rightarrow>
          (case network_withdraw d (network_reanchor c d a, n) (new_location 1 [Parachain c]) net of
             None \<Rightarrow> None
           | Some net1 \<Rightarrow> (case network_run d here (2 + length xcm) [(network_reanchor c d a, n)] xcm net1 of
               None \<Rightarrow> None
             | Some net2 \<Rightarrow> network_run c origin weight [] is net2))
      | _ \<Rightarrow> None)"
| "network_run c origin weight held (DepositReserveAsset _ dest xcm # is) net =
     (case (held, chain_of dest) of
        ([(a, n)], Some d) \<Rightarrow>
          (case network_deposit c (a, n) dest net of
             None \<Rightarrow> None
           | Some net1 \<Rightarrow> (case network_run d here (2 + length xcm) [(network_reanchor c d a, n)] xcm net1 of
               None \<Rightarrow> None
             | Some net2 \<Rightarrow> network_run c origin weight [] is net2))
      | _ \<Rightarrow> None)"
| "network_run c origin weight held (DepositAsset _ who # is) net =
     (case held of
        [an] \<Rightarrow> (case network_deposit c an who net of
            None \<Rightarrow> None
          | Some net' \<Rightarrow> network_run c origin weight [] is net')
      | _ \<Rightarrow> None)"
| "network_run c origin weight held (BuyExecution fees _ # is) net =
     (case held of
        [(a, n)] \<Rightarrow>
          if a = asset_id fees \<and> fungible_amount fees \<le> n then
            (case buy_weight trader_new (word_of_nat weight * fst para_UnitWeightCost, 0) [(a, fungible_amount fees)] of
               Returns (Inr unused, _) \<Rightarrow>
                 network_run c origin weight [(a, n - fungible_amount fees + sum_list (map snd unused))] is net
             | _ \<Rightarrow> None)
          else None
      | _ \<Rightarrow> None)"

definition network_weight :: "Instruction list \<Rightarrow> Weight option" where
  "network_weight program =
     (if length program \<le> unat para_MaxInstructions
      then Some (of_nat (length program) * fst para_UnitWeightCost, of_nat (length program) * snd para_UnitWeightCost)
      else None)"

text \<open>A program over its weight limit, or one that fails, has no effect.\<close>

definition network_execute ::
    "u32 \<Rightarrow> MultiLocation \<Rightarrow> Instruction list \<Rightarrow> bytes \<Rightarrow> Weight \<Rightarrow> Weight \<Rightarrow> network \<Rightarrow> Outcome \<times> network" where
  "network_execute para_id origin program hash limit weight net =
     (if fst limit < fst weight then (ErrorOutcome (OtherXcmError 0), net)
      else case network_run para_id origin (length program) [] program net of
        None \<Rightarrow> (Incomplete weight (OtherXcmError 1), net)
      | Some net' \<Rightarrow> (Complete weight, net'))"

definition network_reanchored :: "u32 \<Rightarrow> MultiAsset \<Rightarrow> MultiLocation \<Rightarrow> Junction list \<Rightarrow> MultiAsset option" where
  "network_reanchored para_id asset target context =
     (case chain_of target of
        None \<Rightarrow> None
      | Some d \<Rightarrow> Some (asset\<lparr>asset_id := network_reanchor para_id d (asset_id asset)\<rparr>))"

text \<open>\<^verbatim>\<open>impl sygma_xcm_bridge::Config for Runtime\<close>, on the reference executor.\<close>

definition para_xcm_config :: "u32 \<Rightarrow> network xcm_bridge_config" where
  "para_xcm_config para_id = \<lparr>Weigher = network_weight, XcmExecutor = network_execute para_id,
     AssetReservedChecker = para_is_native_asset para_id, UniversalLocation = para_UniversalLocation para_id,
     SelfLocation = para_SelfLocation para_id, MinXcmFee = para_MinXcmFee,
     reanchored = network_reanchored para_id, encode_xcm = \<lambda>_. []\<rparr>"

section \<open>The network of the tests\<close>

definition net_ALICE :: AccountId where "net_ALICE = replicate 32 0"

definition net_BOB :: AccountId where "net_BOB = replicate 32 1"

definition net_ASSET_OWNER :: AccountId where "net_ASSET_OWNER = replicate 32 2"

definition net_ENDOWED_BALANCE :: nat where "net_ENDOWED_BALANCE = 100000000000000000000"

definition ParaA :: u32 where "ParaA = 1"

definition ParaB :: u32 where "ParaB = 2"

definition ParaC :: u32 where "ParaC = 2005"

definition para_ext :: balances where
  "para_ext = (\<lambda>_. 0)((None, net_ALICE) := net_ENDOWED_BALANCE, (None, net_BOB) := net_ENDOWED_BALANCE,
     (None, net_ASSET_OWNER) := net_ENDOWED_BALANCE)"

text \<open>
  The state of the network: the balances of each chain, and one log of the events of the pallet for all
  chains. The storage of the bridge pallet is not used.
\<close>

definition TestNet_reset :: "network xcm_bridge_storage" where
  "TestNet_reset = \<lparr>ledger = (\<lambda>_. para_ext), ExtrinsicAccess = Map.empty, access_events = [],
     AssetFees = Map.empty, basic_events = [], AssetFeeRate = Map.empty, percentage_events = [],
     HandlerType = Map.empty, router_events = [],
     DepositCounts = Map.empty, IsPaused = Map.empty, MpcAddr = None, UsedNonces = Map.empty,
     DestDomainIds = Map.empty, DestChainIds = Map.empty, bridge_storage_version = 0, bridge_events = [],
     xcm_bridge_events = []\<rparr>"

definition on_para :: "u32 \<Rightarrow> (network xcm_bridge_config \<Rightarrow> 's test list) \<Rightarrow> 's test" where
  "on_para para_id steps = execute_with (steps (para_xcm_config para_id))"

definition net_free_balance :: "u32 \<Rightarrow> network xcm_bridge_storage \<Rightarrow> AccountId \<Rightarrow> nat" where
  "net_free_balance para_id s who = ledger s para_id (None, who)"

definition net_assets_balance :: "u32 \<Rightarrow> u32 \<Rightarrow> network xcm_bridge_storage \<Rightarrow> AccountId \<Rightarrow> nat" where
  "net_assets_balance para_id i s who = ledger s para_id (Some i, who)"

text \<open>\<^verbatim>\<open>Assets::mint\<close> and \<^verbatim>\<open>Balances::transfer_keep_alive\<close>. An asset needs no call of \<^verbatim>\<open>create\<close> or \<^verbatim>\<open>set\<close> here.\<close>

definition net_mint :: "u32 \<Rightarrow> u32 \<Rightarrow> AccountId \<Rightarrow> nat \<Rightarrow> network xcm_bridge_storage test" where
  "net_mint c i who n = act (\<lambda>s. s\<lparr>ledger := (ledger s)(c := (ledger s c)((Some i, who) := ledger s c (Some i, who) + n))\<rparr>)"

definition net_transfer_keep_alive :: "u32 \<Rightarrow> AccountId \<Rightarrow> AccountId \<Rightarrow> nat \<Rightarrow> network xcm_bridge_storage test" where
  "net_transfer_keep_alive c source dest n s =
     (if n < ledger s c (None, source)
      then Some (s\<lparr>ledger := (ledger s)(c := (let b = (ledger s c)((None, source) := ledger s c (None, source) - n)
        in b((None, dest) := b (None, dest) + n)))\<rparr>)
      else None)"

text \<open>The recipient of a transfer, on a parachain.\<close>

definition on_chain :: "u32 \<Rightarrow> AccountId \<Rightarrow> MultiLocation" where
  "on_chain para_id who = new_location 1 [Parachain para_id, AccountId32 None who]"

section \<open>The tests\<close>

definition test_transfer_self_reserve_asset_to_parachain :: "host \<Rightarrow> network xcm_bridge_storage test list" where
  "test_transfer_self_reserve_asset_to_parachain h =
     (let amount = 10000000000000; fee = 4; here_asset = fungible_asset (Concrete here) amount in
     [on_para ParaB (\<lambda>_. [assert_that (\<lambda>s. net_assets_balance ParaB para_NativeAssetId s net_BOB = 0)]),
      on_para ParaA (\<lambda>xc.
        [assert_that (\<lambda>s. net_free_balance ParaA s net_ALICE = net_ENDOWED_BALANCE),
         assert_ok (xcm_transfer xc h net_ALICE here_asset (on_chain 2 net_BOB) None),
         assert_that (\<lambda>s. net_free_balance ParaA s net_ALICE = net_ENDOWED_BALANCE - unat amount),
         assert_events xcm_bridge_events
           [XCMTransferSend here_asset (account_location net_ALICE) (on_chain 2 net_BOB)],
         assert_that (\<lambda>s. net_free_balance ParaA s (sibling_account 2) = unat amount)]),
      on_para ParaB (\<lambda>_. [assert_that (\<lambda>s. net_assets_balance ParaB para_NativeAssetId s net_BOB = unat amount - fee)])])"

definition test_transfer_to_reserve_to_parachain :: "host \<Rightarrow> network xcm_bridge_storage test list" where
  "test_transfer_to_reserve_to_parachain h =
     (let amount = 10000000000000; fee = 4; back = fungible_asset (Concrete para_PBALocation) (amount - fee) in
     [on_para ParaB (\<lambda>xc.
        [assert_that (\<lambda>s. net_free_balance ParaB s net_BOB = net_ENDOWED_BALANCE),
         assert_ok (xcm_transfer xc h net_ALICE (fungible_asset (Concrete here) amount) (on_chain 1 net_ALICE) None),
         assert_that (\<lambda>s. net_free_balance ParaB s net_ALICE = net_ENDOWED_BALANCE - unat amount),
         assert_that (\<lambda>s. net_free_balance ParaB s (sibling_account 1) = unat amount)]),
      on_para ParaA (\<lambda>xc.
        [assert_that (\<lambda>s. net_assets_balance ParaA para_NativeAssetId s net_ALICE = unat (amount - fee)),
         assert_ok (xcm_transfer xc h net_ALICE back (on_chain 2 net_BOB) None),
         assert_that (\<lambda>s. net_assets_balance ParaA para_NativeAssetId s net_ALICE = 0),
         assert_events xcm_bridge_events
           [XCMTransferSend back (account_location net_ALICE) (on_chain 2 net_BOB)]]),
      on_para ParaB (\<lambda>_.
        [assert_that (\<lambda>s. net_free_balance ParaB s net_BOB = net_ENDOWED_BALANCE + unat amount - unat fee * 2),
         assert_that (\<lambda>s. net_free_balance ParaB s (sibling_account 1) = unat (amount - (amount - fee)))])])"

definition test_transfer_to_non_reserve_to_parachain :: "host \<Rightarrow> network xcm_bridge_storage test list" where
  "test_transfer_to_non_reserve_to_parachain h =
     (let usdt_asset = (\<lambda>n. fungible_asset (Concrete para_UsdtLocation) n); i = para_UsdtAssetId in
     [net_mint ParaC i net_ASSET_OWNER net_ENDOWED_BALANCE,
      on_para ParaC (\<lambda>_.
        [assert_that (\<lambda>s. net_assets_balance ParaC i s net_ASSET_OWNER = net_ENDOWED_BALANCE),
         assert_that (\<lambda>s. net_assets_balance ParaC i s net_ALICE = 0),
         assert_that (\<lambda>s. net_assets_balance ParaC i s net_BOB = 0),
         assert_that (\<lambda>s. net_free_balance ParaC s net_ALICE = net_ENDOWED_BALANCE),
         assert_that (\<lambda>s. net_free_balance ParaC s net_BOB = net_ENDOWED_BALANCE),
         net_transfer_keep_alive ParaC net_ASSET_OWNER (sibling_account 1) 1000000000000000,
         assert_that (\<lambda>s. net_free_balance ParaC s (sibling_account 1) = 1000000000000000),
         assert_that (\<lambda>s. net_free_balance ParaC s (sibling_account 2) = 0)]),
      on_para ParaC (\<lambda>xc.
        [assert_ok (xcm_transfer xc h net_ASSET_OWNER (usdt_asset 100000000) (on_chain 1 net_ALICE) None),
         assert_that (\<lambda>s. net_assets_balance ParaC i s net_ASSET_OWNER = net_ENDOWED_BALANCE - 100000000)]),
      on_para ParaA (\<lambda>_. [assert_that (\<lambda>s. net_assets_balance ParaA i s net_ALICE = 100000000 - 4)]),
      on_para ParaB (\<lambda>_. [assert_that (\<lambda>s. net_assets_balance ParaB i s net_BOB = 0)]),
      on_para ParaA (\<lambda>xc.
        [assert_ok (xcm_transfer xc h net_ALICE (usdt_asset (100000000 - 4)) (on_chain 2 net_BOB) None),
         assert_that (\<lambda>s. net_assets_balance ParaA i s net_ALICE = 0),
         assert_events xcm_bridge_events
           [XCMTransferSend (usdt_asset (100000000 - 4)) (account_location net_ALICE) (on_chain 2 net_BOB)]]),
      on_para ParaC (\<lambda>_.
        [assert_that (\<lambda>s. net_free_balance ParaC s (sibling_account 1) = 1000000000000000 - (100000000 - 4)),
         assert_that (\<lambda>s. net_free_balance ParaC s (sibling_account 2) = (100000000 - 4) - 4)]),
      on_para ParaB (\<lambda>_. [assert_that (\<lambda>s. net_assets_balance ParaB i s net_BOB = 100000000 - 4 - 4 * 2)])])"

section \<open>The tests pass\<close>

lemma net_accounts_differ [simp]:
  "net_ALICE \<noteq> net_BOB" "net_BOB \<noteq> net_ALICE" "net_ALICE \<noteq> net_ASSET_OWNER" "net_ASSET_OWNER \<noteq> net_ALICE"
  "net_BOB \<noteq> net_ASSET_OWNER" "net_ASSET_OWNER \<noteq> net_BOB"
  by (auto simp: net_ALICE_def net_BOB_def net_ASSET_OWNER_def dest: arg_cong [where f = hd])

lemma hd_sibling_account: "hd (sibling_account c) = 115"
  by (simp add: sibling_account_def ascii_def)

lemma sibling_account_differs [simp]:
  "sibling_account c \<noteq> net_ALICE" "sibling_account c \<noteq> net_BOB" "sibling_account c \<noteq> net_ASSET_OWNER"
  using hd_sibling_account [of c]
  by (auto simp: net_ALICE_def net_BOB_def net_ASSET_OWNER_def simp del: replicate.simps)

lemmas sibling_account_differs_sym [simp] = sibling_account_differs [symmetric]

lemma sibling_accounts [simp]: "sibling_account c = sibling_account d \<longleftrightarrow> c = d"
proof
  have n: "unat x mod 256 ^ 4 = unat x" for x :: u32
  proof -
    have "unat x < 2 ^ LENGTH(32)" by (rule unsigned_less)
    then show ?thesis by simp
  qed
  assume "sibling_account c = sibling_account d"
  then have "be_nat (be_bytes 4 (unat c)) = be_nat (be_bytes 4 (unat d))" by (simp add: sibling_account_def)
  then have "unat c = unat d" by (simp only: be_nat_be_bytes n)
  then show "c = d" by (rule unsigned_word_eqI)
qed simp

lemma account_location_new: "account_location x = new_location 0 [AccountId32 None x]"
  by (simp add: account_location_def junction_location_def new_location_def)

lemma chain_of_parachain [simp]: "chain_of (new_location 1 [Parachain p]) = Some p"
  by (simp add: chain_of_def)

lemma network_accounts [simp]:
  "network_account (account_location x) = Some x" "network_account (new_location 0 [AccountId32 None x]) = Some x"
  "network_account (new_location 1 [Parachain p]) = Some (sibling_account p)"
  by (simp_all add: network_account_def account_location_new)

lemma network_keys [simp]:
  "network_key (Concrete here) = Some None" "network_key (Concrete (new_location 1 [Parachain 1])) = Some (Some 0)"
  "network_key (Concrete (new_location 1 [Parachain 2])) = Some (Some 0)"
  "network_key (Concrete (new_location 1 [Parachain 2005])) = Some (Some 1)"
  by (simp_all add: network_key_def para_matches_fungibles_def fungible_asset_def para_NativeLocation_def here_def
      para_PBALocation_def para_PAALocation_def para_UsdtLocation_def para_UsdtAssetId_def para_NativeAssetId_def)

text \<open>The computation of a transfer: the fee, the program, and the run of the program on the reference executor.\<close>

definition network_object :: "AccountId \<Rightarrow> MultiAsset \<Rightarrow> u32 \<Rightarrow> AccountId \<Rightarrow> u128 \<Rightarrow> XcmObject" where
  "network_object x a d y f = \<lparr>xcm_asset = a, xcm_fee = fungible_asset (asset_id a) f, xcm_origin = account_location x,
     xcm_dest = new_location 1 [Parachain d], xcm_recipient = new_location 0 [AccountId32 None y],
     xcm_weight = default_xcm_weight\<rparr>"

lemma fungible_amount_asset [simp]: "fungible_amount (fungible_asset a n) = n"
  by (simp add: fungible_asset_def fungible_amount_def)

lemma network_transfer:
  assumes "map_option (\<lambda>i. snd (para_MinXcmFee ! i)) (position (\<lambda>p. fst p = asset_id a) para_MinXcmFee) = Some f"
    and "create_instructions (para_xcm_config c) (network_object x a d y f) = Inr program"
    and "length program \<le> 2"
    and "network_run c (account_location x) (length program) [] program (ledger s) = Some net"
  shows "xcm_transfer (para_xcm_config c) h x a (on_chain d y) None s =
    (Inr (), s\<lparr>ledger := net, xcm_bridge_events :=
      xcm_bridge_events s @ [XCMTransferSend a (account_location x) (on_chain d y)]\<rparr>)"
proof -
  have "length program = 0 \<or> length program = 1 \<or> length program = 2" using assms(3) by linarith
  then have w: "network_weight program = Some (of_nat (length program), 0)"
    "\<not> fst default_xcm_weight < (of_nat (length program) :: u64)"
    by (auto simp: network_weight_def para_UnitWeightCost_def para_MaxInstructions_def default_xcm_weight_def)
  show ?thesis
    using assms w
    by (simp add: xcm_transfer_def on_chain_def extract_dest_def first_interior_def network_object_def Let_def
        para_xcm_config_def ok_or_def try_result_def invoke_def execute_instructions_def invoke_or_def
        network_execute_def done_with_def writes_def del: map_option_eq_Some)
qed

lemma purchase:
  assumes "w = 4" and "4 \<le> f" "f \<le> n"
  shows "network_run d o' w [(a, n)] (BuyExecution (fungible_asset a f) lim # is) net = network_run d o' w [(a, n - 4)] is net"
proof -
  have "n - f + (f - 4) = n - 4" by simp
  then show ?thesis
    using assms by (auto simp: buy_weight_def Let_def fungible_amount_def fungible_asset_def para_UnitWeightCost_def)
qed

lemma arrival:
  assumes "network_key a = Some k" and "w = 4" "4 \<le> f" "f \<le> n"
  shows "network_run d here w [(a, n)] [BuyExecution (fungible_asset a f) lim, DepositAsset wild (new_location 0 [AccountId32 None y])] net =
    Some (net(d := (net d)((k, y) := net d (k, y) + unat (n - 4))))"
  using assms(1) by (simp add: purchase [OF assms(2-4)] network_deposit_def del: network_run.simps(7))

text \<open>A transfer from the chain that holds the reserve, one to that chain, and one through it.\<close>

definition min_fee :: "AssetId \<Rightarrow> u128 option" where
  "min_fee a = map_option (\<lambda>i. snd (para_MinXcmFee ! i)) (position (\<lambda>p. fst p = a) para_MinXcmFee)"

definition debited :: "u32 \<Rightarrow> u32 option \<Rightarrow> AccountId \<Rightarrow> u128 \<Rightarrow> network \<Rightarrow> network" where
  "debited c k x n net = net(c := (net c)((k, x) := net c (k, x) - unat n))"

definition credited :: "u32 \<Rightarrow> u32 option \<Rightarrow> AccountId \<Rightarrow> u128 \<Rightarrow> network \<Rightarrow> network" where
  "credited c k x n net = net(c := (net c)((k, x) := net c (k, x) + unat n))"

definition sent :: "AccountId \<Rightarrow> MultiAsset \<Rightarrow> u32 \<Rightarrow> AccountId \<Rightarrow> network \<Rightarrow> (network, 'z) xcm_bridge_storage_scheme \<Rightarrow> (network, 'z) xcm_bridge_storage_scheme" where
  "sent x a d y net s = s\<lparr>ledger := net, xcm_bridge_events :=
      xcm_bridge_events s @ [XCMTransferSend a (account_location x) (on_chain d y)]\<rparr>"

lemma sent_from_reserve:
  assumes "para_is_native_asset c (fungible_asset a n)" "min_fee a = Some f" "reserved_location (fungible_asset a n) \<noteq> None"
    and "network_key a = Some k" "network_key (network_reanchor c d a) = Some k'"
    and "4 \<le> f" "f \<le> n" "unat n \<le> ledger s c (k, x)"
  shows "xcm_transfer (para_xcm_config c) h x (fungible_asset a n) (on_chain d y) None s = (Inr (),
    sent x (fungible_asset a n) d y (credited d k' y (n - 4) (credited c k (sibling_account d) n (debited c k x n (ledger s)))) s)"
proof -
  let ?r = "network_reanchor c d a"
  let ?program = "[TransferReserveAsset [fungible_asset a n] (new_location 1 [Parachain d])
    [BuyExecution (fungible_asset ?r f) (Limited default_xcm_weight),
     DepositAsset (AllCounted 1) (new_location 0 [AccountId32 None y])]]"
  have "create_instructions (para_xcm_config c) (network_object x (fungible_asset a n) d y f) = Inr ?program"
    using assms(1, 3) by (auto simp: create_instructions_def network_object_def transfer_kind_def para_xcm_config_def
        transfer_self_reserve_asset_def buy_execution_def network_reanchored_def xcm_deposit_asset_def fungible_asset_def)
  moreover have "network_run c (account_location x) (length ?program) [] ?program (ledger s) =
      Some (credited d k' y (n - 4) (credited c k (sibling_account d) n (debited c k x n (ledger s))))"
    using assms(4-8)
    by (simp add: arrival network_withdraw_def network_deposit_def credited_def debited_def del: network_run.simps(6, 7))
  ultimately show ?thesis
    using assms(2) by (simp add: network_transfer min_fee_def sent_def fungible_asset_def del: map_option_eq_Some)
qed

lemma sent_to_reserve:
  assumes "\<not> para_is_native_asset c (fungible_asset a n)" "min_fee a = Some f"
    and "reserved_location (fungible_asset a n) = Some (new_location 1 [Parachain d])"
    and "network_key a = Some k" "network_key (network_reanchor c d a) = Some k'" "c \<noteq> d"
    and "4 \<le> f" "f \<le> n" "unat n \<le> ledger s c (k, x)" "unat n \<le> ledger s d (k', sibling_account c)"
  shows "xcm_transfer (para_xcm_config c) h x (fungible_asset a n) (on_chain d y) None s = (Inr (),
    sent x (fungible_asset a n) d y (credited d k' y (n - 4) (debited d k' (sibling_account c) n (debited c k x n (ledger s)))) s)"
proof -
  let ?r = "network_reanchor c d a"
  let ?program = "[WithdrawAsset [fungible_asset a n], InitiateReserveWithdraw All (new_location 1 [Parachain d])
    [BuyExecution (fungible_asset ?r f) (Limited default_xcm_weight),
     DepositAsset (AllCounted 1) (new_location 0 [AccountId32 None y])]]"
  have "create_instructions (para_xcm_config c) (network_object x (fungible_asset a n) d y f) = Inr ?program"
    using assms(1, 3) by (auto simp: create_instructions_def network_object_def transfer_kind_def para_xcm_config_def
        transfer_to_reserve_asset_def buy_execution_def network_reanchored_def xcm_deposit_asset_def fungible_asset_def)
  moreover have "network_run c (account_location x) (length ?program) [] ?program (ledger s) =
      Some (credited d k' y (n - 4) (debited d k' (sibling_account c) n (debited c k x n (ledger s))))"
    using assms(4-)
    by (simp add: arrival network_withdraw_def network_deposit_def credited_def debited_def del: network_run.simps(6, 7))
  ultimately show ?thesis
    using assms(2) by (simp add: network_transfer min_fee_def sent_def fungible_asset_def del: map_option_eq_Some)
qed

lemma sent_through_reserve:
  assumes "\<not> para_is_native_asset c (fungible_asset a n)" "min_fee a = Some f"
    and "reserved_location (fungible_asset a n) = Some (new_location 1 [Parachain r])"
    and "network_key a = Some k" "network_key (network_reanchor c r a) = Some k1"
    and "network_key (network_reanchor c d a) = Some k2" "network_reanchor r d (network_reanchor c r a) = network_reanchor c d a"
    and "c \<noteq> r" "r \<noteq> d" "4 \<le> f div 2" "f div 2 \<le> n - 4" "f div 2 \<le> n"
    and "unat n \<le> ledger s c (k, x)" "unat n \<le> ledger s r (k1, sibling_account c)"
  shows "xcm_transfer (para_xcm_config c) h x (fungible_asset a n) (on_chain d y) None s = (Inr (),
    sent x (fungible_asset a n) d y (credited d k2 y (n - 4 - 4) (credited r k1 (sibling_account d) (n - 4)
      (debited r k1 (sibling_account c) n (debited c k x n (ledger s))))) s)"
proof -
  let ?program = "[WithdrawAsset [fungible_asset a n], InitiateReserveWithdraw All (new_location 1 [Parachain r])
    [BuyExecution (fungible_asset (network_reanchor c r a) (f div 2)) (Limited default_xcm_weight),
     DepositReserveAsset (AllCounted 1) (new_location 1 [Parachain d])
       [BuyExecution (fungible_asset (network_reanchor c d a) (f div 2)) (Limited default_xcm_weight),
        DepositAsset (AllCounted 1) (new_location 0 [AccountId32 None y])]]]"
  have "create_instructions (para_xcm_config c) (network_object x (fungible_asset a n) d y f) = Inr ?program"
    using assms(1, 3, 9) by (auto simp: create_instructions_def network_object_def transfer_kind_def para_xcm_config_def
        transfer_to_non_reserve_asset_def reanchored_destination_def parent_def half_def fungible_amount_def
        buy_execution_def network_reanchored_def xcm_deposit_asset_def fungible_asset_def)
  moreover have "network_run c (account_location x) (length ?program) [] ?program (ledger s) =
      Some (credited d k2 y (n - 4 - 4) (credited r k1 (sibling_account d) (n - 4)
      (debited r k1 (sibling_account c) n (debited c k x n (ledger s)))))"
    using assms(4-)
    by (simp add: purchase network_withdraw_def network_deposit_def credited_def debited_def del: network_run.simps(7))
  ultimately show ?thesis
    using assms(2) by (simp add: network_transfer min_fee_def sent_def fungible_asset_def del: map_option_eq_Some)
qed

lemma network_facts [simp]:
  "para_is_native_asset c (fungible_asset (Concrete here) n)"
  "para_is_native_asset c (fungible_asset (Concrete (new_location 1 [Parachain d])) n) \<longleftrightarrow> c = d"
  "reserved_location (fungible_asset (Concrete here) n) = Some here"
  "reserved_location (fungible_asset (Concrete (new_location 1 [Parachain d])) n) = Some (new_location 1 [Parachain d])"
  "min_fee (Concrete here) = Some 1000000000000" "min_fee (Concrete (new_location 1 [Parachain 2])) = Some 1000000000000"
  "min_fee (Concrete (new_location 1 [Parachain 2005])) = Some 1000000"
  "network_reanchor c d (Concrete here) = Concrete (new_location 1 [Parachain c])"
  "network_reanchor c d (Concrete (new_location 1 [Parachain p])) = (if d = p then Concrete here else Concrete (new_location 1 [Parachain p]))"
  by (auto simp: para_is_native_asset_def fungible_asset_def here_def reserved_location_def first_interior_def min_fee_def
      para_MinXcmFee_def para_NativeLocation_def para_PBALocation_def para_UsdtLocation_def position_def network_reanchor_def)

lemma sent_simps [simp]:
  "ledger (sent x a d y net s) = net"
  "xcm_bridge_events (sent x a d y net s) = xcm_bridge_events s @ [XCMTransferSend a (account_location x) (on_chain d y)]"
  by (simp_all add: sent_def)

lemmas network_evaluation = on_para_def test_steps Let_def net_free_balance_def net_assets_balance_def
  ParaA_def ParaB_def ParaC_def para_NativeAssetId_def para_UsdtAssetId_def para_PBALocation_def para_UsdtLocation_def
  TestNet_reset_def para_ext_def net_ENDOWED_BALANCE_def credited_def debited_def

lemma self_reserve_test_passes: "passes (test_transfer_self_reserve_asset_to_parachain h) TestNet_reset"
  by (simp add: test_transfer_self_reserve_asset_to_parachain_def network_evaluation sent_from_reserve)

lemma to_reserve_test_passes: "passes (test_transfer_to_reserve_to_parachain h) TestNet_reset"
  by (simp add: test_transfer_to_reserve_to_parachain_def network_evaluation sent_from_reserve sent_to_reserve)

lemma through_reserve_test_passes: "passes (test_transfer_to_non_reserve_to_parachain h) TestNet_reset"
  by (simp add: test_transfer_to_non_reserve_to_parachain_def network_evaluation net_mint_def act_def
      net_transfer_keep_alive_def sent_from_reserve sent_through_reserve)

end
