(* ===== verification/Runtime_Access.thy ===== *)
theory Runtime_Access
  imports Parachain_Scenarios
begin

text \<open>
  Delegation of the guarded extrinsics. \<^verbatim>\<open>grant_access\<close> records one account for a pallet index and the name of an
  extrinsic, and each pallet looks its callers up under its own index (\<^verbatim>\<open>access-segregator/src/lib.rs\<close>). The
  locale \<open>delegating_runtime\<close> is what a runtime has to configure for this to work: the committee is root, and
  every guarded extrinsic is registered under the index its pallet uses. All three runtimes do.
\<close>

section \<open>The guarded extrinsics\<close>

text \<open>The name of an extrinsic, and the key under which its pallet looks a caller up.\<close>

fun extrinsic_name :: "RuntimeCall \<Rightarrow> string" where
  "extrinsic_name (GrantAccess _ _ _) = ''grant_access''"
| "extrinsic_name (SetFee _ _ _) = ''set_fee''"
| "extrinsic_name (SetFeeRate _ _ _ _ _) = ''set_fee_rate''"
| "extrinsic_name (SetFeeHandler _ _ _) = ''set_fee_handler''"
| "extrinsic_name (PauseBridge _) = ''pause_bridge''"
| "extrinsic_name (UnpauseBridge _) = ''unpause_bridge''"
| "extrinsic_name (SetMpcAddress _) = ''set_mpc_address''"
| "extrinsic_name (RegisterDomain _ _) = ''register_domain''"
| "extrinsic_name (UnregisterDomain _ _) = ''unregister_domain''"
| "extrinsic_name (DepositCall _ _) = ''deposit''"
| "extrinsic_name (RetryCall _ _) = ''retry''"
| "extrinsic_name (ExecuteProposal _ _) = ''execute_proposal''"
| "extrinsic_name PauseAllBridges = ''pause_all_bridges''"
| "extrinsic_name UnpauseAllBridges = ''unpause_all_bridges''"

fun pallet_index :: "('st, 'c) bridge_config_scheme \<Rightarrow> RuntimeCall \<Rightarrow> u8" where
  "pallet_index cfg (GrantAccess _ _ _) = AccessPalletIndex cfg"
| "pallet_index cfg (SetFee _ _ _) = BasicPalletIndex cfg"
| "pallet_index cfg (SetFeeRate _ _ _ _ _) = PercentagePalletIndex cfg"
| "pallet_index cfg (SetFeeHandler _ _ _) = RouterPalletIndex cfg"
| "pallet_index cfg _ = BridgePalletIndex cfg"

fun guarded :: "RuntimeCall \<Rightarrow> bool" where
  "guarded (DepositCall _ _) = False"
| "guarded (ExecuteProposal _ _) = False"
| "guarded _ = True"

lemma call_access_key:
  "guarded c \<Longrightarrow> call_access cfg c origin s = has_access cfg (pallet_index cfg c) (ascii (extrinsic_name c)) origin s"
  by (cases c) (simp_all add: bridge_access_def del: ascii_simps)

text \<open>A guarded call returns the error of missing access exactly to those without it.\<close>

definition refused ::
    "(('l, 'z) bridge_storage_scheme, 'c) bridge_config_scheme \<Rightarrow> host \<Rightarrow> AccountId \<Rightarrow> RuntimeCall
     \<Rightarrow> ('l, 'z) bridge_storage_scheme \<Rightarrow> bool" where
  "refused cfg h who c s \<longleftrightarrow> fst (dispatch cfg h (Signed who) c s) = Inl (call_denied c)"

lemma refused_iff: "guarded c \<Longrightarrow> refused cfg h who c s \<longleftrightarrow> \<not> call_access cfg c (Signed who) s"
  using dispatch_refused [of cfg c "Signed who" s h]
  by (cases c) (auto simp: refused_def settings_defs bridge_error_def bridge_error_name_def percentage_error_def split: option.splits)

section \<open>Delegation\<close>

locale delegating_runtime =
  fixes cfg :: "(('l, 'z) bridge_storage_scheme, 'c) bridge_config_scheme"
  assumes committee_is_root: "BridgeCommitteeOrigin cfg = ensure_root"
    and registered: "registers_all cfg"
begin

lemma key_registered:
  "guarded c \<Longrightarrow> (pallet_index cfg c, ascii (extrinsic_name c)) \<in> set (Extrinsics cfg)"
  using registered by (cases c) (simp_all add: registers_all_def del: ascii_simps)

lemma signed_refused_iff:
  "guarded c \<Longrightarrow> refused cfg h who c s \<longleftrightarrow> ExtrinsicAccess s (pallet_index cfg c, ascii (extrinsic_name c)) \<noteq> Some who"
  using key_registered [of c]
  by (simp add: refused_iff call_access_key has_access_iff committee_is_root ensure_root_def)

lemma grant_succeeds:
  "dispatch cfg h Root (GrantAccess i n who) s =
     (Inr (), s\<lparr>ExtrinsicAccess := (ExtrinsicAccess s)((i, n) \<mapsto> who),
                 access_events := access_events s @ [AccessGranted i n who]\<rparr>)"
  by (simp add: grant_access_def has_access_iff committee_is_root ensure_root_def)

lemma grant_exact:
  assumes "guarded c" and "guarded c'" and "extrinsic_name c = n"
  shows "\<exists>t. dispatch cfg h Root (GrantAccess (pallet_index cfg c) (ascii n) who) s = (Inr (), t) \<and>
    (refused cfg h x c' t \<longleftrightarrow> (if extrinsic_name c' = n then x \<noteq> who else refused cfg h x c' s))"
proof -
  have "extrinsic_name c' = extrinsic_name c \<Longrightarrow> pallet_index cfg c' = pallet_index cfg c"
    by (cases c; cases c') simp_all
  then show ?thesis
    using assms unfolding grant_succeeds by (auto simp: signed_refused_iff ascii_inj)
qed

end

interpretation standalone_access: delegating_runtime "standalone_config pf fx" for pf fx
  by unfold_locales (simp_all add: standalone_registers_all, simp add: standalone_config_defs)

interpretation mock_access: delegating_runtime "mock_config pf fx" for pf fx
  by unfold_locales (simp_all add: mock_registers_all, simp add: mock_config_defs)

interpretation parachain_access: delegating_runtime "parachain_config h xp pf fx para_id" for h xp pf fx para_id
  by unfold_locales (simp_all add: parachain_registers_all, simp add: parachain_config_def parachain_config_defs)

section \<open>Properties\<close>

text \<open>
  C40. Access is delegated one extrinsic at a time, and to one account at a time. In all three runtimes, root's grant
  of a guarded extrinsic, under the index its pallet uses, succeeds; afterwards this extrinsic is refused to
  every other account, an earlier grantee included, and not to the grantee, and every other guarded
  extrinsic is refused to the same accounts as before.
\<close>

theorem grants_are_exact:
  assumes "guarded c" and "guarded c'" and "extrinsic_name c = n"
  shows "(let cfg = standalone_config pf fx in \<exists>t. dispatch cfg h Root (GrantAccess (pallet_index cfg c) (ascii n) who) s = (Inr (), t) \<and>
      (refused cfg h x c' t \<longleftrightarrow> (if extrinsic_name c' = n then x \<noteq> who else refused cfg h x c' s))) \<and>
    (let cfg = mock_config pf fx in \<exists>t. dispatch cfg h Root (GrantAccess (pallet_index cfg c) (ascii n) who) s = (Inr (), t) \<and>
      (refused cfg h x c' t \<longleftrightarrow> (if extrinsic_name c' = n then x \<noteq> who else refused cfg h x c' s))) \<and>
    (let cfg = parachain_config h xp pf fx para_id in \<exists>t. dispatch cfg h Root (GrantAccess (pallet_index cfg c) (ascii n) who) u = (Inr (), t) \<and>
      (refused cfg h x c' t \<longleftrightarrow> (if extrinsic_name c' = n then x \<noteq> who else refused cfg h x c' u)))"
  unfolding Let_def
  by (intro conjI standalone_access.grant_exact [OF assms] mock_access.grant_exact [OF assms]
      parachain_access.grant_exact [OF assms])

text \<open>Root gives \<^verbatim>\<open>pause_bridge\<close> to Alice and then to Bob, who replaces Alice.\<close>

theorem grants_are_exact_witness:
  "\<exists>t u. dispatch (standalone_config reference_platform fixed_words) test_host Root
        (GrantAccess standalone_BridgePalletIndex (ascii ''pause_bridge'') ALICE) mock_genesis = (Inr (), t) \<and>
    dispatch (standalone_config reference_platform fixed_words) test_host Root
        (GrantAccess standalone_BridgePalletIndex (ascii ''pause_bridge'') BOB) t = (Inr (), u) \<and>
    refused (standalone_config reference_platform fixed_words) test_host ALICE (PauseBridge 1) u"
proof -
  let ?cfg = "standalone_config reference_platform fixed_words :: balances bridge_storage bridge_config"
  have i: "pallet_index ?cfg (PauseBridge 1) = standalone_BridgePalletIndex" by (simp add: standalone_config_defs)
  have other: "ALICE \<noteq> BOB" by (simp add: ALICE_def BOB_def)
  have grant: "\<exists>t. dispatch ?cfg test_host Root (GrantAccess standalone_BridgePalletIndex (ascii ''pause_bridge'') who) s = (Inr (), t) \<and>
      (refused ?cfg test_host x (PauseBridge 1) t \<longleftrightarrow> x \<noteq> who)" for who x s
    using conjunct1 [OF grants_are_exact, of "PauseBridge 1" "PauseBridge 1" "''pause_bridge''" reference_platform fixed_words
        test_host who s x] by (simp only: Let_def i guarded.simps extrinsic_name.simps if_True simp_thms)
  show ?thesis
    using grant [of ALICE mock_genesis ALICE] grant [of BOB _ ALICE] other by (metis (no_types, lifting))
qed

end
