(* ===== verification/Sygma_Weights.thy ===== *)
theory Sygma_Weights
  imports Bridge_Runtime
begin

text \<open>
  The weights the runtime charges for the extrinsics (\<^verbatim>\<open>weights.rs\<close> of each pallet): saturating sums of a
  base weight, a proof size and database accesses. A weight has two parts, time and proof size, and all
  its operations saturate in both. The cost of a database access is a constant of the runtime.
\<close>

record RuntimeDbWeight =
  db_read :: u64
  db_write :: u64

definition weight_add :: "Weight \<Rightarrow> Weight \<Rightarrow> Weight" where
  "weight_add v w = (saturating_add (fst v) (fst w), saturating_add (snd v) (snd w))"

definition weight_mul :: "Weight \<Rightarrow> u64 \<Rightarrow> Weight" where
  "weight_mul w n = (saturating_mul (fst w) n, saturating_mul (snd w) n)"

definition db_reads :: "RuntimeDbWeight \<Rightarrow> u64 \<Rightarrow> Weight" where
  "db_reads db r = (saturating_mul (db_read db) r, 0)"

definition db_writes :: "RuntimeDbWeight \<Rightarrow> u64 \<Rightarrow> Weight" where
  "db_writes db w = (saturating_mul (db_write db) w, 0)"

section \<open>The weight of each extrinsic\<close>

definition weight_pause_bridge :: "RuntimeDbWeight \<Rightarrow> Weight" where
  "weight_pause_bridge db =
     weight_add (weight_add (weight_add (12000000, 0) (0, 3683)) (db_reads db 1)) (db_writes db 1)"

definition weight_unpause_bridge :: "RuntimeDbWeight \<Rightarrow> Weight" where
  "weight_unpause_bridge db =
     weight_add (weight_add (weight_add (14000000, 0) (0, 7216)) (db_reads db 2)) (db_writes db 1)"

definition weight_set_mpc_address :: "RuntimeDbWeight \<Rightarrow> Weight" where
  "weight_set_mpc_address db =
     weight_add (weight_add (weight_add (9000000, 0) (0, 5034)) (db_reads db 2)) (db_writes db 1)"

definition weight_register_domain :: "RuntimeDbWeight \<Rightarrow> Weight" where
  "weight_register_domain db = weight_add (weight_add (10000000, 0) (0, 0)) (db_writes db 2)"

definition weight_unregister_domain :: "RuntimeDbWeight \<Rightarrow> Weight" where
  "weight_unregister_domain db =
     weight_add (weight_add (weight_add (17000000, 0) (0, 7204)) (db_reads db 2)) (db_writes db 2)"

definition weight_deposit :: "RuntimeDbWeight \<Rightarrow> Weight" where
  "weight_deposit db =
     weight_add (weight_add (weight_add (91000000, 0) (0, 26878)) (db_reads db 8)) (db_writes db 3)"

definition weight_retry :: "RuntimeDbWeight \<Rightarrow> Weight" where
  "weight_retry db = weight_add (weight_add (17000000, 0) (0, 8946)) (db_reads db 3)"

definition weight_execute_proposal :: "RuntimeDbWeight \<Rightarrow> u32 \<Rightarrow> Weight" where
  "weight_execute_proposal db n =
     weight_add (weight_add (weight_add (weight_add (151050908, 0) (0, 16593))
       (weight_mul (10748102, 0) (ucast n))) (db_reads db 5)) (db_writes db 2)"

definition weight_pause_all_bridges :: "RuntimeDbWeight \<Rightarrow> Weight" where
  "weight_pause_all_bridges db =
     weight_add (weight_add (weight_add (84000000, 0) (0, 8445)) (db_reads db 6)) (db_writes db 2)"

definition weight_unpause_all_bridges :: "RuntimeDbWeight \<Rightarrow> Weight" where
  "weight_unpause_all_bridges db =
     weight_add (weight_add (weight_add (99000000, 0) (0, 8445)) (db_reads db 7)) (db_writes db 2)"

definition weight_grant_access :: "RuntimeDbWeight \<Rightarrow> Weight" where
  "weight_grant_access db = weight_add (weight_add (9000000, 0) (0, 0)) (db_writes db 1)"

definition weight_set_fee :: "RuntimeDbWeight \<Rightarrow> Weight" where
  "weight_set_fee db = weight_add (weight_add (10000000, 0) (0, 0)) (db_writes db 1)"

definition weight_set_fee_rate :: "RuntimeDbWeight \<Rightarrow> Weight" where
  "weight_set_fee_rate db = weight_add (weight_add (32000000, 0) (0, 0)) (db_writes db 1)"

definition weight_set_fee_handler :: "RuntimeDbWeight \<Rightarrow> Weight" where
  "weight_set_fee_handler db = weight_add (weight_add (9000000, 0) (0, 0)) (db_writes db 1)"

text \<open>The weight attribute of each call. The length of a batch is cut down to 32 bits.\<close>

fun call_weight :: "RuntimeDbWeight \<Rightarrow> RuntimeCall \<Rightarrow> Weight" where
  "call_weight db (GrantAccess _ _ _) = weight_grant_access db"
| "call_weight db (SetFee _ _ _) = weight_set_fee db"
| "call_weight db (SetFeeRate _ _ _ _ _) = weight_set_fee_rate db"
| "call_weight db (SetFeeHandler _ _ _) = weight_set_fee_handler db"
| "call_weight db (PauseBridge _) = weight_pause_bridge db"
| "call_weight db (UnpauseBridge _) = weight_unpause_bridge db"
| "call_weight db (SetMpcAddress _) = weight_set_mpc_address db"
| "call_weight db (RegisterDomain _ _) = weight_register_domain db"
| "call_weight db (UnregisterDomain _ _) = weight_unregister_domain db"
| "call_weight db (DepositCall _ _) = weight_deposit db"
| "call_weight db (RetryCall _ _) = weight_retry db"
| "call_weight db (ExecuteProposal ps _) = weight_execute_proposal db (word_of_nat (length ps))"
| "call_weight db PauseAllBridges = weight_pause_all_bridges db"
| "call_weight db UnpauseAllBridges = weight_unpause_all_bridges db"

section \<open>The weights on the natural numbers\<close>

lemma weight_add_fst: "unat (fst (weight_add v w)) = min (unat (fst v) + unat (fst w)) (2 ^ 64 - 1)"
  by (simp add: weight_add_def unat_saturating_add)

lemma weight_add_snd: "unat (snd (weight_add v w)) = min (unat (snd v) + unat (snd w)) (2 ^ 64 - 1)"
  by (simp add: weight_add_def unat_saturating_add)

lemma unat_ucast_u32_u64: "unat (ucast n :: u64) = unat n" for n :: u32
proof -
  have "unat n < 2 ^ 64" using unsigned_less [where 'a = nat, of n] by simp
  then show ?thesis by (simp add: unsigned_ucast_eq take_bit_nat_eq_self)
qed

lemma weight_mul_fst: "unat (fst (weight_mul w n)) = min (unat (fst w) * unat n) (2 ^ 64 - 1)"
  by (simp add: weight_mul_def unat_saturating_mul)

lemma weight_mul_snd: "unat (snd (weight_mul w n)) = min (unat (snd w) * unat n) (2 ^ 64 - 1)"
  by (simp add: weight_mul_def unat_saturating_mul)

lemma db_reads_fst: "unat (fst (db_reads db n)) = min (unat (db_read db) * unat n) (2 ^ 64 - 1)"
  by (simp add: db_reads_def unat_saturating_mul)

lemma db_writes_fst: "unat (fst (db_writes db n)) = min (unat (db_write db) * unat n) (2 ^ 64 - 1)"
  by (simp add: db_writes_def unat_saturating_mul)

lemmas weight_parts = weight_add_fst weight_add_snd weight_mul_fst weight_mul_snd db_reads_fst db_writes_fst
  unat_ucast_u32_u64

text \<open>Nested saturation is saturation of the sum.\<close>

lemma weight_execute_proposal_time:
  "unat (fst (weight_execute_proposal db n)) =
     min (151050908 + 10748102 * unat n + 5 * unat (db_read db) + 2 * unat (db_write db)) (2 ^ 64 - 1)"
  by (simp add: weight_execute_proposal_def weight_parts min_def)

lemma weight_execute_proposal_size: "unat (snd (weight_execute_proposal db n)) = 16593"
  by (simp add: weight_execute_proposal_def weight_parts db_reads_def db_writes_def)

section \<open>Batches\<close>

text \<open>
  The weight of a batch is the exact linear cost of its proposals, as long as the batch has fewer than
  2 to the 32 proposals: none of the saturating operations loses a part of the sum before the total itself
  leaves 64 bits. The proof size is charged once, whatever the length.
\<close>

lemma batch_weight_exact:
  assumes "length ps < 2 ^ 32"
    and "151050908 + 10748102 * length ps + 5 * unat (db_read db) + 2 * unat (db_write db) < 2 ^ 64"
  shows "unat (fst (call_weight db (ExecuteProposal ps sig))) =
      151050908 + 10748102 * length ps + 5 * unat (db_read db) + 2 * unat (db_write db) \<and>
    unat (snd (call_weight db (ExecuteProposal ps sig))) = 16593"
proof -
  have "unat (word_of_nat (length ps) :: u32) = length ps"
    using assms(1) by (simp add: unat_of_nat)
  with assms(2) show ?thesis
    by (simp add: weight_execute_proposal_time weight_execute_proposal_size)
qed

end
