(* ===== verification/Runtime_Limits.thy ===== *)
theory Runtime_Limits
  imports Sygma_Weights
begin

text \<open>
  The limits of the runtimes around the pallets: the weights of blocks, extrinsics and database accesses of
  the parachain (\<^verbatim>\<open>substrate-node/parachain/runtime/src/weights/\<close>) with the tests of these files, the block
  limits and the fee polynomial of its \<^verbatim>\<open>lib.rs\<close>, and the block limit of the standalone runtime. The units of
  time and the type \<^verbatim>\<open>Perbill\<close> are those of \<^verbatim>\<open>frame_support\<close> and \<^verbatim>\<open>sp_arithmetic\<close>: parameters, with their
  documented values as hypotheses.
\<close>

section \<open>Units and ratios\<close>

record weight_units =
  WEIGHT_REF_TIME_PER_SECOND :: u64
  WEIGHT_REF_TIME_PER_MILLIS :: u64
  WEIGHT_REF_TIME_PER_MICROS :: u64
  WEIGHT_REF_TIME_PER_NANOS :: u64
  MAX_POV_SIZE :: u32

text \<open>One unit of time is a picosecond; the proof of validity has at most 5 MiB.\<close>

definition picoseconds :: "weight_units \<Rightarrow> bool" where
  "picoseconds u \<longleftrightarrow> WEIGHT_REF_TIME_PER_SECOND u = 1000000000000 \<and> WEIGHT_REF_TIME_PER_MILLIS u = 1000000000 \<and>
     WEIGHT_REF_TIME_PER_MICROS u = 1000000 \<and> WEIGHT_REF_TIME_PER_NANOS u = 1000 \<and> MAX_POV_SIZE u = 5242880"

record 'p perbill =
  from_percent :: "u32 \<Rightarrow> 'p"
  from_rational :: "u128 \<Rightarrow> u128 \<Rightarrow> 'p"
  perbill_mul :: "'p \<Rightarrow> nat \<Rightarrow> nat"

text \<open>A ratio multiplies exactly where no rounding is needed: for a percentage, and for a rational whose value
  is a whole number of billionths.\<close>

definition perbill_exact :: "'p perbill \<Rightarrow> bool" where
  "perbill_exact pb \<longleftrightarrow>
     (\<forall>p n. unat p \<le> 100 \<and> 100 dvd unat p * n \<longrightarrow> perbill_mul pb (from_percent pb p) n = unat p * n div 100) \<and>
     (\<forall>a b n. 0 < b \<and> a \<le> b \<and> unat b dvd unat a * 1000000000 \<and> unat b dvd unat a * n \<longrightarrow>
        perbill_mul pb (from_rational pb a b) n = unat a * n div unat b)"

definition perbill_weight :: "'p perbill \<Rightarrow> 'p \<Rightarrow> Weight \<Rightarrow> Weight" where
  "perbill_weight pb p w = (word_of_nat (perbill_mul pb p (unat (fst w))), word_of_nat (perbill_mul pb p (unat (snd w))))"

section \<open>Weights of the parachain\<close>

definition BlockExecutionWeight :: "weight_units \<Rightarrow> Weight" where
  "BlockExecutionWeight u = (saturating_mul (WEIGHT_REF_TIME_PER_NANOS u) 5000000, 0)"

definition ExtrinsicBaseWeight :: "weight_units \<Rightarrow> Weight" where
  "ExtrinsicBaseWeight u = (saturating_mul (WEIGHT_REF_TIME_PER_NANOS u) 125000, 0)"

definition RocksDbWeight :: "weight_units \<Rightarrow> RuntimeDbWeight" where
  "RocksDbWeight u = \<lparr>db_read = 25000 * WEIGHT_REF_TIME_PER_NANOS u, db_write = 100000 * WEIGHT_REF_TIME_PER_NANOS u\<rparr>"

definition ParityDbWeight :: "weight_units \<Rightarrow> RuntimeDbWeight" where
  "ParityDbWeight u = \<lparr>db_read = 8000 * WEIGHT_REF_TIME_PER_NANOS u, db_write = 50000 * WEIGHT_REF_TIME_PER_NANOS u\<rparr>"

text \<open>The tests \<^verbatim>\<open>sane\<close> of the four files.\<close>

definition block_weight_sane :: "weight_units \<Rightarrow> bool" where
  "block_weight_sane u \<longleftrightarrow> (let w = BlockExecutionWeight u in
     fst w \<ge> 100 * WEIGHT_REF_TIME_PER_MICROS u \<and> fst w \<le> 50 * WEIGHT_REF_TIME_PER_MILLIS u)"

definition extrinsic_weight_sane :: "weight_units \<Rightarrow> bool" where
  "extrinsic_weight_sane u \<longleftrightarrow> (let w = ExtrinsicBaseWeight u in
     fst w \<ge> 10 * WEIGHT_REF_TIME_PER_MICROS u \<and> fst w \<le> WEIGHT_REF_TIME_PER_MILLIS u)"

definition rocksdb_weight_sane :: "weight_units \<Rightarrow> bool" where
  "rocksdb_weight_sane u \<longleftrightarrow> (let W = RocksDbWeight u in
     fst (db_reads W 1) \<ge> WEIGHT_REF_TIME_PER_MICROS u \<and> fst (db_writes W 1) \<ge> WEIGHT_REF_TIME_PER_MICROS u \<and>
     fst (db_reads W 1) \<le> WEIGHT_REF_TIME_PER_MILLIS u \<and> fst (db_writes W 1) \<le> WEIGHT_REF_TIME_PER_MILLIS u)"

definition paritydb_weight_sane :: "weight_units \<Rightarrow> bool" where
  "paritydb_weight_sane u \<longleftrightarrow> (let W = ParityDbWeight u in
     fst (db_reads W 1) \<ge> WEIGHT_REF_TIME_PER_MICROS u \<and> fst (db_writes W 1) \<ge> WEIGHT_REF_TIME_PER_MICROS u \<and>
     fst (db_reads W 1) \<le> WEIGHT_REF_TIME_PER_MILLIS u \<and> fst (db_writes W 1) \<le> WEIGHT_REF_TIME_PER_MILLIS u)"

section \<open>Limits of a block\<close>

definition parachain_NORMAL_DISPATCH_RATIO :: "'p perbill \<Rightarrow> 'p" where
  "parachain_NORMAL_DISPATCH_RATIO pb = from_percent pb 75"

definition AVERAGE_ON_INITIALIZE_RATIO :: "'p perbill \<Rightarrow> 'p" where
  "AVERAGE_ON_INITIALIZE_RATIO pb = from_percent pb 5"

definition MAXIMUM_BLOCK_WEIGHT :: "weight_units \<Rightarrow> Weight" where
  "MAXIMUM_BLOCK_WEIGHT u = (WEIGHT_REF_TIME_PER_SECOND u div 2, ucast (MAX_POV_SIZE u))"

text \<open>The values the closures of the builder set, for each class of extrinsics.\<close>

record class_limits =
  base_extrinsic :: Weight
  max_total :: "Weight option"
  reserved :: "Weight option"

datatype DispatchClass = Normal | Operational | Mandatory

definition RuntimeBlockWeights :: "weight_units \<Rightarrow> 'p perbill \<Rightarrow> (DispatchClass \<Rightarrow> class_limits) \<Rightarrow> DispatchClass \<Rightarrow> class_limits" where
  "RuntimeBlockWeights u pb initial = (let
     all = (\<lambda>c. (initial c)\<lparr>base_extrinsic := ExtrinsicBaseWeight u\<rparr>);
     share = perbill_weight pb (parachain_NORMAL_DISPATCH_RATIO pb) (MAXIMUM_BLOCK_WEIGHT u);
     normal = all(Normal := (all Normal)\<lparr>max_total := Some share\<rparr>)
     in normal(Operational := (normal Operational)\<lparr>max_total := Some (MAXIMUM_BLOCK_WEIGHT u),
          reserved := Some (fst (MAXIMUM_BLOCK_WEIGHT u) - fst share, snd (MAXIMUM_BLOCK_WEIGHT u) - snd share)\<rparr>))"

definition standalone_max_block :: "weight_units \<Rightarrow> Weight" where
  "standalone_max_block u = (2 * WEIGHT_REF_TIME_PER_SECOND u, - 1)"

definition standalone_NORMAL_DISPATCH_RATIO :: "'p perbill \<Rightarrow> 'p" where
  "standalone_NORMAL_DISPATCH_RATIO pb = from_percent pb 75"

section \<open>Fees\<close>

definition MILLIUNIT :: u128 where "MILLIUNIT = 1000000000"

definition MICROUNIT :: u128 where "MICROUNIT = 1000000"

definition EXISTENTIAL_DEPOSIT :: u128 where "EXISTENTIAL_DEPOSIT = MILLIUNIT"

record 'p WeightToFeeCoefficient =
  degree :: u8
  negative :: bool
  coeff_frac :: 'p
  coeff_integer :: u128

definition WeightToFee_polynomial :: "weight_units \<Rightarrow> 'p perbill \<Rightarrow> 'p WeightToFeeCoefficient list" where
  "WeightToFee_polynomial u pb =
     (let p = MILLIUNIT div 10; q = 100 * ucast (fst (ExtrinsicBaseWeight u)) in
      [\<lparr>degree = 1, negative = False, coeff_frac = from_rational pb (p mod q) q, coeff_integer = p div q\<rparr>])"

text \<open>
  \<^verbatim>\<open>WeightToFeePolynomial\<close> of \<^verbatim>\<open>frame_support\<close> evaluates a polynomial at the time of a weight. A positive
  coefficient of degree 1 contributes its whole and its fractional part.
\<close>

definition evaluates_linear :: "'p perbill \<Rightarrow> ('p WeightToFeeCoefficient list \<Rightarrow> Weight \<Rightarrow> nat) \<Rightarrow> bool" where
  "evaluates_linear pb weight_to_fee \<longleftrightarrow> (\<forall>c w. degree c = 1 \<and> \<not> negative c \<longrightarrow>
     weight_to_fee [c] w = unat (coeff_integer c) * unat (fst w) + perbill_mul pb (coeff_frac c) (unat (fst w)))"

section \<open>The weights are sane\<close>

lemma weights_sane:
  assumes "picoseconds u"
  shows "block_weight_sane u" "extrinsic_weight_sane u" "rocksdb_weight_sane u" "paritydb_weight_sane u"
  using assms
  by (simp_all add: picoseconds_def block_weight_sane_def extrinsic_weight_sane_def rocksdb_weight_sane_def
      paritydb_weight_sane_def BlockExecutionWeight_def ExtrinsicBaseWeight_def RocksDbWeight_def ParityDbWeight_def
      db_reads_def db_writes_def saturating_mul_def Let_def)

section \<open>The fee of the smallest extrinsic\<close>

text \<open>The fee of the base weight is a micro-unit, a hundredth of the tenth of a milli-unit the comment names.\<close>

lemma base_weight_fee:
  assumes "picoseconds u" and "perbill_exact pb" and "evaluates_linear pb weight_to_fee"
  shows "weight_to_fee (WeightToFee_polynomial u pb) (ExtrinsicBaseWeight u) = unat MICROUNIT"
    and "unat MICROUNIT * 100 = unat (MILLIUNIT div 10)"
proof -
  have w: "unat (fst (ExtrinsicBaseWeight u)) = 125000000"
    using assms(1) by (simp add: ExtrinsicBaseWeight_def picoseconds_def saturating_mul_def)
  have poly: "WeightToFee_polynomial u pb = [\<lparr>degree = 1, negative = False,
      coeff_frac = from_rational pb 100000000 12500000000, coeff_integer = 0\<rparr>]"
    using assms(1)
    by (simp add: WeightToFee_polynomial_def ExtrinsicBaseWeight_def picoseconds_def saturating_mul_def MILLIUNIT_def Let_def)
  have "perbill_mul pb (from_rational pb 100000000 12500000000) 125000000 = 1000000"
    using assms(2) unfolding perbill_exact_def by simp
  then show "weight_to_fee (WeightToFee_polynomial u pb) (ExtrinsicBaseWeight u) = unat MICROUNIT"
    using assms(3) [unfolded evaluates_linear_def, rule_format, of "hd (WeightToFee_polynomial u pb)" "ExtrinsicBaseWeight u"]
    by (simp add: poly w MICROUNIT_def)
  show "unat MICROUNIT * 100 = unat (MILLIUNIT div 10)"
    by (simp add: MICROUNIT_def MILLIUNIT_def)
qed

section \<open>Batches in a block\<close>

lemma normal_share:
  assumes "picoseconds u" and "perbill_exact pb"
  shows "max_total (RuntimeBlockWeights u pb initial Normal) = Some (375000000000, 3932160)"
proof -
  have m: "MAXIMUM_BLOCK_WEIGHT u = (500000000000, 5242880)"
    using assms(1) by (simp add: MAXIMUM_BLOCK_WEIGHT_def picoseconds_def)
  have "perbill_mul pb (from_percent pb 75) n = 75 * n div 100" if "100 dvd 75 * n" for n
    using assms(2) [unfolded perbill_exact_def, THEN conjunct1, rule_format, of 75 n] that by simp
  then show ?thesis
    by (simp add: RuntimeBlockWeights_def perbill_weight_def parachain_NORMAL_DISPATCH_RATIO_def m Let_def)
qed

text \<open>A reference instance of the parameters.\<close>

definition reference_units :: weight_units where
  "reference_units = \<lparr>WEIGHT_REF_TIME_PER_SECOND = 1000000000000, WEIGHT_REF_TIME_PER_MILLIS = 1000000000,
     WEIGHT_REF_TIME_PER_MICROS = 1000000, WEIGHT_REF_TIME_PER_NANOS = 1000, MAX_POV_SIZE = 5242880\<rparr>"

definition reference_perbill :: "nat perbill" where
  "reference_perbill = \<lparr>from_percent = \<lambda>p. unat p * 10000000, from_rational = \<lambda>a b. unat a * 1000000000 div unat b,
     perbill_mul = \<lambda>p n. p * n div 1000000000\<rparr>"

lemma reference_units_picoseconds: "picoseconds reference_units"
  by (simp add: picoseconds_def reference_units_def)

lemma reference_perbill_exact: "perbill_exact reference_perbill"
proof -
  have "unat p * 10000000 * n div 1000000000 = unat p * n div 100" for p :: u32 and n
    using div_mult_mult2 [of 10000000 "unat p * n" 100] by (simp add: ac_simps)
  moreover have "unat a * 1000000000 div unat b * n div 1000000000 = unat a * n div unat b"
    if pos: "0 < b" and d1: "unat b dvd unat a * 1000000000" and d2: "unat b dvd unat a * n" for a b :: u128 and n
  proof -
    have b: "0 < unat b" using pos by (simp add: word_gt_0 unat_gt_0)
    obtain k where k: "unat a * n = unat b * k" using d2 by blast
    have "unat a * 1000000000 div unat b * n = unat a * 1000000000 * n div unat b"
      using d1 by (simp add: dvd_div_mult)
    also have "unat a * 1000000000 * n = unat b * k * 1000000000" unfolding k [symmetric] by simp
    also have "unat b * k * 1000000000 div unat b = k * 1000000000" using b by (simp add: mult.assoc)
    finally show ?thesis using k b by simp
  qed
  ultimately show ?thesis by (simp add: perbill_exact_def reference_perbill_def)
qed

section \<open>Property\<close>

text \<open>
  C17. On the parachain the weight of a batch of proposals is within the total a block has for normal extrinsics
  (\<open>max_total\<close>) exactly if the batch has at most 34845 proposals. The tighter limit for one extrinsic is derived
  from this one by the builder of the block limits, outside the repository.
\<close>

theorem batch_fits_block:
  assumes "picoseconds u" and "perbill_exact pb"
    and "max_total (RuntimeBlockWeights u pb initial Normal) = Some limit" and "length ps < 2 ^ 32"
  shows "fst (call_weight (RocksDbWeight u) (ExecuteProposal ps sig)) \<le> fst limit \<and>
      snd (call_weight (RocksDbWeight u) (ExecuteProposal ps sig)) \<le> snd limit \<longleftrightarrow> length ps \<le> 34845"
proof -
  have limit: "limit = (375000000000, 3932160)"
    using normal_share [OF assms(1,2)] assms(3) by simp
  have n: "unat (word_of_nat (length ps) :: u32) = length ps"
    using assms(4) by (simp add: unat_of_nat)
  have db: "unat (db_read (RocksDbWeight u)) = 25000000" "unat (db_write (RocksDbWeight u)) = 100000000"
    using assms(1) by (simp_all add: RocksDbWeight_def picoseconds_def)
  have "unat (fst (call_weight (RocksDbWeight u) (ExecuteProposal ps sig))) = 476050908 + 10748102 * length ps"
    using assms(4) by (simp add: weight_execute_proposal_time n db min_def)
  moreover have "unat (snd (call_weight (RocksDbWeight u) (ExecuteProposal ps sig))) = 16593"
    by (simp add: weight_execute_proposal_size)
  ultimately show ?thesis
    by (auto simp: limit word_le_nat_alt)
qed

definition empty_proposal :: Proposal where
  "empty_proposal = \<lparr>origin_domain_id = 1, deposit_nonce = 0, resource_id = [], proposal_data = []\<rparr>"

theorem batch_fits_block_witness:
  "fst (call_weight (RocksDbWeight reference_units) (ExecuteProposal (replicate 34845 empty_proposal) [])) \<le> 375000000000 \<and>
   \<not> (fst (call_weight (RocksDbWeight reference_units) (ExecuteProposal (replicate 34846 empty_proposal) [])) \<le> 375000000000 \<and>
      snd (call_weight (RocksDbWeight reference_units) (ExecuteProposal (replicate 34846 empty_proposal) [])) \<le> 3932160)"
  using batch_fits_block [OF reference_units_picoseconds reference_perbill_exact
      normal_share [OF reference_units_picoseconds reference_perbill_exact], of "replicate 34845 empty_proposal" "[]"]
    batch_fits_block [OF reference_units_picoseconds reference_perbill_exact
      normal_share [OF reference_units_picoseconds reference_perbill_exact], of "replicate 34846 empty_proposal" "[]"]
  by (simp del: call_weight.simps)

end
