(* ===== verification/Runtime_Fees.thy ===== *)
theory Runtime_Fees
  imports Runtime_Limits
begin

text \<open>
  What the runtimes charge and how they count time: the deposits for assets and metadata, the transaction
  fees and the lengths of blocks and sessions (\<^verbatim>\<open>lib.rs\<close> of both runtimes). The formula of a transaction fee
  belongs to \<^verbatim>\<open>pallet_transaction_payment\<close>; what it adds to the fee of the weight is a parameter.
\<close>

section \<open>Units and deposits\<close>

definition standalone_EXISTENTIAL_DEPOSIT :: u128 where "standalone_EXISTENTIAL_DEPOSIT = 500"

definition standalone_ExistentialDeposit :: u128 where "standalone_ExistentialDeposit = 1"

definition standalone_UNIT :: u128 where "standalone_UNIT = 1000000000000"

definition standalone_DOLLARS :: u128 where "standalone_DOLLARS = standalone_UNIT"

definition standalone_CENTS :: u128 where "standalone_CENTS = standalone_DOLLARS div 100"

definition standalone_MILLICENTS :: u128 where "standalone_MILLICENTS = standalone_CENTS div 1000"

text \<open>Arithmetic of a \<^verbatim>\<open>const fn\<close> panics on overflow, as that of the debug builds does.\<close>

definition checked_mul :: "u128 \<Rightarrow> u128 \<Rightarrow> u128 rust" where
  "checked_mul a b = (if unat a * unat b < 2 ^ 128 then Returns (a * b) else Panics)"

definition checked_plus :: "u128 \<Rightarrow> u128 \<Rightarrow> u128 rust" where
  "checked_plus a b = (if unat a + unat b < 2 ^ 128 then Returns (a + b) else Panics)"

fun and_then :: "'a rust \<Rightarrow> ('a \<Rightarrow> 'b rust) \<Rightarrow> 'b rust" where
  "and_then (Returns x) f = f x"
| "and_then Panics f = Panics"

definition standalone_deposit_for :: "u32 \<Rightarrow> u32 \<Rightarrow> u128 rust" where
  "standalone_deposit_for items bytes =
     and_then (checked_mul (ucast items) 15) (\<lambda>a.
     and_then (checked_mul a standalone_CENTS) (\<lambda>b.
     and_then (checked_mul (ucast bytes) standalone_CENTS) (checked_plus b)))"

definition standalone_AssetDeposit :: u128 where "standalone_AssetDeposit = 10 * standalone_UNIT"

definition standalone_AssetAccountDeposit :: u128 where "standalone_AssetAccountDeposit = standalone_DOLLARS"

definition standalone_ApprovalDeposit :: u128 where "standalone_ApprovalDeposit = standalone_ExistentialDeposit"

definition standalone_MetadataDepositBase :: "u128 rust" where "standalone_MetadataDepositBase = standalone_deposit_for 1 68"

definition standalone_MetadataDepositPerByte :: "u128 rust" where "standalone_MetadataDepositPerByte = standalone_deposit_for 0 1"

definition parachain_ExistentialDeposit :: u128 where "parachain_ExistentialDeposit = EXISTENTIAL_DEPOSIT"

definition parachain_UNIT :: u128 where "parachain_UNIT = 1000000000000"

definition parachain_DOLLARS :: u128 where "parachain_DOLLARS = parachain_UNIT"

definition parachain_CENTS :: u128 where "parachain_CENTS = parachain_DOLLARS div 100"

definition parachain_MILLICENTS :: u128 where "parachain_MILLICENTS = parachain_CENTS div 1000"

definition parachain_deposit_for :: "u32 \<Rightarrow> u32 \<Rightarrow> u128 rust" where
  "parachain_deposit_for items bytes =
     and_then (checked_mul (ucast items) 15) (\<lambda>a.
     and_then (checked_mul a parachain_CENTS) (\<lambda>b.
     and_then (checked_mul (ucast bytes) parachain_CENTS) (checked_plus b)))"

definition parachain_AssetDeposit :: u128 where "parachain_AssetDeposit = 10 * parachain_UNIT"

definition parachain_AssetAccountDeposit :: u128 where "parachain_AssetAccountDeposit = parachain_DOLLARS"

definition parachain_ApprovalDeposit :: u128 where "parachain_ApprovalDeposit = parachain_ExistentialDeposit"

definition parachain_MetadataDepositBase :: "u128 rust" where "parachain_MetadataDepositBase = parachain_deposit_for 1 68"

definition parachain_MetadataDepositPerByte :: "u128 rust" where "parachain_MetadataDepositPerByte = parachain_deposit_for 0 1"

lemmas unit_defs = standalone_UNIT_def standalone_DOLLARS_def standalone_CENTS_def parachain_UNIT_def parachain_DOLLARS_def
  parachain_CENTS_def

text \<open>A deposit is 15 cents for each item and one for each byte. No number of items and bytes overflows.\<close>

lemma deposit_for_exact:
  "\<exists>n. standalone_deposit_for items bytes = Returns n \<and> parachain_deposit_for items bytes = Returns n \<and>
     unat n = (unat items * 15 + unat bytes) * 10000000000"
proof -
  have bound: "unat i < 2 ^ 32" for i :: u32 using unsigned_less [where 'a = nat, of i] by simp
  have cents: "standalone_CENTS = 10000000000" "parachain_CENTS = 10000000000" by (simp_all add: unit_defs)
  define a where "a = (ucast items :: u128) * 15"
  have a: "unat a = unat items * 15" and "unat items * 15 < 2 ^ 128"
    using bound [of items] by (simp_all add: a_def unat_word_ariths unat_ucast_u32)
  define b where "b = a * 10000000000"
  have b: "unat b = unat items * 15 * 10000000000" and "unat a * 10000000000 < 2 ^ 128"
    using bound [of items] by (simp_all add: b_def unat_word_ariths a)
  define c where "c = (ucast bytes :: u128) * 10000000000"
  have c: "unat c = unat bytes * 10000000000" and "unat bytes * 10000000000 < 2 ^ 128"
    using bound [of bytes] by (simp_all add: c_def unat_word_ariths unat_ucast_u32)
  have "unat (b + c) = unat b + unat c" and "unat b + unat c < 2 ^ 128"
    using bound [of items] bound [of bytes] by (simp_all add: unat_word_ariths b c)
  moreover have "standalone_deposit_for items bytes = Returns (b + c)" "parachain_deposit_for items bytes = Returns (b + c)"
    using \<open>unat items * 15 < 2 ^ 128\<close> \<open>unat a * 10000000000 < 2 ^ 128\<close> \<open>unat bytes * 10000000000 < 2 ^ 128\<close>
      \<open>unat b + unat c < 2 ^ 128\<close>
    by (simp_all add: standalone_deposit_for_def parachain_deposit_for_def cents checked_mul_def checked_plus_def
        unat_ucast_u32 a_def [symmetric] b_def [symmetric] c_def [symmetric])
  ultimately show ?thesis by (simp add: b c algebra_simps)
qed

section \<open>Time\<close>

definition standalone_MILLISECS_PER_BLOCK :: u64 where "standalone_MILLISECS_PER_BLOCK = 6000"

definition standalone_SLOT_DURATION :: u64 where "standalone_SLOT_DURATION = standalone_MILLISECS_PER_BLOCK"

definition standalone_MINUTES :: u32 where "standalone_MINUTES = 60000 div ucast standalone_MILLISECS_PER_BLOCK"

definition standalone_HOURS :: u32 where "standalone_HOURS = standalone_MINUTES * 60"

definition standalone_DAYS :: u32 where "standalone_DAYS = standalone_HOURS * 24"

definition parachain_MILLISECS_PER_BLOCK :: u64 where "parachain_MILLISECS_PER_BLOCK = 12000"

definition parachain_SLOT_DURATION :: u64 where "parachain_SLOT_DURATION = parachain_MILLISECS_PER_BLOCK"

definition parachain_MINUTES :: u32 where "parachain_MINUTES = 60000 div ucast parachain_MILLISECS_PER_BLOCK"

definition parachain_HOURS :: u32 where "parachain_HOURS = parachain_MINUTES * 60"

definition parachain_DAYS :: u32 where "parachain_DAYS = parachain_HOURS * 24"

definition parachain_Period :: u32 where "parachain_Period = 6 * parachain_HOURS"

definition parachain_SessionLength :: u32 where "parachain_SessionLength = 6 * parachain_HOURS"

text \<open>A day of blocks lasts a day on both chains, and collators are judged after whole sessions.\<close>

lemma days_last_a_day:
  "unat standalone_DAYS * unat standalone_SLOT_DURATION = 86400000"
  "unat parachain_DAYS * unat parachain_SLOT_DURATION = 86400000"
  "parachain_SessionLength = parachain_Period" "4 * parachain_Period = parachain_DAYS"
  by (simp_all add: standalone_DAYS_def standalone_HOURS_def standalone_MINUTES_def standalone_SLOT_DURATION_def
      standalone_MILLISECS_PER_BLOCK_def parachain_DAYS_def parachain_HOURS_def parachain_MINUTES_def
      parachain_SLOT_DURATION_def parachain_MILLISECS_PER_BLOCK_def parachain_Period_def parachain_SessionLength_def)

section \<open>Transaction fees\<close>

text \<open>\<^verbatim>\<open>IdentityFee\<close> of the standalone runtime charges one unit for a picosecond, and one for a byte.\<close>

definition standalone_WeightToFee :: "Weight \<Rightarrow> u128" where "standalone_WeightToFee w = ucast (fst w)"

definition standalone_LengthToFee :: "u32 \<Rightarrow> u128" where "standalone_LengthToFee n = ucast n"

definition TransactionByteFee :: u128 where "TransactionByteFee = 10 * MICROUNIT"

definition parachain_LengthToFee :: "u32 \<Rightarrow> u128" where "parachain_LengthToFee n = saturating_mul (ucast n) TransactionByteFee"

lemma parachain_LengthToFee_exact: "unat (parachain_LengthToFee n) = unat n * 10000000"
proof -
  have "unat n < 2 ^ 32" using unsigned_less [where 'a = nat, of n] by simp
  then show ?thesis
    by (simp add: parachain_LengthToFee_def TransactionByteFee_def MICROUNIT_def unat_saturating_mul unat_ucast_u32)
qed

lemma unat_ucast_u64_u128: "unat (ucast w :: u128) = unat w" for w :: u64
proof -
  have "unat w < 2 ^ 128" using unsigned_less [where 'a = nat, of w] by simp
  then show ?thesis by (simp add: unsigned_ucast_eq take_bit_nat_eq_self)
qed

text \<open>
  The weight alone makes a batch with one proposal cost 486799010 units on the standalone chain, with the costs
  of a database access that \<^verbatim>\<open>frame_support\<close> documents.
\<close>

lemma standalone_proposal_fee:
  assumes "unat (db_read db) = 25000000" and "unat (db_write db) = 100000000"
  shows "unat (standalone_WeightToFee (call_weight db (ExecuteProposal [p] sig))) = 486799010"
  by (simp add: standalone_WeightToFee_def unat_ucast_u64_u128 weight_execute_proposal_time assms min_def)

end
