(* ===== verification/Sygma_Rpc.thy ===== *)
theory Sygma_Rpc
  imports Bridge_Runtime
begin

text \<open>
  The query interface: the runtime interface \<^verbatim>\<open>SygmaBridgeApi\<close> (\<^verbatim>\<open>runtime-api/src/lib.rs\<close> and its
  implementation in the runtimes), the RPC method \<^verbatim>\<open>sygma_isProposalExecuted\<close> (\<^verbatim>\<open>rpc/src/lib.rs\<close>), and the
  pallet \<^verbatim>\<open>parachain-info\<close>, which stores the identifier of the parachain. The client of the node is a
  parameter: its best block and a call of the runtime interface at a block, which may fail.
\<close>

section \<open>Parachain identifier\<close>

record info_storage =
  ParachainId :: "u32 option"

definition DefaultForParachainId :: u32 where
  "DefaultForParachainId = 100"

definition default_parachain_genesis :: u32 where
  "default_parachain_genesis = 100"

definition parachain_genesis_build :: "u32 \<Rightarrow> info_storage \<Rightarrow> info_storage" where
  "parachain_genesis_build parachain_id s = s\<lparr>ParachainId := Some parachain_id\<rparr>"

definition parachain_id :: "info_storage \<Rightarrow> u32" where
  "parachain_id s = (case ParachainId s of None \<Rightarrow> DefaultForParachainId | Some i \<Rightarrow> i)"

lemma parachain_id_build: "parachain_id (parachain_genesis_build i s) = i"
  by (simp add: parachain_id_def parachain_genesis_build_def)

section \<open>Queries\<close>

definition runtime_api_is_proposal_executed ::
    "DepositNonce \<Rightarrow> DomainID \<Rightarrow> ('l, 'z) bridge_storage_scheme \<Rightarrow> bool" where
  "runtime_api_is_proposal_executed nonce domain_id s = is_proposal_executed nonce domain_id s"

record ('hash, 'err) client =
  best_hash :: 'hash
  call_is_proposal_executed :: "'hash \<Rightarrow> DepositNonce \<Rightarrow> DomainID \<Rightarrow> 'err + bool"

datatype 'err JsonRpseeError = RuntimeError 'err

definition rpc_is_proposal_executed ::
    "('hash, 'err) client \<Rightarrow> DepositNonce \<Rightarrow> DomainID \<Rightarrow> 'hash option \<Rightarrow> 'err JsonRpseeError + bool" where
  "rpc_is_proposal_executed c nonce domain_id at =
     (let at = (case at of None \<Rightarrow> best_hash c | Some b \<Rightarrow> b) in
      case call_is_proposal_executed c at nonce domain_id of
        Inl e \<Rightarrow> Inl (RuntimeError e)
      | Inr b \<Rightarrow> Inr b)"

text \<open>
  A client that serves a chain: a call of the runtime interface at a known block runs on the storage of
  that block, and at an unknown block it fails.
\<close>

definition serves ::
    "('hash, 'err) client \<Rightarrow> ('hash \<Rightarrow> ('l, 'z) bridge_storage_scheme option) \<Rightarrow> bool" where
  "serves c storage_at \<longleftrightarrow> (\<forall>at nonce domain_id.
     case storage_at at of
       Some s \<Rightarrow> call_is_proposal_executed c at nonce domain_id = Inr (runtime_api_is_proposal_executed nonce domain_id s)
     | None \<Rightarrow> \<exists>e. call_is_proposal_executed c at nonce domain_id = Inl e)"

lemma rpc_known_block:
  assumes "serves c storage_at" and "storage_at (case at of None \<Rightarrow> best_hash c | Some b \<Rightarrow> b) = Some s"
  shows "rpc_is_proposal_executed c nonce d at = Inr (is_proposal_executed nonce d s)"
proof -
  define b where "b = (case at of None \<Rightarrow> best_hash c | Some b \<Rightarrow> b)"
  have "storage_at b = Some s" using assms(2) by (simp add: b_def)
  then have "call_is_proposal_executed c b nonce d = Inr (is_proposal_executed nonce d s)"
    using assms(1) [unfolded serves_def, THEN spec, THEN spec, THEN spec, of b nonce d]
    by (simp add: runtime_api_is_proposal_executed_def)
  then show ?thesis by (simp add: rpc_is_proposal_executed_def b_def)
qed

end
