(* ===== verification/Bridge_Migration.thy ===== *)
theory Bridge_Migration
  imports Sygma_Weights
begin

text \<open>
  The storage migration \<^verbatim>\<open>FixMpcAddress\<close> (\<^verbatim>\<open>bridge/src/migration.rs\<close>): on an upgrade from storage version 0
  it replaces the MPC address by a fixed one and moves to version 1. The checks before and after it are
  those of a try-runtime build. The address is a constant of 40 hexadecimal digits, so reading it cannot
  panic.
\<close>

definition EXPECTED_STORAGE_VERSION :: nat where
  "EXPECTED_STORAGE_VERSION = 0"

definition FINAL_STORAGE_VERSION :: nat where
  "FINAL_STORAGE_VERSION = 1"

definition MPC_ADDR :: MpcAddress where
  "MPC_ADDR = be_bytes 20 0xB01137123EF02fAeF251a39108c6ef513AAaC485"

definition on_runtime_upgrade ::
    "RuntimeDbWeight \<Rightarrow> ('l, 'z) bridge_storage_scheme \<Rightarrow> Weight \<times> ('l, 'z) bridge_storage_scheme" where
  "on_runtime_upgrade db s =
     (if bridge_storage_version s = EXPECTED_STORAGE_VERSION then
        let s = s\<lparr>MpcAddr := None\<rparr>;
            s = s\<lparr>MpcAddr := Some MPC_ADDR\<rparr>;
            s = s\<lparr>bridge_storage_version := 1\<rparr>
        in (db_writes db 3, s)
      else (db_reads db 1, s))"

definition pre_upgrade :: "('l, 'z) bridge_storage_scheme \<Rightarrow> string + bytes" where
  "pre_upgrade s =
     (if bridge_storage_version s = EXPECTED_STORAGE_VERSION then Inr []
      else Inl ''Incorrect Sygma bridge storage version in pre migrate'')"

definition post_upgrade :: "bytes \<Rightarrow> ('l, 'z) bridge_storage_scheme \<Rightarrow> string + unit" where
  "post_upgrade _ s =
     (if bridge_storage_version s \<noteq> FINAL_STORAGE_VERSION
      then Inl ''Incorrect Sygma bridge storage version in post migrate''
      else if mpc_addr s \<noteq> MPC_ADDR then Inl ''Unexpected MPC address in post migrate''
      else Inr ())"

lemmas migration_defs = on_runtime_upgrade_def pre_upgrade_def post_upgrade_def
  EXPECTED_STORAGE_VERSION_def FINAL_STORAGE_VERSION_def

lemma upgrade_idempotent:
  "snd (on_runtime_upgrade db (snd (on_runtime_upgrade db s))) = snd (on_runtime_upgrade db s)"
  by (simp add: migration_defs)

lemma MPC_ADDR_set: "\<not> is_clear MPC_ADDR"
proof
  assume "is_clear MPC_ADDR"
  then have "be_nat MPC_ADDR = be_nat (replicate 20 0)" by (simp add: is_clear_def default_mpc_address_def)
  moreover have "be_nat (replicate 20 0) = 0" by (simp add: be_nat_def numeral_eq_Suc)
  moreover have "be_nat MPC_ADDR = 0xB01137123EF02fAeF251a39108c6ef513AAaC485"
    by (simp add: MPC_ADDR_def be_nat_be_bytes)
  ultimately show False by simp
qed

lemma length_MPC_ADDR: "length MPC_ADDR = 20"
  by (simp add: MPC_ADDR_def)

section \<open>Properties\<close>

text \<open>
  C37. The migration runs once: after it the version is final and the check after the upgrade passes whenever
  the one before it did, a second upgrade changes nothing, the MPC address is a valid one, and no other
  storage is touched.
\<close>

theorem migration_correct:
  assumes "pre_upgrade s = Inr st"
  shows "post_upgrade st (snd (on_runtime_upgrade db s)) = Inr () \<and>
    snd (on_runtime_upgrade db (snd (on_runtime_upgrade db s))) = snd (on_runtime_upgrade db s) \<and>
    \<not> is_clear (mpc_addr (snd (on_runtime_upgrade db s))) \<and>
    snd (on_runtime_upgrade db s) = s\<lparr>MpcAddr := Some MPC_ADDR, bridge_storage_version := 1\<rparr>"
  using assms MPC_ADDR_set by (simp add: migration_defs mpc_addr_def split: if_splits)

theorem migration_correct_witness:
  "let s = \<lparr>ledger = (), ExtrinsicAccess = Map.empty, access_events = [],
       AssetFees = Map.empty, basic_events = [], AssetFeeRate = Map.empty, percentage_events = [],
       HandlerType = Map.empty, router_events = [], DepositCounts = Map.empty, IsPaused = Map.empty,
       MpcAddr = None, UsedNonces = Map.empty, DestDomainIds = Map.empty, DestChainIds = Map.empty,
       bridge_storage_version = 0, bridge_events = []\<rparr>
   in post_upgrade [] (snd (on_runtime_upgrade \<lparr>db_read = 25, db_write = 100\<rparr> s)) = Inr ()"
  unfolding Let_def by (rule conjunct1 [OF migration_correct]) (simp add: migration_defs)

end
