(* ===== verification/Node_Genesis.thy ===== *)
theory Node_Genesis
  imports Runtime_Fees Sygma_Rpc Bridge_Tests Bridge_Migration
begin

text \<open>
  How the two nodes start a chain: the chain specifications (\<^verbatim>\<open>chain_spec.rs\<close> of both nodes), the choice of one
  by its name (\<^verbatim>\<open>load_spec\<close> of their \<^verbatim>\<open>command.rs\<close>), and the storage that results. The derivation of keys from a
  phrase, the reading of a specification from a file and the compiled runtime are parameters. A panic in
  the closure that makes the genesis configuration is a panic of the specification.
\<close>

section \<open>Keys\<close>

record keyring =
  sr25519_from_string :: "string \<Rightarrow> bytes option"
  ed25519_from_string :: "string \<Rightarrow> bytes option"

definition well_known_seeds :: "string list" where
  "well_known_seeds = [''Alice'', ''Bob'', ''Charlie'', ''Dave'', ''Eve'', ''Ferdie'', ''Alice//stash'', ''Bob//stash'',
     ''Charlie//stash'', ''Dave//stash'', ''Eve//stash'', ''Ferdie//stash'']"

text \<open>
  \<^verbatim>\<open>Pair::from_string\<close> accepts the paths the nodes use, all of them paths of hard junctions only, for both kinds of
  keys, and gives keys of 32 bytes, different ones for different paths. Nothing is assumed of other strings.
\<close>

definition derives_keys :: "keyring \<Rightarrow> bool" where
  "derives_keys kr \<longleftrightarrow>
     (\<forall>s \<in> set well_known_seeds. \<exists>k. sr25519_from_string kr (''//'' @ s) = Some k \<and> length k = 32) \<and>
     (\<forall>s \<in> set well_known_seeds. \<exists>k. ed25519_from_string kr (''//'' @ s) = Some k \<and> length k = 32) \<and>
     inj_on (\<lambda>s. sr25519_from_string kr (''//'' @ s)) (set well_known_seeds)"

definition get_from_seed :: "(string \<Rightarrow> bytes option) \<Rightarrow> string \<Rightarrow> bytes rust" where
  "get_from_seed from_string seed = (case from_string (''//'' @ seed) of None \<Rightarrow> Panics | Some k \<Rightarrow> Returns k)"

text \<open>The account of a signer is its public key.\<close>

definition get_account_id_from_seed :: "keyring \<Rightarrow> string \<Rightarrow> AccountId rust" where
  "get_account_id_from_seed kr seed = get_from_seed (sr25519_from_string kr) seed"

definition authority_keys_from_seed :: "keyring \<Rightarrow> string \<Rightarrow> (bytes \<times> bytes) rust" where
  "authority_keys_from_seed kr s =
     and_then (get_from_seed (sr25519_from_string kr) s) (\<lambda>aura.
     and_then (get_from_seed (ed25519_from_string kr) s) (\<lambda>grandpa. Returns (aura, grandpa)))"

definition get_collator_keys_from_seed :: "keyring \<Rightarrow> string \<Rightarrow> bytes rust" where
  "get_collator_keys_from_seed kr seed = get_from_seed (sr25519_from_string kr) seed"

text \<open>The elements of \<^verbatim>\<open>vec![...]\<close> are evaluated in order.\<close>

primrec vec_of :: "'a rust list \<Rightarrow> 'a list rust" where
  "vec_of [] = Returns []"
| "vec_of (x # xs) = and_then x (\<lambda>y. and_then (vec_of xs) (\<lambda>ys. Returns (y # ys)))"

section \<open>Chain specifications\<close>

datatype ChainType = Development | Local

datatype Json = JString string | JNumber nat

record Extensions =
  relay_chain :: string
  extension_para_id :: u32

record 'g chain_spec =
  spec_name :: string
  spec_id :: string
  chain_type :: ChainType
  spec_genesis :: "'g rust"
  protocol_id :: "string option"
  spec_properties :: "(string \<times> Json) list option"
  spec_extensions :: "Extensions option"

section \<open>The standalone node\<close>

record standalone_genesis_config =
  sg_code :: bytes
  sg_balances :: "(AccountId \<times> u128) list"
  sg_aura :: "bytes list"
  sg_grandpa :: "(bytes \<times> u64) list"
  sg_sudo :: "AccountId option"
  sg_parachain_id :: u32

definition standalone_testnet_genesis ::
    "bytes \<Rightarrow> (bytes \<times> bytes) list \<Rightarrow> AccountId \<Rightarrow> AccountId list \<Rightarrow> standalone_genesis_config" where
  "standalone_testnet_genesis wasm_binary initial_authorities root_key endowed_accounts = \<lparr>
     sg_code = wasm_binary,
     sg_balances = map (\<lambda>k. (k, push_bit 60 1)) endowed_accounts,
     sg_aura = map fst initial_authorities,
     sg_grandpa = map (\<lambda>x. (snd x, 1)) initial_authorities,
     sg_sudo = Some root_key,
     sg_parachain_id = 1000\<rparr>"

definition standalone_genesis_of ::
    "keyring \<Rightarrow> bytes \<Rightarrow> string list \<Rightarrow> string \<Rightarrow> string list \<Rightarrow> standalone_genesis_config rust" where
  "standalone_genesis_of kr wasm_binary authorities root funded =
     and_then (vec_of (map (authority_keys_from_seed kr) authorities)) (\<lambda>auths.
     and_then (get_account_id_from_seed kr root) (\<lambda>root_key.
     and_then (vec_of (map (get_account_id_from_seed kr) funded)) (\<lambda>accounts.
     Returns (standalone_testnet_genesis wasm_binary auths root_key accounts))))"

definition standalone_development_config :: "keyring \<Rightarrow> bytes option \<Rightarrow> string + standalone_genesis_config chain_spec" where
  "standalone_development_config kr wasm = (case wasm of
     None \<Rightarrow> Inl ''Development wasm not available''
   | Some wasm_binary \<Rightarrow> Inr \<lparr>spec_name = ''Development'', spec_id = ''dev'', chain_type = Development,
       spec_genesis = standalone_genesis_of kr wasm_binary [''Alice''] ''Alice''
         [''Alice'', ''Bob'', ''Alice//stash'', ''Bob//stash''],
       protocol_id = None, spec_properties = None, spec_extensions = None\<rparr>)"

definition standalone_local_testnet_config :: "keyring \<Rightarrow> bytes option \<Rightarrow> string + standalone_genesis_config chain_spec" where
  "standalone_local_testnet_config kr wasm = (case wasm of
     None \<Rightarrow> Inl ''Development wasm not available''
   | Some wasm_binary \<Rightarrow> Inr \<lparr>spec_name = ''Local Testnet'', spec_id = ''local_testnet'', chain_type = Local,
       spec_genesis = standalone_genesis_of kr wasm_binary [''Alice'', ''Bob''] ''Alice''
         well_known_seeds,
       protocol_id = None, spec_properties = None, spec_extensions = None\<rparr>)"

definition standalone_load_spec ::
    "keyring \<Rightarrow> bytes option \<Rightarrow> (string \<Rightarrow> string + standalone_genesis_config chain_spec) \<Rightarrow> string
     \<Rightarrow> string + standalone_genesis_config chain_spec" where
  "standalone_load_spec kr wasm from_json_file i =
     (if i = ''dev'' then standalone_development_config kr wasm
      else if i = '''' \<or> i = ''local'' then standalone_local_testnet_config kr wasm
      else from_json_file i)"

section \<open>The parachain node\<close>

record parachain_genesis_config =
  pg_code :: bytes
  pg_balances :: "(AccountId \<times> u128) list"
  pg_parachain_id :: u32
  pg_invulnerables :: "AccountId list"
  pg_candidacy_bond :: u128
  pg_session_keys :: "(AccountId \<times> AccountId \<times> bytes) list"
  pg_safe_xcm_version :: "u32 option"
  pg_sudo :: "AccountId option"

text \<open>The session keys of a collator are its key for Aura. A runtime that was not compiled is a panic.\<close>

definition template_session_keys :: "bytes \<Rightarrow> bytes" where "template_session_keys keys = keys"

definition parachain_testnet_genesis ::
    "bytes option \<Rightarrow> u32 \<Rightarrow> (AccountId \<times> bytes) list \<Rightarrow> AccountId list \<Rightarrow> AccountId \<Rightarrow> u32
     \<Rightarrow> parachain_genesis_config rust" where
  "parachain_testnet_genesis wasm XCM_VERSION invulnerables endowed_accounts root para_id = (case wasm of
     None \<Rightarrow> Panics
   | Some code \<Rightarrow> Returns \<lparr>
     pg_code = code,
     pg_balances = map (\<lambda>k. (k, push_bit 60 1)) endowed_accounts,
     pg_parachain_id = para_id,
     pg_invulnerables = map fst invulnerables,
     pg_candidacy_bond = EXISTENTIAL_DEPOSIT * 16,
     pg_session_keys = map (\<lambda>(acc, aura). (acc, acc, template_session_keys aura)) invulnerables,
     pg_safe_xcm_version = Some XCM_VERSION,
     pg_sudo = Some root\<rparr>)"

definition collator_from_seed :: "keyring \<Rightarrow> string \<Rightarrow> (AccountId \<times> bytes) rust" where
  "collator_from_seed kr seed =
     and_then (get_account_id_from_seed kr seed) (\<lambda>acc.
     and_then (get_collator_keys_from_seed kr seed) (\<lambda>aura. Returns (acc, aura)))"

definition parachain_genesis_of ::
    "keyring \<Rightarrow> bytes option \<Rightarrow> u32 \<Rightarrow> string list \<Rightarrow> string list \<Rightarrow> string \<Rightarrow> u32 \<Rightarrow> parachain_genesis_config rust" where
  "parachain_genesis_of kr wasm XCM_VERSION collators funded root para_id =
     and_then (vec_of (map (collator_from_seed kr) collators)) (\<lambda>invulnerables.
     and_then (vec_of (map (get_account_id_from_seed kr) funded)) (\<lambda>accounts.
     and_then (get_account_id_from_seed kr root) (\<lambda>root_key.
     parachain_testnet_genesis wasm XCM_VERSION invulnerables accounts root_key para_id)))"

definition parachain_properties :: "(string \<times> Json) list" where
  "parachain_properties = [(''tokenSymbol'', JString ''UNIT''), (''tokenDecimals'', JNumber 12), (''ss58Format'', JNumber 42)]"

text \<open>The development specification builds the properties and does not pass them on.\<close>

definition parachain_development_config :: "keyring \<Rightarrow> bytes option \<Rightarrow> u32 \<Rightarrow> parachain_genesis_config chain_spec" where
  "parachain_development_config kr wasm XCM_VERSION =
     \<lparr>spec_name = ''Development'', spec_id = ''dev'', chain_type = Development,
      spec_genesis = parachain_genesis_of kr wasm XCM_VERSION [''Alice'', ''Bob''] well_known_seeds ''Alice'' 1000,
      protocol_id = None, spec_properties = None,
      spec_extensions = Some \<lparr>relay_chain = ''rococo-local'', extension_para_id = 1000\<rparr>\<rparr>"

definition parachain_local_testnet_config :: "keyring \<Rightarrow> bytes option \<Rightarrow> u32 \<Rightarrow> parachain_genesis_config chain_spec" where
  "parachain_local_testnet_config kr wasm XCM_VERSION =
     \<lparr>spec_name = ''Local Testnet'', spec_id = ''local_testnet'', chain_type = Local,
      spec_genesis = parachain_genesis_of kr wasm XCM_VERSION [''Alice'', ''Bob''] well_known_seeds ''Alice'' 1000,
      protocol_id = Some ''template-local'', spec_properties = Some parachain_properties,
      spec_extensions = Some \<lparr>relay_chain = ''rococo-local'', extension_para_id = 1000\<rparr>\<rparr>"

definition parachain_load_spec ::
    "keyring \<Rightarrow> bytes option \<Rightarrow> u32 \<Rightarrow> (string \<Rightarrow> string + parachain_genesis_config chain_spec) \<Rightarrow> string
     \<Rightarrow> string + parachain_genesis_config chain_spec" where
  "parachain_load_spec kr wasm XCM_VERSION from_json_file i =
     (if i = ''dev'' then Inr (parachain_development_config kr wasm XCM_VERSION)
      else if i = ''template-rococo'' then Inr (parachain_local_testnet_config kr wasm XCM_VERSION)
      else if i = '''' \<or> i = ''local'' then Inr (parachain_local_testnet_config kr wasm XCM_VERSION)
      else from_json_file i)"

section \<open>The storage at genesis\<close>

text \<open>
  \<^verbatim>\<open>pallet_balances\<close> refuses a genesis with a balance below the existential deposit or with two balances for
  one account. The pallets of the bridge have no genesis configuration and start empty.
\<close>

definition balances_genesis :: "u128 \<Rightarrow> (AccountId \<times> u128) list \<Rightarrow> balances rust" where
  "balances_genesis ed bs =
     (if (\<forall>(_, n) \<in> set bs. ed \<le> n) \<and> distinct (map fst bs)
      then Returns (\<lambda>(k, x). case k of None \<Rightarrow> (case map_of bs x of None \<Rightarrow> 0 | Some n \<Rightarrow> unat n) | Some _ \<Rightarrow> 0)
      else Panics)"

text \<open>The version of its storage a new chain records is the one of the code.\<close>

definition STORAGE_VERSION :: nat where "STORAGE_VERSION = 1"

record node_state =
  node_storage :: "balances bridge_storage"
  node_info :: info_storage
  sudo_key :: "AccountId option"

definition genesis_state :: "u128 \<Rightarrow> (AccountId \<times> u128) list \<Rightarrow> u32 \<Rightarrow> AccountId option \<Rightarrow> node_state rust" where
  "genesis_state ed bs para_id key =
     and_then (balances_genesis ed bs) (\<lambda>l. Returns \<lparr>node_storage = mock_genesis\<lparr>ledger := l, bridge_storage_version := STORAGE_VERSION\<rparr>,
       node_info = parachain_genesis_build para_id \<lparr>ParachainId = None\<rparr>, sudo_key = key\<rparr>)"

definition standalone_build :: "standalone_genesis_config \<Rightarrow> node_state rust" where
  "standalone_build g = genesis_state standalone_EXISTENTIAL_DEPOSIT (sg_balances g) (sg_parachain_id g) (sg_sudo g)"

definition parachain_build :: "parachain_genesis_config \<Rightarrow> node_state rust" where
  "parachain_build g = genesis_state EXISTENTIAL_DEPOSIT (pg_balances g) (pg_parachain_id g) (pg_sudo g)"

section \<open>The specifications start a chain\<close>

definition seed_account :: "keyring \<Rightarrow> string \<Rightarrow> AccountId" where
  "seed_account kr s = the (sr25519_from_string kr (''//'' @ s))"

lemma seeds_derive:
  assumes "derives_keys kr" and "s \<in> set well_known_seeds"
  shows "get_account_id_from_seed kr s = Returns (seed_account kr s)"
    and "\<exists>k. authority_keys_from_seed kr s = Returns k" and "\<exists>k. collator_from_seed kr s = Returns k"
proof -
  have "\<exists>k. sr25519_from_string kr (''//'' @ s) = Some k" "\<exists>k. ed25519_from_string kr (''//'' @ s) = Some k"
    using assms unfolding derives_keys_def by blast+
  then show "get_account_id_from_seed kr s = Returns (seed_account kr s)" "\<exists>k. authority_keys_from_seed kr s = Returns k"
    "\<exists>k. collator_from_seed kr s = Returns k"
    by (auto simp: get_account_id_from_seed_def get_from_seed_def seed_account_def authority_keys_from_seed_def
        collator_from_seed_def get_collator_keys_from_seed_def)
qed

lemma seed_accounts_differ: "derives_keys kr \<Longrightarrow> inj_on (seed_account kr) (set well_known_seeds)"
  unfolding derives_keys_def inj_on_def seed_account_def by (metis option.sel)

lemma alice_known: "''Alice'' \<in> set well_known_seeds" "''Bob'' \<in> set well_known_seeds"
  by (simp_all add: well_known_seeds_def)

lemma vec_of_map: "(\<And>s. s \<in> set ss \<Longrightarrow> f s = Returns (g s)) \<Longrightarrow> vec_of (map f ss) = Returns (map g ss)"
  by (induction ss) simp_all

lemma vec_of_returns: "(\<And>s. s \<in> set ss \<Longrightarrow> \<exists>k. f s = Returns k) \<Longrightarrow> \<exists>ks. vec_of (map f ss) = Returns ks"
proof (induction ss)
  case (Cons s ss)
  then obtain k ks where "f s = Returns k" "vec_of (map f ss) = Returns ks" by fastforce
  then show ?case by simp
qed simp

lemma funded_accounts:
  "derives_keys kr \<Longrightarrow> set ss \<subseteq> set well_known_seeds \<Longrightarrow>
   vec_of (map (get_account_id_from_seed kr) ss) = Returns (map (seed_account kr) ss)"
  by (rule vec_of_map) (auto intro: seeds_derive(1))

text \<open>The state a list of funded accounts starts with.\<close>

definition started :: "keyring \<Rightarrow> string list \<Rightarrow> node_state \<Rightarrow> bool" where
  "started kr funded n \<longleftrightarrow> fresh_storage (node_storage n) \<and> sudo_key n = Some (seed_account kr ''Alice'') \<and>
     parachain_id (node_info n) = 1000 \<and> bridge_storage_version (node_storage n) = STORAGE_VERSION \<and>
     ledger (node_storage n) = (\<lambda>(k, x). if k = None \<and> x \<in> seed_account kr ` set funded then 2 ^ 60 else 0)"

lemma genesis_starts:
  assumes kr: "derives_keys kr" and "distinct funded \<and> set funded \<subseteq> set well_known_seeds" and "ed \<le> push_bit 60 1"
  shows "\<exists>n. genesis_state ed (map (\<lambda>k. (k, push_bit 60 1)) (map (seed_account kr) funded)) 1000 (Some (seed_account kr ''Alice'')) =
    Returns n \<and> started kr funded n"
proof -
  have d: "distinct (map fst (map (\<lambda>k. (k, push_bit 60 1 :: u128)) (map (seed_account kr) funded)))"
    using assms(2) inj_on_subset [OF seed_accounts_differ [OF kr]] by (simp add: distinct_map o_def)
  have m: "map_of (map (\<lambda>k. (k, v)) xs) x = (if x \<in> set xs then Some v else None)" for v :: u128 and xs and x :: AccountId
    by (induction xs) auto
  let ?bs = "map (\<lambda>k. (k, push_bit 60 1 :: u128)) (map (seed_account kr) funded)"
  have "balances_genesis ed ?bs = Returns (\<lambda>(k, x). if k = None \<and> x \<in> seed_account kr ` set funded then 2 ^ 60 else 0)"
    using assms(3) d unfolding balances_genesis_def m by (auto simp: fun_eq_iff split: option.split)
  then show ?thesis
    by (simp add: genesis_state_def started_def mock_genesis_def fresh_storage_def parachain_id_build del: map_map)
qed

lemma standalone_genesis_starts:
  assumes "derives_keys kr" and "distinct funded \<and> set funded \<subseteq> set well_known_seeds" and "set auths \<subseteq> set well_known_seeds"
  shows "\<exists>g n. standalone_genesis_of kr code auths ''Alice'' funded = Returns g \<and> standalone_build g = Returns n \<and> started kr funded n"
proof -
  have ed: "standalone_EXISTENTIAL_DEPOSIT \<le> push_bit 60 1" by (simp add: standalone_EXISTENTIAL_DEPOSIT_def)
  obtain ks where "vec_of (map (authority_keys_from_seed kr) auths) = Returns ks"
    using vec_of_returns [of auths "authority_keys_from_seed kr"] seeds_derive(2) [OF assms(1)] assms(3) by blast
  then show ?thesis
    using genesis_starts [OF assms(1,2) ed] assms(2)
    by (simp add: standalone_genesis_of_def funded_accounts [OF assms(1)] seeds_derive(1) [OF assms(1) alice_known(1)]
        standalone_build_def standalone_testnet_genesis_def del: map_map)
qed

lemma standalone_specs_start:
  assumes "derives_keys kr" and "wasm = Some code"
  shows "\<exists>spec g n. standalone_load_spec kr wasm json ''dev'' = Inr spec \<and> spec_genesis spec = Returns g \<and>
      standalone_build g = Returns n \<and> started kr [''Alice'', ''Bob'', ''Alice//stash'', ''Bob//stash''] n"
    and "i = [] \<or> i = ''local'' \<Longrightarrow> \<exists>spec g n. standalone_load_spec kr wasm json i = Inr spec \<and> spec_genesis spec = Returns g \<and>
      standalone_build g = Returns n \<and> started kr well_known_seeds n"
proof -
  note start = standalone_genesis_starts [OF assms(1)]
  note defs = standalone_load_spec_def standalone_development_config_def standalone_local_testnet_config_def assms(2)
  show "\<exists>spec g n. standalone_load_spec kr wasm json ''dev'' = Inr spec \<and> spec_genesis spec = Returns g \<and>
      standalone_build g = Returns n \<and> started kr [''Alice'', ''Bob'', ''Alice//stash'', ''Bob//stash''] n"
    using start [of "[''Alice'', ''Bob'', ''Alice//stash'', ''Bob//stash'']" "[''Alice'']" code] by (simp add: defs well_known_seeds_def)
  assume "i = [] \<or> i = ''local''"
  then show "\<exists>spec g n. standalone_load_spec kr wasm json i = Inr spec \<and> spec_genesis spec = Returns g \<and>
      standalone_build g = Returns n \<and> started kr well_known_seeds n"
    using start [of well_known_seeds "[''Alice'', ''Bob'']" code] by (auto simp: defs well_known_seeds_def)
qed

lemma parachain_genesis_eq:
  assumes kr: "derives_keys kr"
  obtains ks where "\<And>wasm v. parachain_genesis_of kr wasm v [''Alice'', ''Bob''] well_known_seeds ''Alice'' 1000 =
    parachain_testnet_genesis wasm v ks (map (seed_account kr) well_known_seeds) (seed_account kr ''Alice'') 1000"
proof -
  obtain ks where "vec_of (map (collator_from_seed kr) [''Alice'', ''Bob'']) = Returns ks"
    using vec_of_returns [of "[''Alice'', ''Bob'']" "collator_from_seed kr"] seeds_derive(3) [OF kr] alice_known by auto
  then have "parachain_genesis_of kr wasm v [''Alice'', ''Bob''] well_known_seeds ''Alice'' 1000 =
      parachain_testnet_genesis wasm v ks (map (seed_account kr) well_known_seeds) (seed_account kr ''Alice'') 1000" for wasm v
    by (simp add: parachain_genesis_of_def funded_accounts [OF kr] seeds_derive(1) [OF kr alice_known(1)]
        del: vec_of.simps list.map)
  with that show thesis by blast
qed

text \<open>All names of the parachain node start the same chain, whose identifier is the one in the extension.\<close>

lemma parachain_specs_start:
  assumes kr: "derives_keys kr" and w: "wasm = Some code" and "i = ''dev'' \<or> i = ''template-rococo'' \<or> i = [] \<or> i = ''local''"
  shows "\<exists>spec g n. parachain_load_spec kr wasm v json i = Inr spec \<and> spec_genesis spec = Returns g \<and>
    parachain_build g = Returns n \<and> started kr well_known_seeds n \<and>
    map_option extension_para_id (spec_extensions spec) = Some (parachain_id (node_info n))"
proof -
  have ed: "EXISTENTIAL_DEPOSIT \<le> push_bit 60 1" by (simp add: EXISTENTIAL_DEPOSIT_def MILLIUNIT_def)
  have "distinct well_known_seeds \<and> set well_known_seeds \<subseteq> set well_known_seeds" by (simp add: well_known_seeds_def)
  from genesis_starts [OF kr this ed]
  obtain n where n: "genesis_state EXISTENTIAL_DEPOSIT (map (\<lambda>k. (k, push_bit 60 1)) (map (seed_account kr) well_known_seeds)) 1000
      (Some (seed_account kr ''Alice'')) = Returns n" "started kr well_known_seeds n" by blast
  obtain ks where ks: "\<And>wasm v. parachain_genesis_of kr wasm v [''Alice'', ''Bob''] well_known_seeds ''Alice'' 1000 =
    parachain_testnet_genesis wasm v ks (map (seed_account kr) well_known_seeds) (seed_account kr ''Alice'') 1000"
    using parachain_genesis_eq [OF kr] by blast
  obtain g where g: "parachain_genesis_of kr wasm v [''Alice'', ''Bob''] well_known_seeds ''Alice'' 1000 = Returns g"
    "parachain_build g = Returns n"
    using n(1) by (simp add: ks parachain_testnet_genesis_def w parachain_build_def del: map_map)
  obtain spec where spec: "parachain_load_spec kr wasm v json i = Inr spec"
    "spec = parachain_development_config kr wasm v \<or> spec = parachain_local_testnet_config kr wasm v"
    using assms(3) by (elim disjE) (simp_all add: parachain_load_spec_def)
  have s: "spec_genesis spec = Returns g" "map_option extension_para_id (spec_extensions spec) = Some 1000"
    using spec(2) g(1) by (elim disjE; simp add: parachain_development_config_def parachain_local_testnet_config_def)+
  have "parachain_id (node_info n) = 1000" using n(2) by (simp add: started_def)
  with s(2) have "map_option extension_para_id (spec_extensions spec) = Some (parachain_id (node_info n))" by simp
  with spec(1) s(1) g(2) n(2) show ?thesis by blast
qed

text \<open>A chain that starts with this code is not touched by the migration of the bridge pallet.\<close>

lemma started_not_migrated:
  "started kr funded n \<Longrightarrow> snd (on_runtime_upgrade db (node_storage n)) = node_storage n"
  by (simp add: started_def on_runtime_upgrade_def EXPECTED_STORAGE_VERSION_def STORAGE_VERSION_def)

text \<open>Without a compiled runtime the standalone node reports an error, and the parachain node panics.\<close>

lemma specs_without_runtime:
  "standalone_load_spec kr None json ''dev'' = Inl ''Development wasm not available''"
  "derives_keys kr \<Longrightarrow> spec_genesis (parachain_development_config kr None v) = Panics"
proof -
  show "standalone_load_spec kr None json ''dev'' = Inl ''Development wasm not available''"
    by (simp add: standalone_load_spec_def standalone_development_config_def)
  assume kr: "derives_keys kr"
  obtain ks where "\<And>wasm v. parachain_genesis_of kr wasm v [''Alice'', ''Bob''] well_known_seeds ''Alice'' 1000 =
    parachain_testnet_genesis wasm v ks (map (seed_account kr) well_known_seeds) (seed_account kr ''Alice'') 1000"
    using parachain_genesis_eq [OF kr] by blast
  then show "spec_genesis (parachain_development_config kr None v) = Panics"
    by (simp only: parachain_development_config_def parachain_testnet_genesis_def chain_spec.simps option.case)
qed

text \<open>The development specification of the parachain node loses the properties of the token.\<close>

lemma development_properties_lost:
  "spec_properties (parachain_development_config kr wasm v) = None"
  "spec_properties (parachain_local_testnet_config kr wasm v) = Some parachain_properties"
  by (simp_all add: parachain_development_config_def parachain_local_testnet_config_def)

text \<open>A keyring with the laws: the seed itself, padded to 32 bytes.\<close>

definition reference_keyring :: keyring where
  "reference_keyring = \<lparr>sr25519_from_string = \<lambda>p. Some (take 32 (ascii (drop 2 p) @ replicate 32 0)),
     ed25519_from_string = \<lambda>p. Some (take 32 (ascii (drop 2 p) @ replicate 32 0))\<rparr>"

lemma reference_keyring_derives: "derives_keys reference_keyring"
proof -
  have pad: "replicate n (0::u8) \<noteq> 47 # xs" for n xs by (cases n) auto
  have "distinct (map (\<lambda>s. take 32 (ascii s @ replicate 32 0)) well_known_seeds)"
    by (simp add: well_known_seeds_def pad)
  then have "inj_on (\<lambda>s. take 32 (ascii s @ replicate 32 0)) (set well_known_seeds)" by (simp add: distinct_map)
  then show ?thesis by (auto simp: derives_keys_def reference_keyring_def inj_on_def)
qed

end
