(* ===== verification/Deposit_Tests.thy ===== *)
theory Deposit_Tests
  imports Bridge_Tests
begin

text \<open>
  The unit tests of the bridge pallet that make deposits (the module \<^verbatim>\<open>test\<close> of \<^verbatim>\<open>bridge/src/lib.rs\<close>): native
  and foreign assets, the decimal conversions, both fee handlers and every refusal, run against the model
  with the test runtime on the reference platform. \<open>mock_deposit_ok\<close> gives the result of a deposit there in
  closed form.
\<close>

section \<open>Balances and assets of the test runtime\<close>

definition usdt :: AssetId where "usdt = Concrete mock_UsdtLocation"

definition astr :: AssetId where "astr = Concrete mock_AstrLocation"

definition others_account :: AccountId where
  "others_account = into_sub_account_truncating reference_platform SygmaBridgePalletId 1"

text \<open>\<^verbatim>\<open>Balances::free_balance\<close>, \<^verbatim>\<open>Assets::balance\<close> and \<^verbatim>\<open>Assets::mint\<close> on the reference platform, which keeps
  every asset without a call of \<^verbatim>\<open>create\<close>.\<close>

definition free_balance :: "balances bridge_storage \<Rightarrow> AccountId \<Rightarrow> nat" where
  "free_balance s who = ledger s (None, who)"

definition assets_balance :: "u32 \<Rightarrow> balances bridge_storage \<Rightarrow> AccountId \<Rightarrow> nat" where
  "assets_balance i s who = ledger s (Some i, who)"

definition assets_mint :: "u32 \<Rightarrow> AccountId \<Rightarrow> nat \<Rightarrow> balances bridge_storage test" where
  "assets_mint i who n = act (\<lambda>s. s\<lparr>ledger := (ledger s)((Some i, who) := ledger s (Some i, who) + n)\<rparr>)"

lemma mock_assets_differ [simp]:
  "native \<noteq> usdt" "usdt \<noteq> native" "native \<noteq> astr" "astr \<noteq> native" "usdt \<noteq> astr" "astr \<noteq> usdt"
  using mock_locations_differ by (simp_all add: native_def usdt_def astr_def)

lemma others_account_differs [simp]:
  "others_account \<noteq> ALICE" "others_account \<noteq> BOB" "others_account \<noteq> ASSET_OWNER" "others_account \<noteq> TreasuryAccount"
proof -
  have hds: "hd ALICE = 0" "hd ASSET_OWNER = 1" "hd BOB = 2" "hd TreasuryAccount = 100" "hd others_account = 109"
    by (simp_all add: ALICE_def ASSET_OWNER_def BOB_def TreasuryAccount_def others_account_def reference_platform_def)
  then show "others_account \<noteq> ALICE" "others_account \<noteq> BOB" "others_account \<noteq> ASSET_OWNER" "others_account \<noteq> TreasuryAccount"
    by (auto dest!: arg_cong [where f = hd])
qed

lemmas others_account_differs_sym [simp] = others_account_differs [symmetric]

lemma mock_keys [simp]: "mock_key native = Some None" "mock_key usdt = Some (Some 0)" "mock_key astr = Some (Some 1)"
  using mock_locations_differ by (auto simp: mock_key_def usdt_def astr_def native_def)

text \<open>How an asset of the test runtime is bound: its resource identifier and the account that holds it.\<close>

definition bound_asset :: "AssetId \<Rightarrow> ResourceId \<Rightarrow> AccountId \<Rightarrow> bool" where
  "bound_asset a rid acct \<longleftrightarrow> (\<forall>n. extract_asset mock_cfg (fungible_asset a n) = Some (rid, n, FungibleTransfer) \<and>
     ReserveChecker_contains (fungible_asset a n) here) \<and> get_token_reserved_account mock_cfg a = Some acct"

lemma bound_assets:
  "bound_asset native mock_NativeResourceId reserve_account" "bound_asset usdt mock_UsdtResourceId others_account"
  "bound_asset astr mock_AstrResourceId others_account"
proof -
  show "bound_asset native mock_NativeResourceId reserve_account"
    by (simp add: bound_asset_def native_bound)
  have d: "mock_UsdtLocation \<noteq> NativeLocation" "mock_AstrLocation \<noteq> NativeLocation" "mock_AstrLocation \<noteq> mock_UsdtLocation"
    using mock_locations_differ by metis+
  note defs = bound_asset_def extract_asset_def mock_ResourcePairs_def get_token_reserved_account_def mock_account_defs
    others_account_def d d [symmetric]
  have "ReserveChecker_contains (fungible_asset usdt n) here" "ReserveChecker_contains (fungible_asset astr n) here" for n
    by (simp_all add: usdt_def astr_def mock_UsdtLocation_def mock_AstrLocation_def sibling_key_location_def here_def
        ReserveChecker_contains_def ConcrateSygmaAsset_origin_def ConcrateSygmaAsset_id_def first_interior_def)
  then show "bound_asset usdt mock_UsdtResourceId others_account" "bound_asset astr mock_AstrResourceId others_account"
    by (simp_all add: usdt_def astr_def defs)
qed

section \<open>Deposits on the reference platform\<close>

text \<open>The balances after a deposit.\<close>

definition moved :: "balances \<Rightarrow> u32 option \<Rightarrow> AccountId \<Rightarrow> AccountId \<Rightarrow> u128 \<Rightarrow> u128 \<Rightarrow> balances" where
  "moved l k sender acct amount fee = l((k, sender) := l (k, sender) - unat amount,
     (k, TreasuryAccount) := l (k, TreasuryAccount) + unat fee, (k, acct) := l (k, acct) + unat (amount - fee))"

text \<open>The guards a deposit to the destination of the tests passes before it asks for the fee.\<close>

definition bridge_open :: "balances bridge_storage \<Rightarrow> bool" where
  "bridge_open s \<longleftrightarrow> \<not> is_clear (mpc_addr s) \<and> \<not> is_paused s 1 \<and> dest_domain_ids s 1"

lemma mock_withdraw:
  "mock_key a = Some k \<Longrightarrow> withdraw_asset mock_cfg (fungible_asset a n) (account_location x) s =
     (if unat n \<le> ledger s (k, x)
      then (Inr [fungible_asset a n], s\<lparr>ledger := (ledger s)((k, x) := ledger s (k, x) - unat n)\<rparr>)
      else (Inl (OtherXcmError 2), s))"
  by (simp add: mock_transactor_account)

lemma mock_deposit_to:
  "mock_key a = Some k \<Longrightarrow> deposit_asset mock_cfg (fungible_asset a n) (account_location x) s =
     (if ledger s (k, x) + unat n < 2 ^ 128
      then (Inr (), s\<lparr>ledger := (ledger s)((k, x) := ledger s (k, x) + unat n)\<rparr>)
      else (Inl (OtherXcmError 2), s))"
  by (simp add: mock_transactor_account)

lemma mock_deposit_ok:
  assumes "bound_asset a rid acct" and "mock_key a = Some k" and "x \<noteq> TreasuryAccount" "x \<noteq> acct" "acct \<noteq> TreasuryAccount"
    and "bridge_open s" and "router_get_fee s 1 (fungible_asset a n) = Some fee" and "fee < n"
    and "decimal_convert_to fixed_words mock_AssetDecimalPairs (fungible_asset a (n - fee)) = Some m"
    and "unat n \<le> ledger s (k, x)" and "ledger s (k, TreasuryAccount) + unat fee < 2 ^ 128"
    and "ledger s (k, acct) + unat (n - fee) < 2 ^ 128" and "unat (deposit_counts s 1) + 1 < 2 ^ 64"
  shows "deposit mock_cfg (Signed x) (fungible_asset a n) to_ethereum s =
    (Inr (), s\<lparr>ledger := moved (ledger s) k x acct n fee, DepositCounts := (DepositCounts s)(1 \<mapsto> deposit_counts s 1 + 1),
       bridge_events := bridge_events s @
         [Deposit 1 rid (deposit_counts s 1) x FungibleTransfer (create_deposit_data m (ascii ''ethereum recipient'')) [],
          FeeCollected x 1 rid fee a]\<rparr>)"
proof -
  have "deposit_facts mock_cfg x (fungible_asset a n) to_ethereum 1 (ascii ''ethereum recipient'') rid n fee acct m
      s (s\<lparr>ledger := moved (ledger s) k x acct n fee\<rparr>)"
    using assms
    by (simp add: deposit_facts_def bridge_open_def bound_asset_def to_ethereum_parsed mock_withdraw [OF assms(2)]
        mock_deposit_to [OF assms(2)] moved_def)
  from deposit_okI [OF this] show ?thesis
    using assms(13) by (simp add: getter_defs)
qed

lemma mock_deposit_refused:
  "is_clear (mpc_addr s) \<Longrightarrow>
     deposit mock_cfg (Signed x) asset dest s = (Inl (bridge_error MissingMpcAddress), s)"
  "\<not> is_clear (mpc_addr s) \<Longrightarrow> is_paused s 1 \<Longrightarrow>
     deposit mock_cfg (Signed x) asset to_ethereum s = (Inl (bridge_error BridgePaused), s)"
  "\<not> is_clear (mpc_addr s) \<Longrightarrow> DestinationDataParser_extract_dest dest = Returns None \<Longrightarrow>
     deposit mock_cfg (Signed x) asset dest s = (Inl (bridge_error ExtractDestDataFailed), s)"
  "bridge_open s \<Longrightarrow> extract_asset mock_cfg asset = None \<Longrightarrow>
     deposit mock_cfg (Signed x) asset to_ethereum s = (Inl (bridge_error AssetNotBound), s)"
  "bridge_open s \<Longrightarrow> extract_asset mock_cfg asset \<noteq> None \<Longrightarrow> router_get_fee s 1 asset = None \<Longrightarrow>
     deposit mock_cfg (Signed x) asset to_ethereum s = (Inl (bridge_error MissingFeeConfig), s)"
  "bridge_open s \<Longrightarrow> router_get_fee s 1 (fungible_asset native n) \<noteq> None \<Longrightarrow>
     n \<le> the (router_get_fee s 1 (fungible_asset native n)) \<Longrightarrow>
     deposit mock_cfg (Signed x) (fungible_asset native n) to_ethereum s = (Inl (bridge_error FeeTooExpensive), s)"
  by (auto simp: deposit_def transactional_def deposit_body_def try_result_def reads_def ensure_def unwind_def ok_or_def
      ensure_signed_def bridge_open_def native_bound to_ethereum_parsed not_less split: option.split)

lemma mock_deposit_unconverted:
  assumes "bound_asset a rid acct" and "mock_key a = Some k" and "x \<noteq> TreasuryAccount" "x \<noteq> acct" "acct \<noteq> TreasuryAccount"
    and "bridge_open s" and "router_get_fee s 1 (fungible_asset a n) = Some fee" and "fee < n"
    and "decimal_convert_to fixed_words mock_AssetDecimalPairs (fungible_asset a (n - fee)) = None"
    and "unat n \<le> ledger s (k, x)" and "ledger s (k, TreasuryAccount) + unat fee < 2 ^ 128"
    and "ledger s (k, acct) + unat (n - fee) < 2 ^ 128" and "unat (deposit_counts s 1) + 1 < 2 ^ 64"
  shows "deposit mock_cfg (Signed x) (fungible_asset a n) to_ethereum s = (Inl (bridge_error DecimalConversionFail), s)"
proof -
  have "checked_add (deposit_counts t 1) 1 = Some (deposit_counts s 1 + 1)" if "DepositCounts t = DepositCounts s"
    for t :: "balances bridge_storage"
    using assms(13) that by (simp add: checked_add_Some_iff getter_defs)
  then show ?thesis
    using assms
    by (simp add: deposit_def transactional_def deposit_body_def try_result_def reads_def ensure_def unwind_def ok_or_def
        writes_def invoke_or_def ensure_signed_def bridge_open_def bound_asset_def to_ethereum_parsed Let_def
        mock_withdraw [OF assms(2)] mock_deposit_to [OF assms(2)])
qed

section \<open>The tests of single deposits\<close>

definition deposit_native_asset_should_work :: "balances bridge_storage test list" where
  "deposit_native_asset_should_work = (let cfg = mock_cfg; fee = 1000000000000; amount = 200000000000000;
       final_amount_in_deposit_event = 199000000000000000000 in
     [assert_ok (register_domain cfg Root DEST_DOMAIN_ID 1),
      assert_ok (set_fee cfg Root DEST_DOMAIN_ID native fee),
      assert_ok (set_fee_handler cfg Root DEST_DOMAIN_ID native BasicFeeHandler),
      assert_ok (set_mpc_address cfg Root test_mpc_addr),
      assert_ok (deposit cfg (Signed ALICE) (fungible_asset native amount) to_ethereum),
      assert_that (\<lambda>s. free_balance s ALICE = ENDOWED_BALANCE - unat amount),
      assert_that (\<lambda>s. map_option (free_balance s) (get_token_reserved_account cfg native) = Some (unat (amount - fee))),
      assert_that (\<lambda>s. free_balance s TreasuryAccount = unat fee),
      assert_events bridge_events
        [Deposit DEST_DOMAIN_ID mock_NativeResourceId 0 ALICE FungibleTransfer
           (create_deposit_data final_amount_in_deposit_event (ascii ''ethereum recipient'')) [],
         FeeCollected ALICE DEST_DOMAIN_ID mock_NativeResourceId fee native]])"

text \<open>The same through the trait \<^verbatim>\<open>Bridge\<close>.\<close>

definition transfer_wrap_deposit_should_work :: "balances bridge_storage test list" where
  "transfer_wrap_deposit_should_work = (let cfg = mock_cfg; fee = 1000000000000; amount = 200000000000000;
       final_amount_in_deposit_event = 199000000000000000000 in
     [assert_ok (register_domain cfg Root DEST_DOMAIN_ID 1),
      assert_ok (set_fee cfg Root DEST_DOMAIN_ID native fee),
      assert_ok (set_fee_handler cfg Root DEST_DOMAIN_ID native BasicFeeHandler),
      assert_ok (set_mpc_address cfg Root test_mpc_addr),
      assert_ok (bridge_transfer cfg ALICE (fungible_asset native amount) to_ethereum None),
      assert_that (\<lambda>s. free_balance s ALICE = ENDOWED_BALANCE - unat amount),
      assert_that (\<lambda>s. map_option (free_balance s) (get_token_reserved_account cfg native) = Some (unat (amount - fee))),
      assert_that (\<lambda>s. free_balance s TreasuryAccount = unat fee),
      assert_events bridge_events
        [Deposit DEST_DOMAIN_ID mock_NativeResourceId 0 ALICE FungibleTransfer
           (create_deposit_data final_amount_in_deposit_event (ascii ''ethereum recipient'')) [],
         FeeCollected ALICE DEST_DOMAIN_ID mock_NativeResourceId fee native]])"

definition deposit_foreign_asset_should_work :: "balances bridge_storage test list" where
  "deposit_foreign_asset_should_work = (let cfg = mock_cfg; fee = 100; amount = 200 in
     [assert_ok (set_fee cfg Root DEST_DOMAIN_ID usdt fee),
      assert_ok (set_fee_handler cfg Root DEST_DOMAIN_ID usdt BasicFeeHandler),
      assert_ok (register_domain cfg Root DEST_DOMAIN_ID 1),
      assert_ok (set_mpc_address cfg Root test_mpc_addr),
      assets_mint mock_UsdtAssetId ALICE ENDOWED_BALANCE,
      assert_that (\<lambda>s. assets_balance mock_UsdtAssetId s ALICE = ENDOWED_BALANCE),
      assert_ok (deposit cfg (Signed ALICE) (fungible_asset usdt amount) to_ethereum),
      assert_that (\<lambda>s. assets_balance mock_UsdtAssetId s ALICE = ENDOWED_BALANCE - unat amount),
      assert_that (\<lambda>s. map_option (assets_balance mock_UsdtAssetId s) (get_token_reserved_account cfg usdt) =
        Some (unat (amount - fee))),
      assert_that (\<lambda>s. assets_balance mock_UsdtAssetId s TreasuryAccount = unat fee),
      assert_events bridge_events
        [Deposit DEST_DOMAIN_ID mock_UsdtResourceId 0 ALICE FungibleTransfer
           (create_deposit_data (amount - fee) (ascii ''ethereum recipient'')) [],
         FeeCollected ALICE DEST_DOMAIN_ID mock_UsdtResourceId fee usdt]])"

definition deposit_unbounded_asset_should_fail :: "balances bridge_storage test list" where
  "deposit_unbounded_asset_should_fail = (let cfg = mock_cfg; fee = 100; amount = 200;
       unbounded_asset_location = new_location 1 [GeneralIndex 123] in
     [assert_ok (set_mpc_address cfg Root test_mpc_addr),
      assert_ok (set_fee cfg Root DEST_DOMAIN_ID (Concrete unbounded_asset_location) fee),
      assert_ok (register_domain cfg Root DEST_DOMAIN_ID 1),
      assert_noop (deposit cfg (Signed ALICE) (fungible_asset (Concrete unbounded_asset_location) amount) to_ethereum)
        (bridge_error AssetNotBound)])"

definition deposit_to_unrecognized_dest_should_fail :: "balances bridge_storage test list" where
  "deposit_to_unrecognized_dest_should_fail = (let cfg = mock_cfg; fee = 100; amount = 200;
       invalid_dest = new_location 0 [GeneralIndex 0, padded_key (ascii ''ethereum recipient'')] in
     [assert_ok (set_mpc_address cfg Root test_mpc_addr),
      assert_ok (set_fee cfg Root DEST_DOMAIN_ID native fee),
      assert_ok (register_domain cfg Root DEST_DOMAIN_ID 1),
      assert_noop (deposit cfg (Signed ALICE) (fungible_asset native amount) invalid_dest)
        (bridge_error ExtractDestDataFailed)])"

definition deposit_without_fee_set_should_fail :: "balances bridge_storage test list" where
  "deposit_without_fee_set_should_fail = (let cfg = mock_cfg; amount = 200 in
     [assert_ok (set_mpc_address cfg Root test_mpc_addr),
      assert_ok (register_domain cfg Root DEST_DOMAIN_ID 1),
      assert_noop (deposit cfg (Signed ALICE) (fungible_asset native amount) to_ethereum)
        (bridge_error MissingFeeConfig)])"

definition deposit_less_than_fee_should_fail :: "balances bridge_storage test list" where
  "deposit_less_than_fee_should_fail = (let cfg = mock_cfg; fee = 200; amount = 100 in
     [assert_ok (set_mpc_address cfg Root test_mpc_addr),
      assert_ok (set_fee cfg Root DEST_DOMAIN_ID native fee),
      assert_ok (set_fee_handler cfg Root DEST_DOMAIN_ID native BasicFeeHandler),
      assert_ok (register_domain cfg Root DEST_DOMAIN_ID 1),
      assert_noop (deposit cfg (Signed ALICE) (fungible_asset native amount) to_ethereum)
        (bridge_error FeeTooExpensive)])"

definition deposit_when_bridge_paused_should_fail :: "balances bridge_storage test list" where
  "deposit_when_bridge_paused_should_fail = (let cfg = mock_cfg; fee = 100; amount = 200 in
     [assert_ok (set_fee cfg Root DEST_DOMAIN_ID native fee),
      assert_ok (set_fee_handler cfg Root DEST_DOMAIN_ID native BasicFeeHandler),
      assert_ok (register_domain cfg Root DEST_DOMAIN_ID 1),
      assert_ok (set_mpc_address cfg Root test_mpc_addr),
      assert_ok (pause_bridge cfg Root DEST_DOMAIN_ID),
      assert_noop (deposit cfg (Signed ALICE) (fungible_asset native amount) to_ethereum) (bridge_error BridgePaused),
      assert_ok (unpause_bridge cfg Root DEST_DOMAIN_ID),
      assert_ok (deposit cfg (Signed ALICE) (fungible_asset native amount) to_ethereum)])"

definition deposit_without_mpc_set_should_fail :: "balances bridge_storage test list" where
  "deposit_without_mpc_set_should_fail = (let cfg = mock_cfg; fee = 200; amount = 100 in
     [assert_ok (set_fee cfg Root DEST_DOMAIN_ID native fee),
      assert_noop (deposit cfg (Signed ALICE) (fungible_asset native amount) to_ethereum)
        (bridge_error MissingMpcAddress)])"

section \<open>The tests of series of deposits\<close>

definition deposit_with_decimal_converter_usdt :: "balances bridge_storage test list" where
  "deposit_with_decimal_converter_usdt = (let cfg = mock_cfg; d = DEST_DOMAIN_ID; alice = Signed ALICE;
       fee_usdt_asset = 1000000000000000000; amount_usdt_asset = 123456789123456789123;
       adjusted_amount_usdt_asset = 122456789123456789123 in
     [assets_mint mock_UsdtAssetId ALICE ENDOWED_BALANCE,
      assert_that (\<lambda>s. assets_balance mock_UsdtAssetId s ALICE = ENDOWED_BALANCE),
      assert_ok (deposit cfg alice (fungible_asset usdt amount_usdt_asset) to_ethereum),
      assert_that (\<lambda>s. assets_balance mock_UsdtAssetId s ALICE = ENDOWED_BALANCE - unat amount_usdt_asset),
      assert_that (\<lambda>s. map_option (assets_balance mock_UsdtAssetId s) (get_token_reserved_account cfg usdt) =
        Some 122456789123456789123),
      assert_that (\<lambda>s. assets_balance mock_UsdtAssetId s TreasuryAccount = unat fee_usdt_asset),
      assert_events bridge_events
        [Deposit d mock_UsdtResourceId 1 ALICE FungibleTransfer
           (create_deposit_data adjusted_amount_usdt_asset (ascii ''ethereum recipient'')) [],
         FeeCollected ALICE d mock_UsdtResourceId fee_usdt_asset usdt]])"

definition deposit_with_decimal_converter_astr :: "balances bridge_storage test list" where
  "deposit_with_decimal_converter_astr = (let cfg = mock_cfg; d = DEST_DOMAIN_ID; alice = Signed ALICE;
       fee_astr_asset = 1000000000000000000000000; amount_astr_asset = 123456789123456789123456789;
       adjusted_amount_astr_asset = 122456789123456789123;
       amount_astr_asset_extreme_small_amount = 100000; fee_astr_asset_extreme_small_amount = 1 in
     [assets_mint mock_AstrAssetId ALICE ENDOWED_BALANCE,
      assert_that (\<lambda>s. assets_balance mock_AstrAssetId s ALICE = ENDOWED_BALANCE),
      assert_ok (deposit cfg alice (fungible_asset astr amount_astr_asset) to_ethereum),
      assert_that (\<lambda>s. assets_balance mock_AstrAssetId s ALICE = ENDOWED_BALANCE - unat amount_astr_asset),
      assert_that (\<lambda>s. map_option (assets_balance mock_AstrAssetId s) (get_token_reserved_account cfg astr) =
        Some (unat (amount_astr_asset - fee_astr_asset))),
      assert_that (\<lambda>s. assets_balance mock_AstrAssetId s TreasuryAccount = unat fee_astr_asset),
      assert_events bridge_events
        [Deposit d mock_AstrResourceId 2 ALICE FungibleTransfer
           (create_deposit_data adjusted_amount_astr_asset (ascii ''ethereum recipient'')) [],
         FeeCollected ALICE d mock_AstrResourceId fee_astr_asset astr],
      assert_ok (set_fee cfg Root d astr fee_astr_asset_extreme_small_amount),
      assert_noop (deposit cfg alice (fungible_asset astr amount_astr_asset_extreme_small_amount) to_ethereum)
        (bridge_error DecimalConversionFail)])"

definition deposit_with_decimal_converter :: "balances bridge_storage test list" where
  "deposit_with_decimal_converter = (let cfg = mock_cfg; d = DEST_DOMAIN_ID; alice = Signed ALICE;
       fee_native_asset = 1000000000000; amount_native_asset = 123456789123456;
       adjusted_amount_native_asset = 122456789123456000000 in
     [assert_ok (set_mpc_address cfg Root test_mpc_addr),
      assert_ok (set_fee cfg Root d native fee_native_asset),
      assert_ok (set_fee cfg Root d usdt 1000000000000000000),
      assert_ok (set_fee cfg Root d astr 1000000000000000000000000),
      assert_ok (set_fee_handler cfg Root d native BasicFeeHandler),
      assert_ok (set_fee_handler cfg Root d usdt BasicFeeHandler),
      assert_ok (set_fee_handler cfg Root d astr BasicFeeHandler),
      assert_ok (register_domain cfg Root d 1),
      assert_ok (deposit cfg alice (fungible_asset native amount_native_asset) to_ethereum),
      assert_that (\<lambda>s. free_balance s ALICE = ENDOWED_BALANCE - unat amount_native_asset),
      assert_that (\<lambda>s. map_option (free_balance s) (get_token_reserved_account cfg native) =
        Some (unat (amount_native_asset - fee_native_asset))),
      assert_that (\<lambda>s. free_balance s TreasuryAccount = unat fee_native_asset),
      assert_events bridge_events
        [Deposit d mock_NativeResourceId 0 ALICE FungibleTransfer
           (create_deposit_data adjusted_amount_native_asset (ascii ''ethereum recipient'')) [],
         FeeCollected ALICE d mock_NativeResourceId fee_native_asset native]]
     @ deposit_with_decimal_converter_usdt @ deposit_with_decimal_converter_astr)"

definition deposit_native_asset_with_percentage_fee_bounds :: "balances bridge_storage test list" where
  "deposit_native_asset_with_percentage_fee_bounds = (let cfg = mock_cfg; d = DEST_DOMAIN_ID; amount = 200000000000000;
       fee_rate_1 = 500; fee_rate_4 = 0; fee_rate_5 = 15000;
       fee_lower_bound = 100000000000000; fee_upper_bound = 1000000000000000;
       reserved = (\<lambda>n. assert_that (\<lambda>s. map_option (free_balance s) (get_token_reserved_account cfg native) = Some n));
       collected = (\<lambda>n. assert_that (\<lambda>s. free_balance s TreasuryAccount = n)) in
     [assert_ok (set_fee_rate cfg Root d native fee_rate_4 0 1000000000000000),
      assert_ok (deposit cfg (Signed ALICE) (fungible_asset native amount) to_ethereum),
      reserved 390020000000000, collected 209980000000000,
      assert_noop (set_fee_rate cfg Root d native fee_rate_5 0 1000000000000000) (percentage_error FeeRateOutOfRange),
      reserved 390020000000000, collected 209980000000000,
      assert_ok (set_fee_rate cfg Root d native fee_rate_1 fee_lower_bound fee_upper_bound),
      assert_ok (deposit cfg (Signed ALICE) (fungible_asset native amount) to_ethereum),
      reserved 490020000000000, collected 309980000000000,
      assert_ok (deposit cfg (Signed ALICE) (fungible_asset native 200000000000000000) to_ethereum),
      reserved 199490020000000000, collected 1309980000000000])"

definition deposit_native_asset_with_percentage_fee :: "balances bridge_storage test list" where
  "deposit_native_asset_with_percentage_fee = (let cfg = mock_cfg; d = DEST_DOMAIN_ID; amount = 200000000000000;
       fee_rate_1 = 500; fee_rate_2 = 10000; fee_rate_3 = 9999;
       final_amount_in_deposit_event_1 = 190000000000000000000;
       reserved = (\<lambda>n. assert_that (\<lambda>s. map_option (free_balance s) (get_token_reserved_account cfg native) = Some n));
       collected = (\<lambda>n. assert_that (\<lambda>s. free_balance s TreasuryAccount = n)) in
     [assert_ok (register_domain cfg Root d 1),
      assert_ok (set_fee_handler cfg Root d native PercentageFeeHandler),
      assert_ok (set_mpc_address cfg Root test_mpc_addr),
      assert_ok (set_fee_rate cfg Root d native fee_rate_1 0 1000000000000000),
      assert_ok (deposit cfg (Signed ALICE) (fungible_asset native amount) to_ethereum),
      assert_that (\<lambda>s. free_balance s ALICE = ENDOWED_BALANCE - unat amount),
      reserved 190000000000000, collected 10000000000000,
      assert_events bridge_events
        [Deposit d mock_NativeResourceId 0 ALICE FungibleTransfer
           (create_deposit_data final_amount_in_deposit_event_1 (ascii ''ethereum recipient'')) [],
         FeeCollected ALICE d mock_NativeResourceId 10000000000000 native],
      assert_noop (set_fee_rate cfg Root d native fee_rate_2 0 1000000000000000) (percentage_error FeeRateOutOfRange),
      assert_ok (set_fee_rate cfg Root d native fee_rate_3 0 1000000000000000),
      assert_ok (deposit cfg (Signed ALICE) (fungible_asset native amount) to_ethereum),
      reserved 190020000000000, collected 209980000000000]
     @ deposit_native_asset_with_percentage_fee_bounds)"

definition percentage_fee_rate_not_set_for_domain_and_asset :: "balances bridge_storage test list" where
  "percentage_fee_rate_not_set_for_domain_and_asset = (let cfg = mock_cfg; amount = 200000000000000 in
     [assert_ok (register_domain cfg Root DEST_DOMAIN_ID 1),
      assert_ok (set_mpc_address cfg Root test_mpc_addr),
      assert_ok (set_fee_handler cfg Root DEST_DOMAIN_ID native PercentageFeeHandler),
      assert_noop (deposit cfg (Signed ALICE) (fungible_asset native amount) to_ethereum)
        (bridge_error MissingFeeConfig)])"

definition deposit_native_asset_with_percentage_fee_override_basic_fee_handler :: "balances bridge_storage test list" where
  "deposit_native_asset_with_percentage_fee_override_basic_fee_handler = (let cfg = mock_cfg; d = DEST_DOMAIN_ID;
       amount = 200000000000000; fee = 1000000000000;
       reserved = (\<lambda>n. assert_that (\<lambda>s. map_option (free_balance s) (get_token_reserved_account cfg native) = Some (unat n)));
       collected = (\<lambda>n. assert_that (\<lambda>s. free_balance s TreasuryAccount = unat n)) in
     [assert_ok (register_domain cfg Root d 1),
      assert_ok (set_mpc_address cfg Root test_mpc_addr),
      assert_ok (set_fee_handler cfg Root d native BasicFeeHandler),
      assert_ok (set_fee cfg Root d native fee),
      assert_ok (deposit cfg (Signed ALICE) (fungible_asset native amount) to_ethereum),
      assert_that (\<lambda>s. free_balance s ALICE = ENDOWED_BALANCE - unat amount),
      reserved (amount - fee), collected fee,
      assert_ok (set_fee_handler cfg Root d native PercentageFeeHandler),
      assert_ok (set_fee_rate cfg Root d native 500 0 1000000000000000),
      assert_ok (deposit cfg (Signed ALICE) (fungible_asset native amount) to_ethereum),
      assert_that (\<lambda>s. free_balance s ALICE = ENDOWED_BALANCE - unat (amount * 2)),
      reserved (amount - fee + 190000000000000), collected (fee + 10000000000000)])"

section \<open>Evaluation\<close>

text \<open>The result of a deposit with the fee and the converted amount read off the storage.\<close>

lemma mock_deposit_eval:
  fixes s :: "balances bridge_storage"
  defines "fee \<equiv> \<lambda>a n. the (router_get_fee s 1 (fungible_asset a n))"
  defines "m \<equiv> \<lambda>a n. decimal_convert_to fixed_words mock_AssetDecimalPairs (fungible_asset a (n - fee a n))"
  assumes "bound_asset a rid acct" and "mock_key a = Some k" and "x \<noteq> TreasuryAccount" "x \<noteq> acct" "acct \<noteq> TreasuryAccount"
    and "bridge_open s" and "router_get_fee s 1 (fungible_asset a n) \<noteq> None" and "fee a n < n" and "m a n \<noteq> None"
    and "unat n \<le> ledger s (k, x)" and "ledger s (k, TreasuryAccount) + unat (fee a n) < 2 ^ 128"
    and "ledger s (k, acct) + unat (n - fee a n) < 2 ^ 128" and "unat (deposit_counts s 1) + 1 < 2 ^ 64"
  shows "deposit mock_cfg (Signed x) (fungible_asset a n) to_ethereum s =
    (Inr (), s\<lparr>ledger := moved (ledger s) k x acct n (fee a n),
       DepositCounts := (DepositCounts s)(1 \<mapsto> deposit_counts s 1 + 1),
       bridge_events := bridge_events s @
         [Deposit 1 rid (deposit_counts s 1) x FungibleTransfer (create_deposit_data (the (m a n)) (ascii ''ethereum recipient'')) [],
          FeeCollected x 1 rid (fee a n) a]\<rparr>)"
  using assms by (intro mock_deposit_ok) auto

lemmas mock_deposit_simps = mock_deposit_eval [OF bound_assets(1) mock_keys(1)]
  mock_deposit_eval [OF bound_assets(2) mock_keys(2)] mock_deposit_eval [OF bound_assets(3) mock_keys(3)]

lemma mock_deposit_unconverted_astr:
  fixes s :: "balances bridge_storage"
  defines "fee \<equiv> \<lambda>n. the (router_get_fee s 1 (fungible_asset astr n))"
  assumes "bridge_open s" and "router_get_fee s 1 (fungible_asset astr n) \<noteq> None" and "fee n < n"
    and "decimal_convert_to fixed_words mock_AssetDecimalPairs (fungible_asset astr (n - fee n)) = None"
    and "unat n \<le> ledger s (Some 1, ALICE)" and "ledger s (Some 1, TreasuryAccount) + unat (fee n) < 2 ^ 128"
    and "ledger s (Some 1, others_account) + unat (n - fee n) < 2 ^ 128" and "unat (deposit_counts s 1) + 1 < 2 ^ 64"
  shows "deposit mock_cfg (Signed ALICE) (fungible_asset astr n) to_ethereum s = (Inl (bridge_error DecimalConversionFail), s)"
  using assms by (intro mock_deposit_unconverted [OF bound_assets(3) mock_keys(3)]) auto

lemma mock_reserved [simp]:
  "get_token_reserved_account mock_cfg native = Some reserve_account"
  "get_token_reserved_account mock_cfg usdt = Some others_account"
  "get_token_reserved_account mock_cfg astr = Some others_account"
  using bound_assets by (simp_all add: bound_asset_def)

lemma mock_extracted [simp]: "extract_asset mock_cfg (fungible_asset native n) = Some (mock_NativeResourceId, n, FungibleTransfer)"
  using bound_assets by (simp add: bound_asset_def)

lemma unbounded_not_bound:
  "extract_asset mock_cfg (fungible_asset (Concrete (new_location 1 [GeneralIndex 123])) n) = None"
  by (simp add: extract_asset_def mock_ResourcePairs_def NativeLocation_def here_def mock_UsdtLocation_def
      mock_AstrLocation_def sibling_key_location_def)

lemma unrecognized_dest:
  "DestinationDataParser_extract_dest (new_location 0 [GeneralIndex 0, padded_key r]) = Returns None"
  by (simp add: DestinationDataParser_extract_dest_def padded_key_def slice_recipient_def)

lemma mock_pairs: "mock_AssetDecimalPairs = [(native, 12), (usdt, 18), (astr, 24)]"
  by (simp add: mock_AssetDecimalPairs_def native_def usdt_def astr_def)

lemmas convert_defs = mock_pairs decimal_convert_to_def decimal_convert_from_def unwrap_or_zero_def fixed_words_def
  saturating_pow_def

lemmas deposit_test_defs = bridge_test_defs set_fee_def set_fee_handler_def set_fee_rate_def router_get_fee_def
  basic_get_fee_def percentage_get_fee_def free_balance_def assets_balance_def assets_mint_def moved_def bridge_open_def
  endowed_def ENDOWED_BALANCE_def mock_UsdtAssetId_def mock_AstrAssetId_def bridge_transfer_def test_steps

lemmas deposit_evaluation = deposit_test_defs test_mpc_addr_set mock_deposit_simps mock_deposit_refused
  mock_deposit_unconverted_astr unbounded_not_bound unrecognized_dest convert_defs saturating_mul_def

lemma deposit_native_asset_passes: "passes deposit_native_asset_should_work bridge_new_test_ext"
  by (simp add: deposit_native_asset_should_work_def deposit_evaluation del: ascii_simps)

lemma transfer_wrap_deposit_passes: "passes transfer_wrap_deposit_should_work bridge_new_test_ext"
  by (simp add: transfer_wrap_deposit_should_work_def deposit_evaluation del: ascii_simps)

lemma deposit_foreign_asset_passes: "passes deposit_foreign_asset_should_work bridge_new_test_ext"
  by (simp add: deposit_foreign_asset_should_work_def deposit_evaluation del: ascii_simps)

lemma deposit_without_fee_set_passes: "passes deposit_without_fee_set_should_fail bridge_new_test_ext"
  by (simp add: deposit_without_fee_set_should_fail_def deposit_evaluation del: ascii_simps)

lemma deposit_less_than_fee_passes: "passes deposit_less_than_fee_should_fail bridge_new_test_ext"
  by (simp add: deposit_less_than_fee_should_fail_def deposit_evaluation del: ascii_simps)

lemma deposit_when_bridge_paused_passes: "passes deposit_when_bridge_paused_should_fail bridge_new_test_ext"
  by (simp add: deposit_when_bridge_paused_should_fail_def deposit_evaluation del: ascii_simps)

lemma deposit_without_mpc_set_passes: "passes deposit_without_mpc_set_should_fail bridge_new_test_ext"
  by (simp add: deposit_without_mpc_set_should_fail_def deposit_evaluation del: ascii_simps)

lemma deposit_unbounded_asset_passes: "passes deposit_unbounded_asset_should_fail bridge_new_test_ext"
  by (simp add: deposit_unbounded_asset_should_fail_def deposit_evaluation del: ascii_simps)

lemma deposit_to_unrecognized_dest_passes: "passes deposit_to_unrecognized_dest_should_fail bridge_new_test_ext"
  by (simp add: deposit_to_unrecognized_dest_should_fail_def deposit_evaluation del: ascii_simps)

lemma deposit_with_decimal_converter_passes: "passes deposit_with_decimal_converter bridge_new_test_ext"
  by (simp add: deposit_with_decimal_converter_def deposit_with_decimal_converter_usdt_def
      deposit_with_decimal_converter_astr_def deposit_evaluation del: ascii_simps)

lemma deposit_native_asset_with_percentage_fee_passes: "passes deposit_native_asset_with_percentage_fee bridge_new_test_ext"
  by (simp add: deposit_native_asset_with_percentage_fee_def deposit_native_asset_with_percentage_fee_bounds_def
      deposit_evaluation del: ascii_simps)

lemma percentage_fee_rate_not_set_for_domain_and_asset_passes: "passes percentage_fee_rate_not_set_for_domain_and_asset bridge_new_test_ext"
  by (simp add: percentage_fee_rate_not_set_for_domain_and_asset_def deposit_evaluation del: ascii_simps)

lemma deposit_native_asset_with_percentage_fee_override_basic_fee_handler_passes: "passes deposit_native_asset_with_percentage_fee_override_basic_fee_handler bridge_new_test_ext"
  by (simp add: deposit_native_asset_with_percentage_fee_override_basic_fee_handler_def deposit_evaluation del: ascii_simps)

end
