(* ===== verification/Proposal_Tests.thy ===== *)
theory Proposal_Tests
  imports Deposit_Tests
begin

text \<open>
  The unit tests of the bridge pallet that check signatures and execute proposals (the module \<^verbatim>\<open>test\<close> of
  \<^verbatim>\<open>bridge/src/lib.rs\<close>). The tests generate key pairs, so they take the host and the pairs as arguments: the
  model passes them for every host and every pair with the documented behaviour of \<^verbatim>\<open>sp_core::ecdsa\<close>,
  \<open>keys_work\<close>.
\<close>

section \<open>Key pairs\<close>

record keypair =
  public_key :: bytes
  sign_prehashed :: "bytes \<Rightarrow> bytes"

text \<open>The key that made a signature is recovered from it and from the digest that was signed.\<close>

definition keys_work :: "host \<Rightarrow> keypair \<Rightarrow> bool" where
  "keys_work h pair \<longleftrightarrow> (\<forall>m. length (sign_prehashed pair m) = 65 \<and>
     secp256k1_ecdsa_recover h (sign_prehashed pair m) m = Some (public_key pair))"

definition to_eth_address :: "host \<Rightarrow> keypair \<Rightarrow> MpcAddress" where
  "to_eth_address h pair = public_key_to_address h (public_key pair)"

text \<open>\<^verbatim>\<open>Pair::sign\<close> and \<^verbatim>\<open>Pair::verify\<close> hash the message first.\<close>

definition pair_sign :: "host \<Rightarrow> keypair \<Rightarrow> bytes \<Rightarrow> bytes" where
  "pair_sign h pair message = sign_prehashed pair (blake2_256 h message)"

definition pair_verify :: "host \<Rightarrow> bytes \<Rightarrow> bytes \<Rightarrow> bytes \<Rightarrow> bool" where
  "pair_verify h sig message public \<longleftrightarrow> secp256k1_ecdsa_recover h sig (blake2_256 h message) = Some public"

lemma verify_signed:
  "keys_work h pair \<Longrightarrow>
   verify_by_mpc_address h m (sign_prehashed pair m) s \<longleftrightarrow> to_eth_address h pair = mpc_addr s"
  by (auto simp: verify_by_mpc_address_iff keys_work_def to_eth_address_def)

section \<open>The tests of signatures\<close>

text \<open>The dummy proposals.\<close>

definition dummy_proposals :: "Proposal list" where
  "dummy_proposals =
     [\<lparr>origin_domain_id = 1, deposit_nonce = 1, resource_id = replicate 32 1, proposal_data = [1]\<rparr>,
      \<lparr>origin_domain_id = 2, deposit_nonce = 2, resource_id = replicate 32 2, proposal_data = [2]\<rparr>]"

text \<open>The SCALE encoding of a vector of one byte is its length, as a compact number, and the byte.\<close>

definition verify_mpc_signature_invalid_signature :: "host \<Rightarrow> balances bridge_storage test list" where
  "verify_mpc_signature_invalid_signature h = (let signature = [4, 1];
       final_message = construct_ecdsa_signing_proposals_data mock_cfg h dummy_proposals in
     [assert_that (\<lambda>s. \<not> verify_by_mpc_address h final_message signature s)])"

definition verify_mpc_signature_invalid_message :: "host \<Rightarrow> keypair \<Rightarrow> balances bridge_storage test list" where
  "verify_mpc_signature_invalid_message h pair = (let public = public_key pair;
       message = ascii ''Something important''; signature = pair_sign h pair message;
       final_message = construct_ecdsa_signing_proposals_data mock_cfg h dummy_proposals in
     [assert_that (\<lambda>_. pair_verify h signature message public),
      assert_that (\<lambda>_. \<not> pair_verify h signature (ascii ''Something else'') public),
      assert_that (\<lambda>s. \<not> verify_by_mpc_address h final_message signature s)])"

definition verify_mpc_signature_valid_message_unmatched_mpc :: "host \<Rightarrow> keypair \<Rightarrow> balances bridge_storage test list" where
  "verify_mpc_signature_valid_message_unmatched_mpc h pair = (let test_mpc_addr = replicate 20 7;
       final_message = construct_ecdsa_signing_proposals_data mock_cfg h dummy_proposals;
       signature = sign_prehashed pair final_message in
     [assert_ok (set_mpc_address mock_cfg Root test_mpc_addr),
      assert_that (\<lambda>s. mpc_addr s = test_mpc_addr),
      assert_that (\<lambda>s. \<not> verify_by_mpc_address h final_message signature s)])"

definition verify_mpc_signature_valid_message_valid_signature :: "host \<Rightarrow> keypair \<Rightarrow> balances bridge_storage test list" where
  "verify_mpc_signature_valid_message_valid_signature h pair = (let test_mpc_addr = to_eth_address h pair;
       final_message = construct_ecdsa_signing_proposals_data mock_cfg h dummy_proposals;
       signature = sign_prehashed pair final_message in
     [assert_ok (set_mpc_address mock_cfg Root test_mpc_addr),
      assert_that (\<lambda>s. mpc_addr s = test_mpc_addr),
      assert_that (verify_by_mpc_address h final_message signature)])"

lemma invalid_signature_passes: "passes (verify_mpc_signature_invalid_signature h) bridge_new_test_ext"
  by (simp add: verify_mpc_signature_invalid_signature_def test_steps verify_by_mpc_address_def Let_def)

text \<open>A message of another digest does not verify, and no key has the zero address, which stands for no address.\<close>

lemma invalid_message_passes:
  assumes "keys_work h pair"
    and "\<not> pair_verify h (pair_sign h pair (ascii ''Something important'')) (ascii ''Something else'') (public_key pair)"
    and "\<And>pk. public_key_to_address h pk \<noteq> default_mpc_address"
  shows "passes (verify_mpc_signature_invalid_message h pair) bridge_new_test_ext"
  using assms
  by (simp add: verify_mpc_signature_invalid_message_def test_steps Let_def verify_by_mpc_address_iff keys_work_def
      pair_sign_def pair_verify_def mpc_addr_def bridge_new_test_ext_def mock_genesis_def del: ascii_simps)

lemma unmatched_mpc_passes:
  assumes "keys_work h pair" and "to_eth_address h pair \<noteq> replicate 20 7"
  shows "passes (verify_mpc_signature_valid_message_unmatched_mpc h pair) bridge_new_test_ext"
  using assms
  by (simp add: verify_mpc_signature_valid_message_unmatched_mpc_def bridge_test_defs test_steps test_mpc_addr_set
      verify_signed [unfolded mpc_addr_def])

lemma valid_signature_passes:
  assumes "keys_work h pair"
  shows "passes (verify_mpc_signature_valid_message_valid_signature h pair) bridge_new_test_ext"
  using assms
  by (simp add: verify_mpc_signature_valid_message_valid_signature_def bridge_test_defs test_steps test_mpc_addr_set
      verify_signed [unfolded mpc_addr_def])

section \<open>Executing one proposal\<close>

text \<open>What the tests rely on of the codec of locations: an account is encoded in a few bytes and read back.\<close>

definition accounts_coded :: "host \<Rightarrow> bool" where
  "accounts_coded h \<longleftrightarrow> (\<forall>x. length x = 32 \<longrightarrow>
     decode_location h (encode_location h (account_location x)) = Some (account_location x) \<and>
     length (encode_location h (account_location x)) < 2 ^ 32)"

definition transfer_to :: "host \<Rightarrow> AccountId \<Rightarrow> DomainID \<Rightarrow> DepositNonce \<Rightarrow> ResourceId \<Rightarrow> u128 \<Rightarrow> Proposal" where
  "transfer_to h who d n rid amount = \<lparr>origin_domain_id = d, deposit_nonce = n, resource_id = rid,
     proposal_data = create_deposit_data amount (encode_location h (account_location who))\<rparr>"

lemma transfer_to_fields [simp]:
  "origin_domain_id (transfer_to h who d n rid m) = d" "deposit_nonce (transfer_to h who d n rid m) = n"
  "resource_id (transfer_to h who d n rid m) = rid"
  "proposal_data (transfer_to h who d n rid m) = create_deposit_data m (encode_location h (account_location who))"
  by (simp_all add: transfer_to_def)

definition failed :: "bridge_error \<Rightarrow> Proposal \<Rightarrow> balances bridge_storage \<Rightarrow> balances bridge_storage" where
  "failed e p = deposit_event (FailedHandlerExecution (ascii (bridge_error_name e)) (origin_domain_id p) (deposit_nonce p))"

definition paid :: "host \<Rightarrow> u32 option \<Rightarrow> AccountId \<Rightarrow> AccountId \<Rightarrow> nat \<Rightarrow> Proposal
     \<Rightarrow> balances bridge_storage \<Rightarrow> balances bridge_storage" where
  "paid h k acct who n p s =
     deposit_event (ProposalExecution (origin_domain_id p) (deposit_nonce p)
         (keccak_256 h (concat [proposal_data p, PalletAccount mock_cfg])))
       (set_proposal_executed (deposit_nonce p) (origin_domain_id p)
         (s\<lparr>ledger := (ledger s)((k, acct) := ledger s (k, acct) - n, (k, who) := ledger s (k, who) + n)\<rparr>))"

text \<open>The amount a proposal pays out, in units of the asset.\<close>

definition converted :: "AssetId \<Rightarrow> u128 \<Rightarrow> u128" where
  "converted a m = (case decimal_convert_from fixed_words mock_AssetDecimalPairs (fungible_asset a m) of
     None \<Rightarrow> 0 | Some b \<Rightarrow> (case asset_fun b of Fungible n \<Rightarrow> n | NonFungible _ \<Rightarrow> 0))"

lemma rid_resolved:
  "rid_to_assetid mock_cfg mock_NativeResourceId = Some native" "rid_to_assetid mock_cfg mock_UsdtResourceId = Some usdt"
  "rid_to_assetid mock_cfg mock_AstrResourceId = Some astr" "rid_to_assetid mock_cfg (replicate 32 2) = None"
proof -
  have l: "last (be_bytes 32 x) = word_of_nat (x mod 256)" for x
    using be_bytes.simps(2) [of 31 x] by (simp del: be_bytes.simps)
  have last: "last mock_NativeResourceId = 0xa6" "last mock_UsdtResourceId = 0x3e" "last mock_AstrResourceId = 0xba"
    "last (replicate 32 (2 :: u8)) = 2"
    by (simp_all add: mock_NativeResourceId_def mock_UsdtResourceId_def mock_AstrResourceId_def l)
  then show "rid_to_assetid mock_cfg mock_NativeResourceId = Some native" "rid_to_assetid mock_cfg mock_UsdtResourceId = Some usdt"
    "rid_to_assetid mock_cfg mock_AstrResourceId = Some astr" "rid_to_assetid mock_cfg (replicate 32 2) = None"
    by (auto simp: rid_to_assetid_def mock_ResourcePairs_def native_def usdt_def astr_def dest!: arg_cong [where f = last])
qed

lemma mock_pays:
  assumes "bound_asset a rid acct" and "mock_key a = Some k" and "rid_to_assetid mock_cfg rid = Some a"
    and "accounts_coded h" and "length who = 32" and "who \<noteq> acct"
    and "\<not> is_paused s d" and "dest_domain_ids s d" and "\<not> is_proposal_executed n d s"
    and "decimal_convert_from fixed_words mock_AssetDecimalPairs (fungible_asset a m) = Some (fungible_asset a (converted a m))"
    and "unat (converted a m) \<le> ledger s (k, acct)" and "ledger s (k, who) + unat (converted a m) < 2 ^ 128"
  shows "execute_one mock_cfg h (transfer_to h who d n rid m) s =
    paid h k acct who (unat (converted a m)) (transfer_to h who d n rid m) s"
proof -
  let ?p = "transfer_to h who d n rid m" and ?n = "unat (converted a m)"
  let ?s1 = "s\<lparr>ledger := (ledger s)((k, acct) := ledger s (k, acct) - ?n)\<rparr>"
  have "extract_deposit_data h (proposal_data ?p) = Inr (m, account_location who)"
    using assms(4,5) extract_create_deposit_data [of "encode_location h (account_location who)" h m]
    by (simp add: accounts_coded_def)
  then have "payout_facts mock_cfg h ?p a (account_location who) (fungible_asset a (converted a m)) acct s ?s1"
    using assms by (simp add: payout_facts_def bound_asset_def mock_withdraw [OF assms(2)])
  from internal_payout [OF this] show ?thesis
    using assms by (simp add: execute_one_def mock_deposit_to [OF assms(2)] paid_def)
qed

lemmas mock_pay_simps = mock_pays [OF bound_assets(1) mock_keys(1) rid_resolved(1)]
  mock_pays [OF bound_assets(2) mock_keys(2) rid_resolved(2)] mock_pays [OF bound_assets(3) mock_keys(3) rid_resolved(3)]

text \<open>The failures, in the order of the checks.\<close>

lemma mock_fails:
  "is_paused s (origin_domain_id p) \<Longrightarrow> execute_one mock_cfg h p s = failed BridgePaused p s"
  "\<not> is_paused s (origin_domain_id p) \<Longrightarrow> \<not> dest_domain_ids s (origin_domain_id p) \<Longrightarrow>
     execute_one mock_cfg h p s = failed DestDomainNotSupported p s"
  "\<not> is_paused s (origin_domain_id p) \<Longrightarrow> dest_domain_ids s (origin_domain_id p) \<Longrightarrow>
     is_proposal_executed (deposit_nonce p) (origin_domain_id p) s \<Longrightarrow>
     execute_one mock_cfg h p s = failed ProposalAlreadyComplete p s"
  "\<not> is_paused s (origin_domain_id p) \<Longrightarrow> dest_domain_ids s (origin_domain_id p) \<Longrightarrow>
     \<not> is_proposal_executed (deposit_nonce p) (origin_domain_id p) s \<Longrightarrow>
     rid_to_assetid mock_cfg (resource_id p) = None \<Longrightarrow> execute_one mock_cfg h p s = failed AssetNotBound p s"
  "\<not> is_paused s (origin_domain_id p) \<Longrightarrow> dest_domain_ids s (origin_domain_id p) \<Longrightarrow>
     \<not> is_proposal_executed (deposit_nonce p) (origin_domain_id p) s \<Longrightarrow>
     rid_to_assetid mock_cfg (resource_id p) \<noteq> None \<Longrightarrow>
     extract_deposit_data h (proposal_data p) = Inl (bridge_error InvalidDepositData) \<Longrightarrow>
     execute_one mock_cfg h p s = failed InvalidDepositData p s"
  by (auto simp: execute_one_def execute_proposal_internal_def reads_def ensure_def ok_or_def try_result_def failed_def)

lemma mock_unconverted:
  assumes "rid_to_assetid mock_cfg rid = Some a" and "accounts_coded h" and "length who = 32"
    and "\<not> is_paused s d" and "dest_domain_ids s d" and "\<not> is_proposal_executed n d s"
    and "decimal_convert_from fixed_words mock_AssetDecimalPairs (fungible_asset a m) = None"
  shows "execute_one mock_cfg h (transfer_to h who d n rid m) s =
    failed DecimalConversionFail (transfer_to h who d n rid m) s"
  using assms extract_create_deposit_data [of "encode_location h (account_location who)" h m]
  by (simp add: execute_one_def execute_proposal_internal_def reads_def ensure_def ok_or_def try_result_def failed_def
      accounts_coded_def)

text \<open>A batch signed with the key of the MPC address is executed, any other refused.\<close>

lemma execute_signed:
  assumes "keys_work h pair" and "ps \<noteq> []"
    and "sig = sign_prehashed pair (construct_ecdsa_signing_proposals_data cfg h ps)"
    and "\<not> is_clear (mpc_addr s)"
  shows "execute_proposal cfg h origin ps sig s =
    (if mpc_addr s = to_eth_address h pair then (Inr (), fold (execute_one cfg h) ps s)
     else (Inl (bridge_error BadMpcSignature), s))"
  using assms by (auto simp: execute_proposal_def transactional_def Let_def verify_signed)

section \<open>The tests of proposals\<close>

definition proposal_execution_should_work_batch :: "host \<Rightarrow> keypair \<Rightarrow> keypair \<Rightarrow> balances bridge_storage test list" where
  "proposal_execution_should_work_batch h pair evil_pair = (let cfg = mock_cfg; d = DEST_DOMAIN_ID; alice = Signed ALICE;
       amount = 200000000000000; holder = (\<lambda>a. the (get_token_reserved_account cfg a));
       valid_native_transfer_proposal = transfer_to h BOB d 1 mock_NativeResourceId amount;
       valid_usdt_transfer_proposal = transfer_to h BOB d 2 mock_UsdtResourceId amount;
       invalid_depositnonce_proposal = transfer_to h BOB d 2 mock_NativeResourceId amount;
       invalid_domainid_proposal = transfer_to h BOB 2 3 mock_NativeResourceId amount;
       invalid_resourceid_proposal = transfer_to h BOB d 3 (replicate 32 2) amount;
       invalid_recipient_proposal = \<lparr>origin_domain_id = d, deposit_nonce = 3, resource_id = mock_NativeResourceId,
         proposal_data = create_deposit_data amount (ascii ''invalid recipient'')\<rparr>;
       empty_data_proposal = \<lparr>origin_domain_id = d, deposit_nonce = 3, resource_id = mock_UsdtResourceId,
         proposal_data = []\<rparr>;
       proposals = [valid_native_transfer_proposal, valid_usdt_transfer_proposal, invalid_depositnonce_proposal,
         invalid_domainid_proposal, invalid_resourceid_proposal, invalid_recipient_proposal, empty_data_proposal];
       final_message = construct_ecdsa_signing_proposals_data cfg h proposals;
       proposals_with_valid_signature = sign_prehashed pair final_message;
       proposals_with_bad_signature = sign_prehashed evil_pair final_message in
     [assert_ok (pause_bridge cfg Root d),
      assert_that (\<lambda>s. is_paused s d),
      assert_ok (execute_proposal cfg h alice proposals proposals_with_valid_signature),
      assert_events bridge_events
        [FailedHandlerExecution [66, 114, 105, 100, 103, 101, 80, 97, 117, 115, 101, 100] 1 3],
      assert_ok (unpause_bridge cfg Root d),
      assert_noop (execute_proposal cfg h alice proposals proposals_with_bad_signature) (bridge_error BadMpcSignature),
      assert_that (\<lambda>s. free_balance s BOB = ENDOWED_BALANCE),
      assert_that (\<lambda>s. assets_balance mock_UsdtAssetId s BOB = 0),
      assert_that (verify_by_mpc_address h final_message proposals_with_valid_signature),
      assert_ok (execute_proposal cfg h alice proposals proposals_with_valid_signature),
      assert_that (\<lambda>s. free_balance s BOB = ENDOWED_BALANCE + 200000000),
      assert_that (\<lambda>s. assets_balance mock_UsdtAssetId s BOB = unat amount),
      assert_that (\<lambda>s. free_balance s (holder native) = 199000000000000 - 200000000),
      assert_that (\<lambda>s. assets_balance mock_UsdtAssetId s (holder usdt) = 200000000000000)])"

definition proposal_execution_should_work :: "host \<Rightarrow> keypair \<Rightarrow> keypair \<Rightarrow> balances bridge_storage test list" where
  "proposal_execution_should_work h pair evil_pair = (let cfg = mock_cfg; d = DEST_DOMAIN_ID; alice = Signed ALICE;
       test_mpc_addr = to_eth_address h pair; fee = 1000000000000; amount = 200000000000000;
       holder = (\<lambda>a. the (get_token_reserved_account cfg a)) in
     [assert_noop (execute_proposal cfg h alice [] []) (bridge_error MissingMpcAddress),
      assert_ok (set_mpc_address cfg Root test_mpc_addr),
      assert_that (\<lambda>s. mpc_addr s = test_mpc_addr),
      assert_ok (register_domain cfg Root d 1),
      assert_ok (set_fee cfg Root d native fee),
      assert_ok (set_fee_handler cfg Root d native BasicFeeHandler),
      assert_ok (deposit cfg alice (fungible_asset native amount) to_ethereum),
      assets_mint mock_UsdtAssetId (holder usdt) 400000000000000,
      assert_that (\<lambda>s. free_balance s (holder native) = 199000000000000),
      assert_that (\<lambda>s. assets_balance mock_UsdtAssetId s (holder usdt) = 400000000000000)]
     @ proposal_execution_should_work_batch h pair evil_pair)"

definition proposal_execution_with_decimal_converter_others :: "host \<Rightarrow> keypair \<Rightarrow> balances bridge_storage test list" where
  "proposal_execution_with_decimal_converter_others h pair = (let cfg = mock_cfg; alice = Signed ALICE;
       holder = (\<lambda>a. the (get_token_reserved_account cfg a));
       sign = (\<lambda>ps. sign_prehashed pair (construct_ecdsa_signing_proposals_data cfg h ps));
       bridge_amount = 100000000000000000000; extreme_small_bridge_amount = 100000;
       proposals_usdt = [transfer_to h ALICE 1 2 mock_UsdtResourceId bridge_amount];
       proposals_astr = [transfer_to h ALICE 1 3 mock_AstrResourceId bridge_amount];
       proposals_extreme = [transfer_to h ALICE 1 4 mock_NativeResourceId extreme_small_bridge_amount] in
     [assets_mint mock_UsdtAssetId (holder usdt) ENDOWED_BALANCE,
      assert_that (\<lambda>s. assets_balance mock_UsdtAssetId s (holder usdt) = ENDOWED_BALANCE),
      assert_that (\<lambda>s. assets_balance mock_UsdtAssetId s ALICE = 0),
      assert_ok (execute_proposal cfg h alice proposals_usdt (sign proposals_usdt)),
      assert_that (\<lambda>s. assets_balance mock_UsdtAssetId s ALICE = 100000000000000000000),
      assets_mint mock_AstrAssetId (holder astr) ENDOWED_BALANCE,
      assert_that (\<lambda>s. assets_balance mock_AstrAssetId s (holder astr) = ENDOWED_BALANCE),
      assert_that (\<lambda>s. assets_balance mock_AstrAssetId s ALICE = 0),
      assert_ok (execute_proposal cfg h alice proposals_astr (sign proposals_astr)),
      assert_that (\<lambda>s. assets_balance mock_AstrAssetId s ALICE = 100000000000000000000000000),
      assert_ok (execute_proposal cfg h alice proposals_extreme (sign proposals_extreme)),
      assert_events bridge_events
        [FailedHandlerExecution
           [68, 101, 99, 105, 109, 97, 108, 67, 111, 110, 118, 101, 114, 115, 105, 111, 110, 70, 97, 105, 108] 1 4]])"

definition proposal_execution_with_decimal_converter :: "host \<Rightarrow> keypair \<Rightarrow> balances bridge_storage test list" where
  "proposal_execution_with_decimal_converter h pair = (let cfg = mock_cfg; d = DEST_DOMAIN_ID; alice = Signed ALICE;
       test_mpc_addr = to_eth_address h pair; fee = 1000000000000;
       holder = (\<lambda>a. the (get_token_reserved_account cfg a));
       sign = (\<lambda>ps. sign_prehashed pair (construct_ecdsa_signing_proposals_data cfg h ps));
       bridge_amount = 100000000000000000000;
       proposals = [transfer_to h ALICE 1 1 mock_NativeResourceId bridge_amount] in
     [assert_ok (set_mpc_address cfg Root test_mpc_addr),
      assert_ok (register_domain cfg Root d 1),
      assert_ok (set_fee cfg Root d native fee),
      assert_ok (set_fee_handler cfg Root d native BasicFeeHandler),
      assert_ok (deposit cfg alice (fungible_asset native (word_of_nat (ENDOWED_BALANCE div 2))) to_ethereum),
      assert_that (\<lambda>s. free_balance s (holder native) = ENDOWED_BALANCE div 2 - unat fee),
      assert_that (\<lambda>s. free_balance s TreasuryAccount = unat fee),
      assert_that (\<lambda>s. free_balance s ALICE = ENDOWED_BALANCE div 2),
      assert_ok (execute_proposal cfg h alice proposals (sign proposals)),
      assert_that (\<lambda>s. free_balance s ALICE = ENDOWED_BALANCE div 2 + 100000000000000)]
     @ proposal_execution_with_decimal_converter_others h pair)"

definition setup_order_test_with_mpc :: "host \<Rightarrow> keypair \<Rightarrow> balances bridge_storage test list" where
  "setup_order_test_with_mpc h pair = (let cfg = mock_cfg; d = DEST_DOMAIN_ID; alice = Signed ALICE;
       test_mpc_addr = to_eth_address h pair; fee = 1000000000000; amount = 200000000000000;
       proposals = [transfer_to h BOB d 1 mock_NativeResourceId amount];
       final_message = construct_ecdsa_signing_proposals_data cfg h proposals;
       proposals_with_valid_signature = sign_prehashed pair final_message in
     [assert_ok (set_mpc_address cfg Root test_mpc_addr),
      assert_that (\<lambda>s. mpc_addr s = test_mpc_addr),
      assert_that (\<lambda>s. \<not> is_paused s 1),
      assert_ok (retry cfg alice 1234567 d),
      assert_events bridge_events [Retry 1234567 d ALICE],
      assert_ok (set_fee cfg Root d native fee),
      assert_ok (set_fee_handler cfg Root d native BasicFeeHandler),
      assert_ok (deposit cfg alice (fungible_asset native amount) to_ethereum),
      assert_that (\<lambda>s. free_balance s ALICE = ENDOWED_BALANCE - unat amount),
      assert_that (\<lambda>s. map_option (free_balance s) (get_token_reserved_account cfg native) = Some (unat (amount - fee))),
      assert_that (\<lambda>s. free_balance s TreasuryAccount = unat fee),
      assert_ok (execute_proposal cfg h alice proposals proposals_with_valid_signature),
      assert_that (\<lambda>s. free_balance s BOB = ENDOWED_BALANCE + 200000000)])"

definition setup_order_test :: "host \<Rightarrow> keypair \<Rightarrow> balances bridge_storage test list" where
  "setup_order_test h pair = (let cfg = mock_cfg; d = DEST_DOMAIN_ID; alice = Signed ALICE; i = mock_BridgePalletIndex in
     [assert_that (\<lambda>s. mpc_addr s = default_mpc_address),
      assert_ok (grant_access cfg Root i (ascii ''register_domain'') ALICE),
      assert_ok (grant_access cfg Root i (ascii ''unregister_domain'') ALICE),
      assert_ok (grant_access cfg Root i (ascii ''pause_bridge'') ALICE),
      assert_ok (grant_access cfg Root i (ascii ''unpause_bridge'') ALICE),
      assert_ok (grant_access cfg Root i (ascii ''retry'') ALICE),
      assert_ok (register_domain cfg alice d 1),
      assert_ok (unregister_domain cfg alice d 1),
      assert_ok (register_domain cfg alice d 1),
      assert_ok (pause_bridge cfg alice 1),
      assert_ok (unpause_bridge cfg alice 1),
      assert_ok (pause_bridge cfg alice 1),
      assert_that (\<lambda>s. is_paused s 1),
      assert_noop (retry cfg alice 1234567 d) (bridge_error MissingMpcAddress),
      assert_noop (deposit cfg alice (fungible_asset astr 100) to_ethereum) (bridge_error MissingMpcAddress),
      assert_noop (execute_proposal cfg h alice [] []) (bridge_error MissingMpcAddress)]
     @ setup_order_test_with_mpc h pair)"

section \<open>Evaluation\<close>

lemma converted_native: "converted native 200000000000000 = 200000000"
  "decimal_convert_from fixed_words mock_AssetDecimalPairs (fungible_asset native 200000000000000) = Some (fungible_asset native 200000000)"
  by (simp_all add: converted_def convert_defs)

lemma converted_usdt: "converted usdt n = n"
  "decimal_convert_from fixed_words mock_AssetDecimalPairs (fungible_asset usdt n) = Some (fungible_asset usdt n)"
  by (simp_all add: converted_def convert_defs)

lemma execute_without_mpc:
  "is_clear (mpc_addr s) \<Longrightarrow> execute_proposal cfg h origin ps sig s = (Inl (bridge_error MissingMpcAddress), s)"
  by (simp add: execute_proposal_def transactional_def)

text \<open>The error texts as the tests write them.\<close>

lemma error_bytes:
  "ascii (bridge_error_name BridgePaused) = [66, 114, 105, 100, 103, 101, 80, 97, 117, 115, 101, 100]"
  "ascii (bridge_error_name DecimalConversionFail) =
     [68, 101, 99, 105, 109, 97, 108, 67, 111, 110, 118, 101, 114, 115, 105, 111, 110, 70, 97, 105, 108]"
  by (simp_all add: bridge_error_name_def)

lemma account_lengths: "length ALICE = 32" "length BOB = 32"
  by (simp_all add: ALICE_def BOB_def)

lemma converted_others:
  "converted native 100000000000000000000 = 100000000000000"
  "decimal_convert_from fixed_words mock_AssetDecimalPairs (fungible_asset native 100000000000000000000) = Some (fungible_asset native 100000000000000)"
  "converted astr 100000000000000000000 = 100000000000000000000000000"
  "decimal_convert_from fixed_words mock_AssetDecimalPairs (fungible_asset astr 100000000000000000000) = Some (fungible_asset astr 100000000000000000000000000)"
  "decimal_convert_from fixed_words mock_AssetDecimalPairs (fungible_asset native 100000) = None"
  by (simp_all add: converted_def convert_defs)

lemmas proposal_evaluation = converted_others mock_unconverted [OF rid_resolved(1)] account_lengths execute_without_mpc error_bytes verify_signed [unfolded mpc_addr_def] failed_def paid_def mock_pay_simps mock_fails execute_signed converted_native converted_usdt
  set_proposal_executed_def is_proposal_executed_def rid_resolved

lemma proposal_execution_passes:
  assumes "keys_work h pair" "keys_work h evil_pair" "accounts_coded h" "\<not> is_clear (to_eth_address h pair)"
    "to_eth_address h evil_pair \<noteq> to_eth_address h pair"
    "decode_location h (ascii ''invalid recipient'') = None"
  shows "passes (proposal_execution_should_work h pair evil_pair) bridge_new_test_ext"
proof -
  have "extract_deposit_data h (create_deposit_data m (ascii ''invalid recipient'')) = Inl (bridge_error InvalidDepositData)" for m
    using extract_create_deposit_data [of "ascii ''invalid recipient''" h m] assms by simp
  moreover have "extract_deposit_data h [] = Inl (bridge_error InvalidDepositData)"
    by (simp add: extract_deposit_data_def)
  ultimately show ?thesis
    using assms by (simp add: proposal_execution_should_work_def proposal_execution_should_work_batch_def
        deposit_evaluation proposal_evaluation del: ascii_simps)
qed

lemma proposal_decimals_passes:
  assumes "keys_work h pair" "accounts_coded h" "\<not> is_clear (to_eth_address h pair)"
  shows "passes (proposal_execution_with_decimal_converter h pair) bridge_new_test_ext"
  using assms by (simp add: proposal_execution_with_decimal_converter_def proposal_execution_with_decimal_converter_others_def
        deposit_evaluation proposal_evaluation del: ascii_simps)

lemma setup_order_passes:
  assumes "keys_work h pair" "accounts_coded h" "\<not> is_clear (to_eth_address h pair)"
  shows "passes (setup_order_test h pair) bridge_new_test_ext"
  using assms by (simp add: setup_order_test_def setup_order_test_with_mpc_def
        deposit_evaluation proposal_evaluation ascii_inj del: ascii_simps)

section \<open>A host and key pairs\<close>

text \<open>What the lemmas assume of the host and the key pairs can hold: a signature names its key and the digest.\<close>

definition signing_pair :: "u8 \<Rightarrow> keypair" where
  "signing_pair k = \<lparr>public_key = replicate 64 k, sign_prehashed = \<lambda>m. k # take 64 (m @ replicate 64 0)\<rparr>"

definition signing_host :: host where
  "signing_host = test_host\<lparr>keccak_256 := \<lambda>x. replicate 31 1 @ [sum_list x],
     secp256k1_ecdsa_recover := \<lambda>sig m. if length sig = 65 \<and> tl sig = take 64 (m @ replicate 64 0)
       then Some (replicate 64 (hd sig)) else None\<rparr>"

lemma signing_address: "public_key_to_address signing_host pk = replicate 19 1 @ [sum_list pk]"
  by (simp add: public_key_to_address_def signing_host_def)

lemma signing_host_works:
  "keys_work signing_host (signing_pair k)" "accounts_coded signing_host"
  "to_eth_address signing_host (signing_pair 1) \<noteq> to_eth_address signing_host (signing_pair 2)"
  "\<not> is_clear (to_eth_address signing_host (signing_pair k))"
  "public_key_to_address signing_host pk \<noteq> default_mpc_address"
  "to_eth_address signing_host (signing_pair k) \<noteq> replicate 20 7"
  "decode_location signing_host (ascii ''invalid recipient'') = None"
proof -
  have hd1: "hd (public_key_to_address signing_host pk) = 1" for pk
    by (simp add: signing_address)
  show "keys_work signing_host (signing_pair k)" "accounts_coded signing_host"
    by (auto simp: keys_work_def accounts_coded_def signing_host_def signing_pair_def test_host_def)
  show "to_eth_address signing_host (signing_pair 1) \<noteq> to_eth_address signing_host (signing_pair 2)"
    by (simp add: to_eth_address_def signing_address signing_pair_def sum_list_replicate)
  show "\<not> is_clear (to_eth_address signing_host (signing_pair k))"
    "public_key_to_address signing_host pk \<noteq> default_mpc_address"
    "to_eth_address signing_host (signing_pair k) \<noteq> replicate 20 7"
    using hd1 by (auto simp: is_clear_def to_eth_address_def default_mpc_address_def dest!: arg_cong [where f = hd])
  show "decode_location signing_host (ascii ''invalid recipient'') = None"
    by (simp add: signing_host_def test_host_def)
qed

lemma signing_host_distinguishes:
  "\<not> pair_verify signing_host (pair_sign signing_host (signing_pair k) (ascii ''Something important''))
     (ascii ''Something else'') (public_key (signing_pair k))"
  by (simp add: pair_verify_def pair_sign_def signing_host_def signing_pair_def test_host_def)

lemma proposal_tests_pass:
  "passes (verify_mpc_signature_invalid_message signing_host (signing_pair k)) bridge_new_test_ext"
  "passes (verify_mpc_signature_valid_message_unmatched_mpc signing_host (signing_pair k)) bridge_new_test_ext"
  "passes (verify_mpc_signature_valid_message_valid_signature signing_host (signing_pair k)) bridge_new_test_ext"
  "passes (proposal_execution_should_work signing_host (signing_pair 1) (signing_pair 2)) bridge_new_test_ext"
  "passes (proposal_execution_with_decimal_converter signing_host (signing_pair k)) bridge_new_test_ext"
  "passes (setup_order_test signing_host (signing_pair k)) bridge_new_test_ext"
  by (intro invalid_message_passes unmatched_mpc_passes valid_signature_passes proposal_execution_passes
      proposal_decimals_passes setup_order_passes signing_host_works signing_host_distinguishes
      signing_host_works(3) [symmetric])+

end
