(* ===== verification/Pallet_Benchmarks.thy ===== *)
theory Pallet_Benchmarks
  imports Proposal_Tests
begin

text \<open>
  The benchmarks of the pallets (\<^verbatim>\<open>benchmarking.rs\<close> of each pallet), as lists of steps: the set-up, the measured
  call, which has to succeed, and the assertions after it. The administrative ones pass in every runtime
  whose committee is the root origin. The two that move balances name the account \<open>bench_bridge_account\<close>,
  which is not the account the runtimes put the assets in.
\<close>

section \<open>Access and fee pallets\<close>

definition bench_grant_access :: "'c access_config_scheme \<Rightarrow> AccountId \<Rightarrow> ('l, 'z) access_storage_scheme test list" where
  "bench_grant_access cfg caller =
     [assert_ok (grant_access cfg Root 100 (ascii ''grant_access'') caller),
      assert_that (\<lambda>s. ExtrinsicAccess s (100, ascii ''grant_access'') = Some caller)]"

definition bench_set_fee :: "'c basic_config_scheme \<Rightarrow> ('l, 'z) basic_storage_scheme test list" where
  "bench_set_fee cfg = (let dest_domain_id = 1; native_location = Concrete here; fee = 1000000000000 in
     [assert_ok (set_fee cfg Root dest_domain_id native_location fee),
      assert_that (\<lambda>s. AssetFees s (dest_domain_id, native_location) = Some fee)])"

definition bench_set_fee_rate :: "'c percentage_config_scheme \<Rightarrow> ('l, 'z) percentage_storage_scheme test list" where
  "bench_set_fee_rate cfg = (let dest_domain_id = 1; native_location = Concrete here; fee_rate = 500 in
     [assert_ok (set_fee_rate cfg Root dest_domain_id native_location fee_rate 0 100000000000000),
      assert_that (\<lambda>s. AssetFeeRate s (dest_domain_id, native_location) = Some (fee_rate, 0, 100000000000000))])"

definition bench_set_fee_handler :: "'c router_config_scheme \<Rightarrow> ('l, 'z) router_storage_scheme test list" where
  "bench_set_fee_handler cfg = (let dest_domain_id = 1; native_location = Concrete here in
     [assert_ok (set_fee_handler cfg Root dest_domain_id native_location BasicFeeHandler),
      assert_that (\<lambda>s. HandlerType s (dest_domain_id, native_location) = Some BasicFeeHandler)])"

section \<open>Bridge pallet\<close>

definition bench_slice_to_generalkey :: "bytes \<Rightarrow> Junction rust" where
  "bench_slice_to_generalkey key =
     (let len = length key in
      if len \<le> 32 then Returns (GeneralKey (word_of_nat len) (key @ drop len (replicate 32 0))) else Panics)"

definition bench_pause_bridge :: "('st, 'c) bridge_config_scheme \<Rightarrow> ('l, 'z) bridge_storage_scheme test list" where
  "bench_pause_bridge cfg = (let dest_domain_id = 0; dest_chain_id = 1 in
     [assert_ok (register_domain cfg Root dest_domain_id dest_chain_id),
      assert_ok (pause_bridge cfg Root dest_domain_id),
      assert_that (\<lambda>s. is_paused s dest_domain_id)])"

definition bench_unpause_bridge :: "('st, 'c) bridge_config_scheme \<Rightarrow> ('l, 'z) bridge_storage_scheme test list" where
  "bench_unpause_bridge cfg = (let dest_domain_id = 0; dest_chain_id = 1 in
     [assert_ok (register_domain cfg Root dest_domain_id dest_chain_id),
      assert_ok (pause_bridge cfg Root dest_domain_id),
      assert_ok (unpause_bridge cfg Root dest_domain_id),
      assert_that (\<lambda>s. \<not> is_paused s dest_domain_id)])"

definition bench_set_mpc_address :: "('st, 'c) bridge_config_scheme \<Rightarrow> ('l, 'z) bridge_storage_scheme test list" where
  "bench_set_mpc_address cfg = (let test_mpc_addr = replicate 20 1 in
     [assert_ok (set_mpc_address cfg Root test_mpc_addr),
      assert_that (\<lambda>s. mpc_addr s = test_mpc_addr)])"

definition bench_register_domain :: "('st, 'c) bridge_config_scheme \<Rightarrow> ('l, 'z) bridge_storage_scheme test list" where
  "bench_register_domain cfg = (let dest_domain_id = 0; dest_chain_id = 1 in
     [assert_ok (register_domain cfg Root dest_domain_id dest_chain_id),
      assert_that (\<lambda>s. dest_domain_ids s dest_domain_id)])"

definition bench_unregister_domain :: "('st, 'c) bridge_config_scheme \<Rightarrow> ('l, 'z) bridge_storage_scheme test list" where
  "bench_unregister_domain cfg = (let dest_domain_id = 0; dest_chain_id = 1 in
     [assert_ok (register_domain cfg Root dest_domain_id dest_chain_id),
      assert_ok (unregister_domain cfg Root dest_domain_id dest_chain_id),
      assert_that (\<lambda>s. \<not> dest_domain_ids s dest_domain_id)])"

definition bench_retry :: "('st, 'c) bridge_config_scheme \<Rightarrow> ('l, 'z) bridge_storage_scheme test list" where
  "bench_retry cfg = (let dest_domain_id = 1; dest_chain_id = 1; test_mpc_addr = replicate 20 1 in
     [assert_ok (register_domain cfg Root dest_domain_id dest_chain_id),
      assert_ok (set_mpc_address cfg Root test_mpc_addr),
      assert_ok (retry cfg Root 123 dest_domain_id)])"

definition bench_pause_all_bridges :: "('st, 'c) bridge_config_scheme \<Rightarrow> ('l, 'z) bridge_storage_scheme test list" where
  "bench_pause_all_bridges cfg = (let domains = [1, 2] in
     map (\<lambda>i. assert_ok (register_domain cfg Root i (ucast i))) domains @
     [assert_ok (pause_all_bridges cfg Root)] @
     map (\<lambda>i. assert_that (\<lambda>s. is_paused s i)) domains)"

definition bench_unpause_all_bridges :: "('st, 'c) bridge_config_scheme \<Rightarrow> ('l, 'z) bridge_storage_scheme test list" where
  "bench_unpause_all_bridges cfg = (let domains = [1, 2]; test_mpc_addr = replicate 20 1 in
     map (\<lambda>i. assert_ok (register_domain cfg Root i (ucast i))) domains @
     [assert_ok (set_mpc_address cfg Root test_mpc_addr)] @
     map (\<lambda>i. assert_ok (pause_bridge cfg Root i)) domains @
     [assert_ok (unpause_all_bridges cfg Root)] @
     map (\<lambda>i. assert_that (\<lambda>s. \<not> is_paused s i)) domains)"

text \<open>\<^verbatim>\<open>make_free_balance_be\<close> on the reference platform.\<close>

definition make_free_balance_be :: "AccountId \<Rightarrow> u128 \<Rightarrow> balances bridge_storage test" where
  "make_free_balance_be who n = act (\<lambda>s. s\<lparr>ledger := (ledger s)((None, who) := unat n)\<rparr>)"

definition bench_bridge_account :: AccountId where
  "bench_bridge_account = replicate 32 101"

definition bench_deposit ::
    "balances bridge_storage bridge_config \<Rightarrow> AccountId \<Rightarrow> AccountId \<Rightarrow> balances bridge_storage test list" where
  "bench_deposit cfg bridge_account caller = (let treasury_account = replicate 32 100; native_location = Concrete here;
       dest_domain_id = 1; dest_chain_id = 1; test_mpc_addr = replicate 20 1; fee = 1000000000000; amount = 200000000000000 in
     [make_free_balance_be caller (amount * 2),
      assert_ok (set_fee cfg Root dest_domain_id native_location fee),
      assert_ok (set_fee_handler cfg Root dest_domain_id native_location BasicFeeHandler),
      assert_ok (register_domain cfg Root dest_domain_id dest_chain_id),
      assert_ok (set_mpc_address cfg Root test_mpc_addr),
      assert_ok (deposit cfg (Signed caller) (fungible_asset native_location amount)
        (new_location 0 [padded_key (ascii ''ethereum recipient''), padded_key [dest_domain_id]])),
      assert_that (\<lambda>s. free_balance s caller = unat amount),
      assert_that (\<lambda>s. free_balance s bridge_account = unat (amount - fee)),
      assert_that (\<lambda>s. free_balance s treasury_account = unat fee)])"

definition bench_native_resourceid :: ResourceId where
  "bench_native_resourceid = be_bytes 32 0x1"

definition bench_execute_proposal ::
    "balances bridge_storage bridge_config \<Rightarrow> host \<Rightarrow> keypair \<Rightarrow> AccountId \<Rightarrow> AccountId \<Rightarrow> nat
     \<Rightarrow> balances bridge_storage test list" where
  "bench_execute_proposal cfg h pub_key bridge_account caller n = (let amount = 200000000000000; dest_domain_id = 1;
       native_resourceid = bench_native_resourceid; test_mpc_addr = to_eth_address h pub_key;
       native_transfer_proposal = transfer_to h caller dest_domain_id 1 native_resourceid amount;
       proposals = replicate n native_transfer_proposal;
       final_message = construct_ecdsa_signing_proposals_data cfg h proposals;
       proposals_with_valid_signature = sign_prehashed pub_key final_message in
     [assert_ok (set_mpc_address cfg Root test_mpc_addr),
      make_free_balance_be bridge_account amount,
      assert_that (\<lambda>s. free_balance s bridge_account = unat amount),
      assert_ok (register_domain cfg Root dest_domain_id 1),
      assert_ok (execute_proposal cfg h Root proposals proposals_with_valid_signature),
      assert_that (\<lambda>s. free_balance s caller = 200000000),
      assert_that (\<lambda>s. free_balance s bridge_account = unat (amount - 200000000))])"

section \<open>The administrative benchmarks pass\<close>

lemma committee_root:
  "BridgeCommitteeOrigin cfg = ensure_root \<Longrightarrow> has_access cfg i n Root s"
  "BridgeCommitteeOrigin cfg' = ensure_root \<Longrightarrow> bridge_access cfg' x Root s'"
  by (simp_all add: has_access_def bridge_access_def ensure_root_def)

lemma setting_benchmarks_pass:
  "BridgeCommitteeOrigin cfg = ensure_root \<Longrightarrow> passes (bench_grant_access cfg caller) s"
  "BridgeCommitteeOrigin cfg1 = ensure_root \<Longrightarrow> passes (bench_set_fee cfg1) s1"
  "BridgeCommitteeOrigin cfg2 = ensure_root \<Longrightarrow> passes (bench_set_fee_rate cfg2) s2"
  "BridgeCommitteeOrigin cfg3 = ensure_root \<Longrightarrow> passes (bench_set_fee_handler cfg3) s3"
  by (simp_all add: bench_grant_access_def bench_set_fee_def bench_set_fee_rate_def bench_set_fee_handler_def test_steps
      Let_def grant_access_def set_fee_def set_fee_rate_def set_fee_handler_def committee_root del: ascii_simps)

text \<open>The benchmarks of the bridge pallet start from fresh storage.\<close>

lemmas bench_defs = bench_pause_bridge_def bench_unpause_bridge_def bench_set_mpc_address_def bench_register_domain_def
  bench_unregister_domain_def bench_retry_def bench_pause_all_bridges_def bench_unpause_all_bridges_def

lemma admin_benchmarks_pass:
  fixes s :: "('l, 'z) bridge_storage_scheme" and cfg :: "('st, 'c) bridge_config_scheme"
  assumes "BridgeCommitteeOrigin cfg = ensure_root" and "fresh_storage s"
  shows "passes (bench_pause_bridge cfg) s" "passes (bench_unpause_bridge cfg) s" "passes (bench_set_mpc_address cfg) s"
    "passes (bench_register_domain cfg) s" "passes (bench_unregister_domain cfg) s" "passes (bench_retry cfg) s"
    "passes (bench_pause_all_bridges cfg) s" "passes (bench_unpause_all_bridges cfg) s"
  using assms test_mpc_addr_set
  by (simp_all add: bench_defs test_steps Let_def admin_defs committee_root [OF assms(1)] fresh_storage_def getter_defs
      value_query_def deposit_event_def transactional_def unpause_all_domains_eq pause_all_domains_eq test_mpc_addr_def)

section \<open>The benchmarks that move balances\<close>

text \<open>The standalone runtime on the reference platform.\<close>

definition standalone_cfg :: "balances bridge_storage bridge_config" where
  "standalone_cfg = standalone_config reference_platform fixed_words"

lemma standalone_cfg_fields [simp]:
  "BridgeCommitteeOrigin standalone_cfg = ensure_root" "FeeReserveAccount standalone_cfg = TreasuryAccount"
  "FeeHandler standalone_cfg = router_get_fee" "IsReserve standalone_cfg = ReserveChecker_contains"
  "ExtractDestData standalone_cfg = DestinationDataParser_extract_dest"
  "convert_to standalone_cfg = decimal_convert_to fixed_words standalone_AssetDecimalPairs"
  "convert_from standalone_cfg = decimal_convert_from fixed_words standalone_AssetDecimalPairs"
  by (simp_all add: standalone_cfg_def standalone_config_defs)

lemma standalone_moves:
  "withdraw_asset standalone_cfg (fungible_asset native n) (account_location x) s =
     (if unat n \<le> ledger s (None, x)
      then (Inr [fungible_asset native n], s\<lparr>ledger := (ledger s)((None, x) := ledger s (None, x) - unat n)\<rparr>)
      else (Inl (OtherXcmError 2), s))"
  "deposit_asset standalone_cfg (fungible_asset native n) (account_location x) s =
     (if ledger s (None, x) + unat n < 2 ^ 128
      then (Inr (), s\<lparr>ledger := (ledger s)((None, x) := ledger s (None, x) + unat n)\<rparr>)
      else (Inl (OtherXcmError 2), s))"
  by (simp_all add: standalone_cfg_def standalone_config_defs lift_transactor_def on_ledger_def standalone_AssetTransactors_def
      standalone_CurrencyTransactor_def reference_platform_def reference_pair_def reference_adapter_def native_def)

lemma standalone_native_bound:
  "extract_asset standalone_cfg (fungible_asset native n) = Some (bench_native_resourceid, n, FungibleTransfer)"
  "rid_to_assetid standalone_cfg bench_native_resourceid = Some native"
  "get_token_reserved_account standalone_cfg native = Some reserve_account"
  by (simp_all add: extract_asset_def rid_to_assetid_def get_token_reserved_account_def standalone_cfg_def
      standalone_config_defs standalone_ResourcePairs_def standalone_NativeResourceId_def bench_native_resourceid_def
      native_def standalone_bridge_accounts_def standalone_BridgeAccountNative_def reserve_account_def NativeLocation_def here_def
      standalone_UsdcLocation_def standalone_ERC20TSTLocation_def standalone_ERC20TSTD20Location_def
      sibling_key_location_def del: be_bytes.simps)

lemma standalone_native_decimals:
  "decimal_convert_to fixed_words standalone_AssetDecimalPairs (fungible_asset native 199000000000000) = Some 199000000000000000000"
  "decimal_convert_from fixed_words standalone_AssetDecimalPairs (fungible_asset native 200000000000000) =
     Some (fungible_asset native 200000000)"
  by (simp_all add: standalone_AssetDecimalPairs_def native_def convert_defs)

lemma standalone_deposit:
  assumes "x \<noteq> TreasuryAccount" "x \<noteq> reserve_account" and "bridge_open s"
    and "router_get_fee s 1 (fungible_asset native 200000000000000) = Some 1000000000000"
    and "200000000000000 \<le> ledger s (None, x)" and "ledger s (None, TreasuryAccount) = 0" and "ledger s (None, reserve_account) = 0"
    and "deposit_counts s 1 = 0"
  shows "\<exists>t. deposit standalone_cfg (Signed x) (fungible_asset native 200000000000000) to_ethereum s = (Inr (), t) \<and>
    ledger t = moved (ledger s) None x reserve_account 200000000000000 1000000000000"
proof -
  have "deposit_facts standalone_cfg x (fungible_asset native 200000000000000) to_ethereum 1 (ascii ''ethereum recipient'')
      bench_native_resourceid 200000000000000 1000000000000 reserve_account 199000000000000000000
      s (s\<lparr>ledger := moved (ledger s) None x reserve_account 200000000000000 1000000000000\<rparr>)"
    using assms
    by (simp add: deposit_facts_def bridge_open_def to_ethereum_parsed standalone_native_bound standalone_moves
        standalone_native_decimals native_bound(3) moved_def del: be_bytes.simps)
  from deposit_okI [OF this] show ?thesis
    using assms(8) by (simp add: getter_defs del: be_bytes.simps)
qed

text \<open>The deposit itself succeeds; the assertion on the bridge account holds for the account of the runtime only.\<close>

lemma bench_deposit_iff:
  assumes "caller \<noteq> TreasuryAccount" "caller \<noteq> reserve_account" "bridge_account \<noteq> caller" "bridge_account \<noteq> TreasuryAccount"
  shows "passes (bench_deposit standalone_cfg bridge_account caller) mock_genesis \<longleftrightarrow> bridge_account = reserve_account"
proof -
  let ?s = "mock_genesis\<lparr>ledger := (\<lambda>_. 0)((None, caller) := 400000000000000),
    AssetFees := [(1, native) \<mapsto> 1000000000000], basic_events := [FeeSet 1 native 1000000000000],
    HandlerType := [(1, native) \<mapsto> BasicFeeHandler], router_events := [FeeHandlerSet 1 native BasicFeeHandler],
    IsPaused := \<lambda>d. if d = 1 then Some False else None, MpcAddr := Some test_mpc_addr,
    DestDomainIds := [1 \<mapsto> True], DestChainIds := [1 \<mapsto> 1], bridge_events := [RegisterDestDomain (replicate 32 0) 1 1]\<rparr>"
  have native: "Concrete here = native" and treasury: "replicate 32 100 = TreasuryAccount"
    and dest: "new_location 0 [padded_key (ascii ''ethereum recipient''), padded_key [1]] = to_ethereum"
    by (simp_all add: native_def NativeLocation_def TreasuryAccount_def to_ethereum_def del: ascii_simps)
  obtain t where t: "deposit standalone_cfg (Signed caller) (fungible_asset native 200000000000000) to_ethereum ?s = (Inr (), t)"
    and l: "ledger t = moved (ledger ?s) None caller reserve_account 200000000000000 1000000000000"
    using standalone_deposit [of caller ?s] assms test_mpc_addr_set
    by (auto simp: bridge_open_def getter_defs mock_genesis_def value_query_def router_get_fee_def basic_get_fee_def)
  have "passes (bench_deposit standalone_cfg bridge_account caller) mock_genesis \<longleftrightarrow>
      execute_with [assert_ok (deposit standalone_cfg (Signed caller) (fungible_asset native 200000000000000) to_ethereum),
        assert_that (\<lambda>s. free_balance s caller = 200000000000000),
        assert_that (\<lambda>s. free_balance s bridge_account = 199000000000000),
        assert_that (\<lambda>s. free_balance s TreasuryAccount = 1000000000000)] ?s \<noteq> None"
    using test_mpc_addr_set
    by (simp add: passes_def bench_deposit_def Let_def native treasury dest assert_ok_def [of "set_fee _ _ _ _ _"]
        assert_ok_def [of "set_fee_handler _ _ _ _ _"] assert_ok_def [of "register_domain _ _ _ _"]
        assert_ok_def [of "set_mpc_address _ _ _"] make_free_balance_be_def act_def set_fee_def set_fee_handler_def
        register_domain_def set_mpc_address_def committee_root mock_genesis_def deposit_event_def mpc_addr_def
        unpause_all_domains_eq event_sender_def ensure_signed_def test_mpc_addr_def [symmetric] del: ascii_simps)
  also have "\<dots> \<longleftrightarrow> bridge_account = reserve_account"
    using assms by (auto simp: assert_ok_def t assert_that_def free_balance_def l moved_def)
  finally show ?thesis .
qed

text \<open>Proposals that are refused leave the balances alone, however often they are repeated.\<close>

lemma fold_refused:
  assumes "\<And>s. Q s \<Longrightarrow> \<exists>e. execute_one cfg h p s = deposit_event e s" and "\<And>e s. Q s \<Longrightarrow> Q (deposit_event e s)" and "Q s"
  shows "ledger (fold (execute_one cfg h) (replicate k p) s) = ledger s"
  using assms(3)
proof (induction k arbitrary: s)
  case (Suc k)
  obtain e where e: "execute_one cfg h p s = deposit_event e s" using assms(1) [OF Suc.prems] by blast
  have "ledger (fold (execute_one cfg h) (replicate k p) (deposit_event e s)) = ledger (deposit_event e s)"
    by (rule Suc.IH [OF assms(2) [OF Suc.prems]])
  then show ?case by (simp add: e deposit_event_def)
qed simp

definition bench_proposal :: "host \<Rightarrow> AccountId \<Rightarrow> Proposal" where
  "bench_proposal h caller = transfer_to h caller 1 1 bench_native_resourceid 200000000000000"

text \<open>Domain 1 is open.\<close>

definition bench_ready :: "balances bridge_storage \<Rightarrow> bool" where
  "bench_ready s \<longleftrightarrow> \<not> is_paused s 1 \<and> dest_domain_ids s 1"

lemma bench_events [simp]:
  "bench_ready (deposit_event e s) = bench_ready s" "ledger (deposit_event e s) = ledger s"
  "is_proposal_executed n d (deposit_event e s) = is_proposal_executed n d s"
  by (simp_all add: bench_ready_def getter_defs is_proposal_executed_def deposit_event_def)

lemma bench_proposal_again:
  "bench_ready s \<Longrightarrow> is_proposal_executed 1 1 s \<Longrightarrow> \<exists>e. execute_one cfg h (bench_proposal h caller) s = deposit_event e s"
  by (simp add: execute_one_def execute_proposal_internal_def reads_def ensure_def bench_ready_def bench_proposal_def)
    (rule exI, rule refl)

lemma bench_internal:
  assumes "accounts_coded h" "length caller = 32" "bench_ready s" "\<not> is_proposal_executed 1 1 s" "caller \<noteq> reserve_account"
    and "ledger s (None, caller) + 200000000 < 2 ^ 128"
  shows "execute_proposal_internal standalone_cfg h (bench_proposal h caller) s =
    (if 200000000 \<le> ledger s (None, reserve_account)
     then (Inr (), s\<lparr>ledger := (ledger s)((None, reserve_account) := ledger s (None, reserve_account) - 200000000,
                                         (None, caller) := ledger s (None, caller) + 200000000)\<rparr>)
     else (Inl (bridge_error TransactFailed), s))"
  using assms extract_create_deposit_data [of "encode_location h (account_location caller)" h 200000000000000]
  by (simp add: execute_proposal_internal_def reads_def ensure_def ok_or_def try_result_def invoke_or_def done_with_def
      bench_ready_def bench_proposal_def standalone_native_bound standalone_native_decimals standalone_moves
      native_bound(3) accounts_coded_def del: be_bytes.simps)

lemma bench_proposal_unfunded:
  assumes "accounts_coded h" "length caller = 32" "caller \<noteq> reserve_account"
    and "bench_ready s" "\<not> is_proposal_executed 1 1 s" "ledger s (None, caller) = 0" "ledger s (None, reserve_account) = 0"
  shows "\<exists>e. execute_one standalone_cfg h (bench_proposal h caller) s = deposit_event e s"
  using bench_internal [OF assms(1,2,4,5,3)] assms(6,7) by (auto simp: execute_one_def)

lemma bench_proposal_funded:
  assumes "accounts_coded h" "length caller = 32" "caller \<noteq> reserve_account"
    and "bench_ready s" "\<not> is_proposal_executed 1 1 s" "ledger s (None, caller) = 0"
    and "200000000 \<le> ledger s (None, reserve_account)"
  shows "\<exists>t. execute_one standalone_cfg h (bench_proposal h caller) s = t \<and> bench_ready t \<and> is_proposal_executed 1 1 t \<and>
    ledger t = (ledger s)((None, reserve_account) := ledger s (None, reserve_account) - 200000000, (None, caller) := 200000000)"
  using bench_internal [OF assms(1,2,4,5,3)] assms(4,6,7)
  by (auto simp: execute_one_def bench_proposal_def deposit_event_def bench_ready_def getter_defs is_proposal_executed_def
      set_proposal_executed_def Let_def simp del: be_bytes.simps)

text \<open>The balances after the batch: with the account of the benchmark every proposal of it is refused.\<close>

lemma bench_batch_ledger:
  fixes s :: "balances bridge_storage"
  assumes "accounts_coded h" "length caller = 32" "caller \<noteq> reserve_account"
    and "bench_ready s" "\<not> is_proposal_executed 1 1 s" "ledger s (None, caller) = 0"
  shows "200000000 \<le> ledger s (None, reserve_account) \<Longrightarrow>
      ledger (fold (execute_one standalone_cfg h) (replicate (Suc k) (bench_proposal h caller)) s) =
      (ledger s)((None, reserve_account) := ledger s (None, reserve_account) - 200000000, (None, caller) := 200000000)"
    and "ledger s (None, reserve_account) = 0 \<Longrightarrow>
      ledger (fold (execute_one standalone_cfg h) (replicate k (bench_proposal h caller)) s) = ledger s"
proof -
  assume "200000000 \<le> ledger s (None, reserve_account)"
  then obtain t where t: "execute_one standalone_cfg h (bench_proposal h caller) s = t" "bench_ready t" "is_proposal_executed 1 1 t"
    "ledger t = (ledger s)((None, reserve_account) := ledger s (None, reserve_account) - 200000000, (None, caller) := 200000000)"
    using bench_proposal_funded [OF assms] by blast
  have "ledger (fold (execute_one standalone_cfg h) (replicate k (bench_proposal h caller)) t) = ledger t"
    by (rule fold_refused [where Q = "\<lambda>s. bench_ready s \<and> is_proposal_executed 1 1 s"])
      (use t in \<open>auto intro: bench_proposal_again\<close>)
  then show "ledger (fold (execute_one standalone_cfg h) (replicate (Suc k) (bench_proposal h caller)) s) =
      (ledger s)((None, reserve_account) := ledger s (None, reserve_account) - 200000000, (None, caller) := 200000000)"
    using t by simp
next
  assume "ledger s (None, reserve_account) = 0"
  then show "ledger (fold (execute_one standalone_cfg h) (replicate k (bench_proposal h caller)) s) = ledger s"
    using assms by (intro fold_refused [where Q = "\<lambda>s. bench_ready s \<and> \<not> is_proposal_executed 1 1 s \<and>
        ledger s (None, caller) = 0 \<and> ledger s (None, reserve_account) = 0"])
      (auto intro!: bench_proposal_unfunded)
qed

lemma bench_execute_proposal_iff:
  assumes "keys_work h pair" "\<not> is_clear (to_eth_address h pair)" "accounts_coded h" "length caller = 32"
    "caller \<noteq> reserve_account" "caller \<noteq> bridge_account" "0 < n"
  shows "passes (bench_execute_proposal standalone_cfg h pair bridge_account caller n) mock_genesis \<longleftrightarrow>
    bridge_account = reserve_account"
proof -
  let ?s = "mock_genesis\<lparr>ledger := (\<lambda>_. 0)((None, bridge_account) := 200000000000000), MpcAddr := Some (to_eth_address h pair),
    DestDomainIds := [1 \<mapsto> True], DestChainIds := [1 \<mapsto> 1], bridge_events := [RegisterDestDomain (replicate 32 0) 1 1]\<rparr>"
  let ?t = "fold (execute_one standalone_cfg h) (replicate n (bench_proposal h caller)) ?s"
  have s: "bench_ready ?s" "\<not> is_proposal_executed 1 1 ?s" "ledger ?s (None, caller) = 0" "mpc_addr ?s = to_eth_address h pair"
    using assms by (simp_all add: bench_ready_def getter_defs mock_genesis_def value_query_def is_proposal_executed_def)
  let ?sig = "sign_prehashed pair (construct_ecdsa_signing_proposals_data standalone_cfg h (replicate n (bench_proposal h caller)))"
  have run: "execute_proposal standalone_cfg h Root (replicate n (bench_proposal h caller)) ?sig ?s = (Inr (), ?t)"
    using execute_signed [OF assms(1), of "replicate n (bench_proposal h caller)" ?sig standalone_cfg ?s Root] s(4) assms(2,7)
    by (metis less_numeral_extra(3) replicate_empty)
  have "passes (bench_execute_proposal standalone_cfg h pair bridge_account caller n) mock_genesis \<longleftrightarrow>
      ledger ?t (None, caller) = 200000000 \<and> ledger ?t (None, bridge_account) = 199999800000000"
    using run test_mpc_addr_set(2) assms(2)
    by (simp add: passes_def bench_execute_proposal_def Let_def bench_proposal_def [symmetric] assert_that_def
        assert_ok_def make_free_balance_be_def act_def register_domain_def set_mpc_address_def committee_root
        free_balance_def mock_genesis_def deposit_event_def mpc_addr_def unpause_all_domains_eq event_sender_def
        ensure_signed_def)
  also have "\<dots> \<longleftrightarrow> bridge_account = reserve_account"
  proof (cases "bridge_account = reserve_account")
    case True
    then have "ledger ?t = (ledger ?s)((None, reserve_account) := 199999800000000, (None, caller) := 200000000)"
      using bench_batch_ledger(1) [OF assms(3,4,5) s(1,2,3), of "n - 1"] assms(7) by simp
    then show ?thesis using True assms(5) by simp
  next
    case False
    then have "ledger ?t = ledger ?s"
      using bench_batch_ledger(2) [OF assms(3,4,5) s(1,2,3), of n] by simp
    then show ?thesis using False assms(6) by simp
  qed
  finally show ?thesis .
qed

lemma bench_bridge_account_stale: "bench_bridge_account \<noteq> reserve_account"
proof -
  have "hd bench_bridge_account = 101" "hd reserve_account = 109"
    by (simp_all add: bench_bridge_account_def reserve_account_def reference_platform_def)
  then show ?thesis by auto
qed

end
