(* ===== verification/Setup_Scripts.thy ===== *)
theory Setup_Scripts
  imports Node_Genesis Pallet_Benchmarks
begin

text \<open>
  The script that brings a new standalone chain into service (\<^verbatim>\<open>scripts/standalone/setup.js\<close> with its
  \<^verbatim>\<open>util.js\<close>): a list of extrinsics that are submitted one after the other. Each function of \<^verbatim>\<open>util.js\<close> submits its
  extrinsic and waits on the status the node reports; an error there ends the script, while an error of
  the call inside a block is not reported to it. The decoding of addresses, what becomes of a submitted
  extrinsic, the balances and assets pallets and the transaction fees are parameters. The nonce the functions
  read for the signer is part of making an extrinsic valid and is not kept.
\<close>

section \<open>Extrinsics\<close>

datatype extrinsic =
    Sudo RuntimeCall
  | SudoForceSetBalance AccountId u128
  | AssetsCreate u32 AccountId u128
  | AssetsSetMetadata u32 string string u8
  | AssetsMint u32 AccountId u128

datatype tx_status = IsInBlock | IsFinalized | IsError | OtherStatus

record 'l script_platform =
  decode_address :: "string \<Rightarrow> AccountId"
  statuses :: "AccountId \<Rightarrow> extrinsic \<Rightarrow> 'l \<Rightarrow> tx_status list"
  included :: "AccountId \<Rightarrow> extrinsic \<Rightarrow> 'l \<Rightarrow> bool"
  transaction_fee :: "AccountId \<Rightarrow> extrinsic \<Rightarrow> 'l \<Rightarrow> 'l"
  force_set_balance :: "AccountId \<Rightarrow> u128 \<Rightarrow> 'l \<Rightarrow> 'l"
  assets_call :: "AccountId \<Rightarrow> extrinsic \<Rightarrow> 'l \<Rightarrow> 'l"

text \<open>An extrinsic the node reports as finalized is part of the chain.\<close>

definition finalized_included :: "'l script_platform \<Rightarrow> bool" where
  "finalized_included sp \<longleftrightarrow> (\<forall>who x l. IsFinalized \<in> set (statuses sp who x l) \<longrightarrow> included sp who x l)"

text \<open>
  The callback of \<^verbatim>\<open>signAndSend\<close>, which settles the promise of the function: resolved, rejected, or, when no status
  settles it, pending for ever.
\<close>

fun settle :: "bool \<Rightarrow> tx_status list \<Rightarrow> (string + unit) option" where
  "settle finalization [] = None"
| "settle finalization (IsInBlock # rest) = (if finalization then settle finalization rest else Some (Inr ()))"
| "settle finalization (IsFinalized # rest) = Some (Inr ())"
| "settle finalization (IsError # rest) = Some (Inl ''Transaction Error'')"
| "settle finalization (OtherStatus # rest) = settle finalization rest"

text \<open>
  An extrinsic in a block. \<^verbatim>\<open>pallet_sudo\<close> runs a call as root for the holder of its key, and refuses everybody else.
\<close>

fun apply_extrinsic ::
    "(('l, 'z) bridge_storage_scheme, 'c) bridge_config_scheme \<Rightarrow> host \<Rightarrow> 'l script_platform \<Rightarrow> AccountId option \<Rightarrow> AccountId
     \<Rightarrow> extrinsic \<Rightarrow> ('l, 'z) bridge_storage_scheme \<Rightarrow> ('l, 'z) bridge_storage_scheme" where
  "apply_extrinsic cfg h sp key signer x s =
     (let s = s\<lparr>ledger := transaction_fee sp signer x (ledger s)\<rparr> in
      case x of
        Sudo c \<Rightarrow> if key = Some signer then snd (dispatch cfg h Root c s) else s
      | SudoForceSetBalance who n \<Rightarrow> if key = Some signer then s\<lparr>ledger := force_set_balance sp who n (ledger s)\<rparr> else s
      | _ \<Rightarrow> s\<lparr>ledger := assets_call sp signer x (ledger s)\<rparr>)"

text \<open>One call of a function of \<^verbatim>\<open>util.js\<close>, with its argument \<^verbatim>\<open>finalization\<close>: how it settles, and the chain after it.\<close>

type_synonym submission = "extrinsic \<times> bool"

definition submit ::
    "(('l, 'z) bridge_storage_scheme, 'c) bridge_config_scheme \<Rightarrow> host \<Rightarrow> 'l script_platform \<Rightarrow> AccountId option \<Rightarrow> AccountId
     \<Rightarrow> submission \<Rightarrow> ('l, 'z) bridge_storage_scheme \<Rightarrow> (string + unit) option \<times> ('l, 'z) bridge_storage_scheme" where
  "submit cfg h sp key signer x s =
     (settle (snd x) (statuses sp signer (fst x) (ledger s)),
      if included sp signer (fst x) (ledger s) then apply_extrinsic cfg h sp key signer (fst x) s else s)"

text \<open>The script awaits one function after the other. A rejected promise ends it, and a pending one holds it for ever.\<close>

fun run_script ::
    "(('l, 'z) bridge_storage_scheme, 'c) bridge_config_scheme \<Rightarrow> host \<Rightarrow> 'l script_platform \<Rightarrow> AccountId option \<Rightarrow> AccountId
     \<Rightarrow> submission list \<Rightarrow> ('l, 'z) bridge_storage_scheme \<Rightarrow> (string + unit) option \<times> ('l, 'z) bridge_storage_scheme" where
  "run_script cfg h sp key signer [] s = (Some (Inr ()), s)"
| "run_script cfg h sp key signer (x # xs) s =
     (let (r, s) = submit cfg h sp key signer x s in
      if r = Some (Inr ()) then run_script cfg h sp key signer xs s else (r, s))"

section \<open>The functions of the standalone \<^verbatim>\<open>util.js\<close>\<close>

definition setBalance :: "AccountId \<Rightarrow> u128 \<Rightarrow> bool \<Rightarrow> submission" where
  "setBalance who value finalization = (SudoForceSetBalance who value, finalization)"

definition setFeeHandler :: "DomainID \<Rightarrow> AssetId \<Rightarrow> FeeHandlerType \<Rightarrow> bool \<Rightarrow> submission" where
  "setFeeHandler domainID asset feeHandlerType finalization = (Sudo (SetFeeHandler domainID asset feeHandlerType), finalization)"

definition setFee :: "DomainID \<Rightarrow> AssetId \<Rightarrow> u128 \<Rightarrow> bool \<Rightarrow> submission" where
  "setFee domainID asset amount finalization = (Sudo (SetFee domainID asset amount), finalization)"

definition setFeeRate :: "DomainID \<Rightarrow> AssetId \<Rightarrow> u32 \<Rightarrow> u128 \<Rightarrow> u128 \<Rightarrow> bool \<Rightarrow> submission" where
  "setFeeRate domainID asset feeRate feeRateLowerBound feeRateUpperBound finalization =
     (Sudo (SetFeeRate domainID asset feeRate feeRateLowerBound feeRateUpperBound), finalization)"

definition setMpcAddress :: "MpcAddress \<Rightarrow> bool \<Rightarrow> submission" where
  "setMpcAddress mpcAddr finalization = (Sudo (SetMpcAddress mpcAddr), finalization)"

definition createAsset :: "u32 \<Rightarrow> AccountId \<Rightarrow> u128 \<Rightarrow> bool \<Rightarrow> submission" where
  "createAsset i admin minBalance finalization = (AssetsCreate i admin minBalance, finalization)"

definition setAssetMetadata :: "u32 \<Rightarrow> string \<Rightarrow> string \<Rightarrow> u8 \<Rightarrow> bool \<Rightarrow> submission" where
  "setAssetMetadata i name symbol decimals finalization = (AssetsSetMetadata i name symbol decimals, finalization)"

definition mintAsset :: "u32 \<Rightarrow> AccountId \<Rightarrow> u128 \<Rightarrow> bool \<Rightarrow> submission" where
  "mintAsset i recipient amount finalization = (AssetsMint i recipient amount, finalization)"

definition registerDomain :: "DomainID \<Rightarrow> ChainID \<Rightarrow> bool \<Rightarrow> submission" where
  "registerDomain domainID chainID finalization = (Sudo (RegisterDomain domainID chainID), finalization)"

definition queryBridgePauseStatus :: "DomainID \<Rightarrow> ('l, 'z) bridge_storage_scheme \<Rightarrow> bool" where
  "queryBridgePauseStatus domainID s = is_paused s domainID"

definition queryMPCAddress :: "('l, 'z) bridge_storage_scheme \<Rightarrow> MpcAddress" where "queryMPCAddress s = mpc_addr s"

text \<open>The identifiers of the assets; the data of the keys, hexadecimal strings, as the bytes they stand for.\<close>

definition script_key :: "u8 \<Rightarrow> bytes \<Rightarrow> Junction" where
  "script_key n key = GeneralKey n (key @ replicate (32 - length key) 0)"

definition getUSDCAssetId :: AssetId where
  "getUSDCAssetId = Concrete (new_location 1 [Parachain 2005, script_key 5 [0x73, 0x79, 0x67, 0x6d, 0x61],
     script_key 4 [0x75, 0x73, 0x64, 0x63]])"

definition getERC20TSTAssetId :: AssetId where
  "getERC20TSTAssetId = Concrete (new_location 1 [Parachain 2005, script_key 5 [0x73, 0x79, 0x67, 0x6d, 0x61],
     script_key 8 [0x65, 0x72, 0x63, 0x32, 0x30, 0x74, 0x73, 0x74]])"

definition getERC20TSTD20AssetId :: AssetId where
  "getERC20TSTD20AssetId = Concrete (new_location 1 [Parachain 2005, script_key 5 [0x73, 0x79, 0x67, 0x6d, 0x61],
     script_key 11 [0x65, 0x72, 0x63, 0x32, 0x30, 0x74, 0x73, 0x74, 0x64, 0x32, 0x30]])"

definition getNativeAssetId :: AssetId where "getNativeAssetId = Concrete (new_location 0 [])"

lemma script_assets:
  "getNativeAssetId = Concrete NativeLocation" "getUSDCAssetId = Concrete standalone_UsdcLocation"
  "getERC20TSTAssetId = Concrete standalone_ERC20TSTLocation" "getERC20TSTD20AssetId = Concrete standalone_ERC20TSTD20Location"
  by (simp_all add: getNativeAssetId_def NativeLocation_def here_def getUSDCAssetId_def standalone_UsdcLocation_def
      getERC20TSTAssetId_def standalone_ERC20TSTLocation_def getERC20TSTD20AssetId_def standalone_ERC20TSTD20Location_def
      sibling_key_location_def padded_key_def script_key_def)

section \<open>\<^verbatim>\<open>scripts/standalone/setup.js\<close>\<close>

definition supportedDestDomains :: "(DomainID \<times> ChainID) list" where "supportedDestDomains = [(1, 1), (2, 2)]"

definition FeeReserveAccountAddress :: string where
  "FeeReserveAccountAddress = ''5ELLU7ibt5ZrNEYRwohtaRBDBa3TzcWwwPELBPSWWd2mbgv3''"

definition TransferReserveNativeAccount :: string where
  "TransferReserveNativeAccount = ''5EYCAe5jLbHcAAMKvLFSXgCTbPrLgBJusvPwfKcaKzuf5X5e''"

definition TransferReserveOtherAccount :: string where
  "TransferReserveOtherAccount = ''5EYCAe5jLbHcAAMKvLFiGhk3htXY8jQncbLTDGJQnpnPMAVp''"

definition bn1e12 :: u128 where "bn1e12 = 10 ^ 12"
definition bn1e18 :: u128 where "bn1e18 = 10 ^ 18"
definition bn1e20 :: u128 where "bn1e20 = 10 ^ 20"

definition percentageFeeRate :: u32 where "percentageFeeRate = 500"
definition feeRateLowerBound :: u128 where "feeRateLowerBound = 0"
definition feeRateUpperBound :: u128 where "feeRateUpperBound = bn1e12 * 1000"

text \<open>Both extrinsics the script sends for an asset and a domain.\<close>

definition charge_percentage :: "AssetId \<Rightarrow> DomainID \<Rightarrow> submission list" where
  "charge_percentage asset domainID =
     [setFeeHandler domainID asset PercentageFeeHandler True,
      setFeeRate domainID asset percentageFeeRate feeRateLowerBound feeRateUpperBound True]"

text \<open>A test asset: created, named and minted for the signer and for the reserve account.\<close>

definition test_asset :: "'l script_platform \<Rightarrow> AccountId \<Rightarrow> u32 \<Rightarrow> string \<Rightarrow> string \<Rightarrow> u8 \<Rightarrow> u128 \<Rightarrow> submission list" where
  "test_asset sp sudo i name symbol decimals amount =
     [createAsset i sudo 100 True, setAssetMetadata i name symbol decimals True, mintAsset i sudo amount True,
      mintAsset i (decode_address sp TransferReserveOtherAccount) (bn1e12 * 100) True]"

definition setup_main :: "'l script_platform \<Rightarrow> AccountId \<Rightarrow> MpcAddress option \<Rightarrow> submission list" where
  "setup_main sp sudo mpcAddr =
     map (\<lambda>(domainID, chainID). registerDomain domainID chainID True) supportedDestDomains
     @ concat (map (\<lambda>(domainID, _). charge_percentage getNativeAssetId domainID) supportedDestDomains)
     @ map (\<lambda>who. setBalance (decode_address sp who) (bn1e12 * 10000) True)
         [FeeReserveAccountAddress, TransferReserveNativeAccount, TransferReserveOtherAccount]
     @ test_asset sp sudo 2000 ''USDC test asset'' ''USDC'' 12 (bn1e12 * 100)
     @ test_asset sp sudo 2001 ''erc20tst test asset'' ''ERC20TST'' 18 (bn1e18 * 100)
     @ test_asset sp sudo 2002 ''erc20tstd20 test asset'' ''ERC20TSTD20'' 20 (bn1e20 * 100)
     @ concat (map (\<lambda>(domainID, _). charge_percentage getUSDCAssetId domainID
         @ charge_percentage getERC20TSTAssetId domainID @ charge_percentage getERC20TSTD20AssetId domainID)
         supportedDestDomains)
     @ (case mpcAddr of None \<Rightarrow> [] | Some a \<Rightarrow> [setMpcAddress a True])"

section \<open>What the script leaves behind\<close>

text \<open>The chain after some extrinsics, whatever the script was told about them.\<close>

definition effects ::
    "(('l, 'z) bridge_storage_scheme, 'c) bridge_config_scheme \<Rightarrow> host \<Rightarrow> 'l script_platform \<Rightarrow> AccountId option \<Rightarrow> AccountId
     \<Rightarrow> submission list \<Rightarrow> ('l, 'z) bridge_storage_scheme \<Rightarrow> ('l, 'z) bridge_storage_scheme" where
  "effects cfg h sp key signer xs = fold (apply_extrinsic cfg h sp key signer) (map fst xs)"

lemma effects_simps:
  "effects cfg h sp key signer [] s = s"
  "effects cfg h sp key signer (x # xs) s = effects cfg h sp key signer xs (apply_extrinsic cfg h sp key signer (fst x) s)"
  by (simp_all add: effects_def)

lemma settle_finalized: "settle True ss = Some (Inr ()) \<Longrightarrow> IsFinalized \<in> set ss"
proof (induction ss)
  case (Cons x ss)
  then show ?case by (cases x) auto
qed simp

text \<open>
  A script that waits for finality has carried out a prefix of its extrinsics, in order and without a gap, and
  all of them if it ends without an error.
\<close>

lemma run_script_prefix:
  assumes sp: "finalized_included sp"
  shows "list_all snd xs \<Longrightarrow> run_script cfg h sp key signer xs s = (r, t) \<Longrightarrow>
    \<exists>ys zs. xs = ys @ zs \<and> t = effects cfg h sp key signer ys s \<and> (r = Some (Inr ()) \<longrightarrow> zs = [])"
proof (induction xs arbitrary: s)
  case (Cons x xs)
  define u where "u = apply_extrinsic cfg h sp key signer (fst x) s"
  have flag: "snd x" using Cons.prems(1) by simp
  show ?case
  proof (cases "settle True (statuses sp signer (fst x) (ledger s)) = Some (Inr ())")
    case True
    then have "included sp signer (fst x) (ledger s)"
      using sp settle_finalized unfolding finalized_included_def by blast
    then have "run_script cfg h sp key signer xs u = (r, t)"
      using Cons.prems(2) True flag by (simp add: submit_def u_def del: apply_extrinsic.simps)
    then obtain ys zs where "xs = ys @ zs" "t = effects cfg h sp key signer ys u" "r = Some (Inr ()) \<longrightarrow> zs = []"
      using Cons.IH [of u] Cons.prems(1) by auto
    then have "x # xs = (x # ys) @ zs" "t = effects cfg h sp key signer (x # ys) s" "r = Some (Inr ()) \<longrightarrow> zs = []"
      by (simp_all add: effects_simps u_def del: apply_extrinsic.simps)
    then show ?thesis by blast
  next
    case False
    then have "r \<noteq> Some (Inr ())" "t = s \<or> t = u"
      using Cons.prems(2) flag by (auto simp: submit_def u_def simp del: apply_extrinsic.simps)
    moreover have "x # xs = [] @ x # xs" "s = effects cfg h sp key signer [] s"
      "x # xs = [x] @ xs" "u = effects cfg h sp key signer [x] s"
      by (simp_all add: effects_simps u_def del: apply_extrinsic.simps)
    ultimately show ?thesis by blast
  qed
qed (simp add: effects_simps)

lemma run_script_ends:
  assumes "\<And>x l. settle True (statuses sp signer x l) = Some (Inr ())"
  shows "list_all snd xs \<Longrightarrow> fst (run_script cfg h sp key signer xs s) = Some (Inr ())"
  by (induction xs arbitrary: s) (simp_all add: submit_def assms split_beta del: apply_extrinsic.simps)

lemma effects_reachable: "reachable cfg h s \<Longrightarrow> reachable cfg h (effects cfg h sp key signer xs s)"
proof (induction xs arbitrary: s)
  case (Cons x xs)
  have "reachable cfg h (apply_extrinsic cfg h sp key signer (fst x) s)"
    using Cons.prems by (cases "fst x") (auto simp: Let_def intro: reachable.intros)
  then show ?case by (simp add: effects_simps Cons.IH del: apply_extrinsic.simps)
qed (simp add: effects_simps)

text \<open>
  The settings of the bridge, and what a setting call does to them. The extrinsics of the other pallets leave
  them alone.
\<close>

record settings =
  set_domains :: "DomainID \<rightharpoonup> bool"
  set_chains :: "DomainID \<rightharpoonup> ChainID"
  set_handlers :: "DomainID \<times> AssetId \<rightharpoonup> FeeHandlerType"
  set_rates :: "DomainID \<times> AssetId \<rightharpoonup> u32 \<times> u128 \<times> u128"
  set_fees :: "DomainID \<times> AssetId \<rightharpoonup> u128"
  set_paused :: "DomainID \<rightharpoonup> bool"
  set_mpc :: "MpcAddress option"

definition settings_of :: "('l, 'z) bridge_storage_scheme \<Rightarrow> settings" where
  "settings_of s = \<lparr>set_domains = DestDomainIds s, set_chains = DestChainIds s, set_handlers = HandlerType s,
     set_rates = AssetFeeRate s, set_fees = AssetFees s, set_paused = IsPaused s, set_mpc = MpcAddr s\<rparr>"

fun apply_call :: "RuntimeCall \<Rightarrow> settings \<Rightarrow> settings" where
  "apply_call (RegisterDomain d c) t = t\<lparr>set_domains := (set_domains t)(d \<mapsto> True), set_chains := (set_chains t)(d \<mapsto> c)\<rparr>"
| "apply_call (SetFeeHandler d a k) t = t\<lparr>set_handlers := (set_handlers t)((d, a) \<mapsto> k)\<rparr>"
| "apply_call (SetFeeRate d a r lo hi) t =
     (if r < 10000 \<and> lo < hi then t\<lparr>set_rates := (set_rates t)((d, a) \<mapsto> (r, lo, hi))\<rparr> else t)"
| "apply_call (SetFee d a n) t = t\<lparr>set_fees := (set_fees t)((d, a) \<mapsto> n)\<rparr>"
| "apply_call (SetMpcAddress addr) t =
     (if is_clear (case set_mpc t of None \<Rightarrow> default_mpc_address | Some a \<Rightarrow> a)
      then t\<lparr>set_mpc := Some addr,
             set_paused := \<lambda>d. if d \<in> dom (set_domains t) \<union> dom (set_paused t) then Some False else None\<rparr> else t)"
| "apply_call _ t = t"

fun setup_call :: "RuntimeCall \<Rightarrow> bool" where
  "setup_call (RegisterDomain d c) = True"
| "setup_call (SetFeeHandler d a k) = True"
| "setup_call (SetFeeRate d a r lo hi) = True"
| "setup_call (SetFee d a n) = True"
| "setup_call (SetMpcAddress addr) = True"
| "setup_call _ = False"

lemma settings_of_ledger [simp]: "settings_of (s\<lparr>ledger := l\<rparr>) = settings_of s"
  by (simp add: settings_of_def)

lemma root_call_settings:
  "BridgeCommitteeOrigin cfg = ensure_root \<Longrightarrow> setup_call c \<Longrightarrow>
   settings_of (snd (dispatch cfg h Root c s)) = apply_call c (settings_of s)"
  by (cases c) (simp_all add: settings_defs committee_root settings_of_def mpc_addr_def)

fun script_calls :: "submission list \<Rightarrow> RuntimeCall list" where
  "script_calls [] = []"
| "script_calls ((Sudo c, _) # xs) = c # script_calls xs"
| "script_calls (_ # xs) = script_calls xs"

text \<open>For the sudo key a script has the effect of its calls, whatever its extrinsics cost and the other pallets do.\<close>

lemma effects_settings:
  assumes "BridgeCommitteeOrigin cfg = ensure_root"
  shows "list_all setup_call (script_calls xs) \<Longrightarrow>
    settings_of (effects cfg h sp (Some sudo) sudo xs s) = fold apply_call (script_calls xs) (settings_of s)"
proof (induction xs arbitrary: s rule: script_calls.induct)
  case (2 c b xs)
  then show ?case by (simp add: effects_simps Let_def root_call_settings [OF assms])
qed (simp_all add: effects_simps Let_def)

text \<open>For anybody else it changes no setting at all.\<close>

lemma effects_without_key:
  "key \<noteq> Some signer \<Longrightarrow> settings_of (effects cfg h sp key signer xs s) = settings_of s"
proof (induction xs arbitrary: s)
  case (Cons x xs)
  then show ?case by (cases "fst x") (simp_all add: effects_simps Let_def)
qed (simp add: effects_simps)

lemma setup_calls:
  "script_calls (xs @ ys) = script_calls xs @ script_calls ys"
  "script_calls (concat xss) = concat (map script_calls xss)"
  "script_calls (charge_percentage a d) =
     [SetFeeHandler d a PercentageFeeHandler, SetFeeRate d a percentageFeeRate feeRateLowerBound feeRateUpperBound]"
  "script_calls (test_asset sp sudo i name symbol decimals n) = []"
  "script_calls (setBalance who n b # xs) = script_calls xs"
  "script_calls (registerDomain d c b # xs) = RegisterDomain d c # script_calls xs"
  "script_calls (setMpcAddress addr b # xs) = SetMpcAddress addr # script_calls xs"
proof -
  show app: "script_calls (xs @ ys) = script_calls xs @ script_calls ys" for xs ys
    by (induction xs rule: script_calls.induct) simp_all
  show "script_calls (concat xss) = concat (map script_calls xss)" by (induction xss) (simp_all add: app)
qed (simp_all add: charge_percentage_def setFeeHandler_def setFeeRate_def test_asset_def createAsset_def setAssetMetadata_def
      mintAsset_def setBalance_def registerDomain_def setMpcAddress_def)

definition charge_calls :: "AssetId \<Rightarrow> DomainID \<Rightarrow> RuntimeCall list" where
  "charge_calls a d =
     [SetFeeHandler d a PercentageFeeHandler, SetFeeRate d a percentageFeeRate feeRateLowerBound feeRateUpperBound]"

lemma setup_main_calls:
  "script_calls (setup_main sp sudo mpcAddr) =
     [RegisterDomain 1 1, RegisterDomain 2 2]
     @ charge_calls getNativeAssetId 1 @ charge_calls getNativeAssetId 2
     @ charge_calls getUSDCAssetId 1 @ charge_calls getERC20TSTAssetId 1 @ charge_calls getERC20TSTD20AssetId 1
     @ charge_calls getUSDCAssetId 2 @ charge_calls getERC20TSTAssetId 2 @ charge_calls getERC20TSTD20AssetId 2
     @ (case mpcAddr of None \<Rightarrow> [] | Some a \<Rightarrow> [SetMpcAddress a])"
  by (simp add: setup_main_def supportedDestDomains_def setup_calls charge_calls_def split: option.splits)

lemma fold_charge_calls:
  "fold apply_call (charge_calls a d) t = t\<lparr>set_handlers := (set_handlers t)((d, a) \<mapsto> PercentageFeeHandler),
     set_rates := (set_rates t)((d, a) \<mapsto> (500, 0, 10 ^ 15))\<rparr>"
  by (simp add: charge_calls_def percentageFeeRate_def feeRateLowerBound_def feeRateUpperBound_def bn1e12_def)

lemma setup_main_settings:
  fixes s :: "('l, 'z) bridge_storage_scheme" and pf :: "'l platform"
  assumes "fresh_storage s"
  shows "settings_of (effects (standalone_config pf fx) h sp (Some sudo) sudo (setup_main sp sudo mpcAddr) s) =
    \<lparr>set_domains = [1 \<mapsto> True, 2 \<mapsto> True], set_chains = [1 \<mapsto> 1, 2 \<mapsto> 2],
     set_handlers = (\<lambda>(d, a). if d \<in> {1, 2} \<and> a \<in> fst ` set standalone_ResourcePairs then Some PercentageFeeHandler else None),
     set_rates = (\<lambda>(d, a). if d \<in> {1, 2} \<and> a \<in> fst ` set standalone_ResourcePairs then Some (500, 0, 10 ^ 15) else None),
     set_fees = Map.empty,
     set_paused = (case mpcAddr of None \<Rightarrow> Map.empty | Some _ \<Rightarrow> [1 \<mapsto> False, 2 \<mapsto> False]), set_mpc = mpcAddr\<rparr>"
proof -
  have root: "BridgeCommitteeOrigin (standalone_config pf fx :: ('l, 'z) bridge_storage_scheme bridge_config) = ensure_root"
    by (simp add: standalone_config_defs)
  have "list_all setup_call (script_calls (setup_main sp sudo mpcAddr))"
    by (simp add: setup_main_calls charge_calls_def split: option.splits)
  from effects_settings [OF root this, of h sp sudo s] show ?thesis
    using assms
    by (auto simp: setup_main_calls fold_charge_calls settings_of_def fresh_storage_def script_assets standalone_ResourcePairs_def
        fun_eq_iff test_mpc_addr_set split: option.splits)
qed

text \<open>Five percent, never more than \<open>10 ^ 15\<close>: the multiplication cannot saturate below that bound.\<close>

lemma setup_fee: "clamped_fee n 500 0 (10 ^ 15) = min (10 ^ 15) (n * 5 div 100)"
proof -
  have "10 ^ 15 \<le> n * 5 div 100" if "\<not> n * 500 \<le> 2 ^ 128 - 1"
    using div_le_mono [of "2 * 10 ^ 16" n 20] that by simp
  then show ?thesis by (auto simp: clamped_fee_def proportional_fee_def min_def)
qed

lemma setup_charges:
  assumes "settings_of t = st" and "set_handlers st (d, a) = Some PercentageFeeHandler" and "set_rates st (d, a) = Some (500, 0, 10 ^ 15)"
  shows "map_option unat (router_get_fee t d (fungible_asset a n)) = Some (min (10 ^ 15) (unat n * 5 div 100))"
proof -
  have "HandlerType t (d, a) = Some PercentageFeeHandler" and rate: "AssetFeeRate t (d, a) = Some (500, 0, 10 ^ 15)"
    using assms by (auto simp: settings_of_def)
  then show ?thesis
    using percentage_get_fee_unat [of t d "fungible_asset a n" 500 0 "10 ^ 15" n] setup_fee [of "unat n"]
    by (simp add: router_get_fee_def)
qed

section \<open>Concrete parameters\<close>

text \<open>
  Addresses in the SS58 format: a number in base 58 whose bytes are the prefix of the network, the account
  and two bytes of a checksum, which is not checked here. On the ledger of the reference platform an extrinsic is
  free of charge.
\<close>

definition base58_digits :: string where
  "base58_digits = ''123456789ABCDEFGHJKLMNPQRSTUVWXYZabcdefghijkmnopqrstuvwxyz''"

definition ss58_decode :: "string \<Rightarrow> AccountId" where
  "ss58_decode s = be_bytes 32 (foldl (\<lambda>n c. 58 * n + length (takeWhile (\<lambda>x. x \<noteq> c) base58_digits)) 0 s div 2 ^ 16)"

definition reference_scripts :: "balances script_platform" where
  "reference_scripts = \<lparr>decode_address = ss58_decode, statuses = \<lambda>_ _ _. [OtherStatus, IsInBlock, IsFinalized],
     included = \<lambda>_ _ _. True, transaction_fee = \<lambda>_ _ l. l,
     force_set_balance = \<lambda>who n l. l((None, who) := unat n),
     assets_call = \<lambda>_ x l. (case x of AssetsMint i who n \<Rightarrow> l((Some i, who) := l (Some i, who) + unat n) | _ \<Rightarrow> l)\<rparr>"

text \<open>The addresses written in the script are the accounts the runtime is configured with.\<close>

lemma script_accounts:
  "ss58_decode FeeReserveAccountAddress = TreasuryAccount"
  "ss58_decode TransferReserveNativeAccount = standalone_BridgeAccountNative reference_platform"
  "ss58_decode TransferReserveOtherAccount = standalone_BridgeAccountOtherToken reference_platform"
proof -
  have eq: "be_nat xs = n mod 256 ^ 32 \<Longrightarrow> length xs = 32 \<Longrightarrow> be_bytes 32 n = xs" for xs n
    using be_bytes_be_nat [of xs] be_bytes_mod [of 32 n] by simp
  have rep: "replicate (numeral k) x = x # replicate (pred_numeral k) x" for k and x :: u8
    by (simp add: numeral_eq_Suc)
  note defs = ss58_decode_def base58_digits_def be_nat_def
  show "ss58_decode FeeReserveAccountAddress = TreasuryAccount"
    unfolding ss58_decode_def by (rule eq) (simp_all add: defs FeeReserveAccountAddress_def TreasuryAccount_def rep)
  show "ss58_decode TransferReserveNativeAccount = standalone_BridgeAccountNative reference_platform"
    unfolding ss58_decode_def
    by (rule eq) (simp_all add: defs TransferReserveNativeAccount_def standalone_BridgeAccountNative_def reference_platform_def
        SygmaBridgePalletId_def rep)
  show "ss58_decode TransferReserveOtherAccount = standalone_BridgeAccountOtherToken reference_platform"
    unfolding ss58_decode_def
    by (rule eq) (simp_all add: defs TransferReserveOtherAccount_def standalone_BridgeAccountOtherToken_def reference_platform_def
        SygmaBridgePalletId_def rep)
qed

lemma reference_scripts_law: "finalized_included reference_scripts"
  by (simp add: finalized_included_def reference_scripts_def)

section \<open>The chain is in service\<close>

text \<open>
  What the script is for: the relayers' address is set, exactly the two domains are registered, on their chains,
  no domain is paused, and the fee of a deposit of any bridged asset is five percent, but at most \<open>10 ^ 15\<close>.
\<close>

definition in_service :: "MpcAddress \<Rightarrow> ('l, 'z) bridge_storage_scheme \<Rightarrow> bool" where
  "in_service addr t \<longleftrightarrow> queryMPCAddress t = addr \<and> \<not> is_clear (mpc_addr t) \<and> (\<forall>d. dest_domain_ids t d \<longleftrightarrow> d \<in> {1, 2}) \<and>
     DestChainIds t = map_of supportedDestDomains \<and> (\<forall>d. \<not> queryBridgePauseStatus d t) \<and>
     (\<forall>d \<in> {1, 2}. \<forall>a \<in> fst ` set standalone_ResourcePairs. \<forall>amount.
        map_option unat (router_get_fee t d (fungible_asset a amount)) = Some (min (10 ^ 15) (unat amount * 5 div 100)))"

lemma setup_main_opens:
  fixes s :: "('l, 'z) bridge_storage_scheme" and pf :: "'l platform"
  assumes "fresh_storage s" and addr: "\<not> is_clear addr"
    and t: "t = effects (standalone_config pf fx) h sp (Some sudo) sudo (setup_main sp sudo (Some addr)) s"
  shows "in_service addr t"
proof -
  note st = setup_main_settings [OF assms(1), of pf fx h sp sudo "Some addr", folded t]
  have fields: "MpcAddr t = Some addr" "DestDomainIds t = [1 \<mapsto> True, 2 \<mapsto> True]" "DestChainIds t = [1 \<mapsto> 1, 2 \<mapsto> 2]"
      "IsPaused t = [1 \<mapsto> False, 2 \<mapsto> False]"
    using arg_cong [OF st, of set_mpc] arg_cong [OF st, of set_domains] arg_cong [OF st, of set_chains] arg_cong [OF st, of set_paused]
    by (simp_all only: settings_of_def settings.select_convs option.case)
  have "map_option unat (router_get_fee t d (fungible_asset a amount)) = Some (min (10 ^ 15) (unat amount * 5 div 100))"
    if "d \<in> {1, 2}" "a \<in> fst ` set standalone_ResourcePairs" for d a amount
    using that by (intro setup_charges [OF st]) (simp_all only: settings.select_convs prod.case simp_thms if_True)
  moreover have "queryMPCAddress t = addr" "\<not> is_clear (mpc_addr t)"
    by (simp_all add: queryMPCAddress_def mpc_addr_def fields addr)
  moreover have "dest_domain_ids t d \<longleftrightarrow> d \<in> {1, 2}" for d by (simp add: dest_domain_ids_def value_query_def fields)
  moreover have "DestChainIds t = map_of supportedDestDomains" by (simp add: fields supportedDestDomains_def fun_eq_iff)
  moreover have "\<not> queryBridgePauseStatus d t" for d
    by (simp add: queryBridgePauseStatus_def is_paused_def value_query_def fields)
  ultimately show ?thesis unfolding in_service_def by blast
qed

text \<open>Before the address is set the bridge refuses every deposit. The script sets it last.\<close>

lemma closed_without_address:
  "MpcAddr t = None \<Longrightarrow> deposit cfg (Signed x) asset dest t = (Inl (bridge_error MissingMpcAddress), t)"
  by (simp add: deposit_def transactional_def deposit_body_def mpc_addr_def test_mpc_addr_set ensure_signed_def try_result_def
      reads_def ensure_def)

fun sets_address :: "RuntimeCall \<Rightarrow> bool" where
  "sets_address (SetMpcAddress _) = True"
| "sets_address _ = False"

lemma fold_apply_mpc: "\<not> list_ex sets_address cs \<Longrightarrow> set_mpc (fold apply_call cs t) = set_mpc t"
proof (induction cs arbitrary: t)
  case (Cons c cs)
  then show ?case by (cases c) (simp_all del: fun_upd_apply)
qed simp

lemma setup_main_last:
  "setup_main sp sudo (Some addr) = setup_main sp sudo None @ [setMpcAddress addr True]"
  by (simp add: setup_main_def)

lemma setup_main_waits: "list_all snd (setup_main sp sudo mpcAddr)"
  by (simp add: setup_main_def supportedDestDomains_def charge_percentage_def test_asset_def registerDomain_def setFeeHandler_def
      setFeeRate_def setBalance_def createAsset_def setAssetMetadata_def mintAsset_def setMpcAddress_def split: option.split)

lemma setup_prefix_closed:
  fixes s :: "('l, 'z) bridge_storage_scheme" and pf :: "'l platform"
  assumes fresh: "fresh_storage s" and pre: "setup_main sp sudo None = ys @ zs"
    and t: "t = effects (standalone_config pf fx) h sp (Some sudo) sudo ys s"
  shows "MpcAddr t = None"
proof -
  have root: "BridgeCommitteeOrigin (standalone_config pf fx :: ('l, 'z) bridge_storage_scheme bridge_config) = ensure_root"
    by (simp add: standalone_config_defs)
  have "list_all setup_call (script_calls (ys @ zs)) \<and> \<not> list_ex sets_address (script_calls (ys @ zs))"
    by (simp add: pre [symmetric] setup_main_calls charge_calls_def)
  then have calls: "list_all setup_call (script_calls ys)" "\<not> list_ex sets_address (script_calls ys)"
    by (simp_all add: setup_calls(1))
  have "set_mpc (settings_of t) = set_mpc (settings_of s)"
    unfolding t effects_settings [OF root calls(1)] by (rule fold_apply_mpc [OF calls(2)])
  then show ?thesis using fresh by (simp add: settings_of_def fresh_storage_def)
qed

lemma setup_main_outcome:
  fixes s :: "('l, 'z) bridge_storage_scheme" and pf :: "'l platform"
  assumes fresh: "fresh_storage s" and sp: "finalized_included sp" and addr: "\<not> is_clear addr"
    and run: "run_script (standalone_config pf fx) h sp (Some sudo) sudo (setup_main sp sudo (Some addr)) s = (r, t)"
  shows "(r = Some (Inr ()) \<longrightarrow> in_service addr t) \<and> (in_service addr t \<or> MpcAddr t = None)"
proof -
  obtain ys zs where p: "setup_main sp sudo (Some addr) = ys @ zs"
      "t = effects (standalone_config pf fx) h sp (Some sudo) sudo ys s" "r = Some (Inr ()) \<longrightarrow> zs = []"
    using run_script_prefix [OF sp setup_main_waits run] by blast
  show ?thesis
  proof (cases "zs = []")
    case True
    then have "t = effects (standalone_config pf fx) h sp (Some sudo) sudo (setup_main sp sudo (Some addr)) s" using p by simp
    then have "in_service addr t" by (rule setup_main_opens [OF fresh addr])
    then show ?thesis by simp
  next
    case False
    then have "setup_main sp sudo None = ys @ butlast zs"
      using arg_cong [OF p(1), of butlast] by (simp add: setup_main_last butlast_append)
    then have "MpcAddr t = None" using p(2) by (rule setup_prefix_closed [OF fresh])
    then show ?thesis using p(3) False by simp
  qed
qed



end
