(* ===== verification/Runtime_Upgrade.thy ===== *)
theory Runtime_Upgrade
  imports Bridge_Migration Pallet_Benchmarks
begin

text \<open>
  The life of a chain across upgrades of its runtime. \<^verbatim>\<open>Executive\<close> of the standalone runtime runs the migration
  \<^verbatim>\<open>FixMpcAddress\<close> in the first block after every upgrade, the one of the parachain runtime none; the
  pallets of the bridge have no hooks of their own.
\<close>

type_synonym ('l, 'z) migration = "('l, 'z) bridge_storage_scheme \<Rightarrow> Weight \<times> ('l, 'z) bridge_storage_scheme"

definition standalone_Executive :: "RuntimeDbWeight \<Rightarrow> ('l, 'z) migration list" where
  "standalone_Executive db = [on_runtime_upgrade db]"

definition parachain_Executive :: "('l, 'z) migration list" where
  "parachain_Executive = []"

text \<open>A tuple of migrations runs in order; its weight is the sum of theirs.\<close>

fun run_migrations :: "('l, 'z) migration list \<Rightarrow> ('l, 'z) migration" where
  "run_migrations [] s = ((0, 0), s)"
| "run_migrations (m # ms) s =
     (let (w, s1) = m s; (w', s2) = run_migrations ms s1 in (weight_add w w', s2))"

datatype 'l life_step = Call RuntimeOrigin RuntimeCall | Environment 'l | Upgrade

fun live_step ::
    "(('l, 'z) bridge_storage_scheme, 'c) bridge_config_scheme \<Rightarrow> host \<Rightarrow> ('l, 'z) migration list \<Rightarrow> 'l life_step
     \<Rightarrow> ('l, 'z) bridge_storage_scheme \<Rightarrow> ('l, 'z) bridge_storage_scheme" where
  "live_step cfg h ms (Call origin c) s = snd (dispatch cfg h origin c s)"
| "live_step cfg h ms (Environment l) s = s\<lparr>ledger := l\<rparr>"
| "live_step cfg h ms Upgrade s = snd (run_migrations ms s)"

definition live ::
    "(('l, 'z) bridge_storage_scheme, 'c) bridge_config_scheme \<Rightarrow> host \<Rightarrow> ('l, 'z) migration list \<Rightarrow> 'l life_step list
     \<Rightarrow> ('l, 'z) bridge_storage_scheme \<Rightarrow> ('l, 'z) bridge_storage_scheme" where
  "live cfg h ms steps s = fold (live_step cfg h ms) steps s"

lemma live_simps [simp]:
  "live cfg h ms [] s = s" "live cfg h ms (x # xs) s = live cfg h ms xs (live_step cfg h ms x s)"
  by (simp_all add: live_def)

section \<open>Upgrades and the invariant\<close>

lemma standalone_upgrade:
  "run_migrations (standalone_Executive db) s = (weight_add (fst (on_runtime_upgrade db s)) (0, 0), snd (on_runtime_upgrade db s))"
  by (simp add: standalone_Executive_def split_beta)

lemma upgrade_invariant: "bridge_invariant (snd (on_runtime_upgrade db s)) = bridge_invariant s"
proof -
  have "executed_set (snd (on_runtime_upgrade db s)) = executed_set s"
    by (rule executed_set_cong) (simp add: migration_defs)
  then show ?thesis
    by (simp add: bridge_invariant_def execution_log_ok_def deposit_log_ok_def deposit_counts_def domains_consistent_def
        rates_valid_def migration_defs)
qed

context bridge_contract
begin

lemma live_invariant:
  assumes "bridge_invariant s" shows "bridge_invariant (live cfg h (standalone_Executive db) steps s)"
  using assms
proof (induction steps arbitrary: s)
  case (Cons x xs)
  have "bridge_invariant (live_step cfg h (standalone_Executive db) x s)"
    using Cons.prems
    by (cases x) (simp_all add: dispatch_invariant bridge_invariant_ledger standalone_upgrade upgrade_invariant)
  then show ?case using Cons.IH by simp
qed simp

text \<open>A key that is set stays, unless an upgrade from version 0 replaces it by the fixed one.\<close>

lemma live_step_key:
  assumes "\<not> is_clear (mpc_addr s)" and "t = live_step cfg h (standalone_Executive db) x s"
  shows "mpc_addr t = mpc_addr s \<and> bridge_storage_version t = bridge_storage_version s \<or>
    bridge_storage_version s = 0 \<and> mpc_addr t = MPC_ADDR \<and> bridge_storage_version t = 1"
  using assms dispatch_mpc [OF assms(1)]
  by (cases x) (simp_all add: dispatch_version mpc_addr_def standalone_upgrade migration_defs)

lemma live_key:
  assumes "\<not> is_clear (mpc_addr s)" and "t = live cfg h (standalone_Executive db) steps s"
  shows "mpc_addr t = mpc_addr s \<or> bridge_storage_version s = 0 \<and> mpc_addr t = MPC_ADDR"
  using assms
proof (induction steps arbitrary: s)
  case (Cons x xs)
  define u where "u = live_step cfg h (standalone_Executive db) x s"
  note step = live_step_key [OF Cons.prems(1) u_def]
  then have "\<not> is_clear (mpc_addr u)" using Cons.prems(1) MPC_ADDR_set by auto
  moreover have "t = live cfg h (standalone_Executive db) xs u" using Cons.prems(2) by (simp add: u_def)
  ultimately show ?case using Cons.IH [of u] step by auto
qed simp

end

section \<open>Properties\<close>

text \<open>
  C18. Upgrades of the standalone runtime keep what the bridge promises: in every life of the chain, however calls,
  changes of the ledger and upgrades alternate, no proposal is executed twice and the nonces of the deposits
  are consecutive; the relayers' key, once set, stays or is replaced by the address of the migration,
  and is never replaced again from storage version 1 on.
\<close>

theorem upgrades_keep_bridge:
  assumes "bridge_contract cfg" and "fresh_storage s" and "t = live cfg h (standalone_Executive db) steps s"
  shows "distinct (executions (bridge_events t)) \<and> set (executions (bridge_events t)) = executed_set t \<and>
    map unat (deposit_nonces d (bridge_events t)) = [0..<unat (deposit_counts t d)] \<and>
    (\<not> is_clear (mpc_addr t) \<longrightarrow>
       (\<forall>later. let u = live cfg h (standalone_Executive db) later t in
          mpc_addr u \<in> {mpc_addr t, MPC_ADDR} \<and> (bridge_storage_version t \<noteq> 0 \<longrightarrow> mpc_addr u = mpc_addr t)))"
proof -
  have "bridge_invariant t"
    using bridge_contract.live_invariant [OF assms(1) bridge_invariant_fresh [OF assms(2)]] by (simp add: assms(3))
  then show ?thesis
    using bridge_contract.live_key [OF assms(1) _ refl, of t h db]
    by (auto simp: bridge_invariant_def execution_log_ok_def deposit_log_ok_def Let_def)
qed

lemma standalone_cfg_contract: "bridge_contract standalone_cfg"
  unfolding standalone_cfg_def by (rule standalone.bridge_contract_axioms)

text \<open>A key set by the committee, replaced by an upgrade, and then there to stay.\<close>

theorem upgrades_keep_bridge_witness:
  "let db = \<lparr>db_read = 25, db_write = 100\<rparr>;
       t = live standalone_cfg test_host (standalone_Executive db)
         [Call Root (RegisterDomain 1 1), Call Root (SetMpcAddress test_mpc_addr), Upgrade] mock_genesis;
       u = live standalone_cfg test_host (standalone_Executive db) [Upgrade, Call Root (SetMpcAddress test_mpc_addr), Upgrade] t in
   mpc_addr t = MPC_ADDR \<and> mpc_addr u = MPC_ADDR \<and> executed_set t = {}"
proof -
  let ?db = "\<lparr>db_read = 25, db_write = 100\<rparr>"
  let ?steps = "[Call Root (RegisterDomain 1 1), Call Root (SetMpcAddress test_mpc_addr), Upgrade]"
  let ?t = "live standalone_cfg test_host (standalone_Executive ?db) ?steps mock_genesis"
  have fresh: "fresh_storage mock_genesis" by (simp add: fresh_storage_def mock_genesis_def)
  have t: "mpc_addr ?t = MPC_ADDR" "bridge_storage_version ?t = 1" "executions (bridge_events ?t) = []"
    by (simp_all add: standalone_upgrade migration_defs settings_defs committee_root mock_genesis_def mpc_addr_def test_mpc_addr_set
        executions_def)
  show ?thesis
    using upgrades_keep_bridge [OF standalone_cfg_contract fresh refl, of test_host ?db ?steps 1] t MPC_ADDR_set
    unfolding Let_def by (simp del: live_simps)
qed

end
