(* ===== verification/Spec2Isabelle.thy ===== *)
theory Spec2Isabelle
  imports Forwarder_Tests Xcm_Network Runtime_Access Setup_Scripts Runtime_Upgrade
begin

text \<open>
  Verification of the Sygma bridge pallets.

  \<^bold>\<open>The program.\<close> The repository holds Substrate pallets that connect a chain to other chains through a group
  of relayers who sign with one key, the MPC key. The bridge pallet (\<^verbatim>\<open>bridge/src/lib.rs\<close>) takes deposits
  of assets and announces them with a nonce, and it executes batches of proposals the relayers have signed,
  paying assets out. A deposit costs a fee, which the router (\<^verbatim>\<open>fee-handler-router\<close>) takes from a fixed amount
  (\<^verbatim>\<open>basic-fee-handler\<close>) or from a percentage (\<^verbatim>\<open>percentage-fee-handler\<close>). Administrative extrinsics are guarded by
  the access pallet (\<^verbatim>\<open>access-segregator\<close>). On the parachain the asset transactor of \<^verbatim>\<open>bridge-forwarder\<close> sends
  payouts for other chains on, back to the bridge pallet or to \<^verbatim>\<open>xcm-bridge\<close>, which builds and executes XCM
  programs. Two runtimes and a test runtime under \<^verbatim>\<open>substrate-node\<close> and \<^verbatim>\<open>bridge/src/mock.rs\<close> put the parts together;
  the two nodes start their chains from chain specifications, and \<^verbatim>\<open>scripts/standalone/setup.js\<close> configures a new chain.

  \<^bold>\<open>State and calls.\<close> The storage of a chain is one record that each pallet extends with its own items and the
  list of its events (\<open>frame_storage\<close>, \<open>access_storage\<close>, \<open>basic_storage\<close>, \<open>percentage_storage\<close>, \<open>router_storage\<close>,
  \<open>bridge_storage\<close>, \<open>xcm_bridge_storage\<close>, \<open>forwarder_storage\<close>); the trait \<^verbatim>\<open>Config\<close> of each pallet is a record in the
  same way. The field \<open>ledger\<close> stands for the rest of the chain, whose balances only the asset transactors
  touch. A call maps a storage to a result and a storage, also when it fails; only \<open>transactional\<close> undoes
  writes. Machine integers are words of their width, byte arrays are lists of bytes, a slice out of range
  panics (\<open>rust\<close>), and a panic in a call is the error \<open>Panicked\<close>.

  \<^bold>\<open>Theories.\<close>
  \<^item> \<open>Sygma_Prelude\<close>, \<open>Xcm_Types\<close>, \<open>Frame\<close>, \<open>Sygma_Traits\<close>: machine integers, storage maps, the XCM data types,
    calls and how they are sequenced, \<^verbatim>\<open>traits/src/lib.rs\<close>. Locales: \<open>guarded_call\<close> (a call that needs access),
    \<open>fee_handler\<close>.
  \<^item> \<open>Access_Segregator\<close>, \<open>Basic_Fee_Handler\<close>, \<open>Percentage_Fee_Handler\<close>, \<open>Fee_Handler_Router\<close>: the \<^verbatim>\<open>lib.rs\<close> of these
    pallets, one definition for each function.
  \<^item> \<open>Encode_Packed\<close>, \<open>Eip712\<close>, \<open>Sygma_Host\<close>, \<open>Bridge_Signing\<close>: \<^verbatim>\<open>encode.rs\<close>, \<^verbatim>\<open>eip712.rs\<close>, the host functions, and the
    digest the relayers sign.
  \<^item> \<open>Bridge_Types\<close>, \<open>Bridge_Data\<close>, \<open>Bridge_Admin\<close>, \<open>Bridge_Transfer\<close>: the bridge pallet, in the order storage and
    events, data and nonce mask (locale \<open>execution_record\<close>: the mask implements a set), administrative calls,
    deposits and proposals.
  \<^item> \<open>Bridge_Runtime\<close>, \<open>Bridge_Accounting\<close>, \<open>Bridge_Safety\<close>: all calls as one transition \<open>dispatch\<close> with the
    inductive set of \<open>reachable\<close> storages, the contract \<open>bridge_contract\<close> between the bridge pallet and an asset
    transactor, the invariant, and what moves in the ledger.
  \<^item> \<open>Bridge_Spec\<close>: the abstract specification of the bridge pallet, a step relation on the key, the chains on
    record, the paused domains, the executed proposals and the next nonces, labelled with the events. The
    locale \<open>specified_bridge\<close> extends \<open>bridge_contract\<close> and holds the simulation.
  \<^item> \<open>Decimal_Converter\<close>, \<open>Runtime_Adapters\<close>, \<open>Parachain_Adapters\<close>, \<open>Runtime_Transactors\<close>, \<open>Standalone_Runtime\<close>,
    \<open>Parachain_Runtime\<close>, \<open>Bridge_Mock\<close>: the adapters and configurations of the runtimes. Each runtime interprets
    \<open>specified_bridge\<close>, so every theorem about it and about \<open>bridge_contract\<close> holds for all three. \<open>Runtime_Access\<close>:
    the delegation of guarded extrinsics, in the locale \<open>delegating_runtime\<close>, which all three interpret.
  \<^item> \<open>Xcm_Bridge\<close>, \<open>Bridge_Forwarder\<close>: \<^verbatim>\<open>xcm-bridge\<close> and \<^verbatim>\<open>bridge-forwarder\<close>.
  \<^item> \<open>Bridge_Migration\<close>, \<open>Sygma_Weights\<close>, \<open>Runtime_Limits\<close>, \<open>Runtime_Fees\<close>, \<open>Sygma_Rpc\<close>: \<^verbatim>\<open>migration.rs\<close>, the
    \<^verbatim>\<open>weights.rs\<close> files, the limits of a block, the database weights, fees, deposits and time constants of the
    runtimes, and \<^verbatim>\<open>rpc\<close>, \<^verbatim>\<open>runtime-api\<close> and \<^verbatim>\<open>parachain-info\<close>.
  \<^item> \<open>Runtime_Upgrade\<close>: the migrations \<^verbatim>\<open>Executive\<close> of each runtime runs, and lives of a chain in which calls and
    upgrades alternate.
  \<^item> \<open>Node_Genesis\<close>: the chain specifications of both nodes (\<^verbatim>\<open>chain_spec.rs\<close>), \<^verbatim>\<open>load_spec\<close>, and the storage a chain
    starts with. \<open>Setup_Scripts\<close>: \<^verbatim>\<open>setup.js\<close> and \<^verbatim>\<open>util.js\<close> of the standalone chain as lists of extrinsics that
    the node settles one by one, up to the first that it rejects, and the settings they leave (a functional refinement: \<open>settings_of\<close> abstracts the storage, \<open>apply_call\<close> the calls).
  \<^item> \<open>Bridge_Scenarios\<close>, \<open>Parachain_Scenarios\<close>: concrete chains on a reference platform, on which the hypotheses of
    the theorems are shown to hold.
  \<^item> \<open>Pallet_Tests\<close>, \<open>Bridge_Tests\<close>, \<open>Deposit_Tests\<close>, \<open>Proposal_Tests\<close>, \<open>Forwarder_Tests\<close>, \<open>Xcm_Network\<close>: the unit
    tests of the pallets as lists of steps, which the model passes. \<open>Xcm_Network\<close> holds the three parachains of
    the tests of \<^verbatim>\<open>xcm-bridge\<close> on a reference executor. \<open>Pallet_Benchmarks\<close>: the \<^verbatim>\<open>benchmarking.rs\<close> files as such
    lists, with the accounts for which they pass.

  \<^bold>\<open>What is shown.\<close> No proposal is executed twice, nonces of deposits are consecutive and never wrap, a batch
  needs a signature of the MPC key over this very batch on this very chain, and each of its proposals gets
  an outcome. Deposits and payouts move exactly the announced amounts, and a failed payout is not undone.
  Deposit data, resources, packed numbers and decimals survive the round trip within the stated bounds.
  Calls are atomic and guarded, access is delegated to one account for one extrinsic, pausing and registering
  do what they say, the MPC address is set once. Fees follow their formula. The adapters are
  characterised exactly, panics and amounts beyond 112 bits included. The pallet implements the abstract
  specification, so what holds of its runs holds of every log: no transfer without registration.
  On the parachain the forwarding transactor and the bridge pallet refer to each other; the recursion ends
  after two rounds, and two configurations of it are shown to fail always. A batch is bounded by the limits
  of a block. Upgrades of the runtime keep the guarantees, and replace the MPC key at most once, by the
  address of the migration. Every named chain specification starts, and the set-up script leaves the
  development chain of the standalone node closed or completely configured, wherever it stops.

  \<^bold>\<open>Parameters.\<close> Code outside the repository is an argument: \<open>host\<close> (hashes, signature recovery, the ABI encoder,
  the codec of locations), \<open>fixed_u128\<close> (the fixed-point package), \<open>platform\<close> (the adapters of \<^verbatim>\<open>xcm-builder\<close> and
  the accounts derived from a pallet identifier), \<open>xcm_platform\<close> (executor, weigher, reanchoring), \<open>client\<close>
  (the node's database), \<open>keypair\<close> (signing), \<open>weight_units\<close> and \<open>perbill\<close> (the units of weight and the fixed-point
  fractions of \<^verbatim>\<open>frame\<close>), \<open>keyring\<close> (keys derived from a phrase), \<open>script_platform\<close> (addresses,
  what becomes of a submitted extrinsic, fees and the balances and assets pallets, for the scripts). What a theorem needs of them is a named hypothesis (\<open>keccak_digests\<close>, \<open>abi_static\<close>,
  \<open>location_codec\<close>, \<open>u112f16\<close>, \<open>u112f16_wraps\<close>, \<open>is_concrete_law\<close>, \<open>currency_refuses_law\<close>, \<open>moves_balances\<close>, \<open>keys_work\<close>, \<open>accounts_coded\<close>,
  \<open>picoseconds\<close>, \<open>perbill_exact\<close>, \<open>evaluates_linear\<close>, \<open>derives_keys\<close> for the seeds the nodes use, \<open>finalized_included\<close>).
  Collision freedom of the hash is assumed only for the finitely many strings hashed.

  \<^bold>\<open>Bounds.\<close> There is no fuel: every loop of the sources runs over a list or a storage map with keys of eight
  bits. \<^verbatim>\<open>usize\<close> has 32 bits, as in the WebAssembly the runtime is compiled to.

  \<^bold>\<open>Not modelled.\<close> The services and command lines of the node binaries (networking, consensus, databases), which
  are calls into third-party crates; the scripts under \<^verbatim>\<open>scripts/xcm\<close>, which configure chains whose runtimes are not
  in the repository, and the shell scripts; the third-party pallets of the runtimes and their configuration,
  the barriers and converters of \<^verbatim>\<open>xcm_config.rs\<close>, which are compositions of types of \<^verbatim>\<open>xcm-builder\<close>, and the runtime
  APIs that forward to those pallets; the XCM executor, for which \<open>Xcm_Network\<close> has a
  reference only, and the simulated relay chain, which takes no part in the tests; log messages; the timing
  of the benchmarks; the metadata and encodings the pallet macros derive. The dynamic fee handler has no
  code in the repository.
\<close>

section \<open>Execution of proposals\<close>

text \<open>
  C1. A proposal is executed at most once: in every reachable state of a chain, the execution events have
  pairwise different pairs of origin domain and nonce, and the nonce mask holds exactly those pairs.
\<close>

theorem executions_at_most_once:
  assumes "bridge_contract cfg" and "reachable cfg h s"
  shows "distinct (executions (bridge_events s)) \<and> set (executions (bridge_events s)) = executed_set s"
  using bridge_contract.reachable_invariant [OF assms]
  by (simp add: bridge_invariant_def execution_log_ok_def)

theorem executions_at_most_once_witness:
  "executions (bridge_events mock_twice) = [(1, 5)] \<and> executed_set mock_twice = {(1, 5)}"
  using executions_at_most_once [OF mock_contract mock_twice_reachable] mock_twice_outcomes
  by (simp add: executions_def)

text \<open>
  C2. The deposits to a domain carry consecutive nonces from 0 up to the counter of the domain, in the
  order in which they were made, in every reachable state.
\<close>

theorem deposit_nonces_consecutive:
  assumes "bridge_contract cfg" and "reachable cfg h s"
  shows "map unat (deposit_nonces d (bridge_events s)) = [0..<unat (deposit_counts s d)]"
  using bridge_contract.reachable_invariant [OF assms]
  by (simp add: bridge_invariant_def deposit_log_ok_def)

theorem deposit_nonces_consecutive_witness:
  "map unat (deposit_nonces 1 (bridge_events mock_deposited)) = [0] \<and> deposit_counts mock_deposited 1 = 1"
  using deposit_nonces_consecutive [OF mock_contract mock_deposited_reachable, of 1] mock_deposited_state
  by simp

text \<open>
  C3. A batch changes the storage only with a valid signature: the MPC address is set, the batch is not
  empty, and the 65 bytes of the signature recover, from the typed-data digest of the batch, a public key
  whose address is the MPC address.
\<close>

theorem proposals_need_mpc_signature:
  assumes "snd (execute_proposal cfg h origin ps sig s) \<noteq> s"
  shows "\<not> is_clear (mpc_addr s) \<and> ps \<noteq> [] \<and> length sig = 65 \<and>
    (\<exists>pk. secp256k1_ecdsa_recover h sig (construct_ecdsa_signing_proposals_data cfg h ps) = Some pk \<and>
          public_key_to_address h pk = mpc_addr s)"
  using assms execute_proposal_ok_iff [of cfg h origin ps sig s]
  by (auto simp: execute_proposal_state verify_by_mpc_address_iff split: if_splits)

theorem proposals_need_mpc_signature_witness:
  "length good_signature = 65 \<and> public_key_to_address test_host (replicate 64 9) = mpc_addr mock_funded"
proof -
  have "outcomes (bridge_events mock_twice) \<noteq> outcomes (bridge_events mock_funded)"
    by (simp add: mock_twice_outcomes mock_funded_outcomes)
  then have "snd (execute_proposal mock_cfg test_host NoneOrigin [pay 5 BOB, pay 5 BOB] good_signature mock_funded)
      \<noteq> mock_funded"
    by (auto simp: mock_twice_def)
  from proposals_need_mpc_signature [OF this] show ?thesis
    by (auto simp: test_host_def good_signature_def)
qed

text \<open>
  C4. Every proposal of an accepted batch gets exactly one outcome event, in the order of the batch: a
  failing proposal neither stops the batch nor hides its outcome.
\<close>

theorem every_proposal_has_outcome:
  assumes "bridge_contract cfg" and "fst (execute_proposal cfg h origin ps sig s) = Inr ()"
  shows "map fst (outcomes (bridge_events (snd (execute_proposal cfg h origin ps sig s)))) =
    map fst (outcomes (bridge_events s)) @ map (\<lambda>p. (origin_domain_id p, deposit_nonce p)) ps"
  using bridge_contract.fold_execute_outcomes [OF assms(1)] assms(2) by (simp add: execute_proposal_state)

theorem every_proposal_has_outcome_witness:
  "map fst (outcomes (bridge_events mock_twice)) = [(1, 5), (1, 5)]"
  using every_proposal_has_outcome [OF mock_contract, of test_host NoneOrigin "[pay 5 BOB, pay 5 BOB]" good_signature mock_funded]
  by (simp add: execute_batch_ok mock_twice_def mock_funded_outcomes)

text \<open>
  C5. A proposal that is paid out to an account of the chain moves exactly the converted amount: it is
  added to the recipient and, for an asset with its reserve on the chain, taken from the reserve account;
  no other balance changes.
\<close>

theorem payout_conserves:
  assumes "moves_balances bal cfg" and "payout_facts cfg h p a (account_location who) (fungible_asset a n) acct s s1"
    and "execute_proposal_internal cfg h p s = (Inr (), t)"
  shows "bal (ledger t) b y +
      (if IsReserve cfg (fungible_asset a n) here \<and> b = a \<and> y = acct then unat n else 0) =
    bal (ledger s) b y + (if b = a \<and> y = who then unat n else 0)"
proof -
  have pay: "deposit_asset cfg (fungible_asset a n) (account_location who) s1 = (Inr (), t)"
    using assms(3) internal_payout [OF assms(2)] by (auto split: prod.splits sum.splits)
  have "bal (ledger s1) b y + (if IsReserve cfg (fungible_asset a n) here \<and> b = a \<and> y = acct then unat n else 0) =
      bal (ledger s) b y"
    using assms(2) withdraw_movesD [OF assms(1), of "fungible_asset a n" n acct s _ s1 b y]
    by (auto simp: payout_facts_def split: if_splits)
  with deposit_movesD [OF assms(1) pay, of b y] show ?thesis by simp
qed

theorem payout_conserves_witness:
  "mock_balance (ledger mock_paid) native BOB = mock_balance (ledger mock_funded) native BOB + 100 \<and>
   mock_balance (ledger mock_paid) native reserve_account + 100 = mock_balance (ledger mock_funded) native reserve_account"
  using payout_conserves [OF mock_moves_balances pay_bob_facts pay_bob_internal, of native BOB]
    payout_conserves [OF mock_moves_balances pay_bob_facts pay_bob_internal, of native reserve_account]
  by (simp add: native_bound)

text \<open>
  C6. A proposal whose payout fails after the withdrawal from the reserve is not undone: the batch goes on
  with the storage after the withdrawal, so the reserve has lost the amount, nobody has received it, and
  the nonce is still unused.
\<close>

theorem failed_payout_loses_reserve:
  assumes "moves_balances bal cfg" and "payout_facts cfg h p a location (fungible_asset a n) acct s s1"
    and "IsReserve cfg (fungible_asset a n) here"
    and "deposit_asset cfg (fungible_asset a n) location s1 = (Inl e, s1)"
    and "bridge_contract cfg"
  shows "bal (ledger (execute_one cfg h p s)) a acct + unat n = bal (ledger s) a acct \<and>
    ((b, y) \<noteq> (a, acct) \<longrightarrow> bal (ledger (execute_one cfg h p s)) b y = bal (ledger s) b y) \<and>
    executed_set (execute_one cfg h p s) = executed_set s"
proof -
  have one: "execute_one cfg h p s = deposit_event (FailedHandlerExecution
      (ascii (error_text (bridge_error TransactFailed))) (origin_domain_id p) (deposit_nonce p)) s1"
    using internal_payout [OF assms(2)] assms(4) by (simp add: execute_one_def)
  obtain held where w: "withdraw_asset cfg (fungible_asset a n) (account_location acct) s = (Inr held, s1)"
    using assms(2,3) by (auto simp: payout_facts_def)
  have "UsedNonces s1 = UsedNonces s"
    using bridge_contract.local_withdraw [OF assms(5), of s "fungible_asset a n" acct] w
    by (simp add: only_ledger_fields)
  then have "executed_set (execute_one cfg h p s) = executed_set s"
    by (intro executed_set_cong) (simp add: one deposit_event_def)
  then show ?thesis
    using withdraw_movesD [OF assms(1) _ w, of n a acct] withdraw_movesD [OF assms(1) _ w, of n b y]
    by (auto simp: one deposit_event_def)
qed

theorem failed_payout_loses_reserve_witness:
  "mock_balance (ledger (execute_one mock_cfg test_host (pay 7 []) mock_funded)) native reserve_account + 100 =
     mock_balance (ledger mock_funded) native reserve_account \<and>
   executed_set (execute_one mock_cfg test_host (pay 7 []) mock_funded) = {}"
  using failed_payout_loses_reserve [OF mock_moves_balances pay_nobody_facts [of 7] _ pay_nobody_deposit mock_contract,
      of native BOB]
  by (simp add: native_bound executed_set_empty mock_funded_getters)

section \<open>Deposits\<close>

text \<open>
  C7. A deposit that succeeds takes the amount from the sender, pays the fee to the fee account and, for an
  asset with its reserve on the chain, the rest to the reserve account of the asset. No other balance
  changes; for an asset reserved elsewhere the rest leaves the chain.
\<close>

theorem deposit_conserves:
  assumes "moves_balances bal cfg" and "deposit cfg origin asset dest s = (Inr (), t)"
  shows "\<exists>sender amount fee acct.
    origin = Signed sender \<and> asset_fun asset = Fungible amount \<and> fee < amount \<and>
    get_token_reserved_account cfg (asset_id asset) = Some acct \<and>
    (\<forall>b y. bal (ledger t) b y + (if b = asset_id asset \<and> y = sender then unat amount else 0) =
       bal (ledger s) b y + (if b = asset_id asset \<and> y = FeeReserveAccount cfg then unat fee else 0) +
       (if b = asset_id asset \<and> y = acct \<and> IsReserve cfg asset here then unat amount - unat fee else 0))"
  using assms(2)
proof (rule deposit_okE)
  fix sender d recipient rid amount fee acct dca u
  assume facts: "deposit_facts cfg sender asset dest d recipient rid amount fee acct dca s u"
    and origin: "origin = Signed sender"
    and t: "t = u\<lparr>DepositCounts := (DepositCounts u)(d \<mapsto> deposit_counts u d + 1),
                bridge_events := bridge_events u @
                  [Deposit d rid (deposit_counts u d) sender FungibleTransfer (create_deposit_data dca recipient) [],
                   FeeCollected sender d rid fee (asset_id asset)]\<rparr>"
  have "asset_fun asset = Fungible amount" "fee < amount" "get_token_reserved_account cfg (asset_id asset) = Some acct"
    using facts by (auto simp: deposit_facts_def dest: extract_asset_fun)
  then show ?thesis
    using deposit_facts_balances [OF assms(1) facts] origin by (auto simp: t)
qed

theorem deposit_conserves_witness:
  "\<exists>fee. mock_balance (ledger mock_deposited) native ALICE + 200000000000 = mock_balance (ledger mock_ready) native ALICE \<and>
     mock_balance (ledger mock_deposited) native TreasuryAccount = fee \<and>
     mock_balance (ledger mock_deposited) native reserve_account + fee = 200000000000"
proof -
  obtain amount fee acct where a: "Fungible 200000000000 = Fungible amount" "fee < amount"
      "get_token_reserved_account mock_cfg native = Some acct"
    and eq: "\<And>b y. mock_balance (ledger mock_deposited) b y + (if b = native \<and> y = ALICE then unat amount else 0) =
       mock_balance (ledger mock_ready) b y + (if b = native \<and> y = TreasuryAccount then unat fee else 0) +
       (if b = native \<and> y = acct \<and> ReserveChecker_contains (fungible_asset native 200000000000) here
        then unat amount - unat fee else 0)"
    using deposit_conserves [OF mock_moves_balances mock_deposit_result] by auto
  have "acct = reserve_account" "amount = 200000000000" using a native_bound by auto
  moreover have "unat fee \<le> 200000000000"
    using a \<open>amount = _\<close> by (simp add: word_less_nat_alt)
  moreover have "mock_balance (ledger mock_ready) native TreasuryAccount = 0"
    "mock_balance (ledger mock_ready) native reserve_account = 0"
    by (simp_all add: mock_balance_def mock_key_def mock_ready_getters endowed_def)
  ultimately show ?thesis
    using eq [of native ALICE] eq [of native TreasuryAccount] eq [of native reserve_account] native_bound(3)
    by (intro exI [of _ "unat fee"]) simp
qed

text \<open>
  C8. Exactly when a deposit succeeds, and what it leaves behind: it succeeds when all checks hold, the
  transfers go through and the nonce is not exhausted, and then the storage is the one after the
  transfers, with the next nonce and the two events added. In all other cases the storage is unchanged.
\<close>

theorem deposit_succeeds_iff:
  "(\<exists>d recipient rid amount fee acct dca t.
      deposit_facts cfg sender asset dest d recipient rid amount fee acct dca s t \<and>
      unat (deposit_counts t d) + 1 < 2 ^ 64 \<and>
      deposit cfg (Signed sender) asset dest s =
        (Inr (), t\<lparr>DepositCounts := (DepositCounts t)(d \<mapsto> deposit_counts t d + 1),
           bridge_events := bridge_events t @
             [Deposit d rid (deposit_counts t d) sender FungibleTransfer (create_deposit_data dca recipient) [],
              FeeCollected sender d rid fee (asset_id asset)]\<rparr>)) \<or>
   (\<exists>e. deposit cfg (Signed sender) asset dest s = (Inl e, s) \<and>
      (\<nexists>d recipient rid amount fee acct dca t.
         deposit_facts cfg sender asset dest d recipient rid amount fee acct dca s t \<and>
         unat (deposit_counts t d) + 1 < 2 ^ 64))"
proof (cases "fst (deposit cfg (Signed sender) asset dest s)")
  case (Inl e)
  then have err: "deposit cfg (Signed sender) asset dest s = (Inl e, s)"
    unfolding deposit_def by (metis prod.collapse transactional_Inl)
  with deposit_okI show ?thesis by fastforce
next
  case (Inr u)
  then have "deposit cfg (Signed sender) asset dest s = (Inr (), snd (deposit cfg (Signed sender) asset dest s))"
    by (metis prod.collapse old.unit.exhaust)
  then show ?thesis
    by (rule deposit_okE) (metis RuntimeOrigin.inject(1) deposit_okI)
qed

text \<open>
  C9. The nonce never wraps around: with the counter of the domain at its maximum a deposit fails with
  \<^verbatim>\<open>DepositNonceOverflow\<close>, and the transfers already made are rolled back.
\<close>

theorem deposit_nonce_never_wraps:
  assumes "deposit_facts cfg sender asset dest d recipient rid amount fee acct dca s t"
    and "deposit_counts t d = - 1"
  shows "deposit cfg (Signed sender) asset dest s = (Inl (bridge_error DepositNonceOverflow), s)"
proof -
  have none: "checked_add (deposit_counts t d) 1 = None"
    using assms(2) by (simp add: checked_add_def unat_max_word)
  obtain s1 s2 held where
    "withdraw_asset cfg asset (account_location sender) s = (Inr held, s1)"
    "deposit_asset cfg (fungible_asset (asset_id asset) fee) (account_location (FeeReserveAccount cfg)) s1 = (Inr (), s2)"
    "if IsReserve cfg asset here
     then deposit_asset cfg (fungible_asset (asset_id asset) (amount - fee)) (account_location acct) s2 = (Inr (), t)
     else t = s2"
    using assms(1) unfolding deposit_facts_def by blast
  then show ?thesis
    using assms(1) none unfolding deposit_def transactional_Inl_iff deposit_body_def Let_def deposit_facts_def
    by (simp add: exec_eval ensure_signed_def split: if_splits)
qed

theorem deposit_nonce_never_wraps_witness:
  "deposit mock_cfg (Signed ALICE) (fungible_asset native 200000000000) to_ethereum mock_exhausted =
     (Inl (bridge_error DepositNonceOverflow), mock_exhausted)"
  by (rule deposit_nonce_never_wraps [OF exhausted_deposit_facts])
    (simp add: mock_exhausted_def deposit_counts_def value_query_def)

text \<open>
  C10. The data a deposit announces is what a proposal reads: amount and recipient survive the encoding,
  for every recipient whose bytes decode to a location.
\<close>

theorem deposit_data_roundtrip:
  assumes "length recipient < 2 ^ 32" and "decode_location h recipient = Some l"
  shows "extract_deposit_data h (create_deposit_data amount recipient) = Inr (amount, l)"
  using extract_create_deposit_data [OF assms(1)] assms(2) by simp

theorem deposit_data_roundtrip_witness:
  "extract_deposit_data test_host (create_deposit_data 199999999900000000 BOB) =
     Inr (199999999900000000, account_location BOB)"
  by (rule deposit_data_roundtrip) (simp_all add: recipients_decoded)

text \<open>
  C11. Exactly which data a proposal accepts: a 32-byte amount, a 32-byte length that is the length of all
  the rest, and a recipient that decodes. Trailing or missing bytes are refused.
\<close>

theorem deposit_data_accepted_iff:
  "extract_deposit_data h data = Inr (amount, location) \<longleftrightarrow>
     64 \<le> length data \<and> be_nat (take 32 data) = unat amount \<and>
     be_nat (take 32 (drop 32 data)) = length data - 64 \<and> length data - 64 < 2 ^ 32 \<and>
     decode_location h (drop 64 data) = Some location"
  by (rule extract_deposit_data_Inr_iff)

section \<open>Pausing and access\<close>

text \<open>
  C12. A paused or unregistered domain is cut off: no deposit to it succeeds, no retry for it is accepted,
  and no batch executes a proposal from it.
\<close>

theorem blocked_domain:
  assumes "bridge_contract cfg" and "is_paused s d \<or> \<not> dest_domain_ids s d"
  shows "(ExtractDestData cfg dest = Returns (Some (recipient, d)) \<longrightarrow>
      fst (deposit cfg origin asset dest s) \<noteq> Inr ()) \<and>
    fst (retry cfg origin b d s) \<noteq> Inr () \<and>
    is_proposal_executed n d (snd (execute_proposal cfg h origin ps sig s)) = is_proposal_executed n d s"
proof (intro conjI impI notI)
  assume "fst (retry cfg origin b d s) = Inr ()"
  with assms(2) show False by (auto simp: retry_def split: if_splits)
next
  assume ext: "ExtractDestData cfg dest = Returns (Some (recipient, d))"
    and "fst (deposit cfg origin asset dest s) = Inr ()"
  then have "deposit cfg origin asset dest s = (Inr (), snd (deposit cfg origin asset dest s))"
    by (metis prod.collapse)
  then show False
    by (rule deposit_okE) (use ext assms(2) in \<open>auto simp: deposit_facts_def\<close>)
next
  show "is_proposal_executed n d (snd (execute_proposal cfg h origin ps sig s)) = is_proposal_executed n d s"
    using bridge_contract.fold_execute_blocked [OF assms] by (simp add: execute_proposal_state)
qed

theorem blocked_domain_witness:
  "fst (retry mock_cfg Root 10 2 mock_funded) \<noteq> Inr () \<and>
   \<not> is_proposal_executed 5 2 (snd (execute_proposal mock_cfg test_host NoneOrigin [pay 5 BOB] good_signature mock_funded))"
proof -
  have "\<not> dest_domain_ids mock_funded 2"
    by (simp add: mock_funded_def mock_ready_eq mock_genesis_def getter_defs value_query_def)
  then show ?thesis
    using blocked_domain [OF mock_contract, of mock_funded 2] mock_funded_getters(4) by blast
qed

text \<open>
  C13. Every call is refused to an origin without access to it, with the error of its pallet and without a
  change of the storage.
\<close>

theorem calls_need_access:
  assumes "\<not> call_access cfg c origin s"
  shows "dispatch cfg h origin c s = (Inl (call_denied c), s)"
  using assms by (rule dispatch_refused)

theorem calls_need_access_witness:
  "dispatch mock_cfg test_host (Signed ALICE) (PauseBridge 1) mock_funded = (Inl (bridge_error AccessDenied), mock_funded)"
proof -
  have "\<not> call_access mock_cfg (PauseBridge 1) (Signed ALICE) mock_funded"
    by (simp add: bridge_access_def has_access_iff ensure_root_def mock_funded_def mock_ready_eq mock_genesis_def)
  from calls_need_access [OF this, of test_host] show ?thesis by simp
qed

text \<open>
  C14. Every call is all or nothing: one that returns an error leaves the whole storage, the ledger and the
  logs included, as it was.
\<close>

theorem calls_are_atomic:
  assumes "fst (dispatch cfg h origin c s) = Inl e"
  shows "snd (dispatch cfg h origin c s) = s"
  using assms dispatch_atomic [of cfg h origin c s e] by (metis prod.collapse)

theorem calls_are_atomic_witness:
  "snd (dispatch mock_cfg test_host (Signed ALICE)
     (DepositCall (fungible_asset native 1) to_ethereum) mock_ready) = mock_ready"
proof -
  have "fst (dispatch mock_cfg test_host (Signed ALICE)
      (DepositCall (fungible_asset native 1) to_ethereum) mock_ready) = Inl (bridge_error FeeTooExpensive)"
    by (simp add: deposit_def deposit_body_def exec_eval ensure_signed_def mock_ready_getters to_ethereum_parsed native_bound)
  from calls_are_atomic [OF this] show ?thesis .
qed

text \<open>
  C15. The MPC address, once set, is never replaced: no sequence of calls by any origins changes it.
\<close>

theorem mpc_address_immutable:
  assumes "bridge_contract cfg" and "\<not> is_clear (mpc_addr s)"
  shows "mpc_addr (run cfg h calls s) = mpc_addr s"
  using run_mpc [OF assms] by (simp add: mpc_addr_def)

theorem mpc_address_immutable_witness:
  "mpc_addr (run mock_cfg test_host [(Root, SetMpcAddress (replicate 20 1)), (Root, PauseAllBridges)] mock_funded) = mock_mpc"
  using mpc_address_immutable [OF mock_contract, of mock_funded] by (simp add: mock_funded_getters del: run_simps)

text \<open>
  C16. The bridge pallet implements its abstract specification: the log of every reachable state is a run of
  the specification, from the initial state to the abstraction of the storage. The specification knows the
  key, the chains on record, the paused domains, the set of executed proposals and the next nonces only.
\<close>

theorem bridge_implements_spec:
  assumes "specified_bridge cfg" and "reachable cfg h s"
  shows "spec_run spec_init (bridge_events s) (bridge_abs s)"
  by (rule specified_bridge.reachable_refines [OF assms])

theorem bridge_implements_spec_witness:
  "spec_run spec_init (bridge_events mock_twice) (bridge_abs mock_twice) \<and> spec_executed (bridge_abs mock_twice) = {(1, 5)}"
proof -
  have "specified_bridge mock_cfg" unfolding mock_cfg_def by (rule mock.specified_bridge_axioms)
  from bridge_implements_spec [OF this mock_twice_reachable] show ?thesis
    using bridge_contract.reachable_invariant [OF mock_contract mock_twice_reachable] mock_twice_outcomes
    by (simp add: bridge_abs_def bridge_invariant_def execution_log_ok_def executions_def)
qed

text \<open>
  C19. No transfer without registration: in the log of every reachable state, each deposit, collected fee,
  retry and executed proposal of a domain comes after a registration of this domain that was not revoked
  in between.
\<close>

theorem transfers_need_registration:
  assumes "specified_bridge cfg" and "reachable cfg h s"
    and "bridge_events s = before @ e # after" and "transfer_domain e = Some d"
  shows "registry before d \<noteq> None"
  by (rule spec_transfers_registered [OF specified_bridge.reachable_refines [OF assms(1,2)] assms(3,4)])

theorem transfers_need_registration_witness:
  "\<exists>e after. bridge_events mock_deposited = bridge_events mock_ready @ e # after \<and> transfer_domain e = Some 1 \<and>
     registry (bridge_events mock_ready) 1 \<noteq> None"
proof -
  have spec: "specified_bridge mock_cfg" unfolding mock_cfg_def by (rule mock.specified_bridge_axioms)
  have counts: "unat (deposit_counts (mock_ready\<lparr>ledger := after_deposit\<rparr>) 1) + 1 < 2 ^ 64"
    by (simp add: mock_ready_eq mock_genesis_def getter_defs value_query_def)
  have "\<exists>e after. bridge_events mock_deposited = bridge_events mock_ready @ e # after \<and> transfer_domain e = Some 1"
    using deposit_okI [OF native_deposit_facts counts] by (simp add: mock_deposited_def)
  then obtain e after where log: "bridge_events mock_deposited = bridge_events mock_ready @ e # after"
    "transfer_domain e = Some 1" by blast
  from transfers_need_registration [OF spec mock_deposited_reachable log] log show ?thesis by blast
qed

section \<open>Domains\<close>

text \<open>
  Setting the MPC address opens the bridge: after it no domain is paused.
\<close>

lemma set_mpc_address_unpauses:
  assumes "set_mpc_address cfg origin addr s = (Inr (), t)"
  shows "mpc_addr t = addr \<and> \<not> is_paused t d"
  using assms is_paused_unpause_all [of "s\<lparr>MpcAddr := Some addr\<rparr>" d]
  by (auto simp: set_mpc_address_def unpause_all_domains_eq mpc_addr_def split: if_splits)

text \<open>
  In every reachable state a domain is supported exactly when a chain identifier is on record for it.
\<close>

lemma domains_have_chains:
  assumes "bridge_contract cfg" and "reachable cfg h s"
  shows "dest_domain_ids s d \<longleftrightarrow> dest_chain_ids s d \<noteq> None"
  using bridge_contract.reachable_invariant [OF assms]
  by (intro domains_consistentD) (simp add: bridge_invariant_def)

lemma domains_have_chains_witness:
  "dest_domain_ids mock_twice 1 \<longleftrightarrow> dest_chain_ids mock_twice 1 \<noteq> None"
  by (rule domains_have_chains [OF mock_contract mock_twice_reachable])

text \<open>
  Pausing all bridges pauses every supported domain; afterwards, unpausing all bridges leaves no
  domain paused, supported or not.
\<close>

lemma pause_all_then_unpause_all:
  assumes "pause_all_bridges cfg origin s = (Inr (), t)" and "unpause_all_bridges cfg origin' t = (Inr (), u)"
  shows "(dest_domain_ids s d \<longrightarrow> is_paused t d) \<and> \<not> is_paused u d"
proof -
  have "dest_domain_ids s d \<Longrightarrow> is_paused (pause_all_domains s) d"
    by (simp add: is_paused_pause_all dest_domain_ids_dom)
  then show ?thesis
    using assms is_paused_unpause_all [of t d]
    by (auto simp: pause_all_bridges_def unpause_all_bridges_def deposit_event_def is_paused_def split: if_splits)
qed

lemma pause_all_then_unpause_all_witness:
  "\<exists>t u. pause_all_bridges mock_cfg Root mock_funded = (Inr (), t) \<and> unpause_all_bridges mock_cfg Root t = (Inr (), u) \<and>
     is_paused t 1 \<and> \<not> is_paused u 1"
proof -
  define t where "t = snd (pause_all_bridges mock_cfg Root mock_funded)"
  define u where "u = snd (unpause_all_bridges mock_cfg Root t)"
  have t: "pause_all_bridges mock_cfg Root mock_funded = (Inr (), t)"
    by (simp add: t_def pause_all_bridges_def)
  have "mpc_addr t = mock_mpc"
    using mock_funded_getters(1)
    by (simp add: t_def pause_all_bridges_def deposit_event_def pause_all_domains_eq mpc_addr_def)
  then have u: "unpause_all_bridges mock_cfg Root t = (Inr (), u)"
    by (simp add: u_def unpause_all_bridges_def)
  show ?thesis
    using pause_all_then_unpause_all [OF t u, of 1] t u mock_funded_getters(3) by blast
qed

text \<open>
  Unregistering a domain needs the chain identifier on record, and undoes its registration.
\<close>

lemma register_unregister:
  assumes "bridge_access cfg ''register_domain'' origin s" and "bridge_access cfg ''unregister_domain'' origin s"
    and "DestDomainIds s d = None" and "DestChainIds s d = None"
  shows "(let t = snd (register_domain cfg origin d c s);
              u = snd (unregister_domain cfg origin d c t) in
      dest_domain_ids t d \<and> dest_chain_ids t d = Some c \<and>
      (c' \<noteq> c \<longrightarrow> unregister_domain cfg origin d c' t = (Inl (bridge_error DestChainIDNotMatch), t)) \<and>
      DestDomainIds u = DestDomainIds s \<and> DestChainIds u = DestChainIds s)"
  using assms
  by (auto simp: register_domain_def unregister_domain_def deposit_event_def getter_defs value_query_def Let_def
      fun_upd_idem bridge_access_def has_access_iff)

lemma register_unregister_witness:
  "DestDomainIds (snd (unregister_domain mock_cfg Root 2 7 (snd (register_domain mock_cfg Root 2 7 mock_funded)))) =
   DestDomainIds mock_funded"
  using register_unregister [of mock_cfg Root mock_funded 2 7 8]
  by (simp add: mock_funded_def mock_ready_eq mock_genesis_def Let_def)

section \<open>Messages and identifiers\<close>

text \<open>
  C20. The signed digest binds the whole batch: two different batches, even ones that differ in a nonce or
  in their order only, have different digests, as long as the hash function has no collision among the
  strings hashed for them.
\<close>

theorem signed_digest_binds_batch:
  assumes "keccak_digests h" and "abi_static h"
    and "list_all proposal_wf ps" and "list_all proposal_wf qs" and "ps \<noteq> []" and "qs \<noteq> []"
    and "inj_on (keccak_256 h) (hashed_inputs cfg h ps \<union> hashed_inputs cfg h qs)" and "ps \<noteq> qs"
  shows "construct_ecdsa_signing_proposals_data cfg h ps \<noteq> construct_ecdsa_signing_proposals_data cfg h qs"
  using signing_data_binds [OF assms(1-7)] assms(8) by blast

theorem signed_digest_binds_batch_witness:
  "construct_ecdsa_signing_proposals_data mock_cfg test_host [pay 5 BOB] \<noteq>
   construct_ecdsa_signing_proposals_data mock_cfg test_host [pay 6 BOB]"
proof (rule signed_digest_binds_batch [OF test_host_laws])
  show "list_all proposal_wf [pay 5 BOB]" "list_all proposal_wf [pay 6 BOB]"
    by (simp_all add: proposal_wf_def mock_NativeResourceId_def)
  show "[pay 5 BOB] \<noteq> [pay 6 BOB]" by (simp add: pay_def)
qed (simp_all add: payments_collision_free)

text \<open>
  C21. No replay across chains: two runtimes with different chain identifiers or different verifying
  contracts never accept the same digest, as long as the hash function has no collision among the four
  strings in question.
\<close>

theorem no_cross_chain_replay:
  assumes laws: "keccak_digests h" "abi_static h"
    and len: "length (DestVerifyingContractAddress cfg) = 20" "length (DestVerifyingContractAddress cfg') = 20"
    and ne: "ps \<noteq> []" "qs \<noteq> []"
    and inj: "inj_on (keccak_256 h) {final_preimage cfg h ps, final_preimage cfg' h qs,
      abi_encode h (separator_tokens h (bridge_domain cfg)), abi_encode h (separator_tokens h (bridge_domain cfg'))}"
    and differ: "(EIP712ChainID cfg, DestVerifyingContractAddress cfg) \<noteq> (EIP712ChainID cfg', DestVerifyingContractAddress cfg')"
  shows "construct_ecdsa_signing_proposals_data cfg h ps \<noteq> construct_ecdsa_signing_proposals_data cfg' h qs"
proof
  assume "construct_ecdsa_signing_proposals_data cfg h ps = construct_ecdsa_signing_proposals_data cfg' h qs"
  then have "keccak_256 h (final_preimage cfg h ps) = keccak_256 h (final_preimage cfg' h qs)"
    using ne by (simp add: signing_data_eq)
  then have "final_preimage cfg h ps = final_preimage cfg' h qs"
    by (rule inj_onD [OF inj]) simp_all
  then have "separator h (bridge_domain cfg) = separator h (bridge_domain cfg')"
    using laws(1) by (simp add: final_preimage_def separator_def keccak_digests_def)
  then have "abi_encode h (separator_tokens h (bridge_domain cfg)) = abi_encode h (separator_tokens h (bridge_domain cfg'))"
    unfolding separator_def by (rule inj_onD [OF inj]) simp_all
  from separator_preimage_binds [OF laws(2,1) _ _ _ _ this] show False
    using differ len by (simp add: bridge_domain_def default_EIP712Domain_def)
qed

theorem no_cross_chain_replay_witness:
  "construct_ecdsa_signing_proposals_data (mock_cfg\<lparr>EIP712ChainID := 5\<rparr>) test_host [pay 5 BOB] \<noteq>
   construct_ecdsa_signing_proposals_data (mock_cfg\<lparr>EIP712ChainID := 6\<rparr>) test_host [pay 5 BOB]"
  by (rule no_cross_chain_replay [OF test_host_laws _ _ _ _ chains_collision_free])
    (simp_all add: mock_cfg_def mock_config_defs mock_DestVerifyingContractAddress_def)

text \<open>
  C22. The mask of used nonces implements a set of executed proposals: marking a nonce of a domain adds
  exactly that pair, across the words of 64 nonces each.
\<close>

theorem used_nonces_refine_set:
  "executed_set (set_proposal_executed n d s) = insert (d, n) (executed_set s)"
  using nonce_mask.executed_mark [of "(d, n)" s] by simp

text \<open>
  C23. The resource a deposit announces is resolved to the same asset by a proposal, when no resource
  identifier is bound twice.
\<close>

theorem resource_resolves_back:
  assumes "distinct (map snd (ResourcePairs cfg))" and "extract_asset cfg asset = Some (rid, amount, t)"
  shows "rid_to_assetid cfg rid = Some (asset_id asset) \<and> asset_fun asset = Fungible amount \<and> t = FungibleTransfer"
  using resource_roundtrip [OF assms] extract_asset_fun [OF assms(2)] extract_asset_type [OF assms(2)] by simp

theorem resource_resolves_back_witness:
  "rid_to_assetid (standalone_config reference_platform fixed_words :: balances bridge_storage bridge_config)
     standalone_NativeResourceId = Some native"
proof -
  let ?cfg = "standalone_config reference_platform fixed_words :: balances bridge_storage bridge_config"
  have "ResourcePairs ?cfg = standalone_ResourcePairs" by (simp add: standalone_config_defs)
  moreover have "extract_asset ?cfg (fungible_asset native 1) = Some (standalone_NativeResourceId, 1, FungibleTransfer)"
    by (simp add: extract_asset_def standalone_config_defs standalone_ResourcePairs_def native_def)
  ultimately show ?thesis
    using resource_resolves_back [of ?cfg "fungible_asset native 1"] standalone_pairs_distinct(2) by simp
qed

section \<open>Fees\<close>

text \<open>
  C25. The percentage fee is the amount times the rate in basis points, computed without wrap-around
  (saturating at the largest balance) and clamped to the bounds on record.
\<close>

theorem percentage_fee_formula:
  assumes "AssetFeeRate s (d, asset_id a) = Some (rate, lo, hi)" and "asset_fun a = Fungible amount" and "lo < hi"
  shows "map_option unat (percentage_get_fee s d a) =
    Some (max (unat lo) (min (unat hi) (min (unat amount * unat rate) (2 ^ 128 - 1) div 10000)))"
  using percentage_get_fee_unat [OF assms] by (simp add: clamped_fee_def proportional_fee_def)

theorem percentage_fee_formula_witness:
  "map_option unat (percentage_get_fee (mock_genesis\<lparr>AssetFeeRate := [(1, native) \<mapsto> (500, 0, 1000000)]\<rparr>) 1
     (fungible_asset native 10000)) = Some 500"
  using percentage_fee_formula [of "mock_genesis\<lparr>AssetFeeRate := [(1, native) \<mapsto> (500, 0, 1000000)]\<rparr>" 1
      "fungible_asset native 10000" 500 0 1000000 10000] by simp

text \<open>
  C26. In every reachable state, a deposit of more than the lower bound of its rate pays a fee within the
  bounds and below the amount, so the percentage handler never makes such a deposit too expensive.
\<close>

theorem percentage_fee_affordable:
  assumes "bridge_contract cfg" and "reachable cfg h s"
    and "AssetFeeRate s (d, asset_id a) = Some (rate, lo, hi)" and "asset_fun a = Fungible amount" and "lo < amount"
  shows "\<exists>fee. percentage_get_fee s d a = Some fee \<and> lo \<le> fee \<and> fee \<le> hi \<and> fee < amount"
proof -
  have "rates_valid s"
    using bridge_contract.reachable_invariant [OF assms(1,2)] by (simp add: bridge_invariant_def)
  then have valid: "rate < 10000" "lo < hi" using rates_validD assms(3) by blast+
  obtain fee where fee: "percentage_get_fee s d a = Some fee"
    and eq: "unat fee = clamped_fee (unat amount) (unat rate) (unat lo) (unat hi)"
    using percentage_get_fee_unat [OF assms(3,4) valid(2)] by auto
  have "unat rate < 10000" using valid(1) by (simp add: word_less_nat_alt)
  moreover have "unat lo < unat amount" using assms(5) by (simp add: word_less_nat_alt)
  ultimately have "unat fee < unat amount"
    using proportional_fee_less [of "unat rate" "unat amount"] by (simp add: eq clamped_fee_def)
  moreover have "unat lo \<le> unat fee" "unat fee \<le> unat hi"
    using clamped_fee_bounds [of "unat lo" "unat hi"] valid(2) by (simp_all add: eq word_less_nat_alt)
  ultimately show ?thesis by (auto simp: fee word_less_nat_alt word_le_nat_alt)
qed

theorem percentage_fee_affordable_witness:
  "\<exists>fee. percentage_get_fee (run mock_cfg test_host [(Root, SetFeeRate 1 native 500 0 1000000)] mock_funded) 1
     (fungible_asset native 10000) = Some fee \<and> fee < 10000"
proof -
  let ?s = "run mock_cfg test_host [(Root, SetFeeRate 1 native 500 0 1000000)] mock_funded"
  have "AssetFeeRate ?s (1, native) = Some (500, 0, 1000000)" by (simp add: set_fee_rate_def)
  then show ?thesis
    using percentage_fee_affordable [OF mock_contract run_reachable [OF mock_funded_reachable],
        of "[(Root, SetFeeRate 1 native 500 0 1000000)]" 1 "fungible_asset native 10000" 500 0 1000000 10000]
    by (auto simp del: run_simps)
qed

text \<open>
  C27. Setting a fee and routing to it takes effect for that domain and asset, and for no other.
\<close>

theorem fee_settings_take_effect:
  assumes "set_fee cfg origin d a n s = (Inr (), t)" and "set_fee_handler cfg origin d a BasicFeeHandler t = (Inr (), u)"
  shows "router_get_fee u d' b =
    (if d' = d \<and> asset_id b = a then Some n else router_get_fee s d' b)"
proof -
  have t: "t = s\<lparr>AssetFees := (AssetFees s)((d, a) \<mapsto> n), basic_events := basic_events s @ [FeeSet d a n]\<rparr>"
    using assms(1) by (simp add: set_fee_def split: if_splits)
  have u: "u = t\<lparr>HandlerType := (HandlerType t)((d, a) \<mapsto> BasicFeeHandler),
      router_events := router_events t @ [FeeHandlerSet d a BasicFeeHandler]\<rparr>"
    using assms(2) by (simp add: set_fee_handler_def split: if_splits)
  have "percentage_get_fee u d' b = percentage_get_fee s d' b"
    by (rule percentage_fee.config_only) (simp add: t u)
  then show ?thesis
    by (cases "d' = d \<and> asset_id b = a") (auto simp: router_get_fee_def basic_get_fee_def t u
        split: option.split FeeHandlerType.split)
qed

theorem fee_settings_take_effect_witness:
  "router_get_fee (snd (set_fee_handler mock_cfg Root 1 native BasicFeeHandler
     (snd (set_fee mock_cfg Root 1 native 42 mock_genesis)))) 1 (fungible_asset native 7) = Some 42"
proof -
  define t where "t = snd (set_fee mock_cfg Root 1 native 42 mock_genesis)"
  have "set_fee mock_cfg Root 1 native 42 mock_genesis = (Inr (), t)" by (simp add: t_def set_fee_def)
  moreover have "set_fee_handler mock_cfg Root 1 native BasicFeeHandler t =
      (Inr (), snd (set_fee_handler mock_cfg Root 1 native BasicFeeHandler t))" by (simp add: set_fee_handler_def)
  ultimately show ?thesis using fee_settings_take_effect [of mock_cfg Root 1 native 42 mock_genesis t] by (simp add: t_def)
qed

section \<open>Forwarding on the parachain\<close>

text \<open>
  C34. On the parachain the bridge pallet and its asset transactor use each other, without end as far as the
  types of the runtime show. The recursion stops: however often the references are unfolded, from the second
  time on the payout is that of the runtime, whatever stands at the bottom; and it is a fixed point, so the
  transactor forwards to the deposits of the very bridge that is configured with it.
\<close>

theorem parachain_reentry_ends:
  "parachain_level h xp pf fx para_id bottom (n + 2) = deposit_asset (parachain_config h xp pf fx para_id) \<and>
   deposit_asset (parachain_config h xp pf fx para_id) =
     XCMAssetTransactor_deposit_asset h (parachain_CurrencyTransactor pf) (parachain_FungiblesTransactor pf)
       (is_native_asset para_id)
       (other_world_transactor_forwarder (bridge_transfer (parachain_config h xp pf fx para_id)))
       (xcm_transactor_forwarder (xcm_transfer (parachain_xcm_config xp para_id) h))"
proof
  show "parachain_level h xp pf fx para_id bottom (n + 2) = deposit_asset (parachain_config h xp pf fx para_id)"
    unfolding add_2_eq_Suc' by (rule parachain_level_settles)
qed (rule parachain_knot_eq)

lemma parachain_deposit_other_world:
  assumes "is_other_world who"
  shows "deposit (parachain_config h xp pf fx para_id) (Signed x) what who s =
    (Inl (if is_clear (mpc_addr s) then bridge_error MissingMpcAddress else bridge_error ExtractDestDataFailed), s)"
proof -
  have "parachain_extract_dest who = Returns None"
    using assms by (auto simp: is_other_world_iff parachain_extract_dest_def)
  then show ?thesis
    by (simp add: deposit_def transactional_Inl_iff deposit_body_def exec_eval ensure_signed_def
        parachain_config_def parachain_config_defs)
qed

text \<open>
  C35. A payout to a recipient outside the ecosystem never succeeds on the parachain: the forwarder hands the
  location of four junctions to a parser that knows only three. The asset stays where the transactor
  parked it, in the temporary account.
\<close>

theorem other_world_forward_fails:
  assumes "is_other_world who"
    and "parachain_local_deposit pf para_id what (account_location (tmp_account h 1)) s = (Inr (), s')"
  shows "\<exists>e. deposit_asset (parachain_config h xp pf fx para_id) what who s = (Inl e, s')"
  using assms local_not_other_world [of who] unfolding parachain_knot_eq XCMAssetTransactor_deposit_asset_def
  by (auto simp: Let_def forwarded_def other_world_forwarder_state bridge_transfer_def parachain_local_deposit_def
      parachain_deposit_other_world)

theorem other_world_forward_fails_witness:
  "\<exists>e. deposit_asset (parachain_config test_host reference_xcm reference_platform fixed_words 2004)
     (parachain_usdt 7) other_world_recipient parachain_start =
   (Inl e, parachain_start\<lparr>ledger := (\<lambda>_. 0)((Some 2000, tmp_account test_host 1) := 7)\<rparr>)"
  using other_world_forward_fails [OF other_world_recipient parachain_parks_usdt, of test_host reference_xcm fixed_words]
  by (simp add: parachain_start_ledger)

lemma parachain_native_withdraw:
  assumes "is_concrete_law pf" and "currency_refuses_law pf"
    and "asset_id what = Concrete NativeLocation" and "asset_fun what = Fungible n"
  shows "\<exists>e. withdraw_asset (parachain_config h xp pf fx para_id) what who s = (Inl e, s)"
proof -
  have "IsConcrete pf RelayLocation what = None"
    using assms(1) assms(3,4)
    by (simp add: is_concrete_law_def NativeLocation_def RelayLocation_def here_def parent_def)
  then obtain e where "tr_withdraw (CurrencyAdapter pf (IsConcrete pf RelayLocation)) what who (ledger s) = (Inl e, ledger s)"
    using assms(2) unfolding currency_refuses_law_def by blast
  moreover have "is_native_asset para_id what"
    using assms(3,4) by (simp add: is_native_asset_def NativeLocation_def)
  ultimately show ?thesis
    by (simp add: parachain_config_def parachain_config_defs XCMAssetTransactor_withdraw_asset_def
        parachain_CurrencyTransactor_def lift_transactor_def on_ledger_def)
qed

text \<open>
  C36. The native asset of the parachain cannot cross the bridge: its transactor matches the token of the
  relay chain instead. Every withdrawal and every deposit of the native asset fails and leaves the chain
  as it was.
\<close>

theorem parachain_native_stuck:
  assumes "is_concrete_law pf" and "currency_refuses_law pf"
    and "asset_id what = Concrete NativeLocation" and "asset_fun what = Fungible n"
  shows "(\<exists>e. withdraw_asset (parachain_config h xp pf fx para_id) what who s = (Inl e, s)) \<and>
    (\<exists>e. deposit (parachain_config h xp pf fx para_id) origin what dest s = (Inl e, s))"
proof (rule conjI [OF parachain_native_withdraw [OF assms]])
  obtain r t where r: "deposit (parachain_config h xp pf fx para_id) origin what dest s = (r, t)" by fastforce
  show "\<exists>e. deposit (parachain_config h xp pf fx para_id) origin what dest s = (Inl e, s)"
  proof (cases r)
    case (Inl e)
    with r show ?thesis by (simp add: deposit_def transactional_Inl_iff)
  next
    case (Inr u)
    with r have "deposit (parachain_config h xp pf fx para_id) origin what dest s = (Inr u, t)" by simp
    then obtain x held s1 where
      "withdraw_asset (parachain_config h xp pf fx para_id) what (account_location x) s = (Inr held, s1)"
      by (rule deposit_okE) (auto simp: deposit_facts_def)
    with parachain_native_withdraw [OF assms, of h xp fx para_id "account_location x" s] show ?thesis by auto
  qed
qed

theorem parachain_native_stuck_witness:
  "\<exists>e. deposit (parachain_config test_host reference_xcm reference_platform fixed_words 2004) (Signed ALICE)
     (fungible_asset (Concrete NativeLocation) 7) other_world_recipient parachain_start = (Inl e, parachain_start)"
  using parachain_native_stuck [OF reference_is_concrete reference_refuses,
      of "fungible_asset (Concrete NativeLocation) 7" 7 test_host reference_xcm fixed_words 2004 here parachain_start
        "Signed ALICE" other_world_recipient] by simp

end
